(* ===== verification/Prelude.thy ===== *)
theory Prelude
  imports Complex_Main "HOL-Library.Word" "HOL-Library.Char_ord" "HOL-Library.List_Lexorder"
begin

text \<open>
  Shared vocabulary of the development: the widths of the machine integers the C++ code uses,
  the collections of simplification rules that the component theories fill, decimal printing
  (\<^verbatim>\<open>std::to_string\<close> on unsigned integers), and the word and list lemmas that several components
  need. Strings are lists of 8-bit characters, ordered lexicographically by the unsigned value of
  the characters, which is the order of \<^verbatim>\<open>std::string\<close>.
\<close>

unbundle bit_operations_syntax

type_synonym u8 = "8 word"
type_synonym u16 = "16 word"
type_synonym u32 = "32 word"
type_synonym u64 = "64 word"
type_synonym bytes = "u8 list"

named_theorems fabric_defs \<open>definitions of the operations of the governance engine\<close>
named_theorems enum_defs \<open>equations of the enumeration conversions\<close>
named_theorems codec_defs \<open>definitions of the byte-level encoders and decoders\<close>
named_theorems record_defs \<open>default values of the records\<close>

section \<open>Unsigned 64-bit arithmetic read through \<open>unat\<close>\<close>

abbreviation UINT64_MAX :: u64 where
  "UINT64_MAX \<equiv> - 1"

lemma unat_UINT64_MAX: "unat UINT64_MAX = 2 ^ 64 - 1"
  by (simp add: unsigned_minus_1_eq_mask mask_eq_exp_minus_1)

lemma unat_u64_bound: "unat (x :: u64) < 2 ^ 64"
  using unsigned_less [of x] by simp

lemma unat_u64_le_max: "unat (x :: u64) \<le> 2 ^ 64 - 1"
  using unat_u64_bound [of x] by simp

lemma unat_add_u64: "unat a + unat b < 2 ^ 64 \<Longrightarrow> unat (a + b :: u64) = unat a + unat b"
  by (simp add: unat_word_ariths)

lemma unat_sub_u64: "b \<le> a \<Longrightarrow> unat (a - b :: u64) = unat a - unat b"
  by (rule unat_sub)

lemma unat_add3_u64:
  "unat a + unat b + unat c < 2 ^ 64 \<Longrightarrow> unat (a + b + c :: u64) = unat a + unat b + unat c"
  by (simp add: unat_add_u64)

lemma unat_add4_u64:
  "unat a + unat b + unat c + unat d < 2 ^ 64 \<Longrightarrow>
   unat (a + b + c + d :: u64) = unat a + unat b + unat c + unat d"
  by (simp add: unat_add_u64 unat_add3_u64)

lemmas word_less_nat = word_less_nat_alt
lemmas word_le_nat = word_le_nat_alt

section \<open>Decimal printing\<close>

text \<open>\<^verbatim>\<open>std::to_string\<close> of an unsigned integer: its decimal digits, most significant first.\<close>

fun show_nat :: "nat \<Rightarrow> string" where
  "show_nat n = (if n < 10 then [char_of (48 + n)] else show_nat (n div 10) @ [char_of (48 + n mod 10)])"

declare show_nat.simps [simp del]

lemma show_small: "show_nat 0 = ''0''" "show_nat 1 = ''1''" "show_nat (Suc 0) = ''1''" "show_nat 3 = ''3''"
  by (simp_all add: show_nat.simps) (code_simp+)

definition to_string_u64 :: "u64 \<Rightarrow> string" where
  "to_string_u64 w = show_nat (unat w)"

fun read_digits :: "string \<Rightarrow> nat" where
  "read_digits cs = foldl (\<lambda>a c. a * 10 + (of_char c - 48)) 0 cs"

lemma read_digits_snoc: "read_digits (cs @ [c]) = read_digits cs * 10 + (of_char c - 48)"
  by simp

lemma length_show_nat: "n < 10 ^ Suc k \<Longrightarrow> length (show_nat n) \<le> Suc k"
proof (induction k arbitrary: n)
  case 0
  then show ?case by (simp add: show_nat.simps)
next
  case (Suc k)
  have "n div 10 < 10 ^ Suc k" using Suc.prems by (simp add: less_mult_imp_div_less mult.commute)
  from Suc.IH [OF this] show ?case by (subst show_nat.simps) simp
qed

lemma length_to_string_u64: "length (to_string_u64 w) \<le> 20"
proof -
  have "unat w < 10 ^ Suc 19" using unsigned_less [of w, where ?'a = nat] by simp
  from length_show_nat [OF this] show ?thesis by (simp add: to_string_u64_def)
qed

lemma read_show_nat: "read_digits (show_nat n) = n"
proof (induction n rule: show_nat.induct)
  case (1 n)
  show ?case
  proof (cases "n < 10")
    case True
    then show ?thesis by (subst show_nat.simps) (simp add: of_char_of take_bit_nat_def)
  next
    case False
    have digit: "of_char (char_of (48 + n mod 10)) = 48 + n mod 10"
    proof -
      have "48 + n mod 10 < 256" by (rule order_le_less_trans [of _ "48 + 9"]) auto
      then show ?thesis by (simp add: of_char_of take_bit_nat_def)
    qed
    from False have "read_digits (show_nat n) = read_digits (show_nat (n div 10) @ [char_of (48 + n mod 10)])"
      by (subst show_nat.simps) simp
    also have "\<dots> = read_digits (show_nat (n div 10)) * 10 + n mod 10"
      by (simp only: read_digits_snoc digit add_diff_cancel_left')
    also have "\<dots> = n"
      using "1.IH" [OF False] by simp
    finally show ?thesis .
  qed
qed

lemma show_nat_inject [simp]: "show_nat m = show_nat n \<longleftrightarrow> m = n"
  by (metis read_show_nat)

lemma to_string_u64_inject [simp]: "to_string_u64 v = to_string_u64 w \<longleftrightarrow> v = w"
  by (simp add: to_string_u64_def word_unat_eq_iff)

end
