(* ===== verification/Ordered_Map.thy ===== *)
theory Ordered_Map
  imports Prelude
begin

text \<open>
  \<^verbatim>\<open>std::map\<close> as the governance engine uses it. A map is the list of its entries in iteration
  order, strictly increasing in the key. \<open>om_find\<close>, \<open>om_assign\<close> (\<^verbatim>\<open>m[k] = v\<close> and assignment
  through an iterator), \<open>om_emplace\<close> (no effect on a key that is present) and \<open>om_count\<close> are the
  operations the sources call; a range-for over the map is a recursion over the list.

  The locale \<open>std_map\<close> states the contract the clients rely on. Its lemmas give the effect of an
  assignment on a sum taken over all entries, which carries the accounting proofs.
\<close>

type_synonym ('k, 'v) omap = "('k \<times> 'v) list"

definition om_wf :: "('k::linorder, 'v) omap \<Rightarrow> bool" where
  "om_wf m \<longleftrightarrow> sorted_wrt (<) (map fst m)"

definition om_find :: "('k, 'v) omap \<Rightarrow> 'k \<Rightarrow> 'v option" where
  "om_find m k = map_of m k"

definition om_count :: "('k, 'v) omap \<Rightarrow> 'k \<Rightarrow> bool" where
  "om_count m k \<longleftrightarrow> om_find m k \<noteq> None"

fun om_assign :: "'k::linorder \<Rightarrow> 'v \<Rightarrow> ('k, 'v) omap \<Rightarrow> ('k, 'v) omap" where
  "om_assign k v [] = [(k, v)]"
| "om_assign k v (e # m) =
     (if fst e < k then e # om_assign k v m
      else if fst e = k then (k, v) # m
      else (k, v) # e # m)"

definition om_emplace :: "'k::linorder \<Rightarrow> 'v \<Rightarrow> ('k, 'v) omap \<Rightarrow> ('k, 'v) omap" where
  "om_emplace k v m = (if om_count m k then m else om_assign k v m)"

text \<open>In-place update of every mapped value, as a range-for over \<^verbatim>\<open>auto& kv\<close> does it.\<close>

definition om_map :: "('v \<Rightarrow> 'w) \<Rightarrow> ('k, 'v) omap \<Rightarrow> ('k, 'w) omap" where
  "om_map f m = map (\<lambda>e. (fst e, f (snd e))) m"

section \<open>The contract\<close>

locale std_map =
  fixes find :: "'m \<Rightarrow> 'k \<Rightarrow> 'v option"
    and assign :: "'k \<Rightarrow> 'v \<Rightarrow> 'm \<Rightarrow> 'm"
    and entries :: "'m \<Rightarrow> ('k \<times> 'v) list"
    and wf :: "'m \<Rightarrow> bool"
  assumes find_assign: "wf m \<Longrightarrow> find (assign k v m) j = (if j = k then Some v else find m j)"
    and wf_assign: "wf m \<Longrightarrow> wf (assign k v m)"
    and find_entries: "wf m \<Longrightarrow> find m k = Some v \<longleftrightarrow> (k, v) \<in> set (entries m)"
    and distinct_entries: "wf m \<Longrightarrow> distinct (map fst (entries m))"
begin

lemma entries_Ball: "wf m \<Longrightarrow> (\<forall>e \<in> set (entries m). P (fst e) (snd e)) \<longleftrightarrow> (\<forall>k v. find m k = Some v \<longrightarrow> P k v)"
  by (auto simp: find_entries)

lemma sum_set: "wf m \<Longrightarrow> sum_list (map f (entries m)) = sum f (set (entries m))"
  using distinct_entries [of m] by (simp add: distinct_map sum_list_distinct_conv_sum_set)

lemma entries_assign:
  assumes "wf m"
  shows "set (entries (assign k v m)) = insert (k, v) {e \<in> set (entries m). fst e \<noteq> k}"
proof (rule set_eqI)
  fix e :: "'k \<times> 'v"
  obtain j w where e: "e = (j, w)" by (cases e)
  have "e \<in> set (entries (assign k v m)) \<longleftrightarrow> find (assign k v m) j = Some w"
    using assms e by (simp add: find_entries wf_assign)
  also have "\<dots> \<longleftrightarrow> e \<in> insert (k, v) {e \<in> set (entries m). fst e \<noteq> k}"
    using assms e by (auto simp: find_assign find_entries)
  finally show "e \<in> set (entries (assign k v m)) \<longleftrightarrow> e \<in> insert (k, v) {e \<in> set (entries m). fst e \<noteq> k}" .
qed

lemma sum_assign_new:
  fixes f :: "'k \<times> 'v \<Rightarrow> nat"
  assumes "wf m" and "find m k = None"
  shows "sum_list (map f (entries (assign k v m))) = f (k, v) + sum_list (map f (entries m))"
proof -
  from assms have keep: "{e \<in> set (entries m). fst e \<noteq> k} = set (entries m)"
    using find_entries [OF assms(1), of k] by force
  from assms have "(k, v) \<notin> set (entries m)"
    using find_entries [OF assms(1), of k v] by simp
  then show ?thesis
    using assms by (simp add: sum_set wf_assign entries_assign keep)
qed

lemma sum_assign_old:
  fixes f :: "'k \<times> 'v \<Rightarrow> nat"
  assumes "wf m" and "find m k = Some w"
  shows "sum_list (map f (entries (assign k v m))) + f (k, w) = f (k, v) + sum_list (map f (entries m))"
proof -
  let ?rest = "{e \<in> set (entries m). fst e \<noteq> k}"
  have "e = (k, w)" if "e \<in> set (entries m)" "fst e = k" for e
    using assms that find_entries [OF assms(1), of k "snd e"] by (cases e) auto
  moreover have "(k, w) \<in> set (entries m)"
    using assms by (simp add: find_entries)
  ultimately have "set (entries m) = insert (k, w) ?rest" by blast
  moreover have "sum f (insert (k, w) ?rest) = f (k, w) + sum f ?rest" by simp
  ultimately have "sum f (set (entries m)) = f (k, w) + sum f ?rest" by simp
  moreover have "sum f (set (entries (assign k v m))) = f (k, v) + sum f ?rest"
    using assms(1) by (simp add: entries_assign)
  ultimately show ?thesis
    using assms(1) by (simp add: sum_set wf_assign)
qed

end

section \<open>The association list implements it\<close>

lemma om_wf_Nil [simp]: "om_wf []"
  by (simp add: om_wf_def)

lemma om_wf_Cons: "om_wf (e # m) \<longleftrightarrow> (\<forall>x \<in> set m. fst e < fst x) \<and> om_wf m"
  by (auto simp: om_wf_def)

lemma om_find_Nil [simp]: "om_find [] k = None"
  by (simp add: om_find_def)

lemma om_find_Cons [simp]: "om_find (e # m) k = (if fst e = k then Some (snd e) else om_find m k)"
  by (cases e) (simp add: om_find_def)

lemma om_find_None_iff: "om_find m k = None \<longleftrightarrow> k \<notin> fst ` set m"
  by (simp add: om_find_def map_of_eq_None_iff)

lemma fst_set_om_assign: "fst ` set (om_assign k v m) = insert k (fst ` set m)"
  by (induction m) auto

lemma om_wf_assign [simp]: "om_wf m \<Longrightarrow> om_wf (om_assign k v m)"
proof (induction m)
  case Nil
  show ?case by (simp add: om_wf_Cons)
next
  case (Cons e m)
  have "fst e < fst x" if "fst e < k" "x \<in> set (om_assign k v m)" for x
  proof -
    from that(2) have "fst x \<in> insert k (fst ` set m)"
      using fst_set_om_assign [of k v m] by blast
    with that(1) Cons.prems show ?thesis by (auto simp: om_wf_Cons)
  qed
  moreover have "k < fst x" if "k < fst e" "x \<in> set m" for x
    using that Cons.prems by (auto simp: om_wf_Cons intro: less_trans)
  ultimately show ?case using Cons by (auto simp: om_wf_Cons)
qed

lemma om_find_assign: "om_wf m \<Longrightarrow> om_find (om_assign k v m) j = (if j = k then Some v else om_find m j)"
proof (induction m)
  case Nil
  show ?case by simp
next
  case (Cons e m)
  have "om_find m j = None" if "\<not> fst e < k" "j = k" "fst e \<noteq> k"
    using Cons.prems that by (auto simp: om_find_None_iff om_wf_Cons)
  with Cons show ?case by (auto simp: om_wf_Cons)
qed

lemma om_wf_distinct: "om_wf m \<Longrightarrow> distinct (map fst m)"
  by (induction m) (auto simp: om_wf_Cons)

interpretation om: std_map om_find om_assign "\<lambda>m. m" "om_wf :: ('k::linorder, 'v) omap \<Rightarrow> bool"
proof
  fix m :: "('k, 'v) omap" and k v
  assume "om_wf m"
  then show "om_find m k = Some v \<longleftrightarrow> (k, v) \<in> set m"
    by (simp add: om_find_def om_wf_distinct)
qed (auto simp: om_find_assign om_wf_distinct)

section \<open>Further facts about the operations\<close>

lemma om_find_same [simp]: "om_wf m \<Longrightarrow> om_find (om_assign k v m) k = Some v"
  by (simp add: om_find_assign)

lemma om_find_other [simp]: "om_wf m \<Longrightarrow> j \<noteq> k \<Longrightarrow> om_find (om_assign k v m) j = om_find m j"
  by (simp add: om_find_assign)

lemma om_find_emplace:
  "om_wf m \<Longrightarrow> om_find (om_emplace k v m) j = (if j = k \<and> om_find m k = None then Some v else om_find m j)"
  by (auto simp: om_emplace_def om_count_def)

lemma om_wf_emplace [simp]: "om_wf m \<Longrightarrow> om_wf (om_emplace k v m)"
  by (simp add: om_emplace_def)

lemma om_find_map [simp]: "om_find (om_map f m) k = map_option f (om_find m k)"
  by (induction m) (auto simp: om_map_def)

lemma om_wf_map [simp]: "om_wf (om_map f m) \<longleftrightarrow> om_wf m"
  by (simp add: om_wf_def om_map_def comp_def)

lemma om_map_Nil [simp]: "om_map f [] = []"
  by (simp add: om_map_def)

lemma om_map_Cons [simp]: "om_map f (e # m) = (fst e, f (snd e)) # om_map f m"
  by (simp add: om_map_def)

lemma om_assign_idem: "om_wf m \<Longrightarrow> om_find m k = Some v \<Longrightarrow> om_assign k v m = m"
proof (induction m)
  case Nil
  then show ?case by simp
next
  case (Cons e m)
  show ?case
  proof (cases "fst e = k")
    case True
    with Cons.prems show ?thesis by (cases e) auto
  next
    case False
    with Cons.prems have "om_find m k = Some v" by simp
    then have "k \<in> fst ` set m" using om_find_None_iff [of m k] by auto
    with Cons.prems(1) have "fst e < k" by (auto simp: om_wf_Cons)
    with Cons False show ?thesis by (simp add: om_wf_Cons)
  qed
qed

text \<open>Replacing a value by one that the loop body cannot tell apart does not change the loop's result.\<close>

lemma fold_om_assign:
  assumes "om_wf m" and "om_find m k = Some v" and "\<And>s. F w s = F v s"
  shows "fold (\<lambda>kv. F (snd kv)) (om_assign k w m) s = fold (\<lambda>kv. F (snd kv)) m s"
  using assms(1,2)
proof (induction m arbitrary: s)
  case (Cons e m)
  show ?case
  proof (cases "fst e = k")
    case True
    with Cons.prems assms(3) show ?thesis by simp
  next
    case False
    with Cons.prems have tail: "om_find m k = Some v" by simp
    then have "k \<in> fst ` set m" using om_find_None_iff [of m k] by auto
    with Cons.prems(1) have "fst e < k" by (auto simp: om_wf_Cons)
    with Cons tail show ?thesis by (simp add: om_wf_Cons)
  qed
qed simp

end
