(* ===== verification/Identity.thy ===== *)
theory Identity
  imports Prelude
begin

text \<open>
  Typed identities and generations (\<^verbatim>\<open>include/cxl_fabric/core/identity.hpp\<close>). The phantom tag of the
  C++ templates is a phantom type parameter here, so that a device identity and a region identity
  are different types. Identities are ordered as their strings and generations as their 64-bit
  values, which makes both keys of the ordered maps.
\<close>

section \<open>Tags\<close>

datatype HostIdTag = HostIdTag
datatype HostGenTag = HostGenTag
datatype DeviceIdTag = DeviceIdTag
datatype DeviceGenTag = DeviceGenTag
datatype DeviceBootIdTag = DeviceBootIdTag
datatype PortIdTag = PortIdTag
datatype SwitchIdTag = SwitchIdTag
datatype DecoderIdTag = DecoderIdTag
datatype WindowIdTag = WindowIdTag
datatype RegionIdTag = RegionIdTag
datatype RegionGenTag = RegionGenTag
datatype PoolIdTag = PoolIdTag
datatype PoolGenTag = PoolGenTag
datatype CapacityLeaseIdTag = CapacityLeaseIdTag
datatype ReservationIdTag = ReservationIdTag
datatype ConsumerIdTag = ConsumerIdTag
datatype ConsumerGenTag = ConsumerGenTag
datatype WorkerIdTag = WorkerIdTag
datatype WorkerBootIdTag = WorkerBootIdTag
datatype CoordinatorEpochTag = CoordinatorEpochTag
datatype EvidenceGenTag = EvidenceGenTag
datatype PolicyGenTag = PolicyGenTag
datatype CapabilityIdTag = CapabilityIdTag

section \<open>Identities\<close>

datatype 'tag Ident = Ident (id_value: string)

definition id_empty :: "'tag Ident \<Rightarrow> bool" where
  "id_empty i \<longleftrightarrow> id_value i = []"

definition Ident_default :: "'tag Ident" where
  "Ident_default = Ident []"

definition Ident_less :: "'tag Ident \<Rightarrow> 'tag Ident \<Rightarrow> bool" where
  "Ident_less a b \<longleftrightarrow> id_value a < id_value b"

instantiation Ident :: (type) linorder
begin

definition less_eq_Ident :: "'a Ident \<Rightarrow> 'a Ident \<Rightarrow> bool" where
  "less_eq_Ident a b \<longleftrightarrow> id_value a \<le> id_value b"

definition less_Ident :: "'a Ident \<Rightarrow> 'a Ident \<Rightarrow> bool" where
  "less_Ident a b \<longleftrightarrow> Ident_less a b"

instance
  by standard (auto simp: less_eq_Ident_def less_Ident_def Ident_less_def Ident.expand)

end

lemma ident_less_iff: "a < b \<longleftrightarrow> id_value a < id_value b" for a b :: "'tag Ident"
  by (simp add: less_Ident_def Ident_less_def)

section \<open>Generations\<close>

datatype 'tag Generation = Generation (gen_value: u64)

definition gen_empty :: "'tag Generation \<Rightarrow> bool" where
  "gen_empty g \<longleftrightarrow> gen_value g = 0"

definition Generation_default :: "'tag Generation" where
  "Generation_default = Generation 0"

definition gen_max :: u64 where
  "gen_max = UINT64_MAX - 1"

text \<open>\<open>gen_next\<close> is the source's \<^verbatim>\<open>next()\<close>: the addition is the wrapping one of \<^verbatim>\<open>std::uint64_t\<close>.\<close>

definition gen_next :: "'tag Generation \<Rightarrow> 'tag Generation" where
  "gen_next g = (if gen_value g = gen_max then Generation_default else Generation (gen_value g + 1))"

definition Generation_less :: "'tag Generation \<Rightarrow> 'tag Generation \<Rightarrow> bool" where
  "Generation_less a b \<longleftrightarrow> gen_value a < gen_value b"

definition Generation_le :: "'tag Generation \<Rightarrow> 'tag Generation \<Rightarrow> bool" where
  "Generation_le a b \<longleftrightarrow> gen_value a \<le> gen_value b"

instantiation Generation :: (type) linorder
begin

definition less_eq_Generation :: "'a Generation \<Rightarrow> 'a Generation \<Rightarrow> bool" where
  "less_eq_Generation a b \<longleftrightarrow> Generation_le a b"

definition less_Generation :: "'a Generation \<Rightarrow> 'a Generation \<Rightarrow> bool" where
  "less_Generation a b \<longleftrightarrow> Generation_less a b"

instance
  by standard (auto simp: less_eq_Generation_def less_Generation_def Generation_less_def Generation_le_def Generation.expand)

end

lemma generation_less_iff: "a < b \<longleftrightarrow> gen_value a < gen_value b" for a b :: "'tag Generation"
  by (simp add: less_Generation_def Generation_less_def)

lemma generation_le_iff: "a \<le> b \<longleftrightarrow> gen_value a \<le> gen_value b" for a b :: "'tag Generation"
  by (simp add: less_eq_Generation_def Generation_le_def)

section \<open>The aliases of the source\<close>

type_synonym HostId = "HostIdTag Ident"
type_synonym HostGeneration = "HostGenTag Generation"
type_synonym DeviceId = "DeviceIdTag Ident"
type_synonym DeviceGeneration = "DeviceGenTag Generation"
type_synonym DeviceBootId = "DeviceBootIdTag Ident"
type_synonym PortId = "PortIdTag Ident"
type_synonym SwitchId = "SwitchIdTag Ident"
type_synonym DecoderId = "DecoderIdTag Ident"
type_synonym WindowId = "WindowIdTag Ident"
type_synonym RegionId = "RegionIdTag Ident"
type_synonym RegionGeneration = "RegionGenTag Generation"
type_synonym PoolId = "PoolIdTag Ident"
type_synonym PoolGeneration = "PoolGenTag Generation"
type_synonym CapacityLeaseId = "CapacityLeaseIdTag Ident"
type_synonym ReservationId = "ReservationIdTag Ident"
type_synonym ConsumerId = "ConsumerIdTag Ident"
type_synonym ConsumerGeneration = "ConsumerGenTag Generation"
type_synonym WorkerId = "WorkerIdTag Ident"
type_synonym WorkerBootId = "WorkerBootIdTag Ident"
type_synonym CoordinatorEpoch = "CoordinatorEpochTag Generation"
type_synonym EvidenceGeneration = "EvidenceGenTag Generation"
type_synonym PolicyGeneration = "PolicyGenTag Generation"

section \<open>Generations never go back\<close>

lemma id_empty_default [simp]: "id_empty Ident_default"
  by (simp add: id_empty_def Ident_default_def)

lemma gen_empty_default [simp]: "gen_empty Generation_default"
  by (simp add: gen_empty_def Generation_default_def)

lemma unat_gen_max: "unat gen_max = 2 ^ 64 - 2"
  by (simp add: gen_max_def unat_sub_u64 unat_UINT64_MAX word_le_nat)

text \<open>
  A successor is the empty generation exactly at the two largest values; below them it is the next
  value. The largest value, one above \<open>gen_max\<close>, is empty because the increment wraps to zero.
\<close>

lemma gen_next_empty_iff: "gen_empty (gen_next g) \<longleftrightarrow> gen_value g \<ge> gen_max"
proof -
  have split: "gen_value g \<ge> gen_max \<longleftrightarrow> gen_value g = gen_max \<or> gen_value g = UINT64_MAX"
    using unat_u64_le_max [of "gen_value g"] unat_gen_max unat_UINT64_MAX
    by (auto simp: word_le_nat word_unat_eq_iff)
  moreover have "gen_value g + 1 = 0 \<longleftrightarrow> gen_value g = UINT64_MAX"
    by (simp add: add_eq_0_iff2)
  ultimately show ?thesis
    by (auto simp: gen_empty_def gen_next_def Generation_default_def)
qed

lemma gen_next_value:
  assumes "\<not> gen_empty (gen_next g)"
  shows "unat (gen_value (gen_next g)) = unat (gen_value g) + 1"
proof -
  from assms have less: "gen_value g < gen_max"
    using gen_next_empty_iff [of g] by auto
  then have "unat (gen_value g) + 1 < 2 ^ 64"
    using unat_gen_max by (simp add: word_less_nat)
  with less show ?thesis
    by (auto simp: gen_next_def unat_add_u64)
qed

lemma gen_next_greater: "\<not> gen_empty (gen_next g) \<Longrightarrow> g < gen_next g"
  using gen_next_value [of g] by (simp add: generation_less_iff word_less_nat)

text \<open>The step every membership change makes: advance, or stay where the maximum is reached.\<close>

lemma gen_advance_mono: "g \<le> (if gen_empty (gen_next g) then g else gen_next g)"
  using gen_next_greater [of g] by (simp add: less_imp_le)

section \<open>Properties\<close>

text \<open>
  A generation's successor is either empty, exactly at the two largest 64-bit values, or strictly later by
  one; it never wraps round to an earlier generation that could pass for a current one.
\<close>

theorem next_generation:
  "if gen_max \<le> gen_value g then gen_empty (gen_next g)
   else g < gen_next g \<and> unat (gen_value (gen_next g)) = unat (gen_value g) + 1"
  using gen_next_empty_iff [of g] gen_next_greater [of g] gen_next_value [of g] by auto

end
