(* ===== verification/Enums.thy ===== *)
theory Enums
  imports Prelude
begin

text \<open>
  The enumerations of \<^verbatim>\<open>include/cxl_fabric/core/enums.hpp\<close>, with the enumerators in source order.

  An \<^verbatim>\<open>enum class\<close> has the underlying type \<^verbatim>\<open>int\<close>, and the persistence and control codecs build
  values by a cast from an unchecked 32-bit integer. For every enumeration that is built by such a
  cast, the datatype therefore has one more constructor \<open>\<dots>_raw\<close> that holds an integer without an
  enumerator. \<open>\<dots>_to_u32\<close> and \<open>\<dots>_of_u32\<close> are the two casts, and \<open>\<dots>_valid\<close> says that a raw value
  is not the number of an enumerator. The locale \<open>enum_cast\<close> states what the codecs need of them.
\<close>

section \<open>The enumerations\<close>

datatype Provenance =
    REAL
  | DERIVED
  | SYNTHETIC
  | UNSUPPORTED
  | Provenance_raw u32

datatype HealthState =
    UNKNOWN
  | HEALTHY
  | DEGRADED
  | POISONED
  | FAILED
  | REVALIDATION_REQUIRED
  | HealthState_raw u32

datatype DeviceState =
    DISCOVERED
  | ENUMERATED
  | AVAILABLE
  | ONLINE
  | DEGRADED
  | DRAINING
  | REVALIDATION_REQUIRED
  | OFFLINE
  | FAILED
  | REMOVED
  | RETIRED
  | DeviceState_raw u32

datatype RegionState =
    DEFINED
  | VALIDATING
  | ONLINE
  | DEGRADED
  | DRAINING
  | RECONFIGURING
  | REVALIDATION_REQUIRED
  | OFFLINE
  | FAILED
  | RETIRED
  | RegionState_raw u32

datatype PoolState =
    DEFINED
  | AVAILABLE
  | DEGRADED
  | DRAINING
  | REVALIDATION_REQUIRED
  | FAILED
  | RETIRED

datatype CapabilityClass =
    MEMORY_DEVICE
  | TYPE3_MEMORY
  | HOST_MANAGED_DEVICE_MEMORY
  | VOLATILE_CAPACITY
  | PERSISTENT_CAPACITY
  | DYNAMIC_CAPACITY
  | HOTPLUG
  | MULTI_HOST_ACCESS
  | MEMORY_POOLING
  | INTERLEAVE
  | DEVICE_DECODER
  | HOST_DECODER
  | SWITCH_ATTACHED
  | DIRECT_ATTACHED
  | ERROR_REPORTING
  | POISON_REPORTING
  | CAPACITY_RESIZE
  | REGION_RECONFIGURATION
  | ACCELERATOR_VISIBLE_PATH
  | CACHE_COHERENT_ACCESS
  | CapabilityClass_raw u32

datatype SupportState =
    SUPPORTED
  | UNSUPPORTED
  | UNKNOWN
  | REVALIDATION_REQUIRED
  | SupportState_raw u32

datatype EvidenceClass =
    MEASURED
  | PLATFORM_REPORTED
  | CONFIGURED
  | DERIVED
  | SYNTHETIC
  | UNKNOWN
  | EvidenceClass_raw u32

datatype LocalityClass =
    DIRECT_LOCAL
  | SAME_HOST
  | SAME_NUMA_DOMAIN
  | REMOTE_NUMA_DOMAIN
  | SAME_CXL_ROOT
  | SAME_SWITCH
  | SWITCH_REMOTE
  | MULTI_HOP_CXL
  | CROSS_HOST
  | UNKNOWN
  | LocalityClass_raw u32

datatype TierClass =
    CXL_NEAR
  | CXL_LOCAL
  | CXL_SHARED
  | CXL_REMOTE
  | CXL_PERSISTENT
  | CXL_CAPACITY
  | CXL_UNKNOWN
  | TierClass_raw u32

datatype AcceleratorAccessState =
    DIRECT_SUPPORTED
  | INDIRECT_SUPPORTED
  | HOST_MEDIATED
  | UNSUPPORTED
  | UNKNOWN
  | REVALIDATION_REQUIRED
  | AcceleratorAccessState_raw u32

datatype ResumeState =
    RESERVED
  | COMMITTED
  | RELEASED
  | FENCED

datatype VolatilityKind =
    VOLATILE
  | PERSISTENT
  | UNKNOWN
  | VolatilityKind_raw u32

datatype SharingMode =
    DEDICATED
  | SHARED
  | UNKNOWN
  | SharingMode_raw u32

datatype FailoverOutcome =
    KEEP
  | DRAIN
  | FAILOVER
  | REVALIDATE
  | REJECT
  | DEGRADED
  | LOST

datatype FailureDomainLevel =
    NONE
  | DEVICE
  | PORT
  | SWITCH
  | ROOT_COMPLEX
  | HOST
  | RACK

datatype DecisionReason =
    OK
  | DEVICE_STALE
  | REGION_STALE
  | POOL_STALE
  | DEVICE_NOT_ONLINE
  | REGION_NOT_ONLINE
  | EVIDENCE_STALE
  | CAPABILITY_UNSUPPORTED
  | CAPABILITY_UNKNOWN
  | CAPACITY_INSUFFICIENT
  | VOLATILITY_MISMATCH
  | HOST_INCOMPATIBLE
  | SHARING_MISMATCH
  | REQUIRED_LOCALITY_UNSATISFIED
  | ACCELERATOR_ACCESS_UNSATISFIED
  | HEALTH_UNACCEPTABLE
  | DRAINING
  | FAILED
  | POLICY_DENIED
  | REVALIDATION_REQUIRED
  | POOL_GENERATION_STALE
  | RESERVATION_STALE
  | DUPLICATE_IDENTITY
  | CONFLICTING_FACTS
  | INVALID_ARGUMENT
  | RESERVATION_CONFLICT
  | CAPACITY_OVERCOMMIT
  | PERSISTENCE_CORRUPT
  | PROTOCOL_MALFORMED
  | PROTOCOL_OVERSIZED
  | PROTOCOL_INVALID_ENUM
  | PROTOCOL_INVALID_GENERATION
  | PROTOCOL_TRAILING_GARBAGE
  | UNKNOWN_ERROR

section \<open>The contract of the casts\<close>

locale enum_cast =
  fixes to_u32 :: "'e \<Rightarrow> u32"
    and of_u32 :: "u32 \<Rightarrow> 'e"
    and valid :: "'e \<Rightarrow> bool"
  assumes to_of: "to_u32 (of_u32 w) = w"
    and of_to: "valid e \<Longrightarrow> of_u32 (to_u32 e) = e"
    and valid_of: "valid (of_u32 w)"
begin

lemma to_u32_inject: "valid a \<Longrightarrow> valid b \<Longrightarrow> to_u32 a = to_u32 b \<longleftrightarrow> a = b"
  using of_to by metis

lemma of_u32_inject: "of_u32 v = of_u32 w \<longleftrightarrow> v = w"
  using to_of by metis

lemma valid_iff: "valid e \<longleftrightarrow> (\<exists>w. of_u32 w = e)"
  using of_to valid_of by metis

lemmas cast_laws = to_of of_to valid_of

end

section \<open>The casts of each enumeration\<close>

primrec Provenance_to_u32 :: "Provenance \<Rightarrow> u32" where
  "Provenance_to_u32 Provenance.REAL = 0"
| "Provenance_to_u32 Provenance.DERIVED = 1"
| "Provenance_to_u32 Provenance.SYNTHETIC = 2"
| "Provenance_to_u32 Provenance.UNSUPPORTED = 3"
| "Provenance_to_u32 (Provenance_raw w) = w"

definition Provenance_of_u32 :: "u32 \<Rightarrow> Provenance" where
  "Provenance_of_u32 w =
     (if w = 0 then Provenance.REAL
      else if w = 1 then Provenance.DERIVED
      else if w = 2 then Provenance.SYNTHETIC
      else if w = 3 then Provenance.UNSUPPORTED
      else Provenance_raw w)"

primrec Provenance_valid :: "Provenance \<Rightarrow> bool" where
  "Provenance_valid Provenance.REAL = True"
| "Provenance_valid Provenance.DERIVED = True"
| "Provenance_valid Provenance.SYNTHETIC = True"
| "Provenance_valid Provenance.UNSUPPORTED = True"
| "Provenance_valid (Provenance_raw w) = (4 \<le> w)"

interpretation Provenance_cast: enum_cast Provenance_to_u32 Provenance_of_u32 Provenance_valid
proof
  fix e :: Provenance
  assume "Provenance_valid e"
  then show "Provenance_of_u32 (Provenance_to_u32 e) = e"
    by (cases e) (auto simp: Provenance_of_u32_def word_le_nat)
next
  fix w
  show "Provenance_to_u32 (Provenance_of_u32 w) = w"
    by (simp add: Provenance_of_u32_def)
  show "Provenance_valid (Provenance_of_u32 w)"
    by (auto simp: Provenance_of_u32_def word_le_nat word_unat_eq_iff; presburger)
qed

primrec HealthState_to_u32 :: "HealthState \<Rightarrow> u32" where
  "HealthState_to_u32 HealthState.UNKNOWN = 0"
| "HealthState_to_u32 HealthState.HEALTHY = 1"
| "HealthState_to_u32 HealthState.DEGRADED = 2"
| "HealthState_to_u32 HealthState.POISONED = 3"
| "HealthState_to_u32 HealthState.FAILED = 4"
| "HealthState_to_u32 HealthState.REVALIDATION_REQUIRED = 5"
| "HealthState_to_u32 (HealthState_raw w) = w"

definition HealthState_of_u32 :: "u32 \<Rightarrow> HealthState" where
  "HealthState_of_u32 w =
     (if w = 0 then HealthState.UNKNOWN
      else if w = 1 then HealthState.HEALTHY
      else if w = 2 then HealthState.DEGRADED
      else if w = 3 then HealthState.POISONED
      else if w = 4 then HealthState.FAILED
      else if w = 5 then HealthState.REVALIDATION_REQUIRED
      else HealthState_raw w)"

primrec HealthState_valid :: "HealthState \<Rightarrow> bool" where
  "HealthState_valid HealthState.UNKNOWN = True"
| "HealthState_valid HealthState.HEALTHY = True"
| "HealthState_valid HealthState.DEGRADED = True"
| "HealthState_valid HealthState.POISONED = True"
| "HealthState_valid HealthState.FAILED = True"
| "HealthState_valid HealthState.REVALIDATION_REQUIRED = True"
| "HealthState_valid (HealthState_raw w) = (6 \<le> w)"

interpretation HealthState_cast: enum_cast HealthState_to_u32 HealthState_of_u32 HealthState_valid
proof
  fix e :: HealthState
  assume "HealthState_valid e"
  then show "HealthState_of_u32 (HealthState_to_u32 e) = e"
    by (cases e) (auto simp: HealthState_of_u32_def word_le_nat)
next
  fix w
  show "HealthState_to_u32 (HealthState_of_u32 w) = w"
    by (simp add: HealthState_of_u32_def)
  show "HealthState_valid (HealthState_of_u32 w)"
    by (auto simp: HealthState_of_u32_def word_le_nat word_unat_eq_iff; presburger)
qed

primrec DeviceState_to_u32 :: "DeviceState \<Rightarrow> u32" where
  "DeviceState_to_u32 DeviceState.DISCOVERED = 0"
| "DeviceState_to_u32 DeviceState.ENUMERATED = 1"
| "DeviceState_to_u32 DeviceState.AVAILABLE = 2"
| "DeviceState_to_u32 DeviceState.ONLINE = 3"
| "DeviceState_to_u32 DeviceState.DEGRADED = 4"
| "DeviceState_to_u32 DeviceState.DRAINING = 5"
| "DeviceState_to_u32 DeviceState.REVALIDATION_REQUIRED = 6"
| "DeviceState_to_u32 DeviceState.OFFLINE = 7"
| "DeviceState_to_u32 DeviceState.FAILED = 8"
| "DeviceState_to_u32 DeviceState.REMOVED = 9"
| "DeviceState_to_u32 DeviceState.RETIRED = 10"
| "DeviceState_to_u32 (DeviceState_raw w) = w"

definition DeviceState_of_u32 :: "u32 \<Rightarrow> DeviceState" where
  "DeviceState_of_u32 w =
     (if w = 0 then DeviceState.DISCOVERED
      else if w = 1 then DeviceState.ENUMERATED
      else if w = 2 then DeviceState.AVAILABLE
      else if w = 3 then DeviceState.ONLINE
      else if w = 4 then DeviceState.DEGRADED
      else if w = 5 then DeviceState.DRAINING
      else if w = 6 then DeviceState.REVALIDATION_REQUIRED
      else if w = 7 then DeviceState.OFFLINE
      else if w = 8 then DeviceState.FAILED
      else if w = 9 then DeviceState.REMOVED
      else if w = 10 then DeviceState.RETIRED
      else DeviceState_raw w)"

primrec DeviceState_valid :: "DeviceState \<Rightarrow> bool" where
  "DeviceState_valid DeviceState.DISCOVERED = True"
| "DeviceState_valid DeviceState.ENUMERATED = True"
| "DeviceState_valid DeviceState.AVAILABLE = True"
| "DeviceState_valid DeviceState.ONLINE = True"
| "DeviceState_valid DeviceState.DEGRADED = True"
| "DeviceState_valid DeviceState.DRAINING = True"
| "DeviceState_valid DeviceState.REVALIDATION_REQUIRED = True"
| "DeviceState_valid DeviceState.OFFLINE = True"
| "DeviceState_valid DeviceState.FAILED = True"
| "DeviceState_valid DeviceState.REMOVED = True"
| "DeviceState_valid DeviceState.RETIRED = True"
| "DeviceState_valid (DeviceState_raw w) = (11 \<le> w)"

interpretation DeviceState_cast: enum_cast DeviceState_to_u32 DeviceState_of_u32 DeviceState_valid
proof
  fix e :: DeviceState
  assume "DeviceState_valid e"
  then show "DeviceState_of_u32 (DeviceState_to_u32 e) = e"
    by (cases e) (auto simp: DeviceState_of_u32_def word_le_nat)
next
  fix w
  show "DeviceState_to_u32 (DeviceState_of_u32 w) = w"
    by (simp add: DeviceState_of_u32_def)
  show "DeviceState_valid (DeviceState_of_u32 w)"
    by (auto simp: DeviceState_of_u32_def word_le_nat word_unat_eq_iff; presburger)
qed

primrec RegionState_to_u32 :: "RegionState \<Rightarrow> u32" where
  "RegionState_to_u32 RegionState.DEFINED = 0"
| "RegionState_to_u32 RegionState.VALIDATING = 1"
| "RegionState_to_u32 RegionState.ONLINE = 2"
| "RegionState_to_u32 RegionState.DEGRADED = 3"
| "RegionState_to_u32 RegionState.DRAINING = 4"
| "RegionState_to_u32 RegionState.RECONFIGURING = 5"
| "RegionState_to_u32 RegionState.REVALIDATION_REQUIRED = 6"
| "RegionState_to_u32 RegionState.OFFLINE = 7"
| "RegionState_to_u32 RegionState.FAILED = 8"
| "RegionState_to_u32 RegionState.RETIRED = 9"
| "RegionState_to_u32 (RegionState_raw w) = w"

definition RegionState_of_u32 :: "u32 \<Rightarrow> RegionState" where
  "RegionState_of_u32 w =
     (if w = 0 then RegionState.DEFINED
      else if w = 1 then RegionState.VALIDATING
      else if w = 2 then RegionState.ONLINE
      else if w = 3 then RegionState.DEGRADED
      else if w = 4 then RegionState.DRAINING
      else if w = 5 then RegionState.RECONFIGURING
      else if w = 6 then RegionState.REVALIDATION_REQUIRED
      else if w = 7 then RegionState.OFFLINE
      else if w = 8 then RegionState.FAILED
      else if w = 9 then RegionState.RETIRED
      else RegionState_raw w)"

primrec RegionState_valid :: "RegionState \<Rightarrow> bool" where
  "RegionState_valid RegionState.DEFINED = True"
| "RegionState_valid RegionState.VALIDATING = True"
| "RegionState_valid RegionState.ONLINE = True"
| "RegionState_valid RegionState.DEGRADED = True"
| "RegionState_valid RegionState.DRAINING = True"
| "RegionState_valid RegionState.RECONFIGURING = True"
| "RegionState_valid RegionState.REVALIDATION_REQUIRED = True"
| "RegionState_valid RegionState.OFFLINE = True"
| "RegionState_valid RegionState.FAILED = True"
| "RegionState_valid RegionState.RETIRED = True"
| "RegionState_valid (RegionState_raw w) = (10 \<le> w)"

interpretation RegionState_cast: enum_cast RegionState_to_u32 RegionState_of_u32 RegionState_valid
proof
  fix e :: RegionState
  assume "RegionState_valid e"
  then show "RegionState_of_u32 (RegionState_to_u32 e) = e"
    by (cases e) (auto simp: RegionState_of_u32_def word_le_nat)
next
  fix w
  show "RegionState_to_u32 (RegionState_of_u32 w) = w"
    by (simp add: RegionState_of_u32_def)
  show "RegionState_valid (RegionState_of_u32 w)"
    by (auto simp: RegionState_of_u32_def word_le_nat word_unat_eq_iff; presburger)
qed

primrec CapabilityClass_to_u32 :: "CapabilityClass \<Rightarrow> u32" where
  "CapabilityClass_to_u32 CapabilityClass.MEMORY_DEVICE = 0"
| "CapabilityClass_to_u32 CapabilityClass.TYPE3_MEMORY = 1"
| "CapabilityClass_to_u32 CapabilityClass.HOST_MANAGED_DEVICE_MEMORY = 2"
| "CapabilityClass_to_u32 CapabilityClass.VOLATILE_CAPACITY = 3"
| "CapabilityClass_to_u32 CapabilityClass.PERSISTENT_CAPACITY = 4"
| "CapabilityClass_to_u32 CapabilityClass.DYNAMIC_CAPACITY = 5"
| "CapabilityClass_to_u32 CapabilityClass.HOTPLUG = 6"
| "CapabilityClass_to_u32 CapabilityClass.MULTI_HOST_ACCESS = 7"
| "CapabilityClass_to_u32 CapabilityClass.MEMORY_POOLING = 8"
| "CapabilityClass_to_u32 CapabilityClass.INTERLEAVE = 9"
| "CapabilityClass_to_u32 CapabilityClass.DEVICE_DECODER = 10"
| "CapabilityClass_to_u32 CapabilityClass.HOST_DECODER = 11"
| "CapabilityClass_to_u32 CapabilityClass.SWITCH_ATTACHED = 12"
| "CapabilityClass_to_u32 CapabilityClass.DIRECT_ATTACHED = 13"
| "CapabilityClass_to_u32 CapabilityClass.ERROR_REPORTING = 14"
| "CapabilityClass_to_u32 CapabilityClass.POISON_REPORTING = 15"
| "CapabilityClass_to_u32 CapabilityClass.CAPACITY_RESIZE = 16"
| "CapabilityClass_to_u32 CapabilityClass.REGION_RECONFIGURATION = 17"
| "CapabilityClass_to_u32 CapabilityClass.ACCELERATOR_VISIBLE_PATH = 18"
| "CapabilityClass_to_u32 CapabilityClass.CACHE_COHERENT_ACCESS = 19"
| "CapabilityClass_to_u32 (CapabilityClass_raw w) = w"

definition CapabilityClass_of_u32 :: "u32 \<Rightarrow> CapabilityClass" where
  "CapabilityClass_of_u32 w =
     (if w = 0 then CapabilityClass.MEMORY_DEVICE
      else if w = 1 then CapabilityClass.TYPE3_MEMORY
      else if w = 2 then CapabilityClass.HOST_MANAGED_DEVICE_MEMORY
      else if w = 3 then CapabilityClass.VOLATILE_CAPACITY
      else if w = 4 then CapabilityClass.PERSISTENT_CAPACITY
      else if w = 5 then CapabilityClass.DYNAMIC_CAPACITY
      else if w = 6 then CapabilityClass.HOTPLUG
      else if w = 7 then CapabilityClass.MULTI_HOST_ACCESS
      else if w = 8 then CapabilityClass.MEMORY_POOLING
      else if w = 9 then CapabilityClass.INTERLEAVE
      else if w = 10 then CapabilityClass.DEVICE_DECODER
      else if w = 11 then CapabilityClass.HOST_DECODER
      else if w = 12 then CapabilityClass.SWITCH_ATTACHED
      else if w = 13 then CapabilityClass.DIRECT_ATTACHED
      else if w = 14 then CapabilityClass.ERROR_REPORTING
      else if w = 15 then CapabilityClass.POISON_REPORTING
      else if w = 16 then CapabilityClass.CAPACITY_RESIZE
      else if w = 17 then CapabilityClass.REGION_RECONFIGURATION
      else if w = 18 then CapabilityClass.ACCELERATOR_VISIBLE_PATH
      else if w = 19 then CapabilityClass.CACHE_COHERENT_ACCESS
      else CapabilityClass_raw w)"

primrec CapabilityClass_valid :: "CapabilityClass \<Rightarrow> bool" where
  "CapabilityClass_valid CapabilityClass.MEMORY_DEVICE = True"
| "CapabilityClass_valid CapabilityClass.TYPE3_MEMORY = True"
| "CapabilityClass_valid CapabilityClass.HOST_MANAGED_DEVICE_MEMORY = True"
| "CapabilityClass_valid CapabilityClass.VOLATILE_CAPACITY = True"
| "CapabilityClass_valid CapabilityClass.PERSISTENT_CAPACITY = True"
| "CapabilityClass_valid CapabilityClass.DYNAMIC_CAPACITY = True"
| "CapabilityClass_valid CapabilityClass.HOTPLUG = True"
| "CapabilityClass_valid CapabilityClass.MULTI_HOST_ACCESS = True"
| "CapabilityClass_valid CapabilityClass.MEMORY_POOLING = True"
| "CapabilityClass_valid CapabilityClass.INTERLEAVE = True"
| "CapabilityClass_valid CapabilityClass.DEVICE_DECODER = True"
| "CapabilityClass_valid CapabilityClass.HOST_DECODER = True"
| "CapabilityClass_valid CapabilityClass.SWITCH_ATTACHED = True"
| "CapabilityClass_valid CapabilityClass.DIRECT_ATTACHED = True"
| "CapabilityClass_valid CapabilityClass.ERROR_REPORTING = True"
| "CapabilityClass_valid CapabilityClass.POISON_REPORTING = True"
| "CapabilityClass_valid CapabilityClass.CAPACITY_RESIZE = True"
| "CapabilityClass_valid CapabilityClass.REGION_RECONFIGURATION = True"
| "CapabilityClass_valid CapabilityClass.ACCELERATOR_VISIBLE_PATH = True"
| "CapabilityClass_valid CapabilityClass.CACHE_COHERENT_ACCESS = True"
| "CapabilityClass_valid (CapabilityClass_raw w) = (20 \<le> w)"

interpretation CapabilityClass_cast: enum_cast CapabilityClass_to_u32 CapabilityClass_of_u32 CapabilityClass_valid
proof
  fix e :: CapabilityClass
  assume "CapabilityClass_valid e"
  then show "CapabilityClass_of_u32 (CapabilityClass_to_u32 e) = e"
    by (cases e) (auto simp: CapabilityClass_of_u32_def word_le_nat)
next
  fix w
  show "CapabilityClass_to_u32 (CapabilityClass_of_u32 w) = w"
    by (simp add: CapabilityClass_of_u32_def)
  show "CapabilityClass_valid (CapabilityClass_of_u32 w)"
    by (auto simp: CapabilityClass_of_u32_def word_le_nat word_unat_eq_iff; presburger)
qed

primrec SupportState_to_u32 :: "SupportState \<Rightarrow> u32" where
  "SupportState_to_u32 SupportState.SUPPORTED = 0"
| "SupportState_to_u32 SupportState.UNSUPPORTED = 1"
| "SupportState_to_u32 SupportState.UNKNOWN = 2"
| "SupportState_to_u32 SupportState.REVALIDATION_REQUIRED = 3"
| "SupportState_to_u32 (SupportState_raw w) = w"

definition SupportState_of_u32 :: "u32 \<Rightarrow> SupportState" where
  "SupportState_of_u32 w =
     (if w = 0 then SupportState.SUPPORTED
      else if w = 1 then SupportState.UNSUPPORTED
      else if w = 2 then SupportState.UNKNOWN
      else if w = 3 then SupportState.REVALIDATION_REQUIRED
      else SupportState_raw w)"

primrec SupportState_valid :: "SupportState \<Rightarrow> bool" where
  "SupportState_valid SupportState.SUPPORTED = True"
| "SupportState_valid SupportState.UNSUPPORTED = True"
| "SupportState_valid SupportState.UNKNOWN = True"
| "SupportState_valid SupportState.REVALIDATION_REQUIRED = True"
| "SupportState_valid (SupportState_raw w) = (4 \<le> w)"

interpretation SupportState_cast: enum_cast SupportState_to_u32 SupportState_of_u32 SupportState_valid
proof
  fix e :: SupportState
  assume "SupportState_valid e"
  then show "SupportState_of_u32 (SupportState_to_u32 e) = e"
    by (cases e) (auto simp: SupportState_of_u32_def word_le_nat)
next
  fix w
  show "SupportState_to_u32 (SupportState_of_u32 w) = w"
    by (simp add: SupportState_of_u32_def)
  show "SupportState_valid (SupportState_of_u32 w)"
    by (auto simp: SupportState_of_u32_def word_le_nat word_unat_eq_iff; presburger)
qed

primrec EvidenceClass_to_u32 :: "EvidenceClass \<Rightarrow> u32" where
  "EvidenceClass_to_u32 EvidenceClass.MEASURED = 0"
| "EvidenceClass_to_u32 EvidenceClass.PLATFORM_REPORTED = 1"
| "EvidenceClass_to_u32 EvidenceClass.CONFIGURED = 2"
| "EvidenceClass_to_u32 EvidenceClass.DERIVED = 3"
| "EvidenceClass_to_u32 EvidenceClass.SYNTHETIC = 4"
| "EvidenceClass_to_u32 EvidenceClass.UNKNOWN = 5"
| "EvidenceClass_to_u32 (EvidenceClass_raw w) = w"

definition EvidenceClass_of_u32 :: "u32 \<Rightarrow> EvidenceClass" where
  "EvidenceClass_of_u32 w =
     (if w = 0 then EvidenceClass.MEASURED
      else if w = 1 then EvidenceClass.PLATFORM_REPORTED
      else if w = 2 then EvidenceClass.CONFIGURED
      else if w = 3 then EvidenceClass.DERIVED
      else if w = 4 then EvidenceClass.SYNTHETIC
      else if w = 5 then EvidenceClass.UNKNOWN
      else EvidenceClass_raw w)"

primrec EvidenceClass_valid :: "EvidenceClass \<Rightarrow> bool" where
  "EvidenceClass_valid EvidenceClass.MEASURED = True"
| "EvidenceClass_valid EvidenceClass.PLATFORM_REPORTED = True"
| "EvidenceClass_valid EvidenceClass.CONFIGURED = True"
| "EvidenceClass_valid EvidenceClass.DERIVED = True"
| "EvidenceClass_valid EvidenceClass.SYNTHETIC = True"
| "EvidenceClass_valid EvidenceClass.UNKNOWN = True"
| "EvidenceClass_valid (EvidenceClass_raw w) = (6 \<le> w)"

interpretation EvidenceClass_cast: enum_cast EvidenceClass_to_u32 EvidenceClass_of_u32 EvidenceClass_valid
proof
  fix e :: EvidenceClass
  assume "EvidenceClass_valid e"
  then show "EvidenceClass_of_u32 (EvidenceClass_to_u32 e) = e"
    by (cases e) (auto simp: EvidenceClass_of_u32_def word_le_nat)
next
  fix w
  show "EvidenceClass_to_u32 (EvidenceClass_of_u32 w) = w"
    by (simp add: EvidenceClass_of_u32_def)
  show "EvidenceClass_valid (EvidenceClass_of_u32 w)"
    by (auto simp: EvidenceClass_of_u32_def word_le_nat word_unat_eq_iff; presburger)
qed

primrec LocalityClass_to_u32 :: "LocalityClass \<Rightarrow> u32" where
  "LocalityClass_to_u32 LocalityClass.DIRECT_LOCAL = 0"
| "LocalityClass_to_u32 LocalityClass.SAME_HOST = 1"
| "LocalityClass_to_u32 LocalityClass.SAME_NUMA_DOMAIN = 2"
| "LocalityClass_to_u32 LocalityClass.REMOTE_NUMA_DOMAIN = 3"
| "LocalityClass_to_u32 LocalityClass.SAME_CXL_ROOT = 4"
| "LocalityClass_to_u32 LocalityClass.SAME_SWITCH = 5"
| "LocalityClass_to_u32 LocalityClass.SWITCH_REMOTE = 6"
| "LocalityClass_to_u32 LocalityClass.MULTI_HOP_CXL = 7"
| "LocalityClass_to_u32 LocalityClass.CROSS_HOST = 8"
| "LocalityClass_to_u32 LocalityClass.UNKNOWN = 9"
| "LocalityClass_to_u32 (LocalityClass_raw w) = w"

definition LocalityClass_of_u32 :: "u32 \<Rightarrow> LocalityClass" where
  "LocalityClass_of_u32 w =
     (if w = 0 then LocalityClass.DIRECT_LOCAL
      else if w = 1 then LocalityClass.SAME_HOST
      else if w = 2 then LocalityClass.SAME_NUMA_DOMAIN
      else if w = 3 then LocalityClass.REMOTE_NUMA_DOMAIN
      else if w = 4 then LocalityClass.SAME_CXL_ROOT
      else if w = 5 then LocalityClass.SAME_SWITCH
      else if w = 6 then LocalityClass.SWITCH_REMOTE
      else if w = 7 then LocalityClass.MULTI_HOP_CXL
      else if w = 8 then LocalityClass.CROSS_HOST
      else if w = 9 then LocalityClass.UNKNOWN
      else LocalityClass_raw w)"

primrec LocalityClass_valid :: "LocalityClass \<Rightarrow> bool" where
  "LocalityClass_valid LocalityClass.DIRECT_LOCAL = True"
| "LocalityClass_valid LocalityClass.SAME_HOST = True"
| "LocalityClass_valid LocalityClass.SAME_NUMA_DOMAIN = True"
| "LocalityClass_valid LocalityClass.REMOTE_NUMA_DOMAIN = True"
| "LocalityClass_valid LocalityClass.SAME_CXL_ROOT = True"
| "LocalityClass_valid LocalityClass.SAME_SWITCH = True"
| "LocalityClass_valid LocalityClass.SWITCH_REMOTE = True"
| "LocalityClass_valid LocalityClass.MULTI_HOP_CXL = True"
| "LocalityClass_valid LocalityClass.CROSS_HOST = True"
| "LocalityClass_valid LocalityClass.UNKNOWN = True"
| "LocalityClass_valid (LocalityClass_raw w) = (10 \<le> w)"

interpretation LocalityClass_cast: enum_cast LocalityClass_to_u32 LocalityClass_of_u32 LocalityClass_valid
proof
  fix e :: LocalityClass
  assume "LocalityClass_valid e"
  then show "LocalityClass_of_u32 (LocalityClass_to_u32 e) = e"
    by (cases e) (auto simp: LocalityClass_of_u32_def word_le_nat)
next
  fix w
  show "LocalityClass_to_u32 (LocalityClass_of_u32 w) = w"
    by (simp add: LocalityClass_of_u32_def)
  show "LocalityClass_valid (LocalityClass_of_u32 w)"
    by (auto simp: LocalityClass_of_u32_def word_le_nat word_unat_eq_iff; presburger)
qed

primrec TierClass_to_u32 :: "TierClass \<Rightarrow> u32" where
  "TierClass_to_u32 TierClass.CXL_NEAR = 0"
| "TierClass_to_u32 TierClass.CXL_LOCAL = 1"
| "TierClass_to_u32 TierClass.CXL_SHARED = 2"
| "TierClass_to_u32 TierClass.CXL_REMOTE = 3"
| "TierClass_to_u32 TierClass.CXL_PERSISTENT = 4"
| "TierClass_to_u32 TierClass.CXL_CAPACITY = 5"
| "TierClass_to_u32 TierClass.CXL_UNKNOWN = 6"
| "TierClass_to_u32 (TierClass_raw w) = w"

definition TierClass_of_u32 :: "u32 \<Rightarrow> TierClass" where
  "TierClass_of_u32 w =
     (if w = 0 then TierClass.CXL_NEAR
      else if w = 1 then TierClass.CXL_LOCAL
      else if w = 2 then TierClass.CXL_SHARED
      else if w = 3 then TierClass.CXL_REMOTE
      else if w = 4 then TierClass.CXL_PERSISTENT
      else if w = 5 then TierClass.CXL_CAPACITY
      else if w = 6 then TierClass.CXL_UNKNOWN
      else TierClass_raw w)"

primrec TierClass_valid :: "TierClass \<Rightarrow> bool" where
  "TierClass_valid TierClass.CXL_NEAR = True"
| "TierClass_valid TierClass.CXL_LOCAL = True"
| "TierClass_valid TierClass.CXL_SHARED = True"
| "TierClass_valid TierClass.CXL_REMOTE = True"
| "TierClass_valid TierClass.CXL_PERSISTENT = True"
| "TierClass_valid TierClass.CXL_CAPACITY = True"
| "TierClass_valid TierClass.CXL_UNKNOWN = True"
| "TierClass_valid (TierClass_raw w) = (7 \<le> w)"

interpretation TierClass_cast: enum_cast TierClass_to_u32 TierClass_of_u32 TierClass_valid
proof
  fix e :: TierClass
  assume "TierClass_valid e"
  then show "TierClass_of_u32 (TierClass_to_u32 e) = e"
    by (cases e) (auto simp: TierClass_of_u32_def word_le_nat)
next
  fix w
  show "TierClass_to_u32 (TierClass_of_u32 w) = w"
    by (simp add: TierClass_of_u32_def)
  show "TierClass_valid (TierClass_of_u32 w)"
    by (auto simp: TierClass_of_u32_def word_le_nat word_unat_eq_iff; presburger)
qed

primrec AcceleratorAccessState_to_u32 :: "AcceleratorAccessState \<Rightarrow> u32" where
  "AcceleratorAccessState_to_u32 AcceleratorAccessState.DIRECT_SUPPORTED = 0"
| "AcceleratorAccessState_to_u32 AcceleratorAccessState.INDIRECT_SUPPORTED = 1"
| "AcceleratorAccessState_to_u32 AcceleratorAccessState.HOST_MEDIATED = 2"
| "AcceleratorAccessState_to_u32 AcceleratorAccessState.UNSUPPORTED = 3"
| "AcceleratorAccessState_to_u32 AcceleratorAccessState.UNKNOWN = 4"
| "AcceleratorAccessState_to_u32 AcceleratorAccessState.REVALIDATION_REQUIRED = 5"
| "AcceleratorAccessState_to_u32 (AcceleratorAccessState_raw w) = w"

definition AcceleratorAccessState_of_u32 :: "u32 \<Rightarrow> AcceleratorAccessState" where
  "AcceleratorAccessState_of_u32 w =
     (if w = 0 then AcceleratorAccessState.DIRECT_SUPPORTED
      else if w = 1 then AcceleratorAccessState.INDIRECT_SUPPORTED
      else if w = 2 then AcceleratorAccessState.HOST_MEDIATED
      else if w = 3 then AcceleratorAccessState.UNSUPPORTED
      else if w = 4 then AcceleratorAccessState.UNKNOWN
      else if w = 5 then AcceleratorAccessState.REVALIDATION_REQUIRED
      else AcceleratorAccessState_raw w)"

primrec AcceleratorAccessState_valid :: "AcceleratorAccessState \<Rightarrow> bool" where
  "AcceleratorAccessState_valid AcceleratorAccessState.DIRECT_SUPPORTED = True"
| "AcceleratorAccessState_valid AcceleratorAccessState.INDIRECT_SUPPORTED = True"
| "AcceleratorAccessState_valid AcceleratorAccessState.HOST_MEDIATED = True"
| "AcceleratorAccessState_valid AcceleratorAccessState.UNSUPPORTED = True"
| "AcceleratorAccessState_valid AcceleratorAccessState.UNKNOWN = True"
| "AcceleratorAccessState_valid AcceleratorAccessState.REVALIDATION_REQUIRED = True"
| "AcceleratorAccessState_valid (AcceleratorAccessState_raw w) = (6 \<le> w)"

interpretation AcceleratorAccessState_cast: enum_cast AcceleratorAccessState_to_u32 AcceleratorAccessState_of_u32 AcceleratorAccessState_valid
proof
  fix e :: AcceleratorAccessState
  assume "AcceleratorAccessState_valid e"
  then show "AcceleratorAccessState_of_u32 (AcceleratorAccessState_to_u32 e) = e"
    by (cases e) (auto simp: AcceleratorAccessState_of_u32_def word_le_nat)
next
  fix w
  show "AcceleratorAccessState_to_u32 (AcceleratorAccessState_of_u32 w) = w"
    by (simp add: AcceleratorAccessState_of_u32_def)
  show "AcceleratorAccessState_valid (AcceleratorAccessState_of_u32 w)"
    by (auto simp: AcceleratorAccessState_of_u32_def word_le_nat word_unat_eq_iff; presburger)
qed

primrec VolatilityKind_to_u32 :: "VolatilityKind \<Rightarrow> u32" where
  "VolatilityKind_to_u32 VolatilityKind.VOLATILE = 0"
| "VolatilityKind_to_u32 VolatilityKind.PERSISTENT = 1"
| "VolatilityKind_to_u32 VolatilityKind.UNKNOWN = 2"
| "VolatilityKind_to_u32 (VolatilityKind_raw w) = w"

definition VolatilityKind_of_u32 :: "u32 \<Rightarrow> VolatilityKind" where
  "VolatilityKind_of_u32 w =
     (if w = 0 then VolatilityKind.VOLATILE
      else if w = 1 then VolatilityKind.PERSISTENT
      else if w = 2 then VolatilityKind.UNKNOWN
      else VolatilityKind_raw w)"

primrec VolatilityKind_valid :: "VolatilityKind \<Rightarrow> bool" where
  "VolatilityKind_valid VolatilityKind.VOLATILE = True"
| "VolatilityKind_valid VolatilityKind.PERSISTENT = True"
| "VolatilityKind_valid VolatilityKind.UNKNOWN = True"
| "VolatilityKind_valid (VolatilityKind_raw w) = (3 \<le> w)"

interpretation VolatilityKind_cast: enum_cast VolatilityKind_to_u32 VolatilityKind_of_u32 VolatilityKind_valid
proof
  fix e :: VolatilityKind
  assume "VolatilityKind_valid e"
  then show "VolatilityKind_of_u32 (VolatilityKind_to_u32 e) = e"
    by (cases e) (auto simp: VolatilityKind_of_u32_def word_le_nat)
next
  fix w
  show "VolatilityKind_to_u32 (VolatilityKind_of_u32 w) = w"
    by (simp add: VolatilityKind_of_u32_def)
  show "VolatilityKind_valid (VolatilityKind_of_u32 w)"
    by (auto simp: VolatilityKind_of_u32_def word_le_nat word_unat_eq_iff; presburger)
qed

primrec SharingMode_to_u32 :: "SharingMode \<Rightarrow> u32" where
  "SharingMode_to_u32 SharingMode.DEDICATED = 0"
| "SharingMode_to_u32 SharingMode.SHARED = 1"
| "SharingMode_to_u32 SharingMode.UNKNOWN = 2"
| "SharingMode_to_u32 (SharingMode_raw w) = w"

definition SharingMode_of_u32 :: "u32 \<Rightarrow> SharingMode" where
  "SharingMode_of_u32 w =
     (if w = 0 then SharingMode.DEDICATED
      else if w = 1 then SharingMode.SHARED
      else if w = 2 then SharingMode.UNKNOWN
      else SharingMode_raw w)"

primrec SharingMode_valid :: "SharingMode \<Rightarrow> bool" where
  "SharingMode_valid SharingMode.DEDICATED = True"
| "SharingMode_valid SharingMode.SHARED = True"
| "SharingMode_valid SharingMode.UNKNOWN = True"
| "SharingMode_valid (SharingMode_raw w) = (3 \<le> w)"

interpretation SharingMode_cast: enum_cast SharingMode_to_u32 SharingMode_of_u32 SharingMode_valid
proof
  fix e :: SharingMode
  assume "SharingMode_valid e"
  then show "SharingMode_of_u32 (SharingMode_to_u32 e) = e"
    by (cases e) (auto simp: SharingMode_of_u32_def word_le_nat)
next
  fix w
  show "SharingMode_to_u32 (SharingMode_of_u32 w) = w"
    by (simp add: SharingMode_of_u32_def)
  show "SharingMode_valid (SharingMode_of_u32 w)"
    by (auto simp: SharingMode_of_u32_def word_le_nat word_unat_eq_iff; presburger)
qed

text \<open>Decision reasons are only ever cast to their number, for the acknowledgement frames.\<close>

primrec DecisionReason_to_u32 :: "DecisionReason \<Rightarrow> u32" where
  "DecisionReason_to_u32 DecisionReason.OK = 0"
| "DecisionReason_to_u32 DecisionReason.DEVICE_STALE = 1"
| "DecisionReason_to_u32 DecisionReason.REGION_STALE = 2"
| "DecisionReason_to_u32 DecisionReason.POOL_STALE = 3"
| "DecisionReason_to_u32 DecisionReason.DEVICE_NOT_ONLINE = 4"
| "DecisionReason_to_u32 DecisionReason.REGION_NOT_ONLINE = 5"
| "DecisionReason_to_u32 DecisionReason.EVIDENCE_STALE = 6"
| "DecisionReason_to_u32 DecisionReason.CAPABILITY_UNSUPPORTED = 7"
| "DecisionReason_to_u32 DecisionReason.CAPABILITY_UNKNOWN = 8"
| "DecisionReason_to_u32 DecisionReason.CAPACITY_INSUFFICIENT = 9"
| "DecisionReason_to_u32 DecisionReason.VOLATILITY_MISMATCH = 10"
| "DecisionReason_to_u32 DecisionReason.HOST_INCOMPATIBLE = 11"
| "DecisionReason_to_u32 DecisionReason.SHARING_MISMATCH = 12"
| "DecisionReason_to_u32 DecisionReason.REQUIRED_LOCALITY_UNSATISFIED = 13"
| "DecisionReason_to_u32 DecisionReason.ACCELERATOR_ACCESS_UNSATISFIED = 14"
| "DecisionReason_to_u32 DecisionReason.HEALTH_UNACCEPTABLE = 15"
| "DecisionReason_to_u32 DecisionReason.DRAINING = 16"
| "DecisionReason_to_u32 DecisionReason.FAILED = 17"
| "DecisionReason_to_u32 DecisionReason.POLICY_DENIED = 18"
| "DecisionReason_to_u32 DecisionReason.REVALIDATION_REQUIRED = 19"
| "DecisionReason_to_u32 DecisionReason.POOL_GENERATION_STALE = 20"
| "DecisionReason_to_u32 DecisionReason.RESERVATION_STALE = 21"
| "DecisionReason_to_u32 DecisionReason.DUPLICATE_IDENTITY = 22"
| "DecisionReason_to_u32 DecisionReason.CONFLICTING_FACTS = 23"
| "DecisionReason_to_u32 DecisionReason.INVALID_ARGUMENT = 24"
| "DecisionReason_to_u32 DecisionReason.RESERVATION_CONFLICT = 25"
| "DecisionReason_to_u32 DecisionReason.CAPACITY_OVERCOMMIT = 26"
| "DecisionReason_to_u32 DecisionReason.PERSISTENCE_CORRUPT = 27"
| "DecisionReason_to_u32 DecisionReason.PROTOCOL_MALFORMED = 28"
| "DecisionReason_to_u32 DecisionReason.PROTOCOL_OVERSIZED = 29"
| "DecisionReason_to_u32 DecisionReason.PROTOCOL_INVALID_ENUM = 30"
| "DecisionReason_to_u32 DecisionReason.PROTOCOL_INVALID_GENERATION = 31"
| "DecisionReason_to_u32 DecisionReason.PROTOCOL_TRAILING_GARBAGE = 32"
| "DecisionReason_to_u32 DecisionReason.UNKNOWN_ERROR = 33"

end
