(* ===== verification/Enum_Strings.thy ===== *)
theory Enum_Strings
  imports Enums
begin

text \<open>
  The conversions between enumerations and strings (\<^verbatim>\<open>include/cxl_fabric/core/enum_strings.hpp\<close>).
  The switch of every \<^verbatim>\<open>to_string\<close> ends in \<^verbatim>\<open>return "UNKNOWN"\<close>, which is what a raw value prints as.
  Every \<^verbatim>\<open>from_string\<close> looks its argument up in a table. The locale \<open>enum_names\<close> states how the
  table and the printer agree and derives that parsing inverts printing.
\<close>

section \<open>Lookup\<close>

fun enum_lookup :: "string \<Rightarrow> (string \<times> 'e) list \<Rightarrow> 'e option" where
  "enum_lookup s [] = None"
| "enum_lookup s (p # table) = (if s = fst p then Some (snd p) else enum_lookup s table)"

lemma enum_lookup_map_of: "enum_lookup s table = map_of table s"
  by (induction table) auto

text \<open>The lookup that \<^verbatim>\<open>enums.hpp\<close> offers, which nothing calls, is the same function.\<close>

fun parse_enum :: "string \<Rightarrow> (string \<times> 'e) list \<Rightarrow> 'e option" where
  "parse_enum s [] = None"
| "parse_enum s (p # table) = (if fst p = s then Some (snd p) else parse_enum s table)"

lemma parse_enum_eq: "parse_enum s table = enum_lookup s table"
  by (induction table) auto

locale enum_names =
  fixes to_str :: "'e \<Rightarrow> string"
    and table :: "(string \<times> 'e) list"
    and named :: "'e \<Rightarrow> bool"
  assumes distinct_names: "distinct (map fst table)"
    and table_complete: "named e \<Longrightarrow> (to_str e, e) \<in> set table"
    and table_sound: "(s, e) \<in> set table \<Longrightarrow> named e \<and> to_str e = s"
begin

lemma roundtrip: "named e \<Longrightarrow> enum_lookup (to_str e) table = Some e"
  by (simp add: enum_lookup_map_of distinct_names table_complete)

lemma lookup_Some: "enum_lookup s table = Some e \<longleftrightarrow> named e \<and> to_str e = s"
  using table_sound roundtrip by (auto simp: enum_lookup_map_of dest!: map_of_SomeD)

lemma lookup_None: "enum_lookup s table = None \<longleftrightarrow> (\<forall>e. named e \<longrightarrow> to_str e \<noteq> s)"
  using lookup_Some by (metis not_None_eq)

lemma to_str_inject: "named a \<Longrightarrow> named b \<Longrightarrow> to_str a = to_str b \<longleftrightarrow> a = b"
  using roundtrip by (metis option.inject)

end

section \<open>The conversions\<close>

primrec Provenance_to_string :: "Provenance \<Rightarrow> string" where
  "Provenance_to_string Provenance.REAL = ''REAL''"
| "Provenance_to_string Provenance.DERIVED = ''DERIVED''"
| "Provenance_to_string Provenance.SYNTHETIC = ''SYNTHETIC''"
| "Provenance_to_string Provenance.UNSUPPORTED = ''UNSUPPORTED''"
| "Provenance_to_string (Provenance_raw w) = ''UNKNOWN''"

definition Provenance_names :: "(string \<times> Provenance) list" where
  "Provenance_names =
    [(''REAL'', Provenance.REAL),
     (''DERIVED'', Provenance.DERIVED),
     (''SYNTHETIC'', Provenance.SYNTHETIC),
     (''UNSUPPORTED'', Provenance.UNSUPPORTED)]"

definition Provenance_from_string :: "string \<Rightarrow> Provenance option" where
  "Provenance_from_string s = enum_lookup s Provenance_names"

definition Provenance_named :: "Provenance \<Rightarrow> bool" where
  "Provenance_named e \<longleftrightarrow> (case e of Provenance_raw w \<Rightarrow> False | _ \<Rightarrow> True)"

interpretation Provenance_str: enum_names Provenance_to_string Provenance_names Provenance_named
proof
  show "\<And>e. Provenance_named e \<Longrightarrow> (Provenance_to_string e, e) \<in> set Provenance_names"
    subgoal for e by (cases e) (simp_all add: Provenance_named_def Provenance_names_def)
    done
qed (auto simp: Provenance_names_def Provenance_named_def)

primrec HealthState_to_string :: "HealthState \<Rightarrow> string" where
  "HealthState_to_string HealthState.UNKNOWN = ''UNKNOWN''"
| "HealthState_to_string HealthState.HEALTHY = ''HEALTHY''"
| "HealthState_to_string HealthState.DEGRADED = ''DEGRADED''"
| "HealthState_to_string HealthState.POISONED = ''POISONED''"
| "HealthState_to_string HealthState.FAILED = ''FAILED''"
| "HealthState_to_string HealthState.REVALIDATION_REQUIRED = ''REVALIDATION_REQUIRED''"
| "HealthState_to_string (HealthState_raw w) = ''UNKNOWN''"

definition HealthState_names :: "(string \<times> HealthState) list" where
  "HealthState_names =
    [(''UNKNOWN'', HealthState.UNKNOWN),
     (''HEALTHY'', HealthState.HEALTHY),
     (''DEGRADED'', HealthState.DEGRADED),
     (''POISONED'', HealthState.POISONED),
     (''FAILED'', HealthState.FAILED),
     (''REVALIDATION_REQUIRED'', HealthState.REVALIDATION_REQUIRED)]"

definition HealthState_from_string :: "string \<Rightarrow> HealthState option" where
  "HealthState_from_string s = enum_lookup s HealthState_names"

definition HealthState_named :: "HealthState \<Rightarrow> bool" where
  "HealthState_named e \<longleftrightarrow> (case e of HealthState_raw w \<Rightarrow> False | _ \<Rightarrow> True)"

interpretation HealthState_str: enum_names HealthState_to_string HealthState_names HealthState_named
proof
  show "\<And>e. HealthState_named e \<Longrightarrow> (HealthState_to_string e, e) \<in> set HealthState_names"
    subgoal for e by (cases e) (simp_all add: HealthState_named_def HealthState_names_def)
    done
qed (auto simp: HealthState_names_def HealthState_named_def)

primrec DeviceState_to_string :: "DeviceState \<Rightarrow> string" where
  "DeviceState_to_string DeviceState.DISCOVERED = ''DISCOVERED''"
| "DeviceState_to_string DeviceState.ENUMERATED = ''ENUMERATED''"
| "DeviceState_to_string DeviceState.AVAILABLE = ''AVAILABLE''"
| "DeviceState_to_string DeviceState.ONLINE = ''ONLINE''"
| "DeviceState_to_string DeviceState.DEGRADED = ''DEGRADED''"
| "DeviceState_to_string DeviceState.DRAINING = ''DRAINING''"
| "DeviceState_to_string DeviceState.REVALIDATION_REQUIRED = ''REVALIDATION_REQUIRED''"
| "DeviceState_to_string DeviceState.OFFLINE = ''OFFLINE''"
| "DeviceState_to_string DeviceState.FAILED = ''FAILED''"
| "DeviceState_to_string DeviceState.REMOVED = ''REMOVED''"
| "DeviceState_to_string DeviceState.RETIRED = ''RETIRED''"
| "DeviceState_to_string (DeviceState_raw w) = ''UNKNOWN''"

definition DeviceState_names :: "(string \<times> DeviceState) list" where
  "DeviceState_names =
    [(''DISCOVERED'', DeviceState.DISCOVERED),
     (''ENUMERATED'', DeviceState.ENUMERATED),
     (''AVAILABLE'', DeviceState.AVAILABLE),
     (''ONLINE'', DeviceState.ONLINE),
     (''DEGRADED'', DeviceState.DEGRADED),
     (''DRAINING'', DeviceState.DRAINING),
     (''REVALIDATION_REQUIRED'', DeviceState.REVALIDATION_REQUIRED),
     (''OFFLINE'', DeviceState.OFFLINE),
     (''FAILED'', DeviceState.FAILED),
     (''REMOVED'', DeviceState.REMOVED),
     (''RETIRED'', DeviceState.RETIRED)]"

definition DeviceState_from_string :: "string \<Rightarrow> DeviceState option" where
  "DeviceState_from_string s = enum_lookup s DeviceState_names"

definition DeviceState_named :: "DeviceState \<Rightarrow> bool" where
  "DeviceState_named e \<longleftrightarrow> (case e of DeviceState_raw w \<Rightarrow> False | _ \<Rightarrow> True)"

interpretation DeviceState_str: enum_names DeviceState_to_string DeviceState_names DeviceState_named
proof
  show "\<And>e. DeviceState_named e \<Longrightarrow> (DeviceState_to_string e, e) \<in> set DeviceState_names"
    subgoal for e by (cases e) (simp_all add: DeviceState_named_def DeviceState_names_def)
    done
qed (auto simp: DeviceState_names_def DeviceState_named_def)

primrec RegionState_to_string :: "RegionState \<Rightarrow> string" where
  "RegionState_to_string RegionState.DEFINED = ''DEFINED''"
| "RegionState_to_string RegionState.VALIDATING = ''VALIDATING''"
| "RegionState_to_string RegionState.ONLINE = ''ONLINE''"
| "RegionState_to_string RegionState.DEGRADED = ''DEGRADED''"
| "RegionState_to_string RegionState.DRAINING = ''DRAINING''"
| "RegionState_to_string RegionState.RECONFIGURING = ''RECONFIGURING''"
| "RegionState_to_string RegionState.REVALIDATION_REQUIRED = ''REVALIDATION_REQUIRED''"
| "RegionState_to_string RegionState.OFFLINE = ''OFFLINE''"
| "RegionState_to_string RegionState.FAILED = ''FAILED''"
| "RegionState_to_string RegionState.RETIRED = ''RETIRED''"
| "RegionState_to_string (RegionState_raw w) = ''UNKNOWN''"

definition RegionState_names :: "(string \<times> RegionState) list" where
  "RegionState_names =
    [(''DEFINED'', RegionState.DEFINED),
     (''VALIDATING'', RegionState.VALIDATING),
     (''ONLINE'', RegionState.ONLINE),
     (''DEGRADED'', RegionState.DEGRADED),
     (''DRAINING'', RegionState.DRAINING),
     (''RECONFIGURING'', RegionState.RECONFIGURING),
     (''REVALIDATION_REQUIRED'', RegionState.REVALIDATION_REQUIRED),
     (''OFFLINE'', RegionState.OFFLINE),
     (''FAILED'', RegionState.FAILED),
     (''RETIRED'', RegionState.RETIRED)]"

definition RegionState_from_string :: "string \<Rightarrow> RegionState option" where
  "RegionState_from_string s = enum_lookup s RegionState_names"

definition RegionState_named :: "RegionState \<Rightarrow> bool" where
  "RegionState_named e \<longleftrightarrow> (case e of RegionState_raw w \<Rightarrow> False | _ \<Rightarrow> True)"

interpretation RegionState_str: enum_names RegionState_to_string RegionState_names RegionState_named
proof
  show "\<And>e. RegionState_named e \<Longrightarrow> (RegionState_to_string e, e) \<in> set RegionState_names"
    subgoal for e by (cases e) (simp_all add: RegionState_named_def RegionState_names_def)
    done
qed (auto simp: RegionState_names_def RegionState_named_def)

primrec PoolState_to_string :: "PoolState \<Rightarrow> string" where
  "PoolState_to_string PoolState.DEFINED = ''DEFINED''"
| "PoolState_to_string PoolState.AVAILABLE = ''AVAILABLE''"
| "PoolState_to_string PoolState.DEGRADED = ''DEGRADED''"
| "PoolState_to_string PoolState.DRAINING = ''DRAINING''"
| "PoolState_to_string PoolState.REVALIDATION_REQUIRED = ''REVALIDATION_REQUIRED''"
| "PoolState_to_string PoolState.FAILED = ''FAILED''"
| "PoolState_to_string PoolState.RETIRED = ''RETIRED''"

definition PoolState_names :: "(string \<times> PoolState) list" where
  "PoolState_names =
    [(''DEFINED'', PoolState.DEFINED),
     (''AVAILABLE'', PoolState.AVAILABLE),
     (''DEGRADED'', PoolState.DEGRADED),
     (''DRAINING'', PoolState.DRAINING),
     (''REVALIDATION_REQUIRED'', PoolState.REVALIDATION_REQUIRED),
     (''FAILED'', PoolState.FAILED),
     (''RETIRED'', PoolState.RETIRED)]"

definition PoolState_from_string :: "string \<Rightarrow> PoolState option" where
  "PoolState_from_string s = enum_lookup s PoolState_names"

interpretation PoolState_str: enum_names PoolState_to_string PoolState_names "\<lambda>_. True"
proof
  show "\<And>e. (PoolState_to_string e, e) \<in> set PoolState_names"
    subgoal for e by (cases e) (simp_all add: PoolState_names_def)
    done
qed (auto simp: PoolState_names_def)

primrec CapabilityClass_to_string :: "CapabilityClass \<Rightarrow> string" where
  "CapabilityClass_to_string CapabilityClass.MEMORY_DEVICE = ''MEMORY_DEVICE''"
| "CapabilityClass_to_string CapabilityClass.TYPE3_MEMORY = ''TYPE3_MEMORY''"
| "CapabilityClass_to_string CapabilityClass.HOST_MANAGED_DEVICE_MEMORY = ''HOST_MANAGED_DEVICE_MEMORY''"
| "CapabilityClass_to_string CapabilityClass.VOLATILE_CAPACITY = ''VOLATILE_CAPACITY''"
| "CapabilityClass_to_string CapabilityClass.PERSISTENT_CAPACITY = ''PERSISTENT_CAPACITY''"
| "CapabilityClass_to_string CapabilityClass.DYNAMIC_CAPACITY = ''DYNAMIC_CAPACITY''"
| "CapabilityClass_to_string CapabilityClass.HOTPLUG = ''HOTPLUG''"
| "CapabilityClass_to_string CapabilityClass.MULTI_HOST_ACCESS = ''MULTI_HOST_ACCESS''"
| "CapabilityClass_to_string CapabilityClass.MEMORY_POOLING = ''MEMORY_POOLING''"
| "CapabilityClass_to_string CapabilityClass.INTERLEAVE = ''INTERLEAVE''"
| "CapabilityClass_to_string CapabilityClass.DEVICE_DECODER = ''DEVICE_DECODER''"
| "CapabilityClass_to_string CapabilityClass.HOST_DECODER = ''HOST_DECODER''"
| "CapabilityClass_to_string CapabilityClass.SWITCH_ATTACHED = ''SWITCH_ATTACHED''"
| "CapabilityClass_to_string CapabilityClass.DIRECT_ATTACHED = ''DIRECT_ATTACHED''"
| "CapabilityClass_to_string CapabilityClass.ERROR_REPORTING = ''ERROR_REPORTING''"
| "CapabilityClass_to_string CapabilityClass.POISON_REPORTING = ''POISON_REPORTING''"
| "CapabilityClass_to_string CapabilityClass.CAPACITY_RESIZE = ''CAPACITY_RESIZE''"
| "CapabilityClass_to_string CapabilityClass.REGION_RECONFIGURATION = ''REGION_RECONFIGURATION''"
| "CapabilityClass_to_string CapabilityClass.ACCELERATOR_VISIBLE_PATH = ''ACCELERATOR_VISIBLE_PATH''"
| "CapabilityClass_to_string CapabilityClass.CACHE_COHERENT_ACCESS = ''CACHE_COHERENT_ACCESS''"
| "CapabilityClass_to_string (CapabilityClass_raw w) = ''UNKNOWN''"

definition CapabilityClass_names :: "(string \<times> CapabilityClass) list" where
  "CapabilityClass_names =
    [(''MEMORY_DEVICE'', CapabilityClass.MEMORY_DEVICE),
     (''TYPE3_MEMORY'', CapabilityClass.TYPE3_MEMORY),
     (''HOST_MANAGED_DEVICE_MEMORY'', CapabilityClass.HOST_MANAGED_DEVICE_MEMORY),
     (''VOLATILE_CAPACITY'', CapabilityClass.VOLATILE_CAPACITY),
     (''PERSISTENT_CAPACITY'', CapabilityClass.PERSISTENT_CAPACITY),
     (''DYNAMIC_CAPACITY'', CapabilityClass.DYNAMIC_CAPACITY),
     (''HOTPLUG'', CapabilityClass.HOTPLUG),
     (''MULTI_HOST_ACCESS'', CapabilityClass.MULTI_HOST_ACCESS),
     (''MEMORY_POOLING'', CapabilityClass.MEMORY_POOLING),
     (''INTERLEAVE'', CapabilityClass.INTERLEAVE),
     (''DEVICE_DECODER'', CapabilityClass.DEVICE_DECODER),
     (''HOST_DECODER'', CapabilityClass.HOST_DECODER),
     (''SWITCH_ATTACHED'', CapabilityClass.SWITCH_ATTACHED),
     (''DIRECT_ATTACHED'', CapabilityClass.DIRECT_ATTACHED),
     (''ERROR_REPORTING'', CapabilityClass.ERROR_REPORTING),
     (''POISON_REPORTING'', CapabilityClass.POISON_REPORTING),
     (''CAPACITY_RESIZE'', CapabilityClass.CAPACITY_RESIZE),
     (''REGION_RECONFIGURATION'', CapabilityClass.REGION_RECONFIGURATION),
     (''ACCELERATOR_VISIBLE_PATH'', CapabilityClass.ACCELERATOR_VISIBLE_PATH),
     (''CACHE_COHERENT_ACCESS'', CapabilityClass.CACHE_COHERENT_ACCESS)]"

definition CapabilityClass_from_string :: "string \<Rightarrow> CapabilityClass option" where
  "CapabilityClass_from_string s = enum_lookup s CapabilityClass_names"

definition CapabilityClass_named :: "CapabilityClass \<Rightarrow> bool" where
  "CapabilityClass_named e \<longleftrightarrow> (case e of CapabilityClass_raw w \<Rightarrow> False | _ \<Rightarrow> True)"

interpretation CapabilityClass_str: enum_names CapabilityClass_to_string CapabilityClass_names CapabilityClass_named
proof
  show "\<And>e. CapabilityClass_named e \<Longrightarrow> (CapabilityClass_to_string e, e) \<in> set CapabilityClass_names"
    subgoal for e by (cases e) (simp_all add: CapabilityClass_named_def CapabilityClass_names_def)
    done
qed (auto simp: CapabilityClass_names_def CapabilityClass_named_def)

primrec SupportState_to_string :: "SupportState \<Rightarrow> string" where
  "SupportState_to_string SupportState.SUPPORTED = ''SUPPORTED''"
| "SupportState_to_string SupportState.UNSUPPORTED = ''UNSUPPORTED''"
| "SupportState_to_string SupportState.UNKNOWN = ''UNKNOWN''"
| "SupportState_to_string SupportState.REVALIDATION_REQUIRED = ''REVALIDATION_REQUIRED''"
| "SupportState_to_string (SupportState_raw w) = ''UNKNOWN''"

definition SupportState_names :: "(string \<times> SupportState) list" where
  "SupportState_names =
    [(''SUPPORTED'', SupportState.SUPPORTED),
     (''UNSUPPORTED'', SupportState.UNSUPPORTED),
     (''UNKNOWN'', SupportState.UNKNOWN),
     (''REVALIDATION_REQUIRED'', SupportState.REVALIDATION_REQUIRED)]"

definition SupportState_from_string :: "string \<Rightarrow> SupportState option" where
  "SupportState_from_string s = enum_lookup s SupportState_names"

definition SupportState_named :: "SupportState \<Rightarrow> bool" where
  "SupportState_named e \<longleftrightarrow> (case e of SupportState_raw w \<Rightarrow> False | _ \<Rightarrow> True)"

interpretation SupportState_str: enum_names SupportState_to_string SupportState_names SupportState_named
proof
  show "\<And>e. SupportState_named e \<Longrightarrow> (SupportState_to_string e, e) \<in> set SupportState_names"
    subgoal for e by (cases e) (simp_all add: SupportState_named_def SupportState_names_def)
    done
qed (auto simp: SupportState_names_def SupportState_named_def)

primrec EvidenceClass_to_string :: "EvidenceClass \<Rightarrow> string" where
  "EvidenceClass_to_string EvidenceClass.MEASURED = ''MEASURED''"
| "EvidenceClass_to_string EvidenceClass.PLATFORM_REPORTED = ''PLATFORM_REPORTED''"
| "EvidenceClass_to_string EvidenceClass.CONFIGURED = ''CONFIGURED''"
| "EvidenceClass_to_string EvidenceClass.DERIVED = ''DERIVED''"
| "EvidenceClass_to_string EvidenceClass.SYNTHETIC = ''SYNTHETIC''"
| "EvidenceClass_to_string EvidenceClass.UNKNOWN = ''UNKNOWN''"
| "EvidenceClass_to_string (EvidenceClass_raw w) = ''UNKNOWN''"

definition EvidenceClass_names :: "(string \<times> EvidenceClass) list" where
  "EvidenceClass_names =
    [(''MEASURED'', EvidenceClass.MEASURED),
     (''PLATFORM_REPORTED'', EvidenceClass.PLATFORM_REPORTED),
     (''CONFIGURED'', EvidenceClass.CONFIGURED),
     (''DERIVED'', EvidenceClass.DERIVED),
     (''SYNTHETIC'', EvidenceClass.SYNTHETIC),
     (''UNKNOWN'', EvidenceClass.UNKNOWN)]"

definition EvidenceClass_from_string :: "string \<Rightarrow> EvidenceClass option" where
  "EvidenceClass_from_string s = enum_lookup s EvidenceClass_names"

definition EvidenceClass_named :: "EvidenceClass \<Rightarrow> bool" where
  "EvidenceClass_named e \<longleftrightarrow> (case e of EvidenceClass_raw w \<Rightarrow> False | _ \<Rightarrow> True)"

interpretation EvidenceClass_str: enum_names EvidenceClass_to_string EvidenceClass_names EvidenceClass_named
proof
  show "\<And>e. EvidenceClass_named e \<Longrightarrow> (EvidenceClass_to_string e, e) \<in> set EvidenceClass_names"
    subgoal for e by (cases e) (simp_all add: EvidenceClass_named_def EvidenceClass_names_def)
    done
qed (auto simp: EvidenceClass_names_def EvidenceClass_named_def)

primrec LocalityClass_to_string :: "LocalityClass \<Rightarrow> string" where
  "LocalityClass_to_string LocalityClass.DIRECT_LOCAL = ''DIRECT_LOCAL''"
| "LocalityClass_to_string LocalityClass.SAME_HOST = ''SAME_HOST''"
| "LocalityClass_to_string LocalityClass.SAME_NUMA_DOMAIN = ''SAME_NUMA_DOMAIN''"
| "LocalityClass_to_string LocalityClass.REMOTE_NUMA_DOMAIN = ''REMOTE_NUMA_DOMAIN''"
| "LocalityClass_to_string LocalityClass.SAME_CXL_ROOT = ''SAME_CXL_ROOT''"
| "LocalityClass_to_string LocalityClass.SAME_SWITCH = ''SAME_SWITCH''"
| "LocalityClass_to_string LocalityClass.SWITCH_REMOTE = ''SWITCH_REMOTE''"
| "LocalityClass_to_string LocalityClass.MULTI_HOP_CXL = ''MULTI_HOP_CXL''"
| "LocalityClass_to_string LocalityClass.CROSS_HOST = ''CROSS_HOST''"
| "LocalityClass_to_string LocalityClass.UNKNOWN = ''UNKNOWN''"
| "LocalityClass_to_string (LocalityClass_raw w) = ''UNKNOWN''"

definition LocalityClass_names :: "(string \<times> LocalityClass) list" where
  "LocalityClass_names =
    [(''DIRECT_LOCAL'', LocalityClass.DIRECT_LOCAL),
     (''SAME_HOST'', LocalityClass.SAME_HOST),
     (''SAME_NUMA_DOMAIN'', LocalityClass.SAME_NUMA_DOMAIN),
     (''REMOTE_NUMA_DOMAIN'', LocalityClass.REMOTE_NUMA_DOMAIN),
     (''SAME_CXL_ROOT'', LocalityClass.SAME_CXL_ROOT),
     (''SAME_SWITCH'', LocalityClass.SAME_SWITCH),
     (''SWITCH_REMOTE'', LocalityClass.SWITCH_REMOTE),
     (''MULTI_HOP_CXL'', LocalityClass.MULTI_HOP_CXL),
     (''CROSS_HOST'', LocalityClass.CROSS_HOST),
     (''UNKNOWN'', LocalityClass.UNKNOWN)]"

definition LocalityClass_from_string :: "string \<Rightarrow> LocalityClass option" where
  "LocalityClass_from_string s = enum_lookup s LocalityClass_names"

definition LocalityClass_named :: "LocalityClass \<Rightarrow> bool" where
  "LocalityClass_named e \<longleftrightarrow> (case e of LocalityClass_raw w \<Rightarrow> False | _ \<Rightarrow> True)"

interpretation LocalityClass_str: enum_names LocalityClass_to_string LocalityClass_names LocalityClass_named
proof
  show "\<And>e. LocalityClass_named e \<Longrightarrow> (LocalityClass_to_string e, e) \<in> set LocalityClass_names"
    subgoal for e by (cases e) (simp_all add: LocalityClass_named_def LocalityClass_names_def)
    done
qed (auto simp: LocalityClass_names_def LocalityClass_named_def)

primrec TierClass_to_string :: "TierClass \<Rightarrow> string" where
  "TierClass_to_string TierClass.CXL_NEAR = ''CXL_NEAR''"
| "TierClass_to_string TierClass.CXL_LOCAL = ''CXL_LOCAL''"
| "TierClass_to_string TierClass.CXL_SHARED = ''CXL_SHARED''"
| "TierClass_to_string TierClass.CXL_REMOTE = ''CXL_REMOTE''"
| "TierClass_to_string TierClass.CXL_PERSISTENT = ''CXL_PERSISTENT''"
| "TierClass_to_string TierClass.CXL_CAPACITY = ''CXL_CAPACITY''"
| "TierClass_to_string TierClass.CXL_UNKNOWN = ''CXL_UNKNOWN''"
| "TierClass_to_string (TierClass_raw w) = ''UNKNOWN''"

definition TierClass_names :: "(string \<times> TierClass) list" where
  "TierClass_names =
    [(''CXL_NEAR'', TierClass.CXL_NEAR),
     (''CXL_LOCAL'', TierClass.CXL_LOCAL),
     (''CXL_SHARED'', TierClass.CXL_SHARED),
     (''CXL_REMOTE'', TierClass.CXL_REMOTE),
     (''CXL_PERSISTENT'', TierClass.CXL_PERSISTENT),
     (''CXL_CAPACITY'', TierClass.CXL_CAPACITY),
     (''CXL_UNKNOWN'', TierClass.CXL_UNKNOWN)]"

definition TierClass_from_string :: "string \<Rightarrow> TierClass option" where
  "TierClass_from_string s = enum_lookup s TierClass_names"

definition TierClass_named :: "TierClass \<Rightarrow> bool" where
  "TierClass_named e \<longleftrightarrow> (case e of TierClass_raw w \<Rightarrow> False | _ \<Rightarrow> True)"

interpretation TierClass_str: enum_names TierClass_to_string TierClass_names TierClass_named
proof
  show "\<And>e. TierClass_named e \<Longrightarrow> (TierClass_to_string e, e) \<in> set TierClass_names"
    subgoal for e by (cases e) (simp_all add: TierClass_named_def TierClass_names_def)
    done
qed (auto simp: TierClass_names_def TierClass_named_def)

primrec AcceleratorAccessState_to_string :: "AcceleratorAccessState \<Rightarrow> string" where
  "AcceleratorAccessState_to_string AcceleratorAccessState.DIRECT_SUPPORTED = ''DIRECT_SUPPORTED''"
| "AcceleratorAccessState_to_string AcceleratorAccessState.INDIRECT_SUPPORTED = ''INDIRECT_SUPPORTED''"
| "AcceleratorAccessState_to_string AcceleratorAccessState.HOST_MEDIATED = ''HOST_MEDIATED''"
| "AcceleratorAccessState_to_string AcceleratorAccessState.UNSUPPORTED = ''UNSUPPORTED''"
| "AcceleratorAccessState_to_string AcceleratorAccessState.UNKNOWN = ''UNKNOWN''"
| "AcceleratorAccessState_to_string AcceleratorAccessState.REVALIDATION_REQUIRED = ''REVALIDATION_REQUIRED''"
| "AcceleratorAccessState_to_string (AcceleratorAccessState_raw w) = ''UNKNOWN''"

definition AcceleratorAccessState_names :: "(string \<times> AcceleratorAccessState) list" where
  "AcceleratorAccessState_names =
    [(''DIRECT_SUPPORTED'', AcceleratorAccessState.DIRECT_SUPPORTED),
     (''INDIRECT_SUPPORTED'', AcceleratorAccessState.INDIRECT_SUPPORTED),
     (''HOST_MEDIATED'', AcceleratorAccessState.HOST_MEDIATED),
     (''UNSUPPORTED'', AcceleratorAccessState.UNSUPPORTED),
     (''UNKNOWN'', AcceleratorAccessState.UNKNOWN),
     (''REVALIDATION_REQUIRED'', AcceleratorAccessState.REVALIDATION_REQUIRED)]"

definition AcceleratorAccessState_from_string :: "string \<Rightarrow> AcceleratorAccessState option" where
  "AcceleratorAccessState_from_string s = enum_lookup s AcceleratorAccessState_names"

definition AcceleratorAccessState_named :: "AcceleratorAccessState \<Rightarrow> bool" where
  "AcceleratorAccessState_named e \<longleftrightarrow> (case e of AcceleratorAccessState_raw w \<Rightarrow> False | _ \<Rightarrow> True)"

interpretation AcceleratorAccessState_str: enum_names AcceleratorAccessState_to_string AcceleratorAccessState_names AcceleratorAccessState_named
proof
  show "\<And>e. AcceleratorAccessState_named e \<Longrightarrow> (AcceleratorAccessState_to_string e, e) \<in> set AcceleratorAccessState_names"
    subgoal for e by (cases e) (simp_all add: AcceleratorAccessState_named_def AcceleratorAccessState_names_def)
    done
qed (auto simp: AcceleratorAccessState_names_def AcceleratorAccessState_named_def)

primrec ResumeState_to_string :: "ResumeState \<Rightarrow> string" where
  "ResumeState_to_string ResumeState.RESERVED = ''RESERVED''"
| "ResumeState_to_string ResumeState.COMMITTED = ''COMMITTED''"
| "ResumeState_to_string ResumeState.RELEASED = ''RELEASED''"
| "ResumeState_to_string ResumeState.FENCED = ''FENCED''"

definition ResumeState_names :: "(string \<times> ResumeState) list" where
  "ResumeState_names =
    [(''RESERVED'', ResumeState.RESERVED),
     (''COMMITTED'', ResumeState.COMMITTED),
     (''RELEASED'', ResumeState.RELEASED),
     (''FENCED'', ResumeState.FENCED)]"

definition ResumeState_from_string :: "string \<Rightarrow> ResumeState option" where
  "ResumeState_from_string s = enum_lookup s ResumeState_names"

interpretation ResumeState_str: enum_names ResumeState_to_string ResumeState_names "\<lambda>_. True"
proof
  show "\<And>e. (ResumeState_to_string e, e) \<in> set ResumeState_names"
    subgoal for e by (cases e) (simp_all add: ResumeState_names_def)
    done
qed (auto simp: ResumeState_names_def)

primrec VolatilityKind_to_string :: "VolatilityKind \<Rightarrow> string" where
  "VolatilityKind_to_string VolatilityKind.VOLATILE = ''VOLATILE''"
| "VolatilityKind_to_string VolatilityKind.PERSISTENT = ''PERSISTENT''"
| "VolatilityKind_to_string VolatilityKind.UNKNOWN = ''UNKNOWN''"
| "VolatilityKind_to_string (VolatilityKind_raw w) = ''UNKNOWN''"

definition VolatilityKind_names :: "(string \<times> VolatilityKind) list" where
  "VolatilityKind_names =
    [(''VOLATILE'', VolatilityKind.VOLATILE),
     (''PERSISTENT'', VolatilityKind.PERSISTENT),
     (''UNKNOWN'', VolatilityKind.UNKNOWN)]"

definition VolatilityKind_from_string :: "string \<Rightarrow> VolatilityKind option" where
  "VolatilityKind_from_string s = enum_lookup s VolatilityKind_names"

definition VolatilityKind_named :: "VolatilityKind \<Rightarrow> bool" where
  "VolatilityKind_named e \<longleftrightarrow> (case e of VolatilityKind_raw w \<Rightarrow> False | _ \<Rightarrow> True)"

interpretation VolatilityKind_str: enum_names VolatilityKind_to_string VolatilityKind_names VolatilityKind_named
proof
  show "\<And>e. VolatilityKind_named e \<Longrightarrow> (VolatilityKind_to_string e, e) \<in> set VolatilityKind_names"
    subgoal for e by (cases e) (simp_all add: VolatilityKind_named_def VolatilityKind_names_def)
    done
qed (auto simp: VolatilityKind_names_def VolatilityKind_named_def)

primrec SharingMode_to_string :: "SharingMode \<Rightarrow> string" where
  "SharingMode_to_string SharingMode.DEDICATED = ''DEDICATED''"
| "SharingMode_to_string SharingMode.SHARED = ''SHARED''"
| "SharingMode_to_string SharingMode.UNKNOWN = ''UNKNOWN''"
| "SharingMode_to_string (SharingMode_raw w) = ''UNKNOWN''"

definition SharingMode_names :: "(string \<times> SharingMode) list" where
  "SharingMode_names =
    [(''DEDICATED'', SharingMode.DEDICATED),
     (''SHARED'', SharingMode.SHARED),
     (''UNKNOWN'', SharingMode.UNKNOWN)]"

definition SharingMode_from_string :: "string \<Rightarrow> SharingMode option" where
  "SharingMode_from_string s = enum_lookup s SharingMode_names"

definition SharingMode_named :: "SharingMode \<Rightarrow> bool" where
  "SharingMode_named e \<longleftrightarrow> (case e of SharingMode_raw w \<Rightarrow> False | _ \<Rightarrow> True)"

interpretation SharingMode_str: enum_names SharingMode_to_string SharingMode_names SharingMode_named
proof
  show "\<And>e. SharingMode_named e \<Longrightarrow> (SharingMode_to_string e, e) \<in> set SharingMode_names"
    subgoal for e by (cases e) (simp_all add: SharingMode_named_def SharingMode_names_def)
    done
qed (auto simp: SharingMode_names_def SharingMode_named_def)

primrec FailoverOutcome_to_string :: "FailoverOutcome \<Rightarrow> string" where
  "FailoverOutcome_to_string FailoverOutcome.KEEP = ''KEEP''"
| "FailoverOutcome_to_string FailoverOutcome.DRAIN = ''DRAIN''"
| "FailoverOutcome_to_string FailoverOutcome.FAILOVER = ''FAILOVER''"
| "FailoverOutcome_to_string FailoverOutcome.REVALIDATE = ''REVALIDATE''"
| "FailoverOutcome_to_string FailoverOutcome.REJECT = ''REJECT''"
| "FailoverOutcome_to_string FailoverOutcome.DEGRADED = ''DEGRADED''"
| "FailoverOutcome_to_string FailoverOutcome.LOST = ''LOST''"

definition FailoverOutcome_names :: "(string \<times> FailoverOutcome) list" where
  "FailoverOutcome_names =
    [(''KEEP'', FailoverOutcome.KEEP),
     (''DRAIN'', FailoverOutcome.DRAIN),
     (''FAILOVER'', FailoverOutcome.FAILOVER),
     (''REVALIDATE'', FailoverOutcome.REVALIDATE),
     (''REJECT'', FailoverOutcome.REJECT),
     (''DEGRADED'', FailoverOutcome.DEGRADED),
     (''LOST'', FailoverOutcome.LOST)]"

definition FailoverOutcome_from_string :: "string \<Rightarrow> FailoverOutcome option" where
  "FailoverOutcome_from_string s = enum_lookup s FailoverOutcome_names"

interpretation FailoverOutcome_str: enum_names FailoverOutcome_to_string FailoverOutcome_names "\<lambda>_. True"
proof
  show "\<And>e. (FailoverOutcome_to_string e, e) \<in> set FailoverOutcome_names"
    subgoal for e by (cases e) (simp_all add: FailoverOutcome_names_def)
    done
qed (auto simp: FailoverOutcome_names_def)

primrec FailureDomainLevel_to_string :: "FailureDomainLevel \<Rightarrow> string" where
  "FailureDomainLevel_to_string FailureDomainLevel.NONE = ''NONE''"
| "FailureDomainLevel_to_string FailureDomainLevel.DEVICE = ''DEVICE''"
| "FailureDomainLevel_to_string FailureDomainLevel.PORT = ''PORT''"
| "FailureDomainLevel_to_string FailureDomainLevel.SWITCH = ''SWITCH''"
| "FailureDomainLevel_to_string FailureDomainLevel.ROOT_COMPLEX = ''ROOT_COMPLEX''"
| "FailureDomainLevel_to_string FailureDomainLevel.HOST = ''HOST''"
| "FailureDomainLevel_to_string FailureDomainLevel.RACK = ''RACK''"

definition FailureDomainLevel_names :: "(string \<times> FailureDomainLevel) list" where
  "FailureDomainLevel_names =
    [(''NONE'', FailureDomainLevel.NONE),
     (''DEVICE'', FailureDomainLevel.DEVICE),
     (''PORT'', FailureDomainLevel.PORT),
     (''SWITCH'', FailureDomainLevel.SWITCH),
     (''ROOT_COMPLEX'', FailureDomainLevel.ROOT_COMPLEX),
     (''HOST'', FailureDomainLevel.HOST),
     (''RACK'', FailureDomainLevel.RACK)]"

definition FailureDomainLevel_from_string :: "string \<Rightarrow> FailureDomainLevel option" where
  "FailureDomainLevel_from_string s = enum_lookup s FailureDomainLevel_names"

interpretation FailureDomainLevel_str: enum_names FailureDomainLevel_to_string FailureDomainLevel_names "\<lambda>_. True"
proof
  show "\<And>e. (FailureDomainLevel_to_string e, e) \<in> set FailureDomainLevel_names"
    subgoal for e by (cases e) (simp_all add: FailureDomainLevel_names_def)
    done
qed (auto simp: FailureDomainLevel_names_def)

primrec DecisionReason_to_string :: "DecisionReason \<Rightarrow> string" where
  "DecisionReason_to_string DecisionReason.OK = ''OK''"
| "DecisionReason_to_string DecisionReason.DEVICE_STALE = ''DEVICE_STALE''"
| "DecisionReason_to_string DecisionReason.REGION_STALE = ''REGION_STALE''"
| "DecisionReason_to_string DecisionReason.POOL_STALE = ''POOL_STALE''"
| "DecisionReason_to_string DecisionReason.DEVICE_NOT_ONLINE = ''DEVICE_NOT_ONLINE''"
| "DecisionReason_to_string DecisionReason.REGION_NOT_ONLINE = ''REGION_NOT_ONLINE''"
| "DecisionReason_to_string DecisionReason.EVIDENCE_STALE = ''EVIDENCE_STALE''"
| "DecisionReason_to_string DecisionReason.CAPABILITY_UNSUPPORTED = ''CAPABILITY_UNSUPPORTED''"
| "DecisionReason_to_string DecisionReason.CAPABILITY_UNKNOWN = ''CAPABILITY_UNKNOWN''"
| "DecisionReason_to_string DecisionReason.CAPACITY_INSUFFICIENT = ''CAPACITY_INSUFFICIENT''"
| "DecisionReason_to_string DecisionReason.VOLATILITY_MISMATCH = ''VOLATILITY_MISMATCH''"
| "DecisionReason_to_string DecisionReason.HOST_INCOMPATIBLE = ''HOST_INCOMPATIBLE''"
| "DecisionReason_to_string DecisionReason.SHARING_MISMATCH = ''SHARING_MISMATCH''"
| "DecisionReason_to_string DecisionReason.REQUIRED_LOCALITY_UNSATISFIED = ''REQUIRED_LOCALITY_UNSATISFIED''"
| "DecisionReason_to_string DecisionReason.ACCELERATOR_ACCESS_UNSATISFIED = ''ACCELERATOR_ACCESS_UNSATISFIED''"
| "DecisionReason_to_string DecisionReason.HEALTH_UNACCEPTABLE = ''HEALTH_UNACCEPTABLE''"
| "DecisionReason_to_string DecisionReason.DRAINING = ''DRAINING''"
| "DecisionReason_to_string DecisionReason.FAILED = ''FAILED''"
| "DecisionReason_to_string DecisionReason.POLICY_DENIED = ''POLICY_DENIED''"
| "DecisionReason_to_string DecisionReason.REVALIDATION_REQUIRED = ''REVALIDATION_REQUIRED''"
| "DecisionReason_to_string DecisionReason.POOL_GENERATION_STALE = ''POOL_GENERATION_STALE''"
| "DecisionReason_to_string DecisionReason.RESERVATION_STALE = ''RESERVATION_STALE''"
| "DecisionReason_to_string DecisionReason.DUPLICATE_IDENTITY = ''DUPLICATE_IDENTITY''"
| "DecisionReason_to_string DecisionReason.CONFLICTING_FACTS = ''CONFLICTING_FACTS''"
| "DecisionReason_to_string DecisionReason.INVALID_ARGUMENT = ''INVALID_ARGUMENT''"
| "DecisionReason_to_string DecisionReason.RESERVATION_CONFLICT = ''RESERVATION_CONFLICT''"
| "DecisionReason_to_string DecisionReason.CAPACITY_OVERCOMMIT = ''CAPACITY_OVERCOMMIT''"
| "DecisionReason_to_string DecisionReason.PERSISTENCE_CORRUPT = ''PERSISTENCE_CORRUPT''"
| "DecisionReason_to_string DecisionReason.PROTOCOL_MALFORMED = ''PROTOCOL_MALFORMED''"
| "DecisionReason_to_string DecisionReason.PROTOCOL_OVERSIZED = ''PROTOCOL_OVERSIZED''"
| "DecisionReason_to_string DecisionReason.PROTOCOL_INVALID_ENUM = ''PROTOCOL_INVALID_ENUM''"
| "DecisionReason_to_string DecisionReason.PROTOCOL_INVALID_GENERATION = ''PROTOCOL_INVALID_GENERATION''"
| "DecisionReason_to_string DecisionReason.PROTOCOL_TRAILING_GARBAGE = ''PROTOCOL_TRAILING_GARBAGE''"
| "DecisionReason_to_string DecisionReason.UNKNOWN_ERROR = ''UNKNOWN_ERROR''"

definition DecisionReason_names :: "(string \<times> DecisionReason) list" where
  "DecisionReason_names =
    [(''OK'', DecisionReason.OK),
     (''DEVICE_STALE'', DecisionReason.DEVICE_STALE),
     (''REGION_STALE'', DecisionReason.REGION_STALE),
     (''POOL_STALE'', DecisionReason.POOL_STALE),
     (''DEVICE_NOT_ONLINE'', DecisionReason.DEVICE_NOT_ONLINE),
     (''REGION_NOT_ONLINE'', DecisionReason.REGION_NOT_ONLINE),
     (''EVIDENCE_STALE'', DecisionReason.EVIDENCE_STALE),
     (''CAPABILITY_UNSUPPORTED'', DecisionReason.CAPABILITY_UNSUPPORTED),
     (''CAPABILITY_UNKNOWN'', DecisionReason.CAPABILITY_UNKNOWN),
     (''CAPACITY_INSUFFICIENT'', DecisionReason.CAPACITY_INSUFFICIENT),
     (''VOLATILITY_MISMATCH'', DecisionReason.VOLATILITY_MISMATCH),
     (''HOST_INCOMPATIBLE'', DecisionReason.HOST_INCOMPATIBLE),
     (''SHARING_MISMATCH'', DecisionReason.SHARING_MISMATCH),
     (''REQUIRED_LOCALITY_UNSATISFIED'', DecisionReason.REQUIRED_LOCALITY_UNSATISFIED),
     (''ACCELERATOR_ACCESS_UNSATISFIED'', DecisionReason.ACCELERATOR_ACCESS_UNSATISFIED),
     (''HEALTH_UNACCEPTABLE'', DecisionReason.HEALTH_UNACCEPTABLE),
     (''DRAINING'', DecisionReason.DRAINING),
     (''FAILED'', DecisionReason.FAILED),
     (''POLICY_DENIED'', DecisionReason.POLICY_DENIED),
     (''REVALIDATION_REQUIRED'', DecisionReason.REVALIDATION_REQUIRED),
     (''POOL_GENERATION_STALE'', DecisionReason.POOL_GENERATION_STALE),
     (''RESERVATION_STALE'', DecisionReason.RESERVATION_STALE),
     (''DUPLICATE_IDENTITY'', DecisionReason.DUPLICATE_IDENTITY),
     (''CONFLICTING_FACTS'', DecisionReason.CONFLICTING_FACTS),
     (''INVALID_ARGUMENT'', DecisionReason.INVALID_ARGUMENT),
     (''RESERVATION_CONFLICT'', DecisionReason.RESERVATION_CONFLICT),
     (''CAPACITY_OVERCOMMIT'', DecisionReason.CAPACITY_OVERCOMMIT),
     (''PERSISTENCE_CORRUPT'', DecisionReason.PERSISTENCE_CORRUPT),
     (''PROTOCOL_MALFORMED'', DecisionReason.PROTOCOL_MALFORMED),
     (''PROTOCOL_OVERSIZED'', DecisionReason.PROTOCOL_OVERSIZED),
     (''PROTOCOL_INVALID_ENUM'', DecisionReason.PROTOCOL_INVALID_ENUM),
     (''PROTOCOL_INVALID_GENERATION'', DecisionReason.PROTOCOL_INVALID_GENERATION),
     (''PROTOCOL_TRAILING_GARBAGE'', DecisionReason.PROTOCOL_TRAILING_GARBAGE),
     (''UNKNOWN_ERROR'', DecisionReason.UNKNOWN_ERROR)]"

definition DecisionReason_from_string :: "string \<Rightarrow> DecisionReason option" where
  "DecisionReason_from_string s = enum_lookup s DecisionReason_names"

interpretation DecisionReason_str: enum_names DecisionReason_to_string DecisionReason_names "\<lambda>_. True"
proof
  show "\<And>e. (DecisionReason_to_string e, e) \<in> set DecisionReason_names"
    subgoal for e by (cases e) (simp_all add: DecisionReason_names_def)
    done
qed (auto simp: DecisionReason_names_def)

section \<open>Properties\<close>

text \<open>
  The names and the parser agree for every enumeration: a string parses to a value exactly when it is
  the name that is printed for this value. So printing and parsing are inverse, names are unique, and a
  string that is not a name is rejected.
\<close>

theorem names_roundtrip:
  "(Provenance_from_string s = Some e1 \<longleftrightarrow> Provenance_named e1 \<and> Provenance_to_string e1 = s) \<and>
     (HealthState_from_string s = Some e2 \<longleftrightarrow> HealthState_named e2 \<and> HealthState_to_string e2 = s) \<and>
     (DeviceState_from_string s = Some e3 \<longleftrightarrow> DeviceState_named e3 \<and> DeviceState_to_string e3 = s) \<and>
     (RegionState_from_string s = Some e4 \<longleftrightarrow> RegionState_named e4 \<and> RegionState_to_string e4 = s) \<and>
     (PoolState_from_string s = Some e5 \<longleftrightarrow> PoolState_to_string e5 = s) \<and>
     (CapabilityClass_from_string s = Some e6 \<longleftrightarrow> CapabilityClass_named e6 \<and> CapabilityClass_to_string e6 = s) \<and>
     (SupportState_from_string s = Some e7 \<longleftrightarrow> SupportState_named e7 \<and> SupportState_to_string e7 = s) \<and>
     (EvidenceClass_from_string s = Some e8 \<longleftrightarrow> EvidenceClass_named e8 \<and> EvidenceClass_to_string e8 = s) \<and>
     (LocalityClass_from_string s = Some e9 \<longleftrightarrow> LocalityClass_named e9 \<and> LocalityClass_to_string e9 = s) \<and>
     (TierClass_from_string s = Some e10 \<longleftrightarrow> TierClass_named e10 \<and> TierClass_to_string e10 = s) \<and>
     (AcceleratorAccessState_from_string s = Some e11 \<longleftrightarrow> AcceleratorAccessState_named e11 \<and> AcceleratorAccessState_to_string e11 = s) \<and>
     (ResumeState_from_string s = Some e12 \<longleftrightarrow> ResumeState_to_string e12 = s) \<and>
     (VolatilityKind_from_string s = Some e13 \<longleftrightarrow> VolatilityKind_named e13 \<and> VolatilityKind_to_string e13 = s) \<and>
     (SharingMode_from_string s = Some e14 \<longleftrightarrow> SharingMode_named e14 \<and> SharingMode_to_string e14 = s) \<and>
     (FailoverOutcome_from_string s = Some e15 \<longleftrightarrow> FailoverOutcome_to_string e15 = s) \<and>
     (FailureDomainLevel_from_string s = Some e16 \<longleftrightarrow> FailureDomainLevel_to_string e16 = s) \<and>
     (DecisionReason_from_string s = Some e17 \<longleftrightarrow> DecisionReason_to_string e17 = s)"
  unfolding Provenance_from_string_def HealthState_from_string_def DeviceState_from_string_def RegionState_from_string_def PoolState_from_string_def CapabilityClass_from_string_def SupportState_from_string_def EvidenceClass_from_string_def LocalityClass_from_string_def TierClass_from_string_def AcceleratorAccessState_from_string_def ResumeState_from_string_def VolatilityKind_from_string_def SharingMode_from_string_def FailoverOutcome_from_string_def FailureDomainLevel_from_string_def DecisionReason_from_string_def
  by (intro conjI) (simp_all add: Provenance_str.lookup_Some HealthState_str.lookup_Some DeviceState_str.lookup_Some RegionState_str.lookup_Some PoolState_str.lookup_Some
    CapabilityClass_str.lookup_Some SupportState_str.lookup_Some EvidenceClass_str.lookup_Some LocalityClass_str.lookup_Some TierClass_str.lookup_Some
    AcceleratorAccessState_str.lookup_Some ResumeState_str.lookup_Some VolatilityKind_str.lookup_Some SharingMode_str.lookup_Some FailoverOutcome_str.lookup_Some
    FailureDomainLevel_str.lookup_Some DecisionReason_str.lookup_Some)

end
