(* ===== verification/Lifecycle.thy ===== *)
theory Lifecycle
  imports Enums
begin

text \<open>
  The validated lifecycle transitions (\<^verbatim>\<open>include/cxl_fabric/core/lifecycle.hpp\<close>), one function per
  state machine, transcribed arm by arm. A raw state value, which no arm covers, may only stay as it
  is. The locale \<open>lifecycle\<close> states the two laws the machines share: staying is always allowed, and
  the dead states (failed, removed, retired) are never left for a live one.
\<close>

section \<open>The transition tables\<close>

definition valid_transition_device :: "DeviceState \<Rightarrow> DeviceState \<Rightarrow> bool" where
  "valid_transition_device from to \<longleftrightarrow>
     (if from = to then True
      else case from of
          DeviceState.DISCOVERED \<Rightarrow> to \<in> {DeviceState.ENUMERATED}
        | DeviceState.ENUMERATED \<Rightarrow> to \<in> {DeviceState.AVAILABLE, DeviceState.DISCOVERED, DeviceState.OFFLINE, DeviceState.FAILED, DeviceState.RETIRED}
        | DeviceState.AVAILABLE \<Rightarrow> to \<in> {DeviceState.ONLINE, DeviceState.DEGRADED, DeviceState.DRAINING, DeviceState.REVALIDATION_REQUIRED, DeviceState.OFFLINE, DeviceState.FAILED, DeviceState.REMOVED, DeviceState.RETIRED}
        | DeviceState.ONLINE \<Rightarrow> to \<in> {DeviceState.ONLINE, DeviceState.DEGRADED, DeviceState.DRAINING, DeviceState.REVALIDATION_REQUIRED, DeviceState.OFFLINE, DeviceState.FAILED, DeviceState.REMOVED, DeviceState.RETIRED}
        | DeviceState.DEGRADED \<Rightarrow> to \<in> {DeviceState.ONLINE, DeviceState.AVAILABLE, DeviceState.DRAINING, DeviceState.REVALIDATION_REQUIRED, DeviceState.OFFLINE, DeviceState.FAILED, DeviceState.REMOVED, DeviceState.RETIRED}
        | DeviceState.DRAINING \<Rightarrow> to \<in> {DeviceState.ONLINE, DeviceState.AVAILABLE, DeviceState.REVALIDATION_REQUIRED, DeviceState.OFFLINE, DeviceState.FAILED, DeviceState.REMOVED, DeviceState.RETIRED}
        | DeviceState.REVALIDATION_REQUIRED \<Rightarrow> to \<in> {DeviceState.ONLINE, DeviceState.AVAILABLE, DeviceState.REVALIDATION_REQUIRED, DeviceState.OFFLINE, DeviceState.FAILED, DeviceState.REMOVED, DeviceState.RETIRED}
        | DeviceState.OFFLINE \<Rightarrow> to \<in> {DeviceState.ONLINE, DeviceState.AVAILABLE, DeviceState.REVALIDATION_REQUIRED, DeviceState.REMOVED, DeviceState.RETIRED}
        | DeviceState.FAILED \<Rightarrow> to \<in> {DeviceState.REMOVED, DeviceState.RETIRED}
        | DeviceState.REMOVED \<Rightarrow> to \<in> {DeviceState.RETIRED}
        | DeviceState.RETIRED \<Rightarrow> False
        | DeviceState_raw w \<Rightarrow> False)"

definition valid_transition_region :: "RegionState \<Rightarrow> RegionState \<Rightarrow> bool" where
  "valid_transition_region from to \<longleftrightarrow>
     (if from = to then True
      else case from of
          RegionState.DEFINED \<Rightarrow> to \<in> {RegionState.VALIDATING, RegionState.RETIRED}
        | RegionState.VALIDATING \<Rightarrow> to \<in> {RegionState.ONLINE, RegionState.DEFINED, RegionState.FAILED, RegionState.RETIRED}
        | RegionState.ONLINE \<Rightarrow> to \<in> {RegionState.DEGRADED, RegionState.DRAINING, RegionState.RECONFIGURING, RegionState.REVALIDATION_REQUIRED, RegionState.OFFLINE, RegionState.FAILED, RegionState.RETIRED}
        | RegionState.DEGRADED \<Rightarrow> to \<in> {RegionState.ONLINE, RegionState.DRAINING, RegionState.RECONFIGURING, RegionState.REVALIDATION_REQUIRED, RegionState.OFFLINE, RegionState.FAILED, RegionState.RETIRED}
        | RegionState.DRAINING \<Rightarrow> to \<in> {RegionState.ONLINE, RegionState.REVALIDATION_REQUIRED, RegionState.OFFLINE, RegionState.FAILED, RegionState.RETIRED}
        | RegionState.RECONFIGURING \<Rightarrow> to \<in> {RegionState.ONLINE, RegionState.VALIDATING, RegionState.REVALIDATION_REQUIRED, RegionState.FAILED, RegionState.RETIRED}
        | RegionState.REVALIDATION_REQUIRED \<Rightarrow> to \<in> {RegionState.ONLINE, RegionState.VALIDATING, RegionState.DRAINING, RegionState.OFFLINE, RegionState.FAILED, RegionState.RETIRED}
        | RegionState.OFFLINE \<Rightarrow> to \<in> {RegionState.ONLINE, RegionState.VALIDATING, RegionState.REVALIDATION_REQUIRED, RegionState.RETIRED}
        | RegionState.FAILED \<Rightarrow> to \<in> {RegionState.RETIRED}
        | RegionState.RETIRED \<Rightarrow> False
        | RegionState_raw w \<Rightarrow> False)"

definition valid_transition_pool :: "PoolState \<Rightarrow> PoolState \<Rightarrow> bool" where
  "valid_transition_pool from to \<longleftrightarrow>
     (if from = to then True
      else case from of
          PoolState.DEFINED \<Rightarrow> to \<in> {PoolState.AVAILABLE, PoolState.FAILED, PoolState.RETIRED}
        | PoolState.AVAILABLE \<Rightarrow> to \<in> {PoolState.DEGRADED, PoolState.DRAINING, PoolState.REVALIDATION_REQUIRED, PoolState.FAILED, PoolState.RETIRED}
        | PoolState.DEGRADED \<Rightarrow> to \<in> {PoolState.AVAILABLE, PoolState.DRAINING, PoolState.REVALIDATION_REQUIRED, PoolState.FAILED, PoolState.RETIRED}
        | PoolState.DRAINING \<Rightarrow> to \<in> {PoolState.AVAILABLE, PoolState.REVALIDATION_REQUIRED, PoolState.FAILED, PoolState.RETIRED}
        | PoolState.REVALIDATION_REQUIRED \<Rightarrow> to \<in> {PoolState.AVAILABLE, PoolState.DEGRADED, PoolState.DRAINING, PoolState.FAILED, PoolState.RETIRED}
        | PoolState.FAILED \<Rightarrow> to \<in> {PoolState.RETIRED}
        | PoolState.RETIRED \<Rightarrow> False)"

definition dead_device :: "DeviceState \<Rightarrow> bool" where
  "dead_device s \<longleftrightarrow> s \<in> {DeviceState.FAILED, DeviceState.REMOVED, DeviceState.RETIRED}"

definition dead_region :: "RegionState \<Rightarrow> bool" where
  "dead_region s \<longleftrightarrow> s \<in> {RegionState.FAILED, RegionState.RETIRED}"

definition dead_pool :: "PoolState \<Rightarrow> bool" where
  "dead_pool s \<longleftrightarrow> s \<in> {PoolState.FAILED, PoolState.RETIRED}"

section \<open>What the machines share\<close>

locale lifecycle =
  fixes valid :: "'s \<Rightarrow> 's \<Rightarrow> bool"
    and dead :: "'s \<Rightarrow> bool"
    and retired :: 's
  assumes valid_refl: "valid s s"
    and dead_closed: "dead s \<Longrightarrow> valid s t \<Longrightarrow> dead t"
    and retired_dead: "dead retired"
    and retired_final: "valid retired t \<Longrightarrow> t = retired"
begin

lemma dead_forever: "valid\<^sup>*\<^sup>* s t \<Longrightarrow> dead s \<Longrightarrow> dead t"
  by (induction rule: rtranclp_induct) (auto intro: dead_closed)

lemma retired_forever: "valid\<^sup>*\<^sup>* retired t \<Longrightarrow> t = retired"
  by (induction rule: rtranclp_induct) (auto dest: retired_final)

lemma live_before: "valid\<^sup>*\<^sup>* s t \<Longrightarrow> \<not> dead t \<Longrightarrow> \<not> dead s"
  using dead_forever by blast

end

interpretation dev_life: lifecycle valid_transition_device dead_device DeviceState.RETIRED
  by unfold_locales
    (auto simp: valid_transition_device_def dead_device_def split: if_splits DeviceState.splits)

interpretation reg_life: lifecycle valid_transition_region dead_region RegionState.RETIRED
  by unfold_locales
    (auto simp: valid_transition_region_def dead_region_def split: if_splits RegionState.splits)

interpretation pool_life: lifecycle valid_transition_pool dead_pool PoolState.RETIRED
  by unfold_locales
    (auto simp: valid_transition_pool_def dead_pool_def split: if_splits PoolState.splits)

section \<open>Every machine can be retired\<close>

lemma retire_device_direct:
  "\<forall>w. s \<noteq> DeviceState_raw w \<Longrightarrow> s \<noteq> DeviceState.DISCOVERED \<Longrightarrow> valid_transition_device s DeviceState.RETIRED"
  by (cases s) (auto simp: valid_transition_device_def)

lemma retire_device_reachable:
  assumes "\<forall>w. s \<noteq> DeviceState_raw w"
  shows "valid_transition_device\<^sup>*\<^sup>* s DeviceState.RETIRED"
proof (cases "s = DeviceState.DISCOVERED")
  case True
  have "valid_transition_device DeviceState.DISCOVERED DeviceState.ENUMERATED"
    by (simp add: valid_transition_device_def)
  moreover have "valid_transition_device DeviceState.ENUMERATED DeviceState.RETIRED"
    by (simp add: valid_transition_device_def)
  ultimately show ?thesis
    using True by (meson converse_rtranclp_into_rtranclp r_into_rtranclp)
next
  case False
  with assms show ?thesis
    by (blast intro: retire_device_direct)
qed

lemma retire_region_reachable:
  "\<forall>w. s \<noteq> RegionState_raw w \<Longrightarrow> valid_transition_region s RegionState.RETIRED"
  by (cases s) (auto simp: valid_transition_region_def)

lemma retire_pool_reachable: "valid_transition_pool s PoolState.RETIRED"
  by (cases s) (auto simp: valid_transition_pool_def)

section \<open>Properties\<close>

text \<open>
  Death is final in all three lifecycles: no sequence of valid transitions leads from a failed, removed or
  retired device, or from a failed or retired region or pool, back into service, and a retired one
  stays retired.
\<close>

theorem death_is_final:
  assumes "valid_transition_device\<^sup>*\<^sup>* d d'" and "valid_transition_region\<^sup>*\<^sup>* r r'" and "valid_transition_pool\<^sup>*\<^sup>* p p'"
  shows "(dead_device d \<longrightarrow> dead_device d' \<and> d' \<noteq> DeviceState.ONLINE) \<and> (d = DeviceState.RETIRED \<longrightarrow> d' = DeviceState.RETIRED) \<and>
     (dead_region r \<longrightarrow> dead_region r' \<and> r' \<noteq> RegionState.ONLINE) \<and> (r = RegionState.RETIRED \<longrightarrow> r' = RegionState.RETIRED) \<and>
     (dead_pool p \<longrightarrow> dead_pool p' \<and> p' \<noteq> PoolState.AVAILABLE) \<and> (p = PoolState.RETIRED \<longrightarrow> p' = PoolState.RETIRED)"
proof -
  have "\<not> dead_device DeviceState.ONLINE" "\<not> dead_region RegionState.ONLINE" "\<not> dead_pool PoolState.AVAILABLE"
    by (simp_all add: dead_device_def dead_region_def dead_pool_def)
  then show ?thesis
    using dev_life.dead_forever [OF assms(1)] dev_life.retired_forever [of d'] reg_life.dead_forever [OF assms(2)]
      reg_life.retired_forever [of r'] pool_life.dead_forever [OF assms(3)] pool_life.retired_forever [of p'] assms
    by auto
qed

theorem death_is_final_witness:
  "dead_device DeviceState.FAILED \<and> dead_device DeviceState.RETIRED \<and> dead_region RegionState.RETIRED"
proof -
  have "valid_transition_device DeviceState.FAILED DeviceState.RETIRED"
    "valid_transition_region RegionState.FAILED RegionState.RETIRED"
    "valid_transition_pool PoolState.AVAILABLE PoolState.DRAINING"
    by (simp_all add: valid_transition_device_def valid_transition_region_def valid_transition_pool_def)
  from death_is_final [OF r_into_rtranclp [of valid_transition_device, OF this(1)]
      r_into_rtranclp [of valid_transition_region, OF this(2)] r_into_rtranclp [of valid_transition_pool, OF this(3)]]
  show ?thesis by (simp add: dead_device_def dead_region_def)
qed

end
