(* ===== verification/Accounting.thy ===== *)
theory Accounting
  imports Prelude
begin

text \<open>
  Capacity accounting (\<^verbatim>\<open>include/cxl_fabric/core/accounting.hpp\<close>): checked 64-bit arithmetic and the
  capacity line with its free/audit/reserve/commit/release/fence\_drain operations, all over wrapping
  64-bit words. An operation that the source writes as a \<^verbatim>\<open>bool\<close> method is a function to a pair of
  that result and the line afterwards.

  The locale \<open>ledger\<close> is the contract of anything that holds reserved and committed bytes. Capacity
  lines, pools and regions all implement it. Its lemmas say how the operations keep a ledger in step
  with the reservations that are outstanding against it.
\<close>

section \<open>Checked arithmetic\<close>

type_synonym ByteCount = u64

definition add_checked :: "ByteCount \<Rightarrow> ByteCount \<Rightarrow> ByteCount option" where
  "add_checked a b = (if a > UINT64_MAX - b then None else Some (a + b))"

definition sub_checked :: "ByteCount \<Rightarrow> ByteCount \<Rightarrow> ByteCount option" where
  "sub_checked a b = (if b > a then None else Some (a - b))"

definition mul_checked :: "ByteCount \<Rightarrow> ByteCount \<Rightarrow> ByteCount option" where
  "mul_checked a b = (if a \<noteq> 0 \<and> b > UINT64_MAX div a then None else Some (a * b))"

section \<open>The capacity line\<close>

record CapacityLine =
  cl_total :: ByteCount
  cl_online :: ByteCount
  cl_unavailable :: ByteCount
  cl_reserved :: ByteCount
  cl_committed :: ByteCount
  cl_draining :: ByteCount

definition CapacityLine_default :: CapacityLine where
  "CapacityLine_default = \<lparr>cl_total = 0, cl_online = 0, cl_unavailable = 0, cl_reserved = 0,
     cl_committed = 0, cl_draining = 0\<rparr>"

definition cl_used :: "CapacityLine \<Rightarrow> ByteCount" where
  "cl_used l = cl_unavailable l + cl_reserved l + cl_committed l + cl_draining l"

definition cl_free :: "CapacityLine \<Rightarrow> ByteCount" where
  "cl_free l = (let used = cl_used l in if cl_online l \<le> used then 0 else cl_online l - used)"

text \<open>The audit: \<open>None\<close> when it passes, otherwise the error text.\<close>

definition cl_audit :: "CapacityLine \<Rightarrow> string option" where
  "cl_audit l =
     (let used = cl_used l in
      if cl_online l > cl_total l then Some ''online > total''
      else if used > cl_online l then Some ''used > online''
      else if cl_free l > cl_online l then Some ''free > online''
      else None)"

definition cl_reserve :: "ByteCount \<Rightarrow> CapacityLine \<Rightarrow> bool \<times> CapacityLine" where
  "cl_reserve n l =
     (if n = 0 then (False, l)
      else if n > cl_free l then (False, l)
      else (True, l\<lparr>cl_reserved := cl_reserved l + n\<rparr>))"

text \<open>The source subtracts from \<^verbatim>\<open>reserved\<close> before it checks the addition to \<^verbatim>\<open>committed\<close>.\<close>

definition cl_commit :: "ByteCount \<Rightarrow> CapacityLine \<Rightarrow> bool \<times> CapacityLine" where
  "cl_commit n l =
     (if n = 0 \<or> n > cl_reserved l then (False, l)
      else let l1 = l\<lparr>cl_reserved := cl_reserved l - n\<rparr> in
        case add_checked (cl_committed l1) n of
          None \<Rightarrow> (False, l1)
        | Some c \<Rightarrow> (True, l1\<lparr>cl_committed := c\<rparr>))"

text \<open>
  Taking \<open>remaining\<close> bytes out of \<open>c\<close> committed bytes as far as they go: what is left of the
  committed bytes and what remains to be taken.
\<close>

definition take_committed :: "ByteCount \<Rightarrow> ByteCount \<Rightarrow> ByteCount \<times> ByteCount" where
  "take_committed remaining c =
     (if remaining > 0 \<and> c > 0
      then let take = (if remaining < c then remaining else c) in (c - take, remaining - take)
      else (c, remaining))"

definition cl_release :: "ByteCount \<Rightarrow> CapacityLine \<Rightarrow> bool \<times> CapacityLine" where
  "cl_release n l =
     (let (c, remaining) = take_committed n (cl_committed l); rsv = cl_reserved l in
      if remaining > 0 \<and> remaining > rsv then (False, l)
      else (True, l\<lparr>cl_committed := c, cl_reserved := (if remaining > 0 then rsv - remaining else rsv)\<rparr>))"

definition cl_fence_drain :: "ByteCount \<Rightarrow> CapacityLine \<Rightarrow> bool \<times> CapacityLine" where
  "cl_fence_drain n l =
     (if n > cl_free l + cl_reserved l + cl_committed l then (False, l)
      else (True, l\<lparr>cl_draining := cl_draining l + n\<rparr>))"

section \<open>Checked arithmetic is exact\<close>

lemma add_checked_None: "add_checked a b = None \<longleftrightarrow> unat a + unat b \<ge> 2 ^ 64"
proof -
  have "unat (UINT64_MAX - b) = 2 ^ 64 - 1 - unat b"
    using unat_u64_le_max [of b] by (subst unat_sub_u64) (simp_all add: word_le_nat unat_UINT64_MAX)
  then show ?thesis
    using unat_u64_bound [of b] by (auto simp: add_checked_def word_less_nat)
qed

lemma add_checked_Some: "add_checked a b = Some c \<longleftrightarrow> unat c = unat a + unat b"
proof
  assume "add_checked a b = Some c"
  moreover from this have "unat a + unat b < 2 ^ 64"
    using add_checked_None [of a b] by (simp add: not_le [symmetric])
  ultimately show "unat c = unat a + unat b"
    by (auto simp: add_checked_def unat_add_u64 split: if_splits)
next
  assume c: "unat c = unat a + unat b"
  then have less: "unat a + unat b < 2 ^ 64"
    using unat_u64_bound [of c] by simp
  then have "c = a + b"
    using c by (simp add: word_unat_eq_iff unat_add_u64)
  moreover have "add_checked a b \<noteq> None"
    using less by (simp add: add_checked_None)
  ultimately show "add_checked a b = Some c"
    by (auto simp: add_checked_def split: if_splits)
qed

lemma add_checked_fits: "unat a + unat b < 2 ^ 64 \<Longrightarrow> add_checked a b = Some (a + b)"
  by (simp add: add_checked_Some unat_add_u64)

lemma sub_checked_Some: "sub_checked a b = Some c \<longleftrightarrow> unat c + unat b = unat a"
proof -
  have "c = a - b \<longleftrightarrow> unat c = unat a - unat b" if "b \<le> a"
    using that by (simp add: word_unat_eq_iff unat_sub_u64)
  then show ?thesis
    by (cases "b \<le> a") (auto simp: sub_checked_def word_le_nat word_less_nat)
qed

lemma mul_checked_None: "mul_checked a b = None \<longleftrightarrow> unat a * unat b \<ge> 2 ^ 64"
proof (cases "a = 0")
  case True
  then show ?thesis by (simp add: mul_checked_def)
next
  case False
  then have pos: "0 < unat a" by (simp add: unat_gt_0)
  have "b > UINT64_MAX div a \<longleftrightarrow> unat b > (2 ^ 64 - 1) div unat a"
    by (simp add: word_less_nat unat_div unat_UINT64_MAX)
  also have "\<dots> \<longleftrightarrow> unat a * unat b > 2 ^ 64 - 1"
    using pos by (metis div_less_iff_less_mult less_iff_succ_less_eq mult.commute not_le
        less_eq_div_iff_mult_less_eq)
  finally show ?thesis
    using False by (auto simp: mul_checked_def)
qed

lemma mul_checked_Some: "mul_checked a b = Some c \<longleftrightarrow> unat c = unat a * unat b"
proof
  assume "mul_checked a b = Some c"
  moreover from this have "unat a * unat b < 2 ^ 64"
    using mul_checked_None [of a b] by (simp add: not_le [symmetric])
  ultimately show "unat c = unat a * unat b"
    by (auto simp: mul_checked_def unat_word_ariths split: if_splits)
next
  assume c: "unat c = unat a * unat b"
  then have less: "unat a * unat b < 2 ^ 64"
    using unat_u64_bound [of c] by simp
  then have "c = a * b"
    using c by (simp add: word_unat_eq_iff unat_word_ariths)
  moreover have "mul_checked a b \<noteq> None"
    using less by (simp add: mul_checked_None)
  ultimately show "mul_checked a b = Some c"
    by (auto simp: mul_checked_def split: if_splits)
qed

section \<open>The contract of a ledger\<close>

text \<open>
  \<open>covers l a b\<close> says that the ledger agrees with the reservations against it: \<open>b\<close> bytes are held in
  all, of which \<open>a\<close> belong to reservations that are not yet committed, and at least that many are
  booked as reserved. (They need not be equal: a release takes committed bytes first, whatever the
  state of the reservation it releases.)
\<close>

locale ledger =
  fixes inv :: "'l \<Rightarrow> bool"
    and free :: "'l \<Rightarrow> nat"
    and reserved :: "'l \<Rightarrow> nat"
    and committed :: "'l \<Rightarrow> nat"
    and do_reserve :: "u64 \<Rightarrow> 'l \<Rightarrow> 'l"
    and do_commit :: "u64 \<Rightarrow> 'l \<Rightarrow> 'l"
    and do_release :: "u64 \<Rightarrow> 'l \<Rightarrow> 'l"
  assumes reserve_law: "inv l \<Longrightarrow> 0 < n \<Longrightarrow> unat n \<le> free l \<Longrightarrow>
      inv (do_reserve n l) \<and> free (do_reserve n l) = free l - unat n \<and>
      reserved (do_reserve n l) = reserved l + unat n \<and> committed (do_reserve n l) = committed l"
    and commit_law: "inv l \<Longrightarrow> 0 < n \<Longrightarrow> unat n \<le> reserved l \<Longrightarrow>
      inv (do_commit n l) \<and> free (do_commit n l) = free l \<and>
      reserved (do_commit n l) = reserved l - unat n \<and> committed (do_commit n l) = committed l + unat n"
    and release_law: "inv l \<Longrightarrow> 0 < n \<Longrightarrow> unat n \<le> reserved l + committed l \<Longrightarrow>
      inv (do_release n l) \<and> free (do_release n l) = free l + unat n \<and>
      reserved (do_release n l) = reserved l - (unat n - committed l) \<and>
      committed (do_release n l) = committed l - unat n"
begin

definition covers :: "'l \<Rightarrow> nat \<Rightarrow> nat \<Rightarrow> bool" where
  "covers l a b \<longleftrightarrow> inv l \<and> a \<le> reserved l \<and> reserved l + committed l = b"

lemma covers_reserve: "covers l a b \<Longrightarrow> 0 < n \<Longrightarrow> unat n \<le> free l \<Longrightarrow> covers (do_reserve n l) (a + unat n) (b + unat n)"
  using reserve_law [of l n] by (auto simp: covers_def)

lemma covers_commit: "covers l a b \<Longrightarrow> 0 < n \<Longrightarrow> unat n \<le> a \<Longrightarrow> covers (do_commit n l) (a - unat n) b"
  using commit_law [of l n] by (auto simp: covers_def)

lemma covers_release_reserved:
  "covers l a b \<Longrightarrow> 0 < n \<Longrightarrow> unat n \<le> a \<Longrightarrow> covers (do_release n l) (a - unat n) (b - unat n)"
  using release_law [of l n] by (auto simp: covers_def)

lemma covers_release_committed:
  "covers l a b \<Longrightarrow> 0 < n \<Longrightarrow> a + unat n \<le> b \<Longrightarrow> covers (do_release n l) a (b - unat n)"
  using release_law [of l n] by (auto simp: covers_def)

text \<open>No operation creates or destroys bytes.\<close>

lemma conserved:
  "inv l \<Longrightarrow> 0 < n \<Longrightarrow> unat n \<le> free l \<Longrightarrow>
     free (do_reserve n l) + reserved (do_reserve n l) + committed (do_reserve n l) = free l + reserved l + committed l"
  "inv l \<Longrightarrow> 0 < n \<Longrightarrow> unat n \<le> reserved l \<Longrightarrow>
     free (do_commit n l) + reserved (do_commit n l) + committed (do_commit n l) = free l + reserved l + committed l"
  "inv l \<Longrightarrow> 0 < n \<Longrightarrow> unat n \<le> reserved l + committed l \<Longrightarrow>
     free (do_release n l) + reserved (do_release n l) + committed (do_release n l) = free l + reserved l + committed l"
  using reserve_law [of l n] commit_law [of l n] release_law [of l n] by auto

end

section \<open>The capacity line is a ledger\<close>

text \<open>The invariant the header of the source states, on the numbers rather than on wrapped words.\<close>

definition cl_sum :: "CapacityLine \<Rightarrow> nat" where
  "cl_sum l = unat (cl_unavailable l) + unat (cl_reserved l) + unat (cl_committed l) + unat (cl_draining l)"

definition cl_ok :: "CapacityLine \<Rightarrow> bool" where
  "cl_ok l \<longleftrightarrow> cl_sum l \<le> unat (cl_online l) \<and> cl_online l \<le> cl_total l"

lemma cl_used_exact: "cl_sum l < 2 ^ 64 \<Longrightarrow> unat (cl_used l) = cl_sum l"
  unfolding cl_used_def cl_sum_def by (rule unat_add4_u64)

lemma cl_ok_fits: "cl_ok l \<Longrightarrow> cl_sum l < 2 ^ 64"
  using unat_u64_bound [of "cl_online l"] by (simp add: cl_ok_def)

lemma cl_free_exact: "cl_ok l \<Longrightarrow> unat (cl_free l) = unat (cl_online l) - cl_sum l"
  using cl_used_exact [OF cl_ok_fits, of l]
  by (auto simp: cl_free_def Let_def word_le_nat unat_sub_u64 cl_ok_def)

lemma take_committed_exact:
  assumes "take_committed n c = (c', r)"
  shows "unat c' = unat c - unat n" and "unat r = unat n - unat c"
  using assms
  by (auto simp: take_committed_def Let_def word_less_nat word_gt_0 unat_sub_u64 word_le_nat split: if_splits)

lemma cl_reserve_law:
  assumes "cl_ok l" and "0 < n" and "unat n \<le> unat (cl_free l)"
  shows "fst (cl_reserve n l)" and "cl_ok (snd (cl_reserve n l))"
    and "unat (cl_reserved (snd (cl_reserve n l))) = unat (cl_reserved l) + unat n"
    and "cl_committed (snd (cl_reserve n l)) = cl_committed l"
    and "unat (cl_free (snd (cl_reserve n l))) = unat (cl_free l) - unat n"
proof -
  let ?l = "l\<lparr>cl_reserved := cl_reserved l + n\<rparr>"
  have res: "cl_reserve n l = (True, ?l)"
    using assms by (auto simp: cl_reserve_def word_less_nat)
  have room: "cl_sum l + unat n \<le> unat (cl_online l)"
    using assms cl_free_exact [of l] unfolding cl_ok_def by linarith
  then have exact: "unat (cl_reserved l + n) = unat (cl_reserved l) + unat n"
    using unat_u64_bound [of "cl_online l"] by (intro unat_add_u64) (simp add: cl_sum_def)
  then have sum: "cl_sum ?l = cl_sum l + unat n"
    by (simp add: cl_sum_def)
  then have ok: "cl_ok ?l"
    using assms(1) room by (simp add: cl_ok_def)
  show "fst (cl_reserve n l)" "cl_committed (snd (cl_reserve n l)) = cl_committed l"
    by (simp_all add: res)
  show "cl_ok (snd (cl_reserve n l))" using ok by (simp add: res)
  show "unat (cl_reserved (snd (cl_reserve n l))) = unat (cl_reserved l) + unat n" using exact by (simp add: res)
  show "unat (cl_free (snd (cl_reserve n l))) = unat (cl_free l) - unat n"
    using cl_free_exact [OF ok] cl_free_exact [OF assms(1)] sum by (simp add: res)
qed

lemma cl_commit_law:
  assumes "cl_ok l" and "0 < n" and "unat n \<le> unat (cl_reserved l)"
  shows "fst (cl_commit n l)" and "cl_ok (snd (cl_commit n l))"
    and "unat (cl_reserved (snd (cl_commit n l))) = unat (cl_reserved l) - unat n"
    and "unat (cl_committed (snd (cl_commit n l))) = unat (cl_committed l) + unat n"
    and "unat (cl_free (snd (cl_commit n l))) = unat (cl_free l)"
proof -
  let ?l = "l\<lparr>cl_reserved := cl_reserved l - n, cl_committed := cl_committed l + n\<rparr>"
  have fits: "unat (cl_committed l) + unat n < 2 ^ 64"
    using assms cl_ok_fits [OF assms(1)] by (simp add: cl_sum_def)
  have res: "cl_commit n l = (True, ?l)"
    using assms add_checked_fits [OF fits] by (auto simp: cl_commit_def Let_def word_less_nat)
  have r: "unat (cl_reserved l - n) = unat (cl_reserved l) - unat n"
    using assms by (simp add: unat_sub_u64 word_le_nat)
  have c: "unat (cl_committed l + n) = unat (cl_committed l) + unat n"
    using fits by (rule unat_add_u64)
  have sum: "cl_sum ?l = cl_sum l"
    using assms(3) r c by (simp add: cl_sum_def)
  then have ok: "cl_ok ?l"
    using assms(1) by (simp add: cl_ok_def)
  show "fst (cl_commit n l)" by (simp add: res)
  show "cl_ok (snd (cl_commit n l))" using ok by (simp add: res)
  show "unat (cl_reserved (snd (cl_commit n l))) = unat (cl_reserved l) - unat n" using r by (simp add: res)
  show "unat (cl_committed (snd (cl_commit n l))) = unat (cl_committed l) + unat n" using c by (simp add: res)
  show "unat (cl_free (snd (cl_commit n l))) = unat (cl_free l)"
    using cl_free_exact [OF ok] cl_free_exact [OF assms(1)] sum by (simp add: res)
qed

lemma cl_release_law:
  assumes "cl_ok l" and "unat n \<le> unat (cl_reserved l) + unat (cl_committed l)"
  shows "fst (cl_release n l)" and "cl_ok (snd (cl_release n l))"
    and "unat (cl_reserved (snd (cl_release n l))) = unat (cl_reserved l) - (unat n - unat (cl_committed l))"
    and "unat (cl_committed (snd (cl_release n l))) = unat (cl_committed l) - unat n"
    and "unat (cl_free (snd (cl_release n l))) = unat (cl_free l) + unat n"
proof -
  obtain c r where take: "take_committed n (cl_committed l) = (c, r)"
    by (cases "take_committed n (cl_committed l)")
  note cr = take_committed_exact [OF take]
  let ?l = "l\<lparr>cl_committed := c, cl_reserved := cl_reserved l - r\<rparr>"
  have le: "r \<le> cl_reserved l"
    using assms(2) cr by (simp add: word_le_nat)
  then have res: "cl_release n l = (True, ?l)"
    using take by (auto simp: cl_release_def Let_def word_gt_0)
  have r: "unat (cl_reserved l - r) = unat (cl_reserved l) - (unat n - unat (cl_committed l))"
    using le cr by (simp add: unat_sub_u64)
  have sum: "cl_sum ?l + unat n = cl_sum l"
    using assms(2) r cr by (simp add: cl_sum_def)
  then have ok: "cl_ok ?l"
    using assms(1) by (simp add: cl_ok_def)
  show "fst (cl_release n l)" by (simp add: res)
  show "cl_ok (snd (cl_release n l))" using ok by (simp add: res)
  show "unat (cl_reserved (snd (cl_release n l))) = unat (cl_reserved l) - (unat n - unat (cl_committed l))"
    using r by (simp add: res)
  show "unat (cl_committed (snd (cl_release n l))) = unat (cl_committed l) - unat n" using cr by (simp add: res)
  show "unat (cl_free (snd (cl_release n l))) = unat (cl_free l) + unat n"
    using cl_free_exact [OF ok] cl_free_exact [OF assms(1)] sum assms(1) by (simp add: res cl_ok_def)
qed

interpretation line: ledger cl_ok "\<lambda>l. unat (cl_free l)" "\<lambda>l. unat (cl_reserved l)" "\<lambda>l. unat (cl_committed l)"
  "\<lambda>n l. snd (cl_reserve n l)" "\<lambda>n l. snd (cl_commit n l)" "\<lambda>n l. snd (cl_release n l)"
  by unfold_locales (simp_all add: cl_reserve_law cl_commit_law cl_release_law)

section \<open>Rejections change nothing\<close>

lemma cl_reserve_rejects: "\<not> fst (cl_reserve n l) \<Longrightarrow> snd (cl_reserve n l) = l"
  by (auto simp: cl_reserve_def)

lemma cl_release_rejects: "\<not> fst (cl_release n l) \<Longrightarrow> snd (cl_release n l) = l"
  by (auto simp: cl_release_def Let_def split: prod.splits if_splits)

lemma cl_commit_rejects:
  assumes "cl_ok l" and "\<not> fst (cl_commit n l)"
  shows "snd (cl_commit n l) = l"
proof (cases "n = 0 \<or> n > cl_reserved l")
  case True
  then show ?thesis by (auto simp: cl_commit_def)
next
  case False
  then have "fst (cl_commit n l)"
    using cl_commit_law(1) [OF assms(1), of n] by (simp add: word_gt_0 not_less word_le_nat)
  with assms(2) show ?thesis by simp
qed

section \<open>Properties\<close>

text \<open>
  The checked operations are exact: they return a value precisely when the true sum, difference or
  product is a 64-bit number, and then it is that number.
\<close>

theorem checked_arithmetic_exact:
  "(add_checked a b = Some s \<longleftrightarrow> unat s = unat a + unat b) \<and> (add_checked a b = None \<longleftrightarrow> 2 ^ 64 \<le> unat a + unat b) \<and>
   (sub_checked a b = Some d \<longleftrightarrow> unat d + unat b = unat a) \<and> (sub_checked a b = None \<longleftrightarrow> unat a < unat b) \<and>
   (mul_checked a b = Some p \<longleftrightarrow> unat p = unat a * unat b) \<and> (mul_checked a b = None \<longleftrightarrow> 2 ^ 64 \<le> unat a * unat b)"
proof -
  have "sub_checked a b = None \<longleftrightarrow> unat a < unat b" by (simp add: sub_checked_def word_less_nat)
  then show ?thesis
    by (simp add: add_checked_Some add_checked_None sub_checked_Some mul_checked_Some mul_checked_None)
qed



text \<open>
  C30. Draining more than is free breaks the books: a successful \<^verbatim>\<open>fence_drain\<close> keeps them closed exactly when the
  drained bytes were free, although it accepts bytes that are reserved or committed as well.
\<close>

theorem fence_drain_keeps_books_iff:
  assumes "cl_ok l" and "fst (cl_fence_drain n l)"
  shows "cl_ok (snd (cl_fence_drain n l)) \<longleftrightarrow> n \<le> cl_free l"
proof -
  let ?l = "l\<lparr>cl_draining := cl_draining l + n\<rparr>"
  have closed: "unat (cl_free l) + cl_sum l = unat (cl_online l)"
    using assms(1) cl_free_exact [of l] by (simp add: cl_ok_def)
  have "unat (cl_free l) + unat (cl_reserved l) + unat (cl_committed l) < 2 ^ 64"
    using closed unat_u64_bound [of "cl_online l"] by (simp add: cl_sum_def)
  from unat_add3_u64 [OF this] assms(2) have n: "unat n \<le> unat (cl_free l) + unat (cl_reserved l) + unat (cl_committed l)"
    by (simp add: cl_fence_drain_def word_less_nat split: if_splits)
  then have "unat (cl_draining l) + unat n < 2 ^ 64"
    using closed unat_u64_bound [of "cl_online l"] by (simp add: cl_sum_def)
  from unat_add_u64 [OF this] have "cl_sum ?l = cl_sum l + unat n" by (simp add: cl_sum_def)
  moreover have "snd (cl_fence_drain n l) = ?l" using assms(2) by (simp add: cl_fence_drain_def split: if_splits)
  ultimately show ?thesis using closed assms(1) by (auto simp: cl_ok_def word_le_nat)
qed

theorem fence_drain_keeps_books_iff_witness:
  "fst (cl_fence_drain 6 \<lparr>cl_total = 10, cl_online = 10, cl_unavailable = 0, cl_reserved = 5, cl_committed = 0, cl_draining = 0\<rparr>) \<and>
   \<not> cl_ok (snd (cl_fence_drain 6 \<lparr>cl_total = 10, cl_online = 10, cl_unavailable = 0, cl_reserved = 5, cl_committed = 0, cl_draining = 0\<rparr>))"
proof -
  let ?l = "\<lparr>cl_total = 10, cl_online = 10, cl_unavailable = 0, cl_reserved = 5, cl_committed = 0, cl_draining = 0\<rparr>"
  have "cl_ok ?l" by (simp add: cl_ok_def cl_sum_def)
  moreover have f: "fst (cl_fence_drain 6 ?l)" by (simp add: cl_fence_drain_def cl_free_def cl_used_def)
  moreover have "\<not> (6 :: ByteCount) \<le> cl_free ?l" by (simp add: cl_free_def cl_used_def)
  ultimately show ?thesis using fence_drain_keeps_books_iff [of ?l 6] by blast
qed

end
