(* ===== verification/Records.thy ===== *)
theory Records
  imports Ordered_Map Identity Enum_Strings Lifecycle Accounting
begin

text \<open>
  The records of the data model, field by field: capability evidence (\<^verbatim>\<open>capability.hpp\<close>), access
  economics (\<^verbatim>\<open>economics.hpp\<close>), devices, regions, pools and reservations with the admission request
  (\<^verbatim>\<open>device.hpp\<close>, \<^verbatim>\<open>region.hpp\<close>, \<^verbatim>\<open>pool.hpp\<close>, \<^verbatim>\<open>reservation.hpp\<close>). A field carries the prefix of its
  record, because several records have a field of the same name. The \<open>\<dots>_default\<close> constants are the
  values the default member initialisers give.

  The one floating-point field, the access penalty, only ever holds one plus a quarter of a 32-bit
  hop count, which a double represents exactly; it is a rational number here.
\<close>

section \<open>Capability evidence\<close>

record Capability =
  cap_klass :: CapabilityClass
  cap_state :: SupportState
  cap_version :: u64
  cap_provenance :: Provenance
  cap_evidence_generation :: EvidenceGeneration
  cap_evidence_current :: bool
  cap_constraints :: string

definition Capability_default :: Capability where
  [record_defs]: "Capability_default = \<lparr>cap_klass = CapabilityClass.MEMORY_DEVICE,
     cap_state = SupportState.UNKNOWN, cap_version = 0, cap_provenance = Provenance.UNSUPPORTED,
     cap_evidence_generation = Generation_default, cap_evidence_current = False, cap_constraints = []\<rparr>"

definition cap_is_supported :: "Capability \<Rightarrow> bool" where
  "cap_is_supported c \<longleftrightarrow> cap_state c = SupportState.SUPPORTED"

definition cap_is_unknown :: "Capability \<Rightarrow> bool" where
  "cap_is_unknown c \<longleftrightarrow> cap_state c = SupportState.UNKNOWN"

definition cap_requires_revalidation :: "Capability \<Rightarrow> bool" where
  "cap_requires_revalidation c \<longleftrightarrow> cap_state c = SupportState.REVALIDATION_REQUIRED"

text \<open>A capability map is ordered by the underlying (signed) integer of its key.\<close>

type_synonym Capabilities = "(int, Capability) omap"

definition cap_key :: "CapabilityClass \<Rightarrow> int" where
  "cap_key k = sint (CapabilityClass_to_u32 k)"

definition caps_set :: "Capability \<Rightarrow> Capabilities \<Rightarrow> Capabilities" where
  "caps_set cap m = om_assign (cap_key (cap_klass cap)) cap m"

definition caps_get :: "Capabilities \<Rightarrow> CapabilityClass \<Rightarrow> Capability option" where
  "caps_get m k = om_find m (cap_key k)"

definition caps_has :: "Capabilities \<Rightarrow> CapabilityClass \<Rightarrow> bool" where
  "caps_has m k \<longleftrightarrow> om_count m (cap_key k)"

definition caps_required_supported :: "Capabilities \<Rightarrow> CapabilityClass \<Rightarrow> bool \<Rightarrow> bool" where
  "caps_required_supported m k require_current_evidence =
     (case caps_get m k of
        None \<Rightarrow> False
      | Some c \<Rightarrow>
          if cap_state c \<noteq> SupportState.SUPPORTED then False
          else if require_current_evidence \<and> \<not> cap_evidence_current c then False
          else True)"

section \<open>Access economics\<close>

record AccessEconomics =
  econ_locality :: LocalityClass
  econ_tier :: TierClass
  econ_evidence_class :: EvidenceClass
  econ_provenance :: Provenance
  econ_estimated_latency_ns :: u64
  econ_estimated_bandwidth_mbps :: u64
  econ_hop_count :: u32
  econ_access_penalty_vs_local :: rat
  econ_migration_cost_bytes :: u64
  econ_failsafe_valid :: bool
  econ_notes :: string

definition AccessEconomics_default :: AccessEconomics where
  [record_defs]: "AccessEconomics_default = \<lparr>econ_locality = LocalityClass.UNKNOWN,
     econ_tier = TierClass.CXL_UNKNOWN, econ_evidence_class = EvidenceClass.UNKNOWN,
     econ_provenance = Provenance.UNSUPPORTED, econ_estimated_latency_ns = 0,
     econ_estimated_bandwidth_mbps = 0, econ_hop_count = 0, econ_access_penalty_vs_local = 1,
     econ_migration_cost_bytes = 0, econ_failsafe_valid = False, econ_notes = []\<rparr>"

datatype LatencyClass = UNKNOWN | NEAR | LOCAL | SHARED | REMOTE | CROSS_HOST

fun latency_class :: "AccessEconomics \<Rightarrow> LatencyClass" where
  "latency_class e =
     (case econ_locality e of
        LocalityClass.DIRECT_LOCAL \<Rightarrow> LatencyClass.NEAR
      | LocalityClass.SAME_HOST \<Rightarrow> LatencyClass.LOCAL
      | LocalityClass.SAME_NUMA_DOMAIN \<Rightarrow> LatencyClass.LOCAL
      | LocalityClass.REMOTE_NUMA_DOMAIN \<Rightarrow> LatencyClass.REMOTE
      | LocalityClass.SAME_CXL_ROOT \<Rightarrow> LatencyClass.REMOTE
      | LocalityClass.SAME_SWITCH \<Rightarrow> LatencyClass.REMOTE
      | LocalityClass.SWITCH_REMOTE \<Rightarrow> LatencyClass.REMOTE
      | LocalityClass.MULTI_HOP_CXL \<Rightarrow> LatencyClass.REMOTE
      | LocalityClass.CROSS_HOST \<Rightarrow> LatencyClass.CROSS_HOST
      | LocalityClass.UNKNOWN \<Rightarrow> LatencyClass.UNKNOWN
      | LocalityClass_raw w \<Rightarrow> LatencyClass.UNKNOWN)"

text \<open>
  The locality ordinal, lower is more local. The source has three copies of this switch
  (\<^verbatim>\<open>AccessEconomics::ordinal\<close>, the lambda in \<^verbatim>\<open>locality_satisfies\<close>, \<^verbatim>\<open>locality_ordinal\<close> in \<^verbatim>\<open>fabric.cpp\<close>),
  which agree line by line; they are one function here.
\<close>

fun locality_ordinal :: "LocalityClass \<Rightarrow> nat" where
  "locality_ordinal LocalityClass.DIRECT_LOCAL = 0"
| "locality_ordinal LocalityClass.SAME_HOST = 1"
| "locality_ordinal LocalityClass.SAME_NUMA_DOMAIN = 2"
| "locality_ordinal LocalityClass.REMOTE_NUMA_DOMAIN = 3"
| "locality_ordinal LocalityClass.SAME_CXL_ROOT = 4"
| "locality_ordinal LocalityClass.SAME_SWITCH = 5"
| "locality_ordinal LocalityClass.SWITCH_REMOTE = 6"
| "locality_ordinal LocalityClass.MULTI_HOP_CXL = 7"
| "locality_ordinal LocalityClass.CROSS_HOST = 8"
| "locality_ordinal LocalityClass.UNKNOWN = 9"
| "locality_ordinal (LocalityClass_raw w) = 9"

definition more_local_than :: "AccessEconomics \<Rightarrow> AccessEconomics \<Rightarrow> bool" where
  "more_local_than a b \<longleftrightarrow> locality_ordinal (econ_locality a) < locality_ordinal (econ_locality b)"

section \<open>Devices\<close>

record CxlDevice =
  dev_id :: DeviceId
  dev_generation :: DeviceGeneration
  dev_boot_id :: DeviceBootId
  dev_raw_identity :: string
  dev_vendor_device_id :: string
  dev_cxl_device_class :: string
  dev_device_type :: string
  dev_host :: HostId
  dev_ports :: "PortId list"
  dev_switch_ancestry :: "SwitchId list"
  dev_total_physical_bytes :: u64
  dev_online_bytes :: u64
  dev_volatility :: VolatilityKind
  dev_sharing :: SharingMode
  dev_multi_host_capable :: bool
  dev_interleave_capable :: bool
  dev_accelerator_access :: AcceleratorAccessState
  dev_health :: HealthState
  dev_state :: DeviceState
  dev_capabilities :: Capabilities
  dev_economics :: AccessEconomics
  dev_provenance :: Provenance
  dev_evidence_generation :: EvidenceGeneration
  dev_evidence_current :: bool
  dev_firmware_metadata :: string
  dev_lifecycle_note :: string

definition CxlDevice_default :: CxlDevice where
  [record_defs]: "CxlDevice_default = \<lparr>dev_id = Ident_default, dev_generation = Generation_default,
     dev_boot_id = Ident_default, dev_raw_identity = [], dev_vendor_device_id = [],
     dev_cxl_device_class = [], dev_device_type = [], dev_host = Ident_default, dev_ports = [],
     dev_switch_ancestry = [], dev_total_physical_bytes = 0, dev_online_bytes = 0,
     dev_volatility = VolatilityKind.UNKNOWN, dev_sharing = SharingMode.UNKNOWN,
     dev_multi_host_capable = False, dev_interleave_capable = False,
     dev_accelerator_access = AcceleratorAccessState.UNKNOWN, dev_health = HealthState.UNKNOWN,
     dev_state = DeviceState.DISCOVERED, dev_capabilities = [],
     dev_economics = AccessEconomics_default, dev_provenance = Provenance.UNSUPPORTED,
     dev_evidence_generation = Generation_default, dev_evidence_current = False,
     dev_firmware_metadata = [], dev_lifecycle_note = []\<rparr>"

section \<open>Regions\<close>

record CxlRegion =
  reg_id :: RegionId
  reg_generation :: RegionGeneration
  reg_pool :: PoolId
  reg_member_devices :: "DeviceId list"
  reg_interleave_set :: string
  reg_region_capacity_bytes :: u64
  reg_interleaved :: bool
  reg_state :: RegionState
  reg_decoders :: "DecoderId list"
  reg_windows :: "WindowId list"
  reg_access_mode :: string
  reg_consumer_scope :: ConsumerId
  reg_locality :: LocalityClass
  reg_tier :: TierClass
  reg_health :: HealthState
  reg_reserved_bytes :: u64
  reg_committed_bytes :: u64
  reg_provenance :: Provenance
  reg_evidence_generation :: EvidenceGeneration
  reg_evidence_current :: bool
  reg_device_local :: bool

definition CxlRegion_default :: CxlRegion where
  [record_defs]: "CxlRegion_default = \<lparr>reg_id = Ident_default, reg_generation = Generation_default,
     reg_pool = Ident_default, reg_member_devices = [], reg_interleave_set = [],
     reg_region_capacity_bytes = 0, reg_interleaved = False, reg_state = RegionState.DEFINED,
     reg_decoders = [], reg_windows = [], reg_access_mode = [], reg_consumer_scope = Ident_default,
     reg_locality = LocalityClass.UNKNOWN, reg_tier = TierClass.CXL_UNKNOWN,
     reg_health = HealthState.UNKNOWN, reg_reserved_bytes = 0, reg_committed_bytes = 0,
     reg_provenance = Provenance.UNSUPPORTED, reg_evidence_generation = Generation_default,
     reg_evidence_current = False, reg_device_local = False\<rparr>"

section \<open>Pools\<close>

record PoolMember =
  pm_device :: DeviceId
  pm_device_generation :: DeviceGeneration
  pm_nominal_bytes :: u64
  pm_online :: bool
  pm_health_ok :: bool
  pm_failure_domain :: string
  pm_locality :: LocalityClass

definition PoolMember_default :: PoolMember where
  [record_defs]: "PoolMember_default = \<lparr>pm_device = Ident_default,
     pm_device_generation = Generation_default, pm_nominal_bytes = 0, pm_online = False,
     pm_health_ok = False, pm_failure_domain = [], pm_locality = LocalityClass.UNKNOWN\<rparr>"

record CxlPool =
  pool_id :: PoolId
  pool_generation :: PoolGeneration
  pool_members :: "PoolMember list"
  pool_total_governed_bytes :: u64
  pool_committed_bytes :: u64
  pool_reserved_bytes :: u64
  pool_draining_bytes :: u64
  pool_unavailable_bytes :: u64
  pool_admission_policy :: string
  pool_failure_domains :: "string list"
  pool_locality_distribution :: LocalityClass
  pool_health_summary :: HealthState
  pool_state :: PoolState
  pool_provenance :: Provenance
  pool_evidence_generation :: EvidenceGeneration
  pool_evidence_current :: bool
  pool_lifecycle_note :: string

definition CxlPool_default :: CxlPool where
  [record_defs]: "CxlPool_default = \<lparr>pool_id = Ident_default, pool_generation = Generation_default,
     pool_members = [], pool_total_governed_bytes = 0, pool_committed_bytes = 0,
     pool_reserved_bytes = 0, pool_draining_bytes = 0, pool_unavailable_bytes = 0,
     pool_admission_policy = [], pool_failure_domains = [],
     pool_locality_distribution = LocalityClass.UNKNOWN, pool_health_summary = HealthState.UNKNOWN,
     pool_state = PoolState.DEFINED, pool_provenance = Provenance.UNSUPPORTED,
     pool_evidence_generation = Generation_default, pool_evidence_current = False,
     pool_lifecycle_note = []\<rparr>"

text \<open>\<^verbatim>\<open>CxlPool::free_bytes\<close>, used by the command line, and \<^verbatim>\<open>pool_free\<close>, \<^verbatim>\<open>region_free\<close> of \<^verbatim>\<open>fabric.cpp\<close>.\<close>

definition free_bytes :: "CxlPool \<Rightarrow> ByteCount" where
  "free_bytes p =
     (let online = pool_total_governed_bytes p in
      if online \<le> pool_unavailable_bytes p then 0
      else let used = pool_unavailable_bytes p + pool_reserved_bytes p + pool_committed_bytes p + pool_draining_bytes p in
        if online \<le> used then 0 else online - used)"

definition pool_used :: "CxlPool \<Rightarrow> ByteCount" where
  "pool_used p = pool_unavailable_bytes p + pool_reserved_bytes p + pool_committed_bytes p + pool_draining_bytes p"

definition pool_free :: "CxlPool \<Rightarrow> ByteCount" where
  "pool_free p = (let used = pool_used p in
     if pool_total_governed_bytes p \<le> used then 0 else pool_total_governed_bytes p - used)"

definition region_free :: "CxlRegion \<Rightarrow> ByteCount" where
  "region_free r = (let used = reg_reserved_bytes r + reg_committed_bytes r in
     if reg_region_capacity_bytes r \<le> used then 0 else reg_region_capacity_bytes r - used)"

section \<open>Admission requests and reservations\<close>

record AdmissionRequest =
  req_bytes :: ByteCount
  req_volatility :: VolatilityKind
  req_consumer :: ConsumerId
  req_host :: HostId
  req_required_pool :: "PoolId option"
  req_minimum_locality :: "LocalityClass option"
  req_required_tier :: "TierClass option"
  req_accelerator_access :: "AcceleratorAccessState option"
  req_failure_domain_minimum :: "FailureDomainLevel option"
  req_sharing :: SharingMode
  req_require_unique_failure_domain :: bool
  req_require_persistence :: bool
  req_require_accelerator_path :: bool
  req_prefer_fallback :: bool
  req_policy_class :: string
  req_minimum_bandwidth_mbps :: u64
  req_maximum_latency_ns :: u64

definition AdmissionRequest_default :: AdmissionRequest where
  [record_defs]: "AdmissionRequest_default = \<lparr>req_bytes = 0, req_volatility = VolatilityKind.UNKNOWN,
     req_consumer = Ident_default, req_host = Ident_default, req_required_pool = None,
     req_minimum_locality = None, req_required_tier = None, req_accelerator_access = None,
     req_failure_domain_minimum = None, req_sharing = SharingMode.UNKNOWN,
     req_require_unique_failure_domain = False, req_require_persistence = False,
     req_require_accelerator_path = False, req_prefer_fallback = False, req_policy_class = [],
     req_minimum_bandwidth_mbps = 0, req_maximum_latency_ns = 0\<rparr>"

record Reservation =
  res_id :: ReservationId
  res_consumer :: ConsumerId
  res_consumer_generation :: ConsumerGeneration
  res_pool :: PoolId
  res_pool_generation :: PoolGeneration
  res_region :: RegionId
  res_region_generation :: RegionGeneration
  res_device :: DeviceId
  res_device_generation :: DeviceGeneration
  res_device_boot_id :: DeviceBootId
  res_bytes :: ByteCount
  res_state :: ResumeState
  res_created_epoch :: CoordinatorEpoch
  res_commit_epoch :: CoordinatorEpoch
  res_worker_boot_id :: WorkerBootId
  res_evidence_current_at_reserve :: bool
  res_failed_device_entry :: bool

definition Reservation_default :: Reservation where
  [record_defs]: "Reservation_default = \<lparr>res_id = Ident_default, res_consumer = Ident_default,
     res_consumer_generation = Generation_default, res_pool = Ident_default,
     res_pool_generation = Generation_default, res_region = Ident_default,
     res_region_generation = Generation_default, res_device = Ident_default,
     res_device_generation = Generation_default, res_device_boot_id = Ident_default, res_bytes = 0,
     res_state = ResumeState.RESERVED, res_created_epoch = Generation_default,
     res_commit_epoch = Generation_default, res_worker_boot_id = Ident_default,
     res_evidence_current_at_reserve = False, res_failed_device_entry = True\<rparr>"

end
