(* ===== verification/Fabric_State.thy ===== *)
theory Fabric_State
  imports Records Ordered_Map Accounting
begin

text \<open>
  The state of the governance engine (\<^verbatim>\<open>include/cxl_fabric/core/fabric.hpp\<close>) and the part of
  \<^verbatim>\<open>src/core/fabric.cpp\<close> that every mutation shares: construction, epochs and generations, lookup, the
  two ledger recomputations and the audit. Every method of \<^verbatim>\<open>Fabric\<close> holds \<^verbatim>\<open>mutex_\<close> from its first to its
  last statement, so a method is a function of the state and concurrent callers are a sequence of
  calls.

  \<open>governed_sum\<close> and the sums over all pools are the exact numbers the recomputations should reach; the
  lemmas show that they do whenever these numbers fit into 64 bits.
\<close>

section \<open>State\<close>

record StateSnapshot =
  st_coordinator_epoch :: CoordinatorEpoch
  st_policy_generation :: PolicyGeneration
  st_devices :: "(DeviceId, CxlDevice) omap"
  st_regions :: "(RegionId, CxlRegion) omap"
  st_pools :: "(PoolId, CxlPool) omap"
  st_reservations :: "(ReservationId, Reservation) omap"
  st_evidence_generation :: EvidenceGeneration
  st_global_ledger :: CapacityLine

definition StateSnapshot_default :: StateSnapshot where
  [record_defs]: "StateSnapshot_default = \<lparr>st_coordinator_epoch = Generation_default,
     st_policy_generation = Generation_default, st_devices = [], st_regions = [], st_pools = [],
     st_reservations = [], st_evidence_generation = Generation_default,
     st_global_ledger = CapacityLine_default\<rparr>"

record Fabric =
  fab_state :: StateSnapshot
  fab_sequence :: u64

definition Fabric_default :: Fabric where
  [record_defs]: "Fabric_default = \<lparr>fab_state = StateSnapshot_default, fab_sequence = 0\<rparr>"

definition Fabric_new :: "CoordinatorEpoch \<Rightarrow> PolicyGeneration \<Rightarrow> Fabric" where
  [fabric_defs]: "Fabric_new epoch policy = Fabric_default\<lparr>fab_state := StateSnapshot_default
     \<lparr>st_coordinator_epoch := epoch, st_policy_generation := policy, st_global_ledger := CapacityLine_default\<rparr>\<rparr>"

text \<open>Assignment through an iterator into one of the four maps of the state.\<close>

definition put_device :: "DeviceId \<Rightarrow> CxlDevice \<Rightarrow> Fabric \<Rightarrow> Fabric" where
  [fabric_defs]: "put_device k v f = f\<lparr>fab_state := (fab_state f)
     \<lparr>st_devices := om_assign k v (st_devices (fab_state f))\<rparr>\<rparr>"

definition put_region :: "RegionId \<Rightarrow> CxlRegion \<Rightarrow> Fabric \<Rightarrow> Fabric" where
  [fabric_defs]: "put_region k v f = f\<lparr>fab_state := (fab_state f)
     \<lparr>st_regions := om_assign k v (st_regions (fab_state f))\<rparr>\<rparr>"

definition put_pool :: "PoolId \<Rightarrow> CxlPool \<Rightarrow> Fabric \<Rightarrow> Fabric" where
  [fabric_defs]: "put_pool k v f = f\<lparr>fab_state := (fab_state f)
     \<lparr>st_pools := om_assign k v (st_pools (fab_state f))\<rparr>\<rparr>"

definition put_reservation :: "ReservationId \<Rightarrow> Reservation \<Rightarrow> Fabric \<Rightarrow> Fabric" where
  [fabric_defs]: "put_reservation k v f = f\<lparr>fab_state := (fab_state f)
     \<lparr>st_reservations := om_assign k v (st_reservations (fab_state f))\<rparr>\<rparr>"

section \<open>Epochs, generations and lookup\<close>

definition set_epoch :: "CoordinatorEpoch \<Rightarrow> Fabric \<Rightarrow> Fabric" where
  [fabric_defs]: "set_epoch e f = f\<lparr>fab_state := (fab_state f)\<lparr>st_coordinator_epoch := e\<rparr>\<rparr>"

definition epoch :: "Fabric \<Rightarrow> CoordinatorEpoch" where
  "epoch f = st_coordinator_epoch (fab_state f)"

definition set_policy_generation :: "PolicyGeneration \<Rightarrow> Fabric \<Rightarrow> Fabric" where
  [fabric_defs]: "set_policy_generation p f = f\<lparr>fab_state := (fab_state f)\<lparr>st_policy_generation := p\<rparr>\<rparr>"

definition policy_generation :: "Fabric \<Rightarrow> PolicyGeneration" where
  "policy_generation f = st_policy_generation (fab_state f)"

definition evidence_generation :: "Fabric \<Rightarrow> EvidenceGeneration" where
  "evidence_generation f = st_evidence_generation (fab_state f)"

definition advance_evidence_generation :: "Fabric \<Rightarrow> Fabric" where
  [fabric_defs]: "advance_evidence_generation f =
     (let n = gen_next (st_evidence_generation (fab_state f)) in
      f\<lparr>fab_state := (fab_state f)\<lparr>st_evidence_generation :=
          (if gen_empty n then st_evidence_generation (fab_state f) else n)\<rparr>\<rparr>)"

definition find_device :: "Fabric \<Rightarrow> DeviceId \<Rightarrow> CxlDevice option" where
  "find_device f = om_find (st_devices (fab_state f))"

definition find_region :: "Fabric \<Rightarrow> RegionId \<Rightarrow> CxlRegion option" where
  "find_region f = om_find (st_regions (fab_state f))"

definition find_pool :: "Fabric \<Rightarrow> PoolId \<Rightarrow> CxlPool option" where
  "find_pool f = om_find (st_pools (fab_state f))"

definition find_reservation :: "Fabric \<Rightarrow> ReservationId \<Rightarrow> Reservation option" where
  "find_reservation f = om_find (st_reservations (fab_state f))"

definition device_count :: "Fabric \<Rightarrow> nat" where
  "device_count f = length (st_devices (fab_state f))"

definition region_count :: "Fabric \<Rightarrow> nat" where
  "region_count f = length (st_regions (fab_state f))"

definition pool_count :: "Fabric \<Rightarrow> nat" where
  "pool_count f = length (st_pools (fab_state f))"

definition reservation_count :: "Fabric \<Rightarrow> nat" where
  "reservation_count f = length (st_reservations (fab_state f))"

definition snapshot :: "Fabric \<Rightarrow> StateSnapshot" where
  "snapshot f = fab_state f"

definition selection_snapshot :: "Fabric \<Rightarrow> StateSnapshot" where
  "selection_snapshot f = StateSnapshot_default
     \<lparr>st_coordinator_epoch := st_coordinator_epoch (fab_state f),
      st_policy_generation := st_policy_generation (fab_state f),
      st_evidence_generation := st_evidence_generation (fab_state f),
      st_global_ledger := st_global_ledger (fab_state f),
      st_devices := st_devices (fab_state f),
      st_regions := st_regions (fab_state f),
      st_pools := st_pools (fab_state f)\<rparr>"

section \<open>Recomputation\<close>

text \<open>
  One round of the loop of \<^verbatim>\<open>recompute_global_locked\<close>. An addition that overflows abandons the rest of
  the round (\<^verbatim>\<open>continue\<close>) and keeps what the round has added so far.
\<close>

definition add_pool_line :: "CxlPool \<Rightarrow> CapacityLine \<Rightarrow> CapacityLine" where
  "add_pool_line p g =
     (if pool_state p = PoolState.RETIRED then g
      else case add_checked (cl_total g) (pool_total_governed_bytes p) of None \<Rightarrow> g | Some t \<Rightarrow>
        let g = g\<lparr>cl_total := t\<rparr> in
        case add_checked (cl_online g) (pool_total_governed_bytes p) of None \<Rightarrow> g | Some t \<Rightarrow>
        let g = g\<lparr>cl_online := t\<rparr> in
        case add_checked (cl_unavailable g) (pool_unavailable_bytes p) of None \<Rightarrow> g | Some t \<Rightarrow>
        let g = g\<lparr>cl_unavailable := t\<rparr> in
        case add_checked (cl_reserved g) (pool_reserved_bytes p) of None \<Rightarrow> g | Some t \<Rightarrow>
        let g = g\<lparr>cl_reserved := t\<rparr> in
        case add_checked (cl_committed g) (pool_committed_bytes p) of None \<Rightarrow> g | Some t \<Rightarrow>
        let g = g\<lparr>cl_committed := t\<rparr> in
        case add_checked (cl_draining g) (pool_draining_bytes p) of None \<Rightarrow> g | Some t \<Rightarrow>
        g\<lparr>cl_draining := t\<rparr>)"

definition global_line :: "(PoolId, CxlPool) omap \<Rightarrow> CapacityLine" where
  "global_line pools = fold (\<lambda>kv. add_pool_line (snd kv)) pools CapacityLine_default"

definition recompute_global :: "Fabric \<Rightarrow> Fabric" where
  [fabric_defs]: "recompute_global f = f\<lparr>fab_state := (fab_state f)
     \<lparr>st_global_ledger := global_line (st_pools (fab_state f))\<rparr>\<rparr>"

text \<open>The loop of \<^verbatim>\<open>recompute_pool_locked\<close> over the members: total, unavailable, failure domains.\<close>

definition add_member :: "PoolMember \<Rightarrow> ByteCount \<times> ByteCount \<times> string list \<Rightarrow> ByteCount \<times> ByteCount \<times> string list" where
  "add_member m acc =
     (if \<not> pm_online m then acc
      else let (total, unavailable, domains) = acc in
        (case add_checked total (pm_nominal_bytes m) of None \<Rightarrow> total | Some t \<Rightarrow> t,
         if \<not> pm_health_ok m
         then case add_checked unavailable (pm_nominal_bytes m) of None \<Rightarrow> unavailable | Some u \<Rightarrow> u
         else unavailable,
         if pm_failure_domain m \<noteq> [] \<and> pm_failure_domain m \<notin> set domains
         then domains @ [pm_failure_domain m] else domains))"

definition recompute_pool :: "CxlPool \<Rightarrow> CxlPool" where
  "recompute_pool pool =
     (let (total, unavailable, domains) = fold add_member (pool_members pool) (0, 0, []) in
      pool\<lparr>pool_total_governed_bytes := total, pool_unavailable_bytes := unavailable,
           pool_failure_domains := domains\<rparr>)"

section \<open>Audit\<close>

record AuditReport =
  audit_ok :: bool
  audit_errors :: "string list"
  audit_global_ledger :: CapacityLine

text \<open>One round of the audit's own summation: here an addition that overflows skips only its field.\<close>

definition keep_checked :: "ByteCount \<Rightarrow> ByteCount \<Rightarrow> ByteCount" where
  "keep_checked a b = (case add_checked a b of None \<Rightarrow> a | Some t \<Rightarrow> t)"

definition audit_pool_line :: "CxlPool \<Rightarrow> CapacityLine \<Rightarrow> CapacityLine" where
  "audit_pool_line p g =
     (if pool_state p = PoolState.RETIRED then g
      else \<lparr>cl_total = keep_checked (cl_total g) (pool_total_governed_bytes p),
            cl_online = keep_checked (cl_online g) (pool_total_governed_bytes p),
            cl_unavailable = keep_checked (cl_unavailable g) (pool_unavailable_bytes p),
            cl_reserved = keep_checked (cl_reserved g) (pool_reserved_bytes p),
            cl_committed = keep_checked (cl_committed g) (pool_committed_bytes p),
            cl_draining = keep_checked (cl_draining g) (pool_draining_bytes p)\<rparr>)"

definition audit_pool_errors :: "CxlPool \<Rightarrow> string list" where
  "audit_pool_errors p =
     (if pool_state p = PoolState.RETIRED then []
      else if pool_total_governed_bytes p < pool_used p
      then [''pool '' @ id_value (pool_id p) @ '' used > governed''] else [])"

definition audit :: "Fabric \<Rightarrow> AuditReport" where
  "audit f =
     (let pools = st_pools (fab_state f);
          g = fold (\<lambda>kv. audit_pool_line (snd kv)) pools CapacityLine_default;
          errors = concat (map (\<lambda>kv. audit_pool_errors (snd kv)) pools) @
            (case cl_audit g of None \<Rightarrow> [] | Some err \<Rightarrow> [''global ledger: '' @ err]) in
      \<lparr>audit_ok = (errors = []), audit_errors = errors, audit_global_ledger = g\<rparr>)"

section \<open>Frame rules\<close>

definition wf_maps :: "Fabric \<Rightarrow> bool" where
  "wf_maps f \<longleftrightarrow> om_wf (st_devices (fab_state f)) \<and> om_wf (st_regions (fab_state f)) \<and>
     om_wf (st_pools (fab_state f)) \<and> om_wf (st_reservations (fab_state f))"

lemmas find_defs = find_device_def find_region_def find_pool_def find_reservation_def
lemmas put_defs = put_device_def put_region_def put_pool_def put_reservation_def recompute_global_def

lemma find_put [simp]:
  "wf_maps f \<Longrightarrow> find_device (put_device kd d f) jd = (if jd = kd then Some d else find_device f jd)"
  "wf_maps f \<Longrightarrow> find_region (put_region kr r f) jr = (if jr = kr then Some r else find_region f jr)"
  "wf_maps f \<Longrightarrow> find_pool (put_pool kp p f) jp = (if jp = kp then Some p else find_pool f jp)"
  "wf_maps f \<Longrightarrow> find_reservation (put_reservation kv v f) jv = (if jv = kv then Some v else find_reservation f jv)"
  by (auto simp: wf_maps_def find_defs put_defs)

lemma find_frame [simp]:
  "find_region (put_device kd d f) = find_region f" "find_pool (put_device kd d f) = find_pool f"
  "find_reservation (put_device kd d f) = find_reservation f"
  "find_device (put_region kr r f) = find_device f" "find_pool (put_region kr r f) = find_pool f"
  "find_reservation (put_region kr r f) = find_reservation f"
  "find_device (put_pool kp p f) = find_device f" "find_region (put_pool kp p f) = find_region f"
  "find_reservation (put_pool kp p f) = find_reservation f"
  "find_device (put_reservation kv v f) = find_device f" "find_region (put_reservation kv v f) = find_region f"
  "find_pool (put_reservation kv v f) = find_pool f"
  "find_device (recompute_global f) = find_device f" "find_region (recompute_global f) = find_region f"
  "find_pool (recompute_global f) = find_pool f" "find_reservation (recompute_global f) = find_reservation f"
  by (simp_all add: find_defs put_defs)

lemma wf_maps_put [simp]:
  "wf_maps f \<Longrightarrow> wf_maps (put_device kd d f)" "wf_maps f \<Longrightarrow> wf_maps (put_region kr r f)"
  "wf_maps f \<Longrightarrow> wf_maps (put_pool kp p f)" "wf_maps f \<Longrightarrow> wf_maps (put_reservation kv v f)"
  "wf_maps (recompute_global f) = wf_maps f"
  by (simp_all add: wf_maps_def put_defs)

lemma epoch_frame [simp]:
  "epoch (put_device kd d f) = epoch f" "epoch (put_region kr r f) = epoch f"
  "epoch (put_pool kp p f) = epoch f" "epoch (put_reservation kv v f) = epoch f"
  "epoch (recompute_global f) = epoch f"
  by (simp_all add: epoch_def put_defs)

lemma sequence_frame [simp]:
  "fab_sequence (put_device kd d f) = fab_sequence f" "fab_sequence (put_region kr r f) = fab_sequence f"
  "fab_sequence (put_pool kp p f) = fab_sequence f" "fab_sequence (put_reservation kv v f) = fab_sequence f"
  "fab_sequence (recompute_global f) = fab_sequence f"
  by (simp_all add: put_defs)

lemma pools_frame [simp]:
  "st_pools (fab_state (put_device kd d f)) = st_pools (fab_state f)"
  "st_pools (fab_state (put_region kr r f)) = st_pools (fab_state f)"
  "st_pools (fab_state (put_reservation kv v f)) = st_pools (fab_state f)"
  "st_pools (fab_state (recompute_global f)) = st_pools (fab_state f)"
  "st_pools (fab_state (put_pool kp p f)) = om_assign kp p (st_pools (fab_state f))"
  by (simp_all add: put_defs)

lemma reservations_frame [simp]:
  "st_reservations (fab_state (put_device kd d f)) = st_reservations (fab_state f)"
  "st_reservations (fab_state (put_region kr r f)) = st_reservations (fab_state f)"
  "st_reservations (fab_state (put_pool kp p f)) = st_reservations (fab_state f)"
  "st_reservations (fab_state (recompute_global f)) = st_reservations (fab_state f)"
  "st_reservations (fab_state (put_reservation kv v f)) = om_assign kv v (st_reservations (fab_state f))"
  by (simp_all add: put_defs)

lemma ledger_frame [simp]:
  "st_global_ledger (fab_state (put_device kd d f)) = st_global_ledger (fab_state f)"
  "st_global_ledger (fab_state (put_region kr r f)) = st_global_ledger (fab_state f)"
  "st_global_ledger (fab_state (put_pool kp p f)) = st_global_ledger (fab_state f)"
  "st_global_ledger (fab_state (put_reservation kv v f)) = st_global_ledger (fab_state f)"
  "st_global_ledger (fab_state (recompute_global f)) = global_line (st_pools (fab_state f))"
  by (simp_all add: put_defs)

lemma om_count_find:
  "om_count (st_devices (fab_state f)) d \<longleftrightarrow> find_device f d \<noteq> None"
  "om_count (st_regions (fab_state f)) r \<longleftrightarrow> find_region f r \<noteq> None"
  "om_count (st_pools (fab_state f)) p \<longleftrightarrow> find_pool f p \<noteq> None"
  by (simp_all add: om_count_def find_defs)

lemma find_pool_entries: "wf_maps f \<Longrightarrow> (k, p) \<in> set (st_pools (fab_state f)) \<longleftrightarrow> find_pool f k = Some p"
  by (simp add: wf_maps_def find_pool_def om.find_entries)

lemma find_region_entries: "wf_maps f \<Longrightarrow> (k, r) \<in> set (st_regions (fab_state f)) \<longleftrightarrow> find_region f k = Some r"
  by (simp add: wf_maps_def find_region_def om.find_entries)

section \<open>Recomputing a pool\<close>

text \<open>The exact totals over the members that are on line, and over those of them that are not healthy.\<close>

definition member_total :: "PoolMember list \<Rightarrow> nat" where
  "member_total ms = sum_list (map (\<lambda>m. unat (pm_nominal_bytes m)) (filter pm_online ms))"

definition member_unavailable :: "PoolMember list \<Rightarrow> nat" where
  "member_unavailable ms =
     sum_list (map (\<lambda>m. unat (pm_nominal_bytes m)) (filter (\<lambda>m. pm_online m \<and> \<not> pm_health_ok m) ms))"

definition nominal_fits :: "PoolMember list \<Rightarrow> bool" where
  "nominal_fits ms \<longleftrightarrow> member_total ms < 2 ^ 64"

lemma member_unavailable_le: "member_unavailable ms \<le> member_total ms"
  by (induction ms) (auto simp: member_unavailable_def member_total_def)

lemma member_sums_Cons [simp]:
  "member_total (m # ms) = (if pm_online m then unat (pm_nominal_bytes m) else 0) + member_total ms"
  "member_unavailable (m # ms) =
     (if pm_online m \<and> \<not> pm_health_ok m then unat (pm_nominal_bytes m) else 0) + member_unavailable ms"
  by (simp_all add: member_total_def member_unavailable_def)

lemma member_sums_Nil [simp]: "member_total [] = 0" "member_unavailable [] = 0"
  by (simp_all add: member_total_def member_unavailable_def)

lemma member_sums_append [simp]:
  "member_total (xs @ ys) = member_total xs + member_total ys"
  "member_unavailable (xs @ ys) = member_unavailable xs + member_unavailable ys"
  by (simp_all add: member_total_def member_unavailable_def)

lemma fold_add_member:
  assumes "fold add_member ms (t, u, ds) = (t', u', ds')"
    and "unat t + member_total ms < 2 ^ 64" and "unat u + member_unavailable ms < 2 ^ 64"
  shows "unat t' = unat t + member_total ms \<and> unat u' = unat u + member_unavailable ms"
  using assms
proof (induction ms arbitrary: t u ds)
  case (Cons m ms)
  show ?case
  proof (cases "pm_online m")
    case False
    with Cons show ?thesis by (simp add: add_member_def)
  next
    case True
    let ?n = "pm_nominal_bytes m"
    from Cons.prems(2) True have t: "unat t + unat ?n < 2 ^ 64" by simp
    define u1 where "u1 = (if pm_health_ok m then u else u + ?n)"
    have u1: "unat u1 = unat u + (if pm_health_ok m then 0 else unat ?n)"
      using Cons.prems(3) True by (auto simp: u1_def unat_add_u64)
    have "add_member m (t, u, ds) = (t + ?n, u1, snd (snd (add_member m (t, u, ds))))"
      using True Cons.prems(3) add_checked_fits [OF t] add_checked_fits [of u ?n]
      by (auto simp: add_member_def u1_def)
    then show ?thesis
      using Cons.IH [of "t + ?n" u1 "snd (snd (add_member m (t, u, ds)))"] Cons.prems True u1 unat_add_u64 [OF t]
      by (simp add: add.assoc split: if_splits)
  qed
qed simp

text \<open>The failure domains of a pool are those of its online members, each listed once.\<close>

lemma fold_add_member_domains:
  "distinct ds \<Longrightarrow> fold add_member ms (t, u, ds) = (t', u', ds') \<Longrightarrow>
     distinct ds' \<and> set ds' = set ds \<union> {pm_failure_domain m |m. m \<in> set ms \<and> pm_online m \<and> pm_failure_domain m \<noteq> []}"
proof (induction ms arbitrary: t u ds)
  case (Cons m ms)
  obtain t1 u1 ds1 where step: "add_member m (t, u, ds) = (t1, u1, ds1)"
    by (cases "add_member m (t, u, ds)")
  then have "distinct ds1"
    and "set ds1 = set ds \<union> {pm_failure_domain x |x. x = m \<and> pm_online x \<and> pm_failure_domain x \<noteq> []}"
    using Cons.prems(1) by (auto simp: add_member_def split: if_splits)
  with Cons.IH [of ds1 t1 u1] Cons.prems(2) step show ?case by auto
qed simp

lemma recompute_pool_exact:
  assumes "nominal_fits (pool_members p)"
  shows "unat (pool_total_governed_bytes (recompute_pool p)) = member_total (pool_members p)"
    and "unat (pool_unavailable_bytes (recompute_pool p)) = member_unavailable (pool_members p)"
proof -
  obtain t u ds where fold: "fold add_member (pool_members p) (0, 0, []) = (t, u, ds)"
    by (cases "fold add_member (pool_members p) (0, 0, [])")
  from fold_add_member [OF this] assms member_unavailable_le [of "pool_members p"]
  have "unat t = member_total (pool_members p) \<and> unat u = member_unavailable (pool_members p)"
    by (simp add: nominal_fits_def)
  with fold show "unat (pool_total_governed_bytes (recompute_pool p)) = member_total (pool_members p)"
    "unat (pool_unavailable_bytes (recompute_pool p)) = member_unavailable (pool_members p)"
    by (simp_all add: recompute_pool_def)
qed

lemma recompute_pool_frame [simp]:
  "pool_id (recompute_pool p) = pool_id p" "pool_generation (recompute_pool p) = pool_generation p"
  "pool_members (recompute_pool p) = pool_members p" "pool_state (recompute_pool p) = pool_state p"
  "pool_reserved_bytes (recompute_pool p) = pool_reserved_bytes p"
  "pool_committed_bytes (recompute_pool p) = pool_committed_bytes p"
  "pool_draining_bytes (recompute_pool p) = pool_draining_bytes p"
  "pool_evidence_current (recompute_pool p) = pool_evidence_current p"
  by (simp_all add: recompute_pool_def split: prod.splits)

section \<open>Recomputing the global ledger\<close>

text \<open>The exact sum of one accounting field over the pools that are not retired.\<close>

definition live_sum :: "(CxlPool \<Rightarrow> ByteCount) \<Rightarrow> (PoolId, CxlPool) omap \<Rightarrow> nat" where
  "live_sum field pools =
     sum_list (map (\<lambda>kv. if pool_state (snd kv) = PoolState.RETIRED then 0 else unat (field (snd kv))) pools)"

definition line_fits :: "(PoolId, CxlPool) omap \<Rightarrow> CapacityLine \<Rightarrow> bool" where
  "line_fits pools g \<longleftrightarrow>
     unat (cl_total g) + live_sum pool_total_governed_bytes pools < 2 ^ 64 \<and>
     unat (cl_online g) + live_sum pool_total_governed_bytes pools < 2 ^ 64 \<and>
     unat (cl_unavailable g) + live_sum pool_unavailable_bytes pools < 2 ^ 64 \<and>
     unat (cl_reserved g) + live_sum pool_reserved_bytes pools < 2 ^ 64 \<and>
     unat (cl_committed g) + live_sum pool_committed_bytes pools < 2 ^ 64 \<and>
     unat (cl_draining g) + live_sum pool_draining_bytes pools < 2 ^ 64"

text \<open>\<open>totals pools g g'\<close>: line \<open>g'\<close> is line \<open>g\<close> plus the exact sums over the pools.\<close>

definition totals :: "(PoolId, CxlPool) omap \<Rightarrow> CapacityLine \<Rightarrow> CapacityLine \<Rightarrow> bool" where
  "totals pools g g' \<longleftrightarrow>
     unat (cl_total g') = unat (cl_total g) + live_sum pool_total_governed_bytes pools \<and>
     unat (cl_online g') = unat (cl_online g) + live_sum pool_total_governed_bytes pools \<and>
     unat (cl_unavailable g') = unat (cl_unavailable g) + live_sum pool_unavailable_bytes pools \<and>
     unat (cl_reserved g') = unat (cl_reserved g) + live_sum pool_reserved_bytes pools \<and>
     unat (cl_committed g') = unat (cl_committed g) + live_sum pool_committed_bytes pools \<and>
     unat (cl_draining g') = unat (cl_draining g) + live_sum pool_draining_bytes pools"

lemma live_sum_Nil [simp]: "live_sum field [] = 0"
  by (simp add: live_sum_def)

lemma live_sum_Cons [simp]:
  "live_sum field (kv # pools) =
     (if pool_state (snd kv) = PoolState.RETIRED then 0 else unat (field (snd kv))) + live_sum field pools"
  by (simp add: live_sum_def)

lemma add_pool_line_fits:
  assumes "line_fits [kv] g"
  shows "add_pool_line (snd kv) g = audit_pool_line (snd kv) g" and "totals [kv] g (add_pool_line (snd kv) g)"
proof -
  show "add_pool_line (snd kv) g = audit_pool_line (snd kv) g"
  proof (cases "pool_state (snd kv) = PoolState.RETIRED")
    case False
    with assms show ?thesis
      unfolding line_fits_def
      by (simp add: add_pool_line_def audit_pool_line_def keep_checked_def Let_def add_checked_fits)
  qed (simp add: add_pool_line_def audit_pool_line_def)
  moreover have "totals [kv] g (audit_pool_line (snd kv) g)"
  proof (cases "pool_state (snd kv) = PoolState.RETIRED")
    case False
    with assms show ?thesis
      unfolding line_fits_def
      by (simp add: audit_pool_line_def keep_checked_def add_checked_fits totals_def unat_add_u64)
  qed (simp add: audit_pool_line_def totals_def)
  ultimately show "totals [kv] g (add_pool_line (snd kv) g)" by simp
qed

lemma line_fits_Cons: "line_fits (kv # pools) g \<Longrightarrow> line_fits [kv] g"
  by (simp add: line_fits_def)

lemma totals_step: "line_fits (kv # pools) g \<Longrightarrow> totals [kv] g g' \<Longrightarrow> line_fits pools g'"
  by (simp add: line_fits_def totals_def)

lemma totals_trans: "totals [kv] g g' \<Longrightarrow> totals pools g' g'' \<Longrightarrow> totals (kv # pools) g g''"
  by (simp add: totals_def)

text \<open>The engine's recomputation and the audit's own summation agree and are exact where nothing overflows.\<close>

lemma fold_lines_exact:
  "line_fits pools g \<Longrightarrow>
     fold (\<lambda>kv. add_pool_line (snd kv)) pools g = fold (\<lambda>kv. audit_pool_line (snd kv)) pools g \<and>
     totals pools g (fold (\<lambda>kv. add_pool_line (snd kv)) pools g)"
proof (induction pools arbitrary: g)
  case Nil
  show ?case by (simp add: totals_def)
next
  case (Cons kv pools)
  note one = add_pool_line_fits [OF line_fits_Cons [OF Cons.prems]]
  from Cons.IH [OF totals_step [OF Cons.prems one(2)]] one show ?case
    by (auto intro: totals_trans)
qed

lemma global_line_exact:
  assumes "line_fits pools CapacityLine_default"
  shows "totals pools CapacityLine_default (global_line pools)"
  using fold_lines_exact [OF assms] unfolding global_line_def by (rule conjunct2)

lemma audit_ledger_exact:
  assumes "line_fits (st_pools (fab_state f)) CapacityLine_default"
  shows "audit_global_ledger (audit f) = global_line (st_pools (fab_state f))"
  using fold_lines_exact [OF assms] by (simp add: audit_def global_line_def Let_def)

end
