(* ===== verification/Selection.thy ===== *)
theory Selection
  imports Records
begin

text \<open>
  Candidate evaluation (\<^verbatim>\<open>include/cxl_fabric/core/selection.hpp\<close>) with its structured explanation, and
  the authority records (\<^verbatim>\<open>include/cxl_fabric/core/authority.hpp\<close>). A record pointer of a candidate is
  an optional record. \<open>eligible\<close> states the hard constraints as one formula; the lemmas relate the
  cascade of the source to it and say which reasons it can report.
\<close>

section \<open>Authority\<close>

record AuthorityContext =
  ctx_coordinator_epoch :: CoordinatorEpoch
  ctx_policy_generation :: PolicyGeneration
  ctx_worker_boot_id :: WorkerBootId
  ctx_consumer_generation :: ConsumerGeneration

definition AuthorityContext_default :: AuthorityContext where
  [record_defs]: "AuthorityContext_default = \<lparr>ctx_coordinator_epoch = Generation_default,
     ctx_policy_generation = Generation_default, ctx_worker_boot_id = Ident_default,
     ctx_consumer_generation = Generation_default\<rparr>"

record AuthorityTarget =
  tgt_device_generation :: DeviceGeneration
  tgt_device_boot_id :: DeviceBootId
  tgt_region_generation :: RegionGeneration
  tgt_pool_generation :: PoolGeneration
  tgt_reservation_id :: ReservationId

record AuthorityVerdict =
  verdict_allowed :: bool
  verdict_reason :: DecisionReason

definition validate_authority ::
  "AuthorityContext \<Rightarrow> AuthorityTarget \<Rightarrow> bool \<Rightarrow> bool \<Rightarrow> bool \<Rightarrow> bool \<Rightarrow> bool \<Rightarrow> AuthorityVerdict" where
  "validate_authority ctx tgt device_bound region_bound pool_bound reservation_bound worker_authority_required =
     (if gen_empty (ctx_coordinator_epoch ctx) \<or> gen_empty (tgt_device_generation tgt)
      then \<lparr>verdict_allowed = False, verdict_reason = DecisionReason.INVALID_ARGUMENT\<rparr>
      else if worker_authority_required \<and> id_empty (ctx_worker_boot_id ctx)
      then \<lparr>verdict_allowed = False, verdict_reason = DecisionReason.RESERVATION_STALE\<rparr>
      else if reservation_bound \<and> id_empty (tgt_reservation_id tgt)
      then \<lparr>verdict_allowed = False, verdict_reason = DecisionReason.RESERVATION_STALE\<rparr>
      else if device_bound \<and> gen_empty (tgt_device_generation tgt)
      then \<lparr>verdict_allowed = False, verdict_reason = DecisionReason.DEVICE_STALE\<rparr>
      else if region_bound \<and> gen_empty (tgt_region_generation tgt)
      then \<lparr>verdict_allowed = False, verdict_reason = DecisionReason.REGION_STALE\<rparr>
      else if pool_bound \<and> gen_empty (tgt_pool_generation tgt)
      then \<lparr>verdict_allowed = False, verdict_reason = DecisionReason.POOL_STALE\<rparr>
      else \<lparr>verdict_allowed = True, verdict_reason = DecisionReason.OK\<rparr>)"

section \<open>Candidates and results\<close>

record Candidate =
  cand_pool :: PoolId
  cand_pool_generation :: PoolGeneration
  cand_region :: RegionId
  cand_region_generation :: RegionGeneration
  cand_device :: DeviceId
  cand_device_generation :: DeviceGeneration
  cand_available_bytes :: ByteCount
  cand_device_record :: "CxlDevice option"
  cand_region_record :: "CxlRegion option"
  cand_pool_record :: "CxlPool option"

definition Candidate_default :: Candidate where
  [record_defs]: "Candidate_default = \<lparr>cand_pool = Ident_default,
     cand_pool_generation = Generation_default, cand_region = Ident_default,
     cand_region_generation = Generation_default, cand_device = Ident_default,
     cand_device_generation = Generation_default, cand_available_bytes = 0,
     cand_device_record = None, cand_region_record = None, cand_pool_record = None\<rparr>"

record SelectionFactor =
  sf_name :: string
  sf_pass :: bool
  sf_detail :: string

record SelectionResult =
  sr_selected :: bool
  sr_reason :: DecisionReason
  sr_pool :: string
  sr_region :: string
  sr_device :: string
  sr_locality :: string
  sr_free_bytes :: ByteCount
  sr_health :: HealthState
  sr_evidence_current :: bool
  sr_rejections :: "DecisionReason list"
  sr_factors :: "SelectionFactor list"
  sr_explanation :: string

definition SelectionResult_default :: SelectionResult where
  [record_defs]: "SelectionResult_default = \<lparr>sr_selected = False, sr_reason = DecisionReason.OK,
     sr_pool = [], sr_region = [], sr_device = [], sr_locality = [], sr_free_bytes = 0,
     sr_health = HealthState.UNKNOWN, sr_evidence_current = False, sr_rejections = [],
     sr_factors = [], sr_explanation = []\<rparr>"

definition factor :: "string \<Rightarrow> bool \<Rightarrow> string \<Rightarrow> SelectionFactor" where
  "factor name pass detail = \<lparr>sf_name = name, sf_pass = pass, sf_detail = detail\<rparr>"

text \<open>The four statements every rejecting branch of the source repeats.\<close>

definition reject :: "SelectionResult \<Rightarrow> DecisionReason \<Rightarrow> SelectionFactor list \<Rightarrow> SelectionResult" where
  "reject r reason fs = r\<lparr>sr_selected := False, sr_reason := reason,
     sr_rejections := sr_rejections r @ [reason], sr_factors := sr_factors r @ fs\<rparr>"

definition locality_satisfies :: "LocalityClass \<Rightarrow> LocalityClass \<Rightarrow> bool" where
  "locality_satisfies have need \<longleftrightarrow> locality_ordinal have \<le> locality_ordinal need"

section \<open>The cascade of hard constraints\<close>

text \<open>\<open>accept\<close> is the part after the last constraint: it fills in the outcome and the ranking factors.\<close>

definition accept :: "Candidate \<Rightarrow> SelectionResult \<Rightarrow> CxlDevice \<Rightarrow> CxlRegion \<Rightarrow> CxlPool \<Rightarrow> SelectionResult" where
  "accept c r dev reg pool =
     (let econ = dev_economics dev in
      r\<lparr>sr_selected := True,
        sr_reason := DecisionReason.OK,
        sr_pool := id_value (pool_id pool),
        sr_region := id_value (reg_id reg),
        sr_device := id_value (dev_id dev),
        sr_locality := LocalityClass_to_string (econ_locality econ),
        sr_free_bytes := cand_available_bytes c,
        sr_health := dev_health dev,
        sr_evidence_current := dev_evidence_current dev,
        sr_factors := sr_factors r @
          [factor ''locality'' True (LocalityClass_to_string (econ_locality econ)),
           factor ''capacity'' True (to_string_u64 (cand_available_bytes c)),
           factor ''failure_domain'' True (if econ_notes econ = [] then ''n/a'' else econ_notes econ)] @
          (if econ_estimated_latency_ns econ > 0
           then [factor ''latency'' True (to_string_u64 (econ_estimated_latency_ns econ) @ ''ns'')] else []) @
          (if econ_estimated_bandwidth_mbps econ > 0
           then [factor ''bandwidth'' True (to_string_u64 (econ_estimated_bandwidth_mbps econ) @ ''MB/s'')] else [])\<rparr>)"

text \<open>The tests after the record pointers are known to be non-null, in source order.\<close>

definition evaluate_records ::
  "Candidate \<Rightarrow> AdmissionRequest \<Rightarrow> bool \<Rightarrow> SelectionResult \<Rightarrow> CxlDevice \<Rightarrow> CxlRegion \<Rightarrow> CxlPool \<Rightarrow> SelectionResult" where
  "evaluate_records c req pool_ev r dev reg pool =
     (if \<not> dev_evidence_current dev \<or> \<not> reg_evidence_current reg \<or> \<not> pool_ev
      then reject r DecisionReason.EVIDENCE_STALE [factor ''evidence_current'' False ''stale'']
      else if dev_state dev \<noteq> DeviceState.ONLINE
      then reject r DecisionReason.DEVICE_NOT_ONLINE [factor ''device_state'' False (DeviceState_to_string (dev_state dev))]
      else if reg_state reg \<noteq> RegionState.ONLINE
      then reject r DecisionReason.REGION_NOT_ONLINE [factor ''region_state'' False (RegionState_to_string (reg_state reg))]
      else if pool_state pool \<noteq> PoolState.AVAILABLE \<and> pool_state pool \<noteq> PoolState.DEFINED
      then reject r DecisionReason.POOL_STALE [factor ''pool_state'' False (PoolState_to_string (pool_state pool))]
      else if dev_state dev = DeviceState.DRAINING
      then reject r DecisionReason.DRAINING [factor ''device_draining'' False ''true'']
      else if dev_state dev = DeviceState.FAILED \<or> reg_state reg = RegionState.FAILED
      then reject r DecisionReason.FAILED [factor ''device_failed'' False ''true'']
      else if dev_state dev = DeviceState.REVALIDATION_REQUIRED \<or>
              reg_state reg = RegionState.REVALIDATION_REQUIRED \<or>
              pool_state pool = PoolState.REVALIDATION_REQUIRED
      then reject r DecisionReason.REVALIDATION_REQUIRED [factor ''revalidation_required'' False ''true'']
      else if dev_health dev = HealthState.FAILED \<or> dev_health dev = HealthState.POISONED \<or>
              reg_health reg = HealthState.FAILED \<or> reg_health reg = HealthState.POISONED \<or>
              pool_health_summary pool = HealthState.FAILED \<or> pool_health_summary pool = HealthState.POISONED
      then reject r DecisionReason.HEALTH_UNACCEPTABLE [factor ''health'' False (HealthState_to_string (dev_health dev))]
      else if cand_available_bytes c < req_bytes req
      then reject r DecisionReason.CAPACITY_INSUFFICIENT [factor ''capacity'' False (to_string_u64 (cand_available_bytes c))]
      else if req_require_persistence req \<and> dev_volatility dev \<noteq> VolatilityKind.PERSISTENT
      then reject r DecisionReason.VOLATILITY_MISMATCH [factor ''volatility'' False (VolatilityKind_to_string (dev_volatility dev))]
      else if req_volatility req \<noteq> VolatilityKind.UNKNOWN \<and> dev_volatility dev \<noteq> VolatilityKind.UNKNOWN \<and>
              req_volatility req \<noteq> dev_volatility dev
      then reject r DecisionReason.VOLATILITY_MISMATCH [factor ''volatility'' False (VolatilityKind_to_string (dev_volatility dev))]
      else if \<not> id_empty (req_host req) \<and> \<not> id_empty (dev_host dev) \<and> req_host req \<noteq> dev_host dev
      then reject r DecisionReason.HOST_INCOMPATIBLE [factor ''host'' False (id_value (dev_host dev))]
      else if req_sharing req \<noteq> SharingMode.UNKNOWN \<and> dev_sharing dev \<noteq> SharingMode.UNKNOWN \<and>
              req_sharing req \<noteq> dev_sharing dev
      then reject r DecisionReason.SHARING_MISMATCH [factor ''sharing'' False (SharingMode_to_string (dev_sharing dev))]
      else if (case req_required_pool req of None \<Rightarrow> False | Some p \<Rightarrow> p \<noteq> pool_id pool)
      then reject r DecisionReason.POOL_STALE [factor ''required_pool'' False (id_value (pool_id pool))]
      else if (case req_minimum_locality req of None \<Rightarrow> False
               | Some l \<Rightarrow> \<not> locality_satisfies (econ_locality (dev_economics dev)) l)
      then reject r DecisionReason.REQUIRED_LOCALITY_UNSATISFIED
             [factor ''locality'' False (LocalityClass_to_string (econ_locality (dev_economics dev)))]
      else if (case req_required_tier req of None \<Rightarrow> False | Some t \<Rightarrow> reg_tier reg \<noteq> t)
      then reject r DecisionReason.POLICY_DENIED [factor ''tier'' False (TierClass_to_string (reg_tier reg))]
      else if (case req_accelerator_access req of None \<Rightarrow> False | Some need \<Rightarrow> need \<noteq> dev_accelerator_access dev)
      then reject r DecisionReason.ACCELERATOR_ACCESS_UNSATISFIED
             [factor ''accelerator_access'' False (AcceleratorAccessState_to_string (dev_accelerator_access dev))]
      else if req_minimum_bandwidth_mbps req > 0 \<and> econ_estimated_bandwidth_mbps (dev_economics dev) \<noteq> 0 \<and>
              econ_estimated_bandwidth_mbps (dev_economics dev) < req_minimum_bandwidth_mbps req
      then reject r DecisionReason.POLICY_DENIED
             [factor ''bandwidth'' False (to_string_u64 (econ_estimated_bandwidth_mbps (dev_economics dev)))]
      else if req_maximum_latency_ns req > 0 \<and> econ_estimated_latency_ns (dev_economics dev) \<noteq> 0 \<and>
              econ_estimated_latency_ns (dev_economics dev) > req_maximum_latency_ns req
      then reject r DecisionReason.POLICY_DENIED
             [factor ''latency'' False (to_string_u64 (econ_estimated_latency_ns (dev_economics dev)))]
      else accept c r dev reg pool)"

definition evaluate_candidate :: "Candidate \<Rightarrow> AdmissionRequest \<Rightarrow> bool \<Rightarrow> SelectionResult" where
  "evaluate_candidate c req pool_ev =
     (let r = SelectionResult_default\<lparr>sr_selected := True,
                sr_factors := [factor ''pool'' True (id_value (cand_pool c)),
                               factor ''region'' True (id_value (cand_region c)),
                               factor ''device'' True (id_value (cand_device c))]\<rparr> in
      case (cand_device_record c, cand_region_record c, cand_pool_record c) of
        (Some dev, Some reg, Some pool) \<Rightarrow> evaluate_records c req pool_ev r dev reg pool
      | _ \<Rightarrow> reject r DecisionReason.UNKNOWN_ERROR [])"

section \<open>The constraints as one formula\<close>

text \<open>What a request demands of a device, region and pool; an unknown fact of the device passes.\<close>

definition request_fits :: "AdmissionRequest \<Rightarrow> CxlDevice \<Rightarrow> CxlRegion \<Rightarrow> CxlPool \<Rightarrow> bool" where
  "request_fits req dev reg pool \<longleftrightarrow>
     (req_require_persistence req \<longrightarrow> dev_volatility dev = VolatilityKind.PERSISTENT) \<and>
     (req_volatility req = VolatilityKind.UNKNOWN \<or> dev_volatility dev = VolatilityKind.UNKNOWN \<or>
        req_volatility req = dev_volatility dev) \<and>
     (id_empty (req_host req) \<or> id_empty (dev_host dev) \<or> req_host req = dev_host dev) \<and>
     (req_sharing req = SharingMode.UNKNOWN \<or> dev_sharing dev = SharingMode.UNKNOWN \<or> req_sharing req = dev_sharing dev) \<and>
     (\<forall>p. req_required_pool req = Some p \<longrightarrow> p = pool_id pool) \<and>
     (\<forall>l. req_minimum_locality req = Some l \<longrightarrow>
        locality_ordinal (econ_locality (dev_economics dev)) \<le> locality_ordinal l) \<and>
     (\<forall>t. req_required_tier req = Some t \<longrightarrow> reg_tier reg = t) \<and>
     (\<forall>a. req_accelerator_access req = Some a \<longrightarrow> a = dev_accelerator_access dev) \<and>
     (req_minimum_bandwidth_mbps req = 0 \<or> econ_estimated_bandwidth_mbps (dev_economics dev) = 0 \<or>
        req_minimum_bandwidth_mbps req \<le> econ_estimated_bandwidth_mbps (dev_economics dev)) \<and>
     (req_maximum_latency_ns req = 0 \<or> econ_estimated_latency_ns (dev_economics dev) = 0 \<or>
        econ_estimated_latency_ns (dev_economics dev) \<le> req_maximum_latency_ns req)"

definition acceptable_health :: "HealthState \<Rightarrow> bool" where
  "acceptable_health h \<longleftrightarrow> h \<noteq> HealthState.FAILED \<and> h \<noteq> HealthState.POISONED"

definition in_service :: "CxlDevice \<Rightarrow> CxlRegion \<Rightarrow> CxlPool \<Rightarrow> bool \<Rightarrow> bool" where
  "in_service dev reg pool pool_ev \<longleftrightarrow>
     reg_evidence_current reg \<and> dev_evidence_current dev \<and> pool_ev \<and>
     dev_state dev = DeviceState.ONLINE \<and> reg_state reg = RegionState.ONLINE \<and>
     (pool_state pool = PoolState.AVAILABLE \<or> pool_state pool = PoolState.DEFINED) \<and>
     acceptable_health (dev_health dev) \<and> acceptable_health (reg_health reg) \<and>
     acceptable_health (pool_health_summary pool)"

definition eligible :: "Candidate \<Rightarrow> AdmissionRequest \<Rightarrow> bool \<Rightarrow> bool" where
  "eligible c req pool_ev \<longleftrightarrow>
     (\<exists>dev reg pool. cand_device_record c = Some dev \<and> cand_region_record c = Some reg \<and>
        cand_pool_record c = Some pool \<and> in_service dev reg pool pool_ev \<and>
        req_bytes req \<le> cand_available_bytes c \<and> request_fits req dev reg pool)"

section \<open>The cascade decides exactly these constraints\<close>

lemma reject_simps [simp]:
  "sr_selected (reject r reason fs) = False" "sr_reason (reject r reason fs) = reason"
  "sr_rejections (reject r reason fs) = sr_rejections r @ [reason]"
  "sr_pool (reject r reason fs) = sr_pool r" "sr_region (reject r reason fs) = sr_region r"
  "sr_device (reject r reason fs) = sr_device r"
  by (simp_all add: reject_def)

lemma accept_simps [simp]:
  "sr_selected (accept c r dev reg pool)" "sr_reason (accept c r dev reg pool) = DecisionReason.OK"
  "sr_rejections (accept c r dev reg pool) = sr_rejections r"
  "sr_pool (accept c r dev reg pool) = id_value (pool_id pool)"
  "sr_region (accept c r dev reg pool) = id_value (reg_id reg)"
  "sr_device (accept c r dev reg pool) = id_value (dev_id dev)"
  "sr_free_bytes (accept c r dev reg pool) = cand_available_bytes c"
  by (simp_all add: accept_def Let_def)

lemma if_reject_selected [simp]:
  "sr_selected (if b then reject r reason fs else x) \<longleftrightarrow> \<not> b \<and> sr_selected x"
  by simp

lemma case_demand [simp]: "(case x of None \<Rightarrow> False | Some a \<Rightarrow> P a) \<longleftrightarrow> \<not> (\<forall>a. x = Some a \<longrightarrow> \<not> P a)"
  by (cases x) auto

lemma evaluate_records_selected:
  "sr_selected (evaluate_records c req pe r dev reg pool) \<longleftrightarrow>
     in_service dev reg pool pe \<and> req_bytes req \<le> cand_available_bytes c \<and> request_fits req dev reg pool"
  unfolding evaluate_records_def if_reject_selected accept_simps in_service_def request_fits_def
    locality_satisfies_def acceptable_health_def
  by (cases "pool_state pool") (simp_all add: not_less not_le word_gt_0 conj_assoc cong: conj_cong)

lemma selected_if_reject:
  "(sr_selected x \<longrightarrow> x = a) \<Longrightarrow>
     (sr_selected (if b then reject r reason fs else x) \<longrightarrow> (if b then reject r reason fs else x) = a)"
  by simp

lemma evaluate_records_accepts:
  "sr_selected (evaluate_records c req pe r dev reg pool) \<longrightarrow>
     evaluate_records c req pe r dev reg pool = accept c r dev reg pool"
  unfolding evaluate_records_def by (intro selected_if_reject) simp

lemma evaluate_candidate_cases:
  obtains (null) r where "evaluate_candidate c req pe = reject r DecisionReason.UNKNOWN_ERROR []"
      "sr_rejections r = []" "\<not> eligible c req pe"
    | (records) r dev reg pool where
      "evaluate_candidate c req pe = evaluate_records c req pe r dev reg pool" "sr_rejections r = []"
      "cand_device_record c = Some dev" "cand_region_record c = Some reg" "cand_pool_record c = Some pool"
  unfolding evaluate_candidate_def Let_def eligible_def
  by (cases "cand_device_record c"; cases "cand_region_record c"; cases "cand_pool_record c")
    (auto simp: SelectionResult_default_def)

lemma evaluate_selected: "sr_selected (evaluate_candidate c req pe) \<longleftrightarrow> eligible c req pe"
proof (cases rule: evaluate_candidate_cases [of c req pe])
  case null
  then show ?thesis by simp
next
  case (records r dev reg pool)
  then show ?thesis by (simp add: evaluate_records_selected eligible_def)
qed

text \<open>The reasons the cascade can report. The draining, failed and revalidation tests come after the
  test for an online device and region and can never be reached.\<close>

definition reported_reasons :: "DecisionReason set" where
  "reported_reasons = {DecisionReason.EVIDENCE_STALE, DecisionReason.DEVICE_NOT_ONLINE,
     DecisionReason.REGION_NOT_ONLINE, DecisionReason.POOL_STALE, DecisionReason.HEALTH_UNACCEPTABLE,
     DecisionReason.CAPACITY_INSUFFICIENT, DecisionReason.VOLATILITY_MISMATCH,
     DecisionReason.HOST_INCOMPATIBLE, DecisionReason.SHARING_MISMATCH,
     DecisionReason.REQUIRED_LOCALITY_UNSATISFIED, DecisionReason.POLICY_DENIED,
     DecisionReason.ACCELERATOR_ACCESS_UNSATISFIED}"

definition explains :: "SelectionResult \<Rightarrow> DecisionReason set \<Rightarrow> bool" where
  "explains s reasons \<longleftrightarrow>
     (if sr_selected s then sr_reason s = DecisionReason.OK \<and> sr_rejections s = []
      else sr_reason s \<in> reasons \<and> sr_rejections s = [sr_reason s])"

lemma explains_if: "(b \<Longrightarrow> explains x R) \<Longrightarrow> (\<not> b \<Longrightarrow> explains y R) \<Longrightarrow> explains (if b then x else y) R"
  by simp

lemma explains_reject: "sr_rejections r = [] \<Longrightarrow> reason \<in> R \<Longrightarrow> explains (reject r reason fs) R"
  by (simp add: explains_def)

lemma explains_accept: "sr_rejections r = [] \<Longrightarrow> explains (accept c r dev reg pool) R"
  by (simp add: explains_def)

lemma evaluate_records_explains:
  assumes "sr_rejections r = []"
  shows "explains (evaluate_records c req pe r dev reg pool) reported_reasons"
  unfolding evaluate_records_def
  by (intro explains_if explains_reject explains_accept assms)
    (auto simp: reported_reasons_def simp del: case_demand)

lemma evaluate_explains:
  "explains (evaluate_candidate c req pe) (insert DecisionReason.UNKNOWN_ERROR reported_reasons)"
proof (cases rule: evaluate_candidate_cases [of c req pe])
  case null
  then show ?thesis by (simp add: explains_def)
next
  case (records r dev reg pool)
  then show ?thesis
    using evaluate_records_explains [of r c req pe dev reg pool] by (auto simp: explains_def)
qed

end
