(* ===== verification/Registry.thy ===== *)
theory Registry
  imports Fabric_State Lifecycle Selection
begin

text \<open>
  The registries of the governance engine (\<^verbatim>\<open>src/core/fabric.cpp\<close>, lines 138--346 and 643--700): devices,
  regions, pools, their lifecycle marks, revalidation, and the export and import of the structural
  state. A method that returns a \<^verbatim>\<open>DecisionReason\<close> is a function to that reason and the state after it.
\<close>

section \<open>Devices\<close>

definition register_device :: "CxlDevice \<Rightarrow> AuthorityContext \<Rightarrow> Fabric \<Rightarrow> DecisionReason \<times> Fabric" where
  [fabric_defs]: "register_device dev ctx f =
     (if ctx_coordinator_epoch ctx \<noteq> epoch f then (DecisionReason.RESERVATION_STALE, f)
      else if id_empty (dev_id dev) \<or> gen_empty (dev_generation dev) \<or> id_empty (dev_boot_id dev)
      then (DecisionReason.INVALID_ARGUMENT, f)
      else case find_device f (dev_id dev) of
        None \<Rightarrow> (DecisionReason.OK, put_device (dev_id dev) dev f)
      | Some existing \<Rightarrow>
          if dev_generation existing = dev_generation dev
          then (if dev_vendor_device_id existing \<noteq> dev_vendor_device_id dev then (DecisionReason.CONFLICTING_FACTS, f)
                else if dev_total_physical_bytes existing \<noteq> dev_total_physical_bytes dev
                then (DecisionReason.CONFLICTING_FACTS, f)
                else (DecisionReason.OK, put_device (dev_id dev) dev f))
          else if dev_generation dev < dev_generation existing then (DecisionReason.DEVICE_STALE, f)
          else if \<not> valid_transition_device (dev_state existing) (dev_state dev)
          then (DecisionReason.INVALID_ARGUMENT, f)
          else (DecisionReason.OK, put_device (dev_id dev) dev f))"

definition mark_device_revalidation :: "DeviceId \<Rightarrow> AuthorityContext \<Rightarrow> Fabric \<Rightarrow> DecisionReason \<times> Fabric" where
  [fabric_defs]: "mark_device_revalidation d ctx f =
     (if ctx_coordinator_epoch ctx \<noteq> epoch f then (DecisionReason.RESERVATION_STALE, f)
      else case find_device f d of
        None \<Rightarrow> (DecisionReason.DEVICE_NOT_ONLINE, f)
      | Some dev \<Rightarrow>
          if \<not> valid_transition_device (dev_state dev) DeviceState.REVALIDATION_REQUIRED
          then (DecisionReason.INVALID_ARGUMENT, f)
          else (DecisionReason.OK,
                put_device d (dev\<lparr>dev_state := DeviceState.REVALIDATION_REQUIRED, dev_evidence_current := False\<rparr>) f))"

definition mark_device_online :: "DeviceId \<Rightarrow> AuthorityContext \<Rightarrow> Fabric \<Rightarrow> DecisionReason \<times> Fabric" where
  [fabric_defs]: "mark_device_online d ctx f =
     (if ctx_coordinator_epoch ctx \<noteq> epoch f then (DecisionReason.RESERVATION_STALE, f)
      else case find_device f d of
        None \<Rightarrow> (DecisionReason.DEVICE_NOT_ONLINE, f)
      | Some dev \<Rightarrow>
          if \<not> valid_transition_device (dev_state dev) DeviceState.ONLINE
          then (DecisionReason.INVALID_ARGUMENT, f)
          else (DecisionReason.OK,
                put_device d (dev\<lparr>dev_state := DeviceState.ONLINE, dev_evidence_current := True\<rparr>) f))"

section \<open>Regions\<close>

definition has_member :: "CxlPool \<Rightarrow> DeviceId \<Rightarrow> bool" where
  "has_member pool d \<longleftrightarrow> (\<exists>m \<in> set (pool_members pool). pm_device m = d)"

text \<open>The loop of \<^verbatim>\<open>create_region\<close> over the member devices: the first objection, if any.\<close>

fun check_region_members :: "Fabric \<Rightarrow> CxlPool \<Rightarrow> DeviceId list \<Rightarrow> DecisionReason option" where
  "check_region_members f pool [] = None"
| "check_region_members f pool (d # ds) =
     (if \<not> om_count (st_devices (fab_state f)) d then Some DecisionReason.DEVICE_NOT_ONLINE
      else if \<not> has_member pool d then Some DecisionReason.CONFLICTING_FACTS
      else check_region_members f pool ds)"

definition create_region :: "CxlRegion \<Rightarrow> AuthorityContext \<Rightarrow> Fabric \<Rightarrow> DecisionReason \<times> Fabric" where
  [fabric_defs]: "create_region region ctx f =
     (if ctx_coordinator_epoch ctx \<noteq> epoch f then (DecisionReason.RESERVATION_STALE, f)
      else if id_empty (reg_id region) \<or> gen_empty (reg_generation region) \<or> id_empty (reg_pool region)
      then (DecisionReason.INVALID_ARGUMENT, f)
      else if om_count (st_regions (fab_state f)) (reg_id region) then (DecisionReason.DUPLICATE_IDENTITY, f)
      else case find_pool f (reg_pool region) of
        None \<Rightarrow> (DecisionReason.POOL_STALE, f)
      | Some pool \<Rightarrow>
          (case check_region_members f pool (reg_member_devices region) of
             Some r \<Rightarrow> (r, f)
           | None \<Rightarrow> (DecisionReason.OK, put_region (reg_id region) region f)))"

definition update_region :: "CxlRegion \<Rightarrow> AuthorityContext \<Rightarrow> Fabric \<Rightarrow> DecisionReason \<times> Fabric" where
  [fabric_defs]: "update_region region ctx f =
     (if ctx_coordinator_epoch ctx \<noteq> epoch f then (DecisionReason.RESERVATION_STALE, f)
      else case find_region f (reg_id region) of
        None \<Rightarrow> (DecisionReason.REGION_STALE, f)
      | Some existing \<Rightarrow>
          if reg_generation region < reg_generation existing then (DecisionReason.REGION_STALE, f)
          else (DecisionReason.OK, put_region (reg_id region) region f))"

record ReconfigureOutcome =
  rc_ok :: bool
  rc_reason :: DecisionReason
  rc_new_generation :: RegionGeneration

definition ReconfigureOutcome_default :: ReconfigureOutcome where
  [record_defs]: "ReconfigureOutcome_default =
     \<lparr>rc_ok = False, rc_reason = DecisionReason.OK, rc_new_generation = Generation_default\<rparr>"

definition reconfigure_region ::
  "RegionId \<Rightarrow> DeviceId list \<Rightarrow> AuthorityContext \<Rightarrow> Fabric \<Rightarrow> ReconfigureOutcome \<times> Fabric" where
  [fabric_defs]: "reconfigure_region k new_members ctx f =
     (let out = ReconfigureOutcome_default in
      if ctx_coordinator_epoch ctx \<noteq> epoch f
      then (out\<lparr>rc_reason := DecisionReason.RESERVATION_STALE\<rparr>, f)
      else case find_region f k of
        None \<Rightarrow> (out\<lparr>rc_reason := DecisionReason.REGION_STALE\<rparr>, f)
      | Some region \<Rightarrow>
          let ng = gen_next (reg_generation region) in
          if gen_empty ng then (out\<lparr>rc_reason := DecisionReason.INVALID_ARGUMENT\<rparr>, f)
          else (out\<lparr>rc_ok := True, rc_new_generation := ng\<rparr>,
                put_region k (region\<lparr>reg_generation := ng, reg_member_devices := new_members,
                  reg_state := RegionState.RECONFIGURING, reg_evidence_current := False\<rparr>) f))"

definition mark_region_draining :: "RegionId \<Rightarrow> AuthorityContext \<Rightarrow> Fabric \<Rightarrow> DecisionReason \<times> Fabric" where
  [fabric_defs]: "mark_region_draining k ctx f =
     (if ctx_coordinator_epoch ctx \<noteq> epoch f then (DecisionReason.RESERVATION_STALE, f)
      else case find_region f k of
        None \<Rightarrow> (DecisionReason.REGION_STALE, f)
      | Some region \<Rightarrow>
          if \<not> valid_transition_region (reg_state region) RegionState.DRAINING
          then (DecisionReason.INVALID_ARGUMENT, f)
          else (DecisionReason.OK, put_region k (region\<lparr>reg_state := RegionState.DRAINING\<rparr>) f))"

definition revalidate_region :: "RegionId \<Rightarrow> AuthorityContext \<Rightarrow> Fabric \<Rightarrow> DecisionReason \<times> Fabric" where
  [fabric_defs]: "revalidate_region k ctx f =
     (if ctx_coordinator_epoch ctx \<noteq> epoch f then (DecisionReason.RESERVATION_STALE, f)
      else case find_region f k of
        None \<Rightarrow> (DecisionReason.REGION_STALE, f)
      | Some region \<Rightarrow>
          if \<not> valid_transition_region (reg_state region) RegionState.ONLINE
          then (DecisionReason.INVALID_ARGUMENT, f)
          else (DecisionReason.OK,
                put_region k (region\<lparr>reg_state := RegionState.ONLINE, reg_evidence_current := True,
                  reg_health := HealthState.HEALTHY\<rparr>) f))"

section \<open>Pools\<close>

text \<open>The loop of \<^verbatim>\<open>create_pool\<close> over the members, with the devices it has seen so far.\<close>

fun check_pool_members :: "Fabric \<Rightarrow> DeviceId list \<Rightarrow> PoolMember list \<Rightarrow> DecisionReason option" where
  "check_pool_members f seen [] = None"
| "check_pool_members f seen (m # ms) =
     (if \<not> om_count (st_devices (fab_state f)) (pm_device m) then Some DecisionReason.DEVICE_NOT_ONLINE
      else if pm_device m \<in> set seen then Some DecisionReason.DUPLICATE_IDENTITY
      else if \<exists>kv \<in> set (st_pools (fab_state f)). has_member (snd kv) (pm_device m)
      then Some DecisionReason.CONFLICTING_FACTS
      else check_pool_members f (seen @ [pm_device m]) ms)"

definition create_pool :: "CxlPool \<Rightarrow> AuthorityContext \<Rightarrow> Fabric \<Rightarrow> DecisionReason \<times> Fabric" where
  [fabric_defs]: "create_pool pool ctx f =
     (if ctx_coordinator_epoch ctx \<noteq> epoch f then (DecisionReason.RESERVATION_STALE, f)
      else if id_empty (pool_id pool) \<or> gen_empty (pool_generation pool) then (DecisionReason.INVALID_ARGUMENT, f)
      else if om_count (st_pools (fab_state f)) (pool_id pool) then (DecisionReason.DUPLICATE_IDENTITY, f)
      else case check_pool_members f [] (pool_members pool) of
        Some r \<Rightarrow> (r, f)
      | None \<Rightarrow>
          let copy = (recompute_pool pool)\<lparr>pool_state := PoolState.AVAILABLE, pool_evidence_current := True\<rparr> in
          (DecisionReason.OK, recompute_global (put_pool (pool_id copy) copy f)))"

text \<open>What every membership change does with the pool it has edited.\<close>

definition advance_pool :: "CxlPool \<Rightarrow> CxlPool" where
  "advance_pool pool =
     (let ng = gen_next (pool_generation pool) in
      recompute_pool (pool\<lparr>pool_generation := (if gen_empty ng then pool_generation pool else ng)\<rparr>))"

definition add_pool_member ::
  "PoolId \<Rightarrow> PoolMember \<Rightarrow> AuthorityContext \<Rightarrow> Fabric \<Rightarrow> DecisionReason \<times> Fabric" where
  [fabric_defs]: "add_pool_member k member ctx f =
     (if ctx_coordinator_epoch ctx \<noteq> epoch f then (DecisionReason.RESERVATION_STALE, f)
      else case find_pool f k of
        None \<Rightarrow> (DecisionReason.POOL_STALE, f)
      | Some pool \<Rightarrow>
          if \<not> om_count (st_devices (fab_state f)) (pm_device member) then (DecisionReason.DEVICE_NOT_ONLINE, f)
          else if gen_empty (pm_device_generation member) then (DecisionReason.INVALID_ARGUMENT, f)
          else if has_member pool (pm_device member) then (DecisionReason.DUPLICATE_IDENTITY, f)
          else if \<exists>kv \<in> set (st_pools (fab_state f)). fst kv \<noteq> k \<and> has_member (snd kv) (pm_device member)
          then (DecisionReason.CONFLICTING_FACTS, f)
          else (DecisionReason.OK, recompute_global
                 (put_pool k (advance_pool (pool\<lparr>pool_members := pool_members pool @ [member]\<rparr>)) f)))"

text \<open>\<^verbatim>\<open>std::find_if\<close> and \<^verbatim>\<open>erase\<close>: drop the first member with the device.\<close>

fun erase_member :: "DeviceId \<Rightarrow> PoolMember list \<Rightarrow> PoolMember list" where
  "erase_member d [] = []"
| "erase_member d (m # ms) = (if pm_device m = d then ms else m # erase_member d ms)"

definition remove_pool_member ::
  "PoolId \<Rightarrow> DeviceId \<Rightarrow> AuthorityContext \<Rightarrow> Fabric \<Rightarrow> DecisionReason \<times> Fabric" where
  [fabric_defs]: "remove_pool_member k device ctx f =
     (if ctx_coordinator_epoch ctx \<noteq> epoch f then (DecisionReason.RESERVATION_STALE, f)
      else case find_pool f k of
        None \<Rightarrow> (DecisionReason.POOL_STALE, f)
      | Some pool \<Rightarrow>
          if \<not> has_member pool device then (DecisionReason.DEVICE_NOT_ONLINE, f)
          else (DecisionReason.OK, recompute_global
                 (put_pool k (advance_pool (pool\<lparr>pool_members := erase_member device (pool_members pool)\<rparr>)) f)))"

definition mark_pool_draining :: "PoolId \<Rightarrow> AuthorityContext \<Rightarrow> Fabric \<Rightarrow> DecisionReason \<times> Fabric" where
  [fabric_defs]: "mark_pool_draining k ctx f =
     (if ctx_coordinator_epoch ctx \<noteq> epoch f then (DecisionReason.RESERVATION_STALE, f)
      else case find_pool f k of
        None \<Rightarrow> (DecisionReason.POOL_STALE, f)
      | Some pool \<Rightarrow>
          if \<not> valid_transition_pool (pool_state pool) PoolState.DRAINING
          then (DecisionReason.INVALID_ARGUMENT, f)
          else (DecisionReason.OK, put_pool k (pool\<lparr>pool_state := PoolState.DRAINING\<rparr>) f))"

definition reconcile_pool :: "PoolId \<Rightarrow> AuthorityContext \<Rightarrow> Fabric \<Rightarrow> DecisionReason \<times> Fabric" where
  [fabric_defs]: "reconcile_pool k ctx f =
     (if ctx_coordinator_epoch ctx \<noteq> epoch f then (DecisionReason.RESERVATION_STALE, f)
      else case find_pool f k of
        None \<Rightarrow> (DecisionReason.POOL_STALE, f)
      | Some pool \<Rightarrow> (DecisionReason.OK, recompute_global (put_pool k (recompute_pool pool) f)))"

definition revalidate_pool :: "PoolId \<Rightarrow> AuthorityContext \<Rightarrow> Fabric \<Rightarrow> DecisionReason \<times> Fabric" where
  [fabric_defs]: "revalidate_pool k ctx f =
     (if ctx_coordinator_epoch ctx \<noteq> epoch f then (DecisionReason.RESERVATION_STALE, f)
      else case find_pool f k of
        None \<Rightarrow> (DecisionReason.POOL_STALE, f)
      | Some pool \<Rightarrow>
          if \<not> valid_transition_pool (pool_state pool) PoolState.AVAILABLE
          then (DecisionReason.INVALID_ARGUMENT, f)
          else (DecisionReason.OK, recompute_global
                 (put_pool k (recompute_pool (pool\<lparr>pool_state := PoolState.AVAILABLE,
                    pool_evidence_current := True, pool_health_summary := HealthState.HEALTHY\<rparr>)) f)))"

section \<open>Export and import of the structural state\<close>

record PersistedState =
  ps_policy_generation :: PolicyGeneration
  ps_devices :: "(DeviceId, CxlDevice) omap"
  ps_regions :: "(RegionId, CxlRegion) omap"
  ps_pools :: "(PoolId, CxlPool) omap"

definition export_persisted :: "Fabric \<Rightarrow> PersistedState" where
  "export_persisted f = \<lparr>ps_policy_generation = st_policy_generation (fab_state f),
     ps_devices = st_devices (fab_state f), ps_regions = st_regions (fab_state f),
     ps_pools = st_pools (fab_state f)\<rparr>"

definition fence_device :: "CxlDevice \<Rightarrow> CxlDevice" where
  "fence_device d = d\<lparr>dev_evidence_current := False, dev_state := DeviceState.REVALIDATION_REQUIRED,
     dev_health := HealthState.UNKNOWN\<rparr>"

definition fence_region :: "CxlRegion \<Rightarrow> CxlRegion" where
  "fence_region r = r\<lparr>reg_evidence_current := False, reg_state := RegionState.REVALIDATION_REQUIRED\<rparr>"

definition fence_pool :: "CxlPool \<Rightarrow> CxlPool" where
  "fence_pool p = p\<lparr>pool_evidence_current := False, pool_state := PoolState.REVALIDATION_REQUIRED\<rparr>"

definition import_persisted :: "PersistedState \<Rightarrow> Fabric \<Rightarrow> Fabric" where
  [fabric_defs]: "import_persisted ps f = recompute_global (f\<lparr>fab_state := (fab_state f)
     \<lparr>st_policy_generation := ps_policy_generation ps,
      st_devices := om_map fence_device (ps_devices ps),
      st_regions := om_map fence_region (ps_regions ps),
      st_pools := om_map fence_pool (ps_pools ps),
      st_reservations := []\<rparr>\<rparr>)"

end
