(* ===== verification/Stable_Sort.thy ===== *)
theory Stable_Sort
  imports Prelude "HOL-Library.Multiset"
begin

text \<open>
  \<^verbatim>\<open>std::stable_sort\<close> with a comparison function. The locale \<open>strict_weak_order\<close> is what the standard
  demands of the comparison; inside it the insertion sort below is shown to be sorted, a permutation
  and stable, and to be the only list with these three properties. So whichever algorithm an
  implementation uses, it returns this list. The locale \<open>key_order\<close> is the usual way to meet the
  demand, a comparison of keys in a linear order.
\<close>

fun stable_insert :: "('a \<Rightarrow> 'a \<Rightarrow> bool) \<Rightarrow> 'a \<Rightarrow> 'a list \<Rightarrow> 'a list" where
  "stable_insert lt x [] = [x]"
| "stable_insert lt x (y # ys) = (if lt y x then y # stable_insert lt x ys else x # y # ys)"

definition stable_sort :: "('a \<Rightarrow> 'a \<Rightarrow> bool) \<Rightarrow> 'a list \<Rightarrow> 'a list" where
  "stable_sort lt xs = foldr (stable_insert lt) xs []"

lemma stable_sort_Nil [simp]: "stable_sort lt [] = []"
  by (simp add: stable_sort_def)

lemma stable_sort_Cons [simp]: "stable_sort lt (x # xs) = stable_insert lt x (stable_sort lt xs)"
  by (simp add: stable_sort_def)

lemma mset_stable_insert: "mset (stable_insert lt x xs) = add_mset x (mset xs)"
  by (induction xs) auto

lemma mset_stable_sort [simp]: "mset (stable_sort lt xs) = mset xs"
  by (induction xs) (auto simp: mset_stable_insert)

lemma set_stable_sort [simp]: "set (stable_sort lt xs) = set xs"
  by (metis mset_stable_sort set_mset_mset)

lemma set_stable_insert: "set (stable_insert lt x xs) = insert x (set xs)"
  by (metis mset_stable_insert set_mset_add_mset_insert set_mset_mset)

lemma stable_sort_eq_Nil [simp]: "stable_sort lt xs = [] \<longleftrightarrow> xs = []"
  by (metis set_empty set_stable_sort)

locale strict_weak_order =
  fixes lt :: "'a \<Rightarrow> 'a \<Rightarrow> bool"
  assumes asym: "lt a b \<Longrightarrow> \<not> lt b a"
    and neg_trans: "\<not> lt a b \<Longrightarrow> \<not> lt b c \<Longrightarrow> \<not> lt a c"
begin

abbreviation eqv :: "'a \<Rightarrow> 'a \<Rightarrow> bool" where
  "eqv a b \<equiv> \<not> lt a b \<and> \<not> lt b a"

abbreviation ordered :: "'a list \<Rightarrow> bool" where
  "ordered \<equiv> sorted_wrt (\<lambda>a b. \<not> lt b a)"

lemma irrefl: "\<not> lt a a"
  using asym by blast

lemma ordered_insert: "ordered xs \<Longrightarrow> ordered (stable_insert lt x xs)"
proof (induction xs)
  case Nil
  show ?case by simp
next
  case (Cons y ys)
  show ?case
  proof (cases "lt y x")
    case True
    with Cons show ?thesis by (simp add: set_stable_insert asym)
  next
    case False
    moreover have "\<not> lt z x" if "z \<in> set ys" for z
      using neg_trans [of z y x] False that Cons.prems by simp
    ultimately show ?thesis using Cons.prems by simp
  qed
qed

lemma ordered_sort: "ordered (stable_sort lt xs)"
  by (induction xs) (auto intro: ordered_insert)

lemma filter_insert_other: "\<not> eqv k x \<Longrightarrow> filter (eqv k) (stable_insert lt x xs) = filter (eqv k) xs"
  by (induction xs) auto

lemma filter_insert_same: "ordered xs \<Longrightarrow> eqv k x \<Longrightarrow> filter (eqv k) (stable_insert lt x xs) = x # filter (eqv k) xs"
proof (induction xs)
  case Nil
  then show ?case by simp
next
  case (Cons y ys)
  have "\<not> eqv k y" if "lt y x"
    using that Cons.prems(2) neg_trans by blast
  with Cons show ?case by auto
qed

text \<open>Equivalent elements keep their order.\<close>

lemma sort_stable: "filter (eqv k) (stable_sort lt xs) = filter (eqv k) xs"
proof (induction xs)
  case Nil
  show ?case by simp
next
  case (Cons x xs)
  then show ?case
    by (cases "eqv k x") (auto simp: filter_insert_same [OF ordered_sort] filter_insert_other)
qed

lemma hd_minimal: "x \<in> set xs \<Longrightarrow> \<not> lt x (hd (stable_sort lt xs))"
proof -
  assume "x \<in> set xs"
  then have "x \<in> set (stable_sort lt xs)" by simp
  then show ?thesis
    using ordered_sort [of xs] irrefl by (cases "stable_sort lt xs") auto
qed

lemma ordered_stable_unique:
  "ordered ys \<Longrightarrow> ordered zs \<Longrightarrow> (\<And>k. filter (eqv k) ys = filter (eqv k) zs) \<Longrightarrow> ys = zs"
proof (induction ys arbitrary: zs)
  case Nil
  have "z \<notin> set zs" for z
    using Nil.prems(3) [of z] irrefl by (metis filter.simps(1) filter_empty_conv)
  then show ?case by (metis last_in_set)
next
  case (Cons y ys)
  have "set (filter (eqv y) zs) = set (filter (eqv y) (y # ys))"
    by (simp only: Cons.prems(3))
  then have y_in: "y \<in> set zs" using irrefl by auto
  then obtain z zs' where zs: "zs = z # zs'" by (cases zs) auto
  have "set (filter (eqv z) (y # ys)) = set (filter (eqv z) zs)"
    by (simp only: Cons.prems(3))
  then have "z \<in> set (filter (eqv z) (y # ys))" using irrefl zs by simp
  then have z_in: "z \<in> set (y # ys)" unfolding set_filter by blast
  have "\<not> lt z y" using Cons.prems(1) z_in irrefl by auto
  moreover have "\<not> lt y z" using Cons.prems(2) y_in zs irrefl by auto
  ultimately have "y = z"
    using Cons.prems(3) [of y] zs irrefl by simp
  moreover have "ys = zs'"
  proof (rule Cons.IH)
    show "ordered ys" "ordered zs'" using Cons.prems(1,2) zs by simp_all
    show "filter (eqv k) ys = filter (eqv k) zs'" for k
      using Cons.prems(3) [of k] zs \<open>y = z\<close> by (auto split: if_splits)
  qed
  ultimately show ?case using zs by simp
qed

lemma sort_unique: "ordered ys \<Longrightarrow> (\<And>k. filter (eqv k) ys = filter (eqv k) xs) \<Longrightarrow> ys = stable_sort lt xs"
  by (rule ordered_stable_unique) (simp_all add: ordered_sort sort_stable)

end

locale key_order =
  fixes lt :: "'a \<Rightarrow> 'a \<Rightarrow> bool"
    and key :: "'a \<Rightarrow> 'k::linorder"
  assumes lt_key: "lt a b \<longleftrightarrow> key a < key b"

sublocale key_order \<subseteq> strict_weak_order lt
  by unfold_locales (auto simp: lt_key)

context key_order
begin

lemma eqv_key: "eqv a b \<longleftrightarrow> key a = key b"
  by (auto simp: lt_key)

lemma hd_least_key: "x \<in> set xs \<Longrightarrow> key (hd (stable_sort lt xs)) \<le> key x"
  using hd_minimal [of x xs] by (simp add: lt_key)

end

end
