(* ===== verification/Placement.thy ===== *)
theory Placement
  imports Fabric_State Selection Stable_Sort "HOL-Library.Product_Lexorder"
begin

text \<open>
  Placement decisions of the governance engine (\<^verbatim>\<open>src/core/fabric.cpp\<close>: \<^verbatim>\<open>build_selection\<close>, \<^verbatim>\<open>select\<close>,
  \<^verbatim>\<open>plan_failover\<close>). The nested loops over pools, regions and member devices become a candidate list,
  evaluated element by element; the ranking is the stable sort by the comparison function of the
  source, which is shown to be a comparison of keys.
\<close>

section \<open>Candidates in loop order\<close>

definition region_candidate :: "CxlPool \<Rightarrow> CxlRegion \<Rightarrow> DeviceId \<Rightarrow> CxlDevice \<Rightarrow> Candidate" where
  "region_candidate pool region did dev =
     \<lparr>cand_pool = pool_id pool, cand_pool_generation = pool_generation pool,
      cand_region = reg_id region, cand_region_generation = reg_generation region,
      cand_device = did, cand_device_generation = dev_generation dev,
      cand_available_bytes = region_free region,
      cand_device_record = Some dev, cand_region_record = Some region, cand_pool_record = Some pool\<rparr>"

text \<open>The innermost loop of \<^verbatim>\<open>build_selection\<close>: one candidate per member device that is on line.\<close>

definition device_candidates :: "StateSnapshot \<Rightarrow> CxlPool \<Rightarrow> CxlRegion \<Rightarrow> Candidate list" where
  "device_candidates snap pool region =
     concat (map (\<lambda>did. case om_find (st_devices snap) did of
         None \<Rightarrow> []
       | Some dev \<Rightarrow>
           if \<not> dev_evidence_current dev then []
           else if dev_state dev \<noteq> DeviceState.ONLINE then []
           else [region_candidate pool region (dev_id dev) dev])
       (reg_member_devices region))"

definition region_candidates :: "StateSnapshot \<Rightarrow> CxlPool \<Rightarrow> Candidate list" where
  "region_candidates snap pool =
     concat (map (\<lambda>rk. let region = snd rk in
         if reg_pool region \<noteq> pool_id pool then []
         else if \<not> reg_evidence_current region then []
         else if reg_state region \<noteq> RegionState.ONLINE then []
         else device_candidates snap pool region)
       (st_regions snap))"

definition snapshot_candidates :: "StateSnapshot \<Rightarrow> Candidate list" where
  "snapshot_candidates snap =
     concat (map (\<lambda>pk. let pool = snd pk in
         if \<not> pool_evidence_current pool then []
         else if pool_state pool \<noteq> PoolState.AVAILABLE \<and> pool_state pool \<noteq> PoolState.DEFINED then []
         else region_candidates snap pool)
       (st_pools snap))"

text \<open>\<^verbatim>\<open>evaluate_candidate\<close> is called with the evidence flag of the candidate's pool record.\<close>

definition candidate_pool_ev :: "Candidate \<Rightarrow> bool" where
  "candidate_pool_ev c = (case cand_pool_record c of None \<Rightarrow> False | Some pool \<Rightarrow> pool_evidence_current pool)"

definition evaluated :: "AdmissionRequest \<Rightarrow> Candidate \<Rightarrow> SelectionResult" where
  "evaluated req c = evaluate_candidate c req (candidate_pool_ev c)"

section \<open>Ranking\<close>

definition record_economics :: "Candidate \<Rightarrow> AccessEconomics" where
  "record_economics c = (case cand_device_record c of None \<Rightarrow> AccessEconomics_default | Some d \<Rightarrow> dev_economics d)"

definition candidate_less :: "Candidate \<Rightarrow> Candidate \<Rightarrow> bool" where
  "candidate_less a b =
     (let ea = record_economics a; eb = record_economics b;
          la = locality_ordinal (econ_locality ea); lb = locality_ordinal (econ_locality eb) in
      if la \<noteq> lb then la < lb
      else if econ_estimated_latency_ns ea \<noteq> econ_estimated_latency_ns eb
      then econ_estimated_latency_ns ea < econ_estimated_latency_ns eb
      else if econ_estimated_bandwidth_mbps ea \<noteq> econ_estimated_bandwidth_mbps eb
      then econ_estimated_bandwidth_mbps ea > econ_estimated_bandwidth_mbps eb
      else if cand_available_bytes a \<noteq> cand_available_bytes b
      then cand_available_bytes a > cand_available_bytes b
      else id_value (cand_pool a) @ id_value (cand_region a) @ id_value (cand_device a)
         < id_value (cand_pool b) @ id_value (cand_region b) @ id_value (cand_device b))"

section \<open>Selection\<close>

record SelectionOutcome =
  so_ok :: bool
  so_chosen :: Candidate
  so_result :: SelectionResult
  so_candidates :: "SelectionResult list"

definition SelectionOutcome_default :: SelectionOutcome where
  [record_defs]: "SelectionOutcome_default = \<lparr>so_ok = False, so_chosen = Candidate_default,
     so_result = SelectionResult_default, so_candidates = []\<rparr>"

definition matches_chosen :: "Candidate \<Rightarrow> SelectionResult \<Rightarrow> bool" where
  "matches_chosen c r \<longleftrightarrow> sr_pool r = id_value (cand_pool c) \<and> sr_region r = id_value (cand_region c) \<and>
     sr_device r = id_value (cand_device c) \<and> sr_selected r"

definition build_selection :: "StateSnapshot \<Rightarrow> AdmissionRequest \<Rightarrow> SelectionOutcome" where
  [fabric_defs]: "build_selection snap req =
     (let cands = snapshot_candidates snap;
          results = map (\<lambda>c. let r = evaluated req c in
                      if sr_selected r then r\<lparr>sr_explanation := ''candidate passed''\<rparr> else r) cands;
          selected = stable_sort candidate_less (filter (\<lambda>c. sr_selected (evaluated req c)) cands);
          out = SelectionOutcome_default\<lparr>so_candidates := results\<rparr> in
      case selected of
        chosen # _ \<Rightarrow>
          out\<lparr>so_chosen := chosen, so_ok := True,
              so_result := (case List.find (matches_chosen chosen) results of
                              Some r \<Rightarrow> r | None \<Rightarrow> hd results)\<rparr>
      | [] \<Rightarrow>
          (case results of
             r # _ \<Rightarrow> out\<lparr>so_result := r\<lparr>sr_selected := False\<rparr>\<rparr>
           | [] \<Rightarrow> out\<lparr>so_result := SelectionResult_default
                     \<lparr>sr_selected := False, sr_reason := DecisionReason.CAPACITY_INSUFFICIENT\<rparr>\<rparr>))"

definition select :: "AdmissionRequest \<Rightarrow> Fabric \<Rightarrow> SelectionOutcome" where
  [fabric_defs]: "select req f = build_selection (selection_snapshot f) req"

section \<open>Failover\<close>

record FailoverPlan =
  fp_outcome :: FailoverOutcome
  fp_replacement :: "Candidate option"
  fp_note :: string

text \<open>The failure domain of the failed device: the one its last membership entry records.\<close>

definition failed_domain :: "StateSnapshot \<Rightarrow> DeviceId \<Rightarrow> string" where
  "failed_domain snap failed =
     fold (\<lambda>kv domain. fold (\<lambda>m domain. if pm_device m = failed then pm_failure_domain m else domain)
                      (pool_members (snd kv)) domain)
       (st_pools snap) []"

definition failover_devices :: "StateSnapshot \<Rightarrow> DeviceId \<Rightarrow> CxlPool \<Rightarrow> CxlRegion \<Rightarrow> Candidate list" where
  "failover_devices snap failed pool region =
     concat (map (\<lambda>did.
         if did = failed then []
         else case om_find (st_devices snap) did of
           None \<Rightarrow> []
         | Some dev \<Rightarrow>
             if \<not> dev_evidence_current dev then []
             else if dev_state dev \<noteq> DeviceState.ONLINE then []
             else [region_candidate pool region did dev])
       (reg_member_devices region))"

definition failover_candidates :: "StateSnapshot \<Rightarrow> PoolId \<Rightarrow> DeviceId \<Rightarrow> Candidate list" where
  "failover_candidates snap pid failed =
     concat (map (\<lambda>pk.
         if \<not> id_empty pid \<and> fst pk \<noteq> pid then []
         else if \<not> pool_evidence_current (snd pk) then []
         else concat (map (\<lambda>rk.
             if reg_pool (snd rk) \<noteq> pool_id (snd pk) then []
             else if \<not> reg_evidence_current (snd rk) \<or> reg_state (snd rk) \<noteq> RegionState.ONLINE then []
             else failover_devices snap failed (snd pk) (snd rk))
           (st_regions snap)))
       (st_pools snap))"

definition same_domain :: "string \<Rightarrow> Candidate \<Rightarrow> bool" where
  "same_domain domain c \<longleftrightarrow> domain \<noteq> [] \<and> econ_notes (record_economics c) = domain"

definition plan_failover ::
  "PoolId \<Rightarrow> DeviceId \<Rightarrow> AdmissionRequest \<Rightarrow> AuthorityContext \<Rightarrow> Fabric \<Rightarrow> FailoverPlan" where
  [fabric_defs]: "plan_failover pid failed req ctx f =
     (let snap = fab_state f;
          domain = failed_domain snap failed;
          cands = filter (\<lambda>c. sr_selected (evaluated req c)) (failover_candidates snap pid failed);
          cross = filter (\<lambda>c. \<not> same_domain domain c) cands;
          same = filter (same_domain domain) cands in
      case cross of
        c # _ \<Rightarrow> \<lparr>fp_outcome = FailoverOutcome.FAILOVER, fp_replacement = Some c,
                  fp_note = ''cross-domain replacement found''\<rparr>
      | [] \<Rightarrow>
          (case same of
             c # _ \<Rightarrow> \<lparr>fp_outcome = FailoverOutcome.DEGRADED, fp_replacement = Some c,
                fp_note = ''only same-failure-domain replacement available -> degraded fallback''\<rparr>
           | [] \<Rightarrow> \<lparr>fp_outcome = FailoverOutcome.REJECT, fp_replacement = None,
                fp_note = ''no replacement candidate satisfies the request''\<rparr>))"

section \<open>The ranking compares keys\<close>

definition rank_key :: "Candidate \<Rightarrow> nat \<times> int \<times> int \<times> int \<times> string" where
  "rank_key c =
     (let e = record_economics c in
      (locality_ordinal (econ_locality e), uint (econ_estimated_latency_ns e),
       - uint (econ_estimated_bandwidth_mbps e), - uint (cand_available_bytes c),
       id_value (cand_pool c) @ id_value (cand_region c) @ id_value (cand_device c)))"

interpretation ranking: key_order candidate_less rank_key
  by unfold_locales
    (auto simp: candidate_less_def rank_key_def Let_def word_less_def word_le_def word_uint_eq_iff)

section \<open>Which candidates the loops produce\<close>

text \<open>
  \<open>placement f pool region dev\<close>: the three records are in the maps of the state, linked the way the
  loops follow them.
\<close>

definition placement :: "StateSnapshot \<Rightarrow> CxlPool \<Rightarrow> CxlRegion \<Rightarrow> DeviceId \<Rightarrow> CxlDevice \<Rightarrow> bool" where
  "placement snap pool region did dev \<longleftrightarrow>
     pool \<in> snd ` set (st_pools snap) \<and> region \<in> snd ` set (st_regions snap) \<and>
     reg_pool region = pool_id pool \<and> did \<in> set (reg_member_devices region) \<and>
     om_find (st_devices snap) did = Some dev"

lemma in_service_current:
  "in_service dev reg pool pe \<Longrightarrow> dev_evidence_current dev \<and> dev_state dev = DeviceState.ONLINE \<and>
     reg_evidence_current reg \<and> reg_state reg = RegionState.ONLINE \<and> pe \<and>
     (pool_state pool = PoolState.AVAILABLE \<or> pool_state pool = PoolState.DEFINED)"
  by (simp add: in_service_def)

lemma set_device_candidates:
  "c \<in> set (device_candidates snap pool region) \<longleftrightarrow>
     (\<exists>did dev. did \<in> set (reg_member_devices region) \<and> om_find (st_devices snap) did = Some dev \<and>
        dev_evidence_current dev \<and> dev_state dev = DeviceState.ONLINE \<and>
        c = region_candidate pool region (dev_id dev) dev)"
  by (force simp: device_candidates_def split: option.splits if_splits)

lemma set_region_candidates:
  "c \<in> set (region_candidates snap pool) \<longleftrightarrow>
     (\<exists>region \<in> snd ` set (st_regions snap). reg_pool region = pool_id pool \<and> reg_evidence_current region \<and>
        reg_state region = RegionState.ONLINE \<and> c \<in> set (device_candidates snap pool region))"
  by (auto simp: region_candidates_def Let_def split: if_splits)

lemma set_snapshot_candidates:
  "c \<in> set (snapshot_candidates snap) \<longleftrightarrow>
     (\<exists>pool \<in> snd ` set (st_pools snap). pool_evidence_current pool \<and>
        (pool_state pool = PoolState.AVAILABLE \<or> pool_state pool = PoolState.DEFINED) \<and>
        c \<in> set (region_candidates snap pool))"
  by (auto simp: snapshot_candidates_def Let_def split: if_splits)

lemma snapshot_candidatesE:
  assumes "c \<in> set (snapshot_candidates snap)"
  obtains pool region did dev where "placement snap pool region did dev"
    and "c = region_candidate pool region (dev_id dev) dev"
  using assms unfolding set_snapshot_candidates set_region_candidates set_device_candidates placement_def
  by blast

lemma evaluated_region_candidate:
  "sr_selected (evaluated req (region_candidate pool region did dev)) \<longleftrightarrow>
     in_service dev region pool (pool_evidence_current pool) \<and> req_bytes req \<le> region_free region \<and>
     request_fits req dev region pool"
  by (simp add: evaluated_def evaluate_selected eligible_def region_candidate_def candidate_pool_ev_def)

text \<open>Every placement whose records are eligible is offered; the early \<^verbatim>\<open>continue\<close>s lose none.\<close>

lemma eligible_offered:
  assumes "placement snap pool region did dev"
    and "in_service dev region pool (pool_evidence_current pool)"
  shows "region_candidate pool region (dev_id dev) dev \<in> set (snapshot_candidates snap)"
  using assms in_service_current [OF assms(2)]
  unfolding set_snapshot_candidates set_region_candidates set_device_candidates placement_def
  by blast

section \<open>The decision\<close>

definition admissible :: "AdmissionRequest \<Rightarrow> StateSnapshot \<Rightarrow> Candidate list" where
  "admissible req snap = filter (\<lambda>c. sr_selected (evaluated req c)) (snapshot_candidates snap)"

lemma build_selection_ok: "so_ok (build_selection snap req) \<longleftrightarrow> admissible req snap \<noteq> []"
  by (auto simp: build_selection_def admissible_def Let_def SelectionOutcome_default_def split: list.splits
      dest: arg_cong [where f = set])

lemma build_selection_chosen:
  "so_ok (build_selection snap req) \<Longrightarrow>
     so_chosen (build_selection snap req) = hd (stable_sort candidate_less (admissible req snap))"
  by (auto simp: build_selection_def admissible_def Let_def SelectionOutcome_default_def split: list.splits)

lemma selection_snapshot_maps [simp]:
  "st_pools (selection_snapshot f) = st_pools (fab_state f)"
  "st_regions (selection_snapshot f) = st_regions (fab_state f)"
  "st_devices (selection_snapshot f) = st_devices (fab_state f)"
  by (simp_all add: selection_snapshot_def)

lemma placement_selection_snapshot [simp]: "placement (selection_snapshot f) = placement (fab_state f)"
  by (intro ext) (simp add: placement_def)

lemma chosen_admissible:
  assumes "so_ok (build_selection snap req)"
  shows "so_chosen (build_selection snap req) \<in> set (admissible req snap)"
proof -
  from assms have "stable_sort candidate_less (admissible req snap) \<noteq> []"
    by (simp add: build_selection_ok)
  then have "hd (stable_sort candidate_less (admissible req snap)) \<in> set (stable_sort candidate_less (admissible req snap))"
    by (rule hd_in_set)
  with assms show ?thesis by (simp add: build_selection_chosen)
qed

definition fit_placement :: "AdmissionRequest \<Rightarrow> StateSnapshot \<Rightarrow> CxlPool \<Rightarrow> CxlRegion \<Rightarrow> CxlDevice \<Rightarrow> bool" where
  "fit_placement req snap pool region dev \<longleftrightarrow>
     (\<exists>did. placement snap pool region did dev) \<and> in_service dev region pool (pool_evidence_current pool) \<and>
     req_bytes req \<le> region_free region \<and> request_fits req dev region pool"

lemma admissible_iff:
  "c \<in> set (admissible req snap) \<longleftrightarrow>
     (\<exists>pool region dev. fit_placement req snap pool region dev \<and> c = region_candidate pool region (dev_id dev) dev)"
proof
  assume "c \<in> set (admissible req snap)"
  then obtain pool region did dev where "placement snap pool region did dev"
    and "c = region_candidate pool region (dev_id dev) dev" and "sr_selected (evaluated req c)"
    unfolding admissible_def by (auto elim: snapshot_candidatesE)
  then show "\<exists>pool region dev. fit_placement req snap pool region dev \<and> c = region_candidate pool region (dev_id dev) dev"
    by (auto simp: fit_placement_def evaluated_region_candidate)
qed (auto simp: fit_placement_def admissible_def evaluated_region_candidate intro: eligible_offered)

lemma select_ok_iff:
  "so_ok (select req f) \<longleftrightarrow> (\<exists>pool region dev. fit_placement req (fab_state f) pool region dev)"
proof -
  have "so_ok (select req f) \<longleftrightarrow> (\<exists>c. c \<in> set (admissible req (selection_snapshot f)))"
    unfolding select_def build_selection_ok by (metis list.set_intros(1) list.exhaust empty_iff empty_set)
  also have "\<dots> \<longleftrightarrow> (\<exists>pool region dev. fit_placement req (fab_state f) pool region dev)"
    by (auto simp: admissible_iff fit_placement_def)
  finally show ?thesis .
qed

lemma evaluated_result:
  assumes "sr_selected (evaluated req (region_candidate pool region did dev))"
  shows "sr_pool (evaluated req (region_candidate pool region did dev)) = id_value (pool_id pool)"
    and "sr_region (evaluated req (region_candidate pool region did dev)) = id_value (reg_id region)"
    and "sr_device (evaluated req (region_candidate pool region did dev)) = id_value (dev_id dev)"
  using assms
  by (simp_all add: evaluated_def evaluate_candidate_def region_candidate_def Let_def
      evaluate_records_accepts [rule_format])

section \<open>Properties\<close>

text \<open>Nothing that fits ranks before the chosen placement.\<close>

lemma chosen_first:
  assumes "so_ok (select req f)"
  shows "\<exists>pool region dev. fit_placement req (fab_state f) pool region dev \<and>
      so_chosen (select req f) = region_candidate pool region (dev_id dev) dev \<and>
      (\<forall>pool' region' dev'. fit_placement req (fab_state f) pool' region' dev' \<longrightarrow>
         rank_key (so_chosen (select req f)) \<le> rank_key (region_candidate pool' region' (dev_id dev') dev'))"
proof -
  let ?snap = "selection_snapshot f"
  have fit: "fit_placement req ?snap = fit_placement req (fab_state f)"
    by (intro ext) (simp add: fit_placement_def)
  from assms have ok: "so_ok (build_selection ?snap req)" by (simp add: select_def)
  have least: "rank_key (so_chosen (select req f)) \<le> rank_key (region_candidate pool' region' (dev_id dev') dev')"
    if "fit_placement req (fab_state f) pool' region' dev'" for pool' region' dev'
  proof -
    from that have "region_candidate pool' region' (dev_id dev') dev' \<in> set (admissible req ?snap)"
      by (auto simp: admissible_iff fit)
    from ranking.hd_least_key [OF this] show ?thesis
      by (simp add: select_def build_selection_chosen [OF ok])
  qed
  from chosen_admissible [OF ok] obtain pool region dev where "fit_placement req (fab_state f) pool region dev"
    and "so_chosen (select req f) = region_candidate pool region (dev_id dev) dev"
    by (auto simp: admissible_iff fit select_def)
  with least show ?thesis by blast
qed

text \<open>What the ranking compares before it falls back to names.\<close>

definition quality :: "Candidate \<Rightarrow> nat \<times> int \<times> int \<times> int" where
  "quality c =
     (let e = record_economics c in
      (locality_ordinal (econ_locality e), uint (econ_estimated_latency_ns e),
       - uint (econ_estimated_bandwidth_mbps e), - uint (cand_available_bytes c)))"

lemma quality_rank_key: "rank_key a \<le> rank_key b \<Longrightarrow> quality a \<le> quality b"
  by (auto simp: rank_key_def quality_def Let_def less_eq_prod_def)


text \<open>
  A placement that meets a request beyond doubt: every fact the request depends on is known and as asked for, every
  record is healthy and the pool available, and the request sets no flag that the engine does not look at.
\<close>

definition surely_fits :: "AdmissionRequest \<Rightarrow> CxlDevice \<Rightarrow> CxlRegion \<Rightarrow> CxlPool \<Rightarrow> bool" where
  "surely_fits req dev reg pool \<longleftrightarrow>
     (req_require_persistence req \<longrightarrow> dev_volatility dev = VolatilityKind.PERSISTENT) \<and>
     (req_volatility req \<noteq> VolatilityKind.UNKNOWN \<longrightarrow> dev_volatility dev = req_volatility req) \<and>
     (\<not> id_empty (req_host req) \<longrightarrow> dev_host dev = req_host req) \<and>
     (req_sharing req \<noteq> SharingMode.UNKNOWN \<longrightarrow> dev_sharing dev = req_sharing req) \<and>
     (\<forall>p. req_required_pool req = Some p \<longrightarrow> pool_id pool = p) \<and>
     (\<forall>l. req_minimum_locality req = Some l \<longrightarrow> econ_locality (dev_economics dev) \<noteq> LocalityClass.UNKNOWN \<and>
        locality_satisfies (econ_locality (dev_economics dev)) l) \<and>
     (\<forall>t. req_required_tier req = Some t \<longrightarrow> reg_tier reg = t) \<and>
     (\<forall>a. req_accelerator_access req = Some a \<longrightarrow> dev_accelerator_access dev = a \<and>
        (a = AcceleratorAccessState.DIRECT_SUPPORTED \<or> a = AcceleratorAccessState.INDIRECT_SUPPORTED)) \<and>
     req_minimum_bandwidth_mbps req \<le> econ_estimated_bandwidth_mbps (dev_economics dev) \<and>
     (req_maximum_latency_ns req > 0 \<longrightarrow> econ_estimated_latency_ns (dev_economics dev) > 0 \<and>
        econ_estimated_latency_ns (dev_economics dev) \<le> req_maximum_latency_ns req) \<and>
     \<not> req_require_accelerator_path req \<and> \<not> req_require_unique_failure_domain req"

definition sure_placement :: "AdmissionRequest \<Rightarrow> StateSnapshot \<Rightarrow> CxlPool \<Rightarrow> CxlRegion \<Rightarrow> CxlDevice \<Rightarrow> bool" where
  "sure_placement req snap pool region dev \<longleftrightarrow>
     (\<exists>did. placement snap pool region did dev) \<and>
     dev_evidence_current dev \<and> reg_evidence_current region \<and> pool_evidence_current pool \<and>
     dev_state dev = DeviceState.ONLINE \<and> reg_state region = RegionState.ONLINE \<and> pool_state pool = PoolState.AVAILABLE \<and>
     dev_health dev = HealthState.HEALTHY \<and> reg_health region = HealthState.HEALTHY \<and> pool_health_summary pool = HealthState.HEALTHY \<and>
     req_bytes req \<le> region_free region \<and> surely_fits req dev region pool"

lemma surely_request_fits:
  assumes "surely_fits req dev reg pool"
  shows "request_fits req dev reg pool"
  using assms unfolding surely_fits_def request_fits_def locality_satisfies_def
  by (elim conjE, intro conjI allI impI) (auto simp: word_gt_0)

lemma sure_placement_fits: "sure_placement req snap pool region dev \<Longrightarrow> fit_placement req snap pool region dev"
  unfolding sure_placement_def fit_placement_def in_service_def acceptable_health_def
  by (elim conjE, intro conjI) (simp_all add: surely_request_fits)

text \<open>
  C22. Selection misses no placement that meets the request beyond doubt: when the state holds one, with every fact the
  request depends on known and as asked for, the selection succeeds, with a choice that is at least as good. And it invents none:
  when it succeeds, some device of some region of some pool is in service with current evidence and room, and what is known of it
  contradicts no constraint of the request.
\<close>

theorem select_complete:
  "(\<forall>pool region dev. sure_placement req (fab_state f) pool region dev \<longrightarrow>
      so_ok (select req f) \<and> quality (so_chosen (select req f)) \<le> quality (region_candidate pool region (dev_id dev) dev)) \<and>
   (so_ok (select req f) \<longrightarrow>
      (\<exists>pool region did dev. placement (fab_state f) pool region did dev \<and> in_service dev region pool (pool_evidence_current pool) \<and>
         req_bytes req \<le> region_free region \<and> request_fits req dev region pool))"
proof -
  have "so_ok (select req f) \<and> quality (so_chosen (select req f)) \<le> quality (region_candidate pool region (dev_id dev) dev)"
    if "sure_placement req (fab_state f) pool region dev" for pool region dev
  proof -
    note fit = sure_placement_fits [OF that]
    then have "so_ok (select req f)" unfolding select_ok_iff by blast
    with chosen_first [OF this] fit quality_rank_key show ?thesis by blast
  qed
  moreover have "\<exists>pool region did dev. placement (fab_state f) pool region did dev \<and> in_service dev region pool (pool_evidence_current pool) \<and>
      req_bytes req \<le> region_free region \<and> request_fits req dev region pool" if "so_ok (select req f)"
    using that unfolding select_ok_iff fit_placement_def by blast
  ultimately show ?thesis by blast
qed

text \<open>
  The choice does not depend on how the library sorts: any list that holds the admissible candidates,
  ordered by the comparison function with equivalent candidates in their original order, which is all
  \<^verbatim>\<open>std::stable_sort\<close> promises, has the chosen candidate at its head.
\<close>

lemma select_sort_independent:
  assumes "so_ok (select req f)"
    and "sorted_wrt (\<lambda>a b. \<not> candidate_less b a) ys"
    and "\<And>k. filter (\<lambda>c. \<not> candidate_less k c \<and> \<not> candidate_less c k) ys =
              filter (\<lambda>c. \<not> candidate_less k c \<and> \<not> candidate_less c k) (admissible req (selection_snapshot f))"
  shows "so_chosen (select req f) = hd ys"
  using ranking.sort_unique [OF assms(2,3)] assms(1) by (simp add: select_def build_selection_chosen)

text \<open>What is reported of a candidate, and which report \<^verbatim>\<open>build_selection\<close> returns as the result.\<close>

definition noted :: "AdmissionRequest \<Rightarrow> Candidate \<Rightarrow> SelectionResult" where
  "noted req c = (let r = evaluated req c in if sr_selected r then r\<lparr>sr_explanation := ''candidate passed''\<rparr> else r)"

lemma noted_explains: "explains (noted req c) (insert DecisionReason.UNKNOWN_ERROR reported_reasons)"
  using evaluate_explains [of c req "candidate_pool_ev c"]
  by (simp add: noted_def evaluated_def explains_def Let_def split: if_splits)

lemma noted_selected [simp]: "sr_selected (noted req c) = sr_selected (evaluated req c)"
  by (simp add: noted_def Let_def)

lemma select_result:
  "so_result (select req f) =
     (let results = map (noted req) (snapshot_candidates (selection_snapshot f)) in
      if so_ok (select req f)
      then (case List.find (matches_chosen (so_chosen (select req f))) results of Some r \<Rightarrow> r | None \<Rightarrow> hd results)
      else case results of r # _ \<Rightarrow> r\<lparr>sr_selected := False\<rparr>
           | [] \<Rightarrow> SelectionResult_default\<lparr>sr_selected := False, sr_reason := DecisionReason.CAPACITY_INSUFFICIENT\<rparr>)"
proof -
  let ?snap = "selection_snapshot f" and ?results = "map (noted req) (snapshot_candidates (selection_snapshot f))"
  let ?sorted = "stable_sort candidate_less (filter (\<lambda>c. sr_selected (evaluated req c)) (snapshot_candidates ?snap))"
  let ?out = "SelectionOutcome_default\<lparr>so_candidates := ?results\<rparr>"
  have "select req f = (case ?sorted of
      chosen # _ \<Rightarrow> ?out\<lparr>so_chosen := chosen, so_ok := True,
            so_result := (case List.find (matches_chosen chosen) ?results of Some r \<Rightarrow> r | None \<Rightarrow> hd ?results)\<rparr>
    | [] \<Rightarrow> (case ?results of r # _ \<Rightarrow> ?out\<lparr>so_result := r\<lparr>sr_selected := False\<rparr>\<rparr>
         | [] \<Rightarrow> ?out\<lparr>so_result := SelectionResult_default
                   \<lparr>sr_selected := False, sr_reason := DecisionReason.CAPACITY_INSUFFICIENT\<rparr>\<rparr>))"
    by (simp only: select_def build_selection_def noted_def [abs_def] Let_def)
  then show ?thesis
    unfolding Let_def by (cases ?sorted) (auto simp: SelectionOutcome_default_def split: list.split)
qed

text \<open>The report of the chosen candidate is among the results, so the search for it succeeds.\<close>

lemma chosen_reported:
  assumes "so_ok (select req f)"
  shows "\<exists>r c. List.find (matches_chosen (so_chosen (select req f))) (map (noted req) (snapshot_candidates (selection_snapshot f))) = Some r \<and>
     r = noted req c \<and> matches_chosen (so_chosen (select req f)) r"
proof -
  let ?c = "so_chosen (select req f)" and ?results = "map (noted req) (snapshot_candidates (selection_snapshot f))"
  have c: "?c \<in> set (admissible req (selection_snapshot f))" using chosen_admissible assms by (simp add: select_def)
  then obtain pool region dev where cand: "?c = region_candidate pool region (dev_id dev) dev"
    by (auto simp: admissible_iff)
  have sel: "sr_selected (evaluated req ?c)" "?c \<in> set (snapshot_candidates (selection_snapshot f))"
    using c by (simp_all add: admissible_def)
  have "matches_chosen ?c (noted req ?c)"
    using sel(1) evaluated_result [of req pool region "dev_id dev" dev] cand
    by (simp add: matches_chosen_def region_candidate_def noted_def)
  with sel(2) have "List.find (matches_chosen ?c) ?results \<noteq> None" unfolding find_None_iff by auto
  then obtain r where r: "List.find (matches_chosen ?c) ?results = Some r" by auto
  then have "matches_chosen ?c r" "r \<in> set ?results" by (auto simp: find_Some_iff)
  with r show ?thesis by auto
qed

lemma refused_explained:
  assumes "\<not> so_ok (select req f)"
  shows "\<not> sr_selected (so_result (select req f)) \<and>
     sr_reason (so_result (select req f)) \<in> insert DecisionReason.UNKNOWN_ERROR reported_reasons"
proof -
  have none: "\<not> sr_selected (noted req c)" if "c \<in> set (snapshot_candidates (selection_snapshot f))" for c
    using that assms by (auto simp: select_def build_selection_ok admissible_def filter_empty_conv)
  show ?thesis
  proof (cases "snapshot_candidates (selection_snapshot f)")
    case Nil
    with assms show ?thesis by (simp add: select_result reported_reasons_def)
  next
    case (Cons c cs)
    with assms none [of c] noted_explains [of req c] show ?thesis by (simp add: select_result explains_def)
  qed
qed

text \<open>
  C23. What the caller is told matches the decision: on success the explained result is marked selected, with
  reason OK and the names of the chosen pool, region and device; otherwise it is not selected and its
  reason is one the constraint cascade reports, CAPACITY\_INSUFFICIENT when there was no candidate.
\<close>

theorem select_explained:
  "if so_ok (select req f)
   then sr_selected (so_result (select req f)) \<and> sr_reason (so_result (select req f)) = DecisionReason.OK \<and>
     sr_pool (so_result (select req f)) = id_value (cand_pool (so_chosen (select req f))) \<and>
     sr_region (so_result (select req f)) = id_value (cand_region (so_chosen (select req f))) \<and>
     sr_device (so_result (select req f)) = id_value (cand_device (so_chosen (select req f)))
   else \<not> sr_selected (so_result (select req f)) \<and>
     sr_reason (so_result (select req f)) \<in> insert DecisionReason.UNKNOWN_ERROR reported_reasons"
proof (cases "so_ok (select req f)")
  case True
  from chosen_reported [OF this] obtain r c where
    r: "List.find (matches_chosen (so_chosen (select req f))) (map (noted req) (snapshot_candidates (selection_snapshot f))) = Some r"
    and rc: "r = noted req c" "matches_chosen (so_chosen (select req f)) r" by blast
  from r True have "so_result (select req f) = r" by (simp add: select_result)
  with True rc noted_explains [of req c] show ?thesis by (simp add: matches_chosen_def explains_def)
next
  case False
  with refused_explained [OF this] show ?thesis by simp
qed

section \<open>Failover\<close>

definition fit_failover ::
  "AdmissionRequest \<Rightarrow> StateSnapshot \<Rightarrow> PoolId \<Rightarrow> DeviceId \<Rightarrow> Candidate \<Rightarrow> bool" where
  "fit_failover req snap pid failed c \<longleftrightarrow>
     (\<exists>k pool region did dev. c = region_candidate pool region did dev \<and>
        (k, pool) \<in> set (st_pools snap) \<and> (id_empty pid \<or> k = pid) \<and> did \<noteq> failed \<and>
        placement snap pool region did dev \<and> in_service dev region pool (pool_evidence_current pool) \<and>
        req_bytes req \<le> region_free region \<and> request_fits req dev region pool)"

lemma set_failover_devices:
  "c \<in> set (failover_devices snap failed pool region) \<longleftrightarrow>
     (\<exists>did dev. did \<in> set (reg_member_devices region) \<and> did \<noteq> failed \<and> om_find (st_devices snap) did = Some dev \<and>
        dev_evidence_current dev \<and> dev_state dev = DeviceState.ONLINE \<and> c = region_candidate pool region did dev)"
  by (force simp: failover_devices_def split: option.splits if_splits)

lemma set_failover_candidates:
  "c \<in> set (failover_candidates snap pid failed) \<longleftrightarrow>
     (\<exists>pk \<in> set (st_pools snap). (id_empty pid \<or> fst pk = pid) \<and> pool_evidence_current (snd pk) \<and>
        (\<exists>rk \<in> set (st_regions snap). reg_pool (snd rk) = pool_id (snd pk) \<and> reg_evidence_current (snd rk) \<and>
           reg_state (snd rk) = RegionState.ONLINE \<and> c \<in> set (failover_devices snap failed (snd pk) (snd rk))))"
  by (simp add: failover_candidates_def if_distrib [of set] if_distrib [of "\<lambda>s. c \<in> s"] cong: if_cong) blast

lemma selected_failover:
  "c \<in> set (failover_candidates snap pid failed) \<and> sr_selected (evaluated req c) \<longleftrightarrow> fit_failover req snap pid failed c"
proof
  assume "c \<in> set (failover_candidates snap pid failed) \<and> sr_selected (evaluated req c)"
  then show "fit_failover req snap pid failed c"
    unfolding set_failover_candidates set_failover_devices fit_failover_def placement_def
    by (auto simp: evaluated_region_candidate image_iff) force+
next
  assume "fit_failover req snap pid failed c"
  then obtain k pool region did dev where c: "c = region_candidate pool region did dev"
    and "(k, pool) \<in> set (st_pools snap)" "id_empty pid \<or> k = pid" "did \<noteq> failed"
    and pl: "placement snap pool region did dev" and srv: "in_service dev region pool (pool_evidence_current pool)"
    and "req_bytes req \<le> region_free region" "request_fits req dev region pool"
    unfolding fit_failover_def by blast
  moreover from pl obtain kr where "(kr, region) \<in> set (st_regions snap)" by (auto simp: placement_def)
  moreover have "c \<in> set (failover_devices snap failed pool region)"
    unfolding set_failover_devices using calculation in_service_current [OF srv] by (auto simp: placement_def)
  ultimately show "c \<in> set (failover_candidates snap pid failed) \<and> sr_selected (evaluated req c)"
    unfolding set_failover_candidates using in_service_current [OF srv]
    by (intro conjI bexI [of _ "(k, pool)"] bexI [of _ "(kr, region)"])
      (auto simp: placement_def evaluated_region_candidate)
qed

lemma failover_plan_cases:
  fixes req pid failed ctx f
  defines "plan \<equiv> plan_failover pid failed req ctx f"
    and "fits \<equiv> fit_failover req (fab_state f) pid failed"
    and "same \<equiv> same_domain (failed_domain (fab_state f) failed)"
  shows "(fp_outcome plan = FailoverOutcome.FAILOVER \<longleftrightarrow> (\<exists>c. fits c \<and> \<not> same c)) \<and>
     (fp_outcome plan = FailoverOutcome.DEGRADED \<longleftrightarrow> (\<exists>c. fits c) \<and> (\<forall>c. fits c \<longrightarrow> same c)) \<and>
     (fp_outcome plan = FailoverOutcome.REJECT \<longleftrightarrow> (\<forall>c. \<not> fits c)) \<and>
     (fp_outcome plan \<noteq> FailoverOutcome.REJECT \<longrightarrow>
        (\<exists>c. fp_replacement plan = Some c \<and> fits c \<and> (same c \<longleftrightarrow> fp_outcome plan = FailoverOutcome.DEGRADED))) \<and>
     (fp_outcome plan = FailoverOutcome.REJECT \<longrightarrow> fp_replacement plan = None)"
proof -
  define cs where "cs = filter (\<lambda>c. sr_selected (evaluated req c)) (failover_candidates (fab_state f) pid failed)"
  have cs: "c \<in> set cs \<longleftrightarrow> fits c" for c
    using selected_failover [of c "fab_state f" pid failed req] by (simp add: cs_def fits_def)
  have plan: "plan = (case filter (\<lambda>c. \<not> same c) cs of
        c # _ \<Rightarrow> \<lparr>fp_outcome = FailoverOutcome.FAILOVER, fp_replacement = Some c,
                  fp_note = ''cross-domain replacement found''\<rparr>
      | [] \<Rightarrow> (case filter same cs of
             c # _ \<Rightarrow> \<lparr>fp_outcome = FailoverOutcome.DEGRADED, fp_replacement = Some c,
                fp_note = ''only same-failure-domain replacement available -> degraded fallback''\<rparr>
           | [] \<Rightarrow> \<lparr>fp_outcome = FailoverOutcome.REJECT, fp_replacement = None,
                fp_note = ''no replacement candidate satisfies the request''\<rparr>))"
    unfolding plan_def plan_failover_def cs_def same_def Let_def by (rule refl)
  have pick: "fits c \<and> P c" if "filter P cs = c # rest" for P c rest
  proof -
    from that have "c \<in> set (filter P cs)" by simp
    then show ?thesis by (simp add: cs)
  qed
  show ?thesis
  proof (cases "filter (\<lambda>c. \<not> same c) cs")
    case (Cons c rest)
    with pick [OF this] plan cs show ?thesis by auto
  next
    case Nil
    then have all: "\<And>c. fits c \<Longrightarrow> same c" by (simp add: filter_empty_conv cs)
    show ?thesis
    proof (cases "filter same cs")
      case (Cons c rest)
      with Nil pick [OF this] plan cs all show ?thesis by auto
    next
      case empty: Nil
      then have "\<not> fits c" for c using all [of c] cs [of c] by (auto simp: filter_empty_conv)
      with Nil empty plan show ?thesis by auto
    qed
  qed
qed

text \<open>
  The failure domain of a device is what its entry in a pool records. The plan reads the free text of the device's economics
  instead, where the synthetic backend puts the same name. \<open>domains_noted\<close> says that the two agree.
\<close>

abbreviation recorded_domain :: "StateSnapshot \<Rightarrow> DeviceId \<Rightarrow> string" where
  "recorded_domain snap d \<equiv> failed_domain snap d"

definition domains_noted :: "Fabric \<Rightarrow> bool" where
  "domains_noted f \<longleftrightarrow> (\<forall>k d. find_device f k = Some d \<longrightarrow> econ_notes (dev_economics d) = recorded_domain (fab_state f) k)"

lemma same_recorded_domain:
  assumes "domains_noted f" and "fit_failover req (fab_state f) pid failed c"
  shows "same_domain (failed_domain (fab_state f) failed) c \<longleftrightarrow>
     recorded_domain (fab_state f) failed \<noteq> [] \<and> recorded_domain (fab_state f) (cand_device c) = recorded_domain (fab_state f) failed"
proof -
  from assms(2) obtain pool region did dev where "c = region_candidate pool region did dev" and "find_device f did = Some dev"
    unfolding fit_failover_def placement_def find_device_def by blast
  with assms(1) show ?thesis
    by (auto simp: same_domain_def domains_noted_def region_candidate_def record_economics_def)
qed


end
