(* ===== verification/Admission.thy ===== *)
theory Admission
  imports Registry Placement
begin

text \<open>
  The reservation lifecycle of the governance engine (\<^verbatim>\<open>src/core/fabric.cpp\<close>: \<^verbatim>\<open>reserve\<close>, \<^verbatim>\<open>commit\<close>,
  \<^verbatim>\<open>release\<close>). Pools and regions are ledgers in the sense of the locale \<open>ledger\<close>: what the three
  operations do to the two records is interpreted there, with the arithmetic of the source on
  wrapping 64-bit words.
\<close>

section \<open>What the operations do to a pool and to a region\<close>

definition pool_reserve :: "ByteCount \<Rightarrow> CxlPool \<Rightarrow> CxlPool" where
  "pool_reserve n p = p\<lparr>pool_reserved_bytes := pool_reserved_bytes p + n\<rparr>"

definition region_reserve :: "ByteCount \<Rightarrow> CxlRegion \<Rightarrow> CxlRegion" where
  "region_reserve n r = r\<lparr>reg_reserved_bytes := reg_reserved_bytes r + n\<rparr>"

definition pool_commit :: "ByteCount \<Rightarrow> CxlPool \<Rightarrow> CxlPool" where
  "pool_commit n p = p\<lparr>pool_reserved_bytes := pool_reserved_bytes p - n,
     pool_committed_bytes := pool_committed_bytes p + n\<rparr>"

definition region_commit :: "ByteCount \<Rightarrow> CxlRegion \<Rightarrow> CxlRegion" where
  "region_commit n r = r\<lparr>reg_reserved_bytes := reg_reserved_bytes r - n,
     reg_committed_bytes := reg_committed_bytes r + n\<rparr>"

text \<open>
  Release takes committed bytes first, then reserved bytes if they cover the rest: the bytes that
  remain, the committed and the reserved bytes afterwards.
\<close>

definition release_bytes :: "ByteCount \<Rightarrow> ByteCount \<Rightarrow> ByteCount \<Rightarrow> ByteCount \<times> ByteCount \<times> ByteCount" where
  "release_bytes n committed reserved =
     (let (c, remaining) = take_committed n committed in
      if remaining > 0 \<and> remaining \<le> reserved then (0, c, reserved - remaining) else (remaining, c, reserved))"

definition pool_release :: "ByteCount \<Rightarrow> CxlPool \<Rightarrow> ByteCount \<times> CxlPool" where
  "pool_release n p =
     (let (remaining, c, r) = release_bytes n (pool_committed_bytes p) (pool_reserved_bytes p) in
      (remaining, p\<lparr>pool_committed_bytes := c, pool_reserved_bytes := r\<rparr>))"

definition region_release :: "ByteCount \<Rightarrow> CxlRegion \<Rightarrow> ByteCount \<times> CxlRegion" where
  "region_release n g =
     (let (remaining, c, r) = release_bytes n (reg_committed_bytes g) (reg_reserved_bytes g) in
      (remaining, g\<lparr>reg_committed_bytes := c, reg_reserved_bytes := r\<rparr>))"

section \<open>The operations\<close>

record ReserveOutcome =
  ro_ok :: bool
  ro_reason :: DecisionReason
  ro_reservation :: Reservation

definition ReserveOutcome_default :: ReserveOutcome where
  [record_defs]: "ReserveOutcome_default =
     \<lparr>ro_ok = False, ro_reason = DecisionReason.OK, ro_reservation = Reservation_default\<rparr>"

definition refuse :: "DecisionReason \<Rightarrow> ReserveOutcome" where
  "refuse r = ReserveOutcome_default\<lparr>ro_reason := r\<rparr>"

definition grant :: "Reservation \<Rightarrow> ReserveOutcome" where
  "grant res = \<lparr>ro_ok = True, ro_reason = DecisionReason.OK, ro_reservation = res\<rparr>"

definition reservation_id :: "u64 \<Rightarrow> ReservationId" where
  "reservation_id n = Ident (''res-'' @ to_string_u64 n)"

definition new_reservation ::
  "u64 \<Rightarrow> AdmissionRequest \<Rightarrow> AuthorityContext \<Rightarrow> Candidate \<Rightarrow> CxlDevice \<Rightarrow> CoordinatorEpoch \<Rightarrow> Reservation" where
  "new_reservation n req ctx c dev e = Reservation_default
     \<lparr>res_id := reservation_id n, res_consumer := req_consumer req,
      res_consumer_generation := ctx_consumer_generation ctx, res_pool := cand_pool c,
      res_pool_generation := cand_pool_generation c, res_region := cand_region c,
      res_region_generation := cand_region_generation c, res_device := cand_device c,
      res_device_generation := cand_device_generation c, res_device_boot_id := dev_boot_id dev,
      res_bytes := req_bytes req, res_state := ResumeState.RESERVED, res_created_epoch := e,
      res_worker_boot_id := ctx_worker_boot_id ctx,
      res_evidence_current_at_reserve := dev_evidence_current dev\<rparr>"

text \<open>The tail of \<^verbatim>\<open>reserve\<close>, after the last check: book the bytes, number the reservation, insert it.\<close>

definition book :: "AdmissionRequest \<Rightarrow> AuthorityContext \<Rightarrow> Candidate \<Rightarrow> CxlPool \<Rightarrow> CxlRegion \<Rightarrow> CxlDevice \<Rightarrow>
    Fabric \<Rightarrow> ReserveOutcome \<times> Fabric" where
  [fabric_defs]: "book req ctx c pool region dev f =
     (let f1 = recompute_global (put_region (cand_region c) (region_reserve (req_bytes req) region)
                 (put_pool (cand_pool c) (pool_reserve (req_bytes req) pool) f));
          n = fab_sequence f + 1;
          res = new_reservation n req ctx c dev (epoch f) in
      (grant res, f1\<lparr>fab_sequence := n,
         fab_state := (fab_state f1)\<lparr>st_reservations := om_emplace (res_id res) res (st_reservations (fab_state f1))\<rparr>\<rparr>))"

definition reserve :: "AdmissionRequest \<Rightarrow> AuthorityContext \<Rightarrow> Fabric \<Rightarrow> ReserveOutcome \<times> Fabric" where
  [fabric_defs]: "reserve req ctx f =
     (if ctx_coordinator_epoch ctx \<noteq> epoch f then (refuse DecisionReason.RESERVATION_STALE, f)
      else if req_bytes req = 0 then (refuse DecisionReason.INVALID_ARGUMENT, f)
      else let sel = build_selection (selection_snapshot f) req in
        if \<not> so_ok sel then (refuse (sr_reason (so_result sel)), f)
        else let c = so_chosen sel in
          case (find_pool f (cand_pool c), find_region f (cand_region c), find_device f (cand_device c)) of
            (Some pool, Some region, Some dev) \<Rightarrow>
              if pool_generation pool \<noteq> cand_pool_generation c \<or> reg_generation region \<noteq> cand_region_generation c \<or>
                 dev_generation dev \<noteq> cand_device_generation c
              then (refuse DecisionReason.POOL_GENERATION_STALE, f)
              else if req_bytes req > pool_free pool \<or> req_bytes req > region_free region
              then (refuse DecisionReason.CAPACITY_OVERCOMMIT, f)
              else book req ctx c pool region dev f
          | _ \<Rightarrow> (refuse DecisionReason.UNKNOWN_ERROR, f))"

definition commit :: "ReservationId \<Rightarrow> AuthorityContext \<Rightarrow> Fabric \<Rightarrow> ReserveOutcome \<times> Fabric" where
  [fabric_defs]: "commit k ctx f =
     (case find_reservation f k of
        None \<Rightarrow> (refuse DecisionReason.RESERVATION_STALE, f)
      | Some res \<Rightarrow>
          if res_state res \<noteq> ResumeState.RESERVED then (refuse DecisionReason.RESERVATION_STALE, f)
          else if ctx_coordinator_epoch ctx \<noteq> epoch f then (refuse DecisionReason.RESERVATION_STALE, f)
          else if res_created_epoch res \<noteq> epoch f then (refuse DecisionReason.RESERVATION_STALE, f)
          else if \<not> id_empty (ctx_worker_boot_id ctx) \<and> ctx_worker_boot_id ctx \<noteq> res_worker_boot_id res
          then (refuse DecisionReason.RESERVATION_STALE, f)
          else case (find_pool f (res_pool res), find_region f (res_region res), find_device f (res_device res)) of
            (Some pool, Some region, Some dev) \<Rightarrow>
              if pool_generation pool \<noteq> res_pool_generation res then (refuse DecisionReason.POOL_GENERATION_STALE, f)
              else if reg_generation region \<noteq> res_region_generation res then (refuse DecisionReason.REGION_STALE, f)
              else if dev_generation dev \<noteq> res_device_generation res then (refuse DecisionReason.DEVICE_STALE, f)
              else if res_bytes res > pool_reserved_bytes pool then (refuse DecisionReason.CAPACITY_OVERCOMMIT, f)
              else let res' = res\<lparr>res_state := ResumeState.COMMITTED, res_commit_epoch := epoch f\<rparr> in
                (grant res', recompute_global (put_reservation k res'
                   (put_region (res_region res) (region_commit (res_bytes res) region)
                   (put_pool (res_pool res) (pool_commit (res_bytes res) pool) f))))
          | _ \<Rightarrow> (refuse DecisionReason.POOL_GENERATION_STALE, f))"

text \<open>
  The pool part of \<^verbatim>\<open>release\<close>, then the rest. When bytes remain after the pool part the source returns
  at once, with the pool already changed and the ledger not recomputed.
\<close>

definition release_from_pool :: "Reservation \<Rightarrow> Fabric \<Rightarrow> bool \<times> Fabric" where
  [fabric_defs]: "release_from_pool res f =
     (case find_pool f (res_pool res) of
        None \<Rightarrow> (True, f)
      | Some pool \<Rightarrow>
          let (remaining, pool') = pool_release (res_bytes res) pool in
          (remaining = 0, put_pool (res_pool res) pool' f))"

definition release_from_region :: "Reservation \<Rightarrow> Fabric \<Rightarrow> Fabric" where
  [fabric_defs]: "release_from_region res f =
     (case find_region f (res_region res) of
        None \<Rightarrow> f
      | Some region \<Rightarrow> put_region (res_region res) (snd (region_release (res_bytes res) region)) f)"

definition release :: "ReservationId \<Rightarrow> AuthorityContext \<Rightarrow> Fabric \<Rightarrow> ReserveOutcome \<times> Fabric" where
  [fabric_defs]: "release k ctx f =
     (case find_reservation f k of
        None \<Rightarrow> (refuse DecisionReason.RESERVATION_STALE, f)
      | Some res \<Rightarrow>
          if res_state res = ResumeState.RELEASED then (refuse DecisionReason.RESERVATION_STALE, f)
          else if ctx_coordinator_epoch ctx \<noteq> epoch f then (refuse DecisionReason.RESERVATION_STALE, f)
          else if res_state res \<noteq> ResumeState.COMMITTED \<and> res_state res \<noteq> ResumeState.RESERVED
          then (refuse DecisionReason.RESERVATION_STALE, f)
          else let (done, f1) = release_from_pool res f in
            if \<not> done then (refuse DecisionReason.RESERVATION_CONFLICT, f1)
            else let res' = res\<lparr>res_state := ResumeState.RELEASED\<rparr> in
              (grant res', recompute_global (put_reservation k res' (release_from_region res f1))))"

section \<open>Pools and regions are ledgers\<close>

definition pool_sum :: "CxlPool \<Rightarrow> nat" where
  "pool_sum p = unat (pool_unavailable_bytes p) + unat (pool_reserved_bytes p) +
     unat (pool_committed_bytes p) + unat (pool_draining_bytes p)"

definition pool_ok :: "CxlPool \<Rightarrow> bool" where
  "pool_ok p \<longleftrightarrow> pool_sum p \<le> unat (pool_total_governed_bytes p)"

definition region_sum :: "CxlRegion \<Rightarrow> nat" where
  "region_sum r = unat (reg_reserved_bytes r) + unat (reg_committed_bytes r)"

definition region_ok :: "CxlRegion \<Rightarrow> bool" where
  "region_ok r \<longleftrightarrow> region_sum r \<le> unat (reg_region_capacity_bytes r)"

lemma pool_used_exact: "pool_ok p \<Longrightarrow> unat (pool_used p) = pool_sum p"
  using unat_u64_bound [of "pool_total_governed_bytes p"]
  unfolding pool_used_def pool_ok_def pool_sum_def by (intro unat_add4_u64) linarith

lemma pool_free_exact: "pool_ok p \<Longrightarrow> unat (pool_free p) + pool_sum p = unat (pool_total_governed_bytes p)"
  using pool_used_exact [of p]
  by (auto simp: pool_free_def Let_def word_le_nat unat_sub_u64 pool_ok_def)

lemma region_free_exact: "region_ok r \<Longrightarrow> unat (region_free r) + region_sum r = unat (reg_region_capacity_bytes r)"
  using unat_u64_bound [of "reg_region_capacity_bytes r"]
    unat_add_u64 [of "reg_reserved_bytes r" "reg_committed_bytes r"]
  by (auto simp: region_free_def Let_def word_le_nat unat_sub_u64 region_ok_def region_sum_def)

lemma release_bytes_exact:
  assumes "release_bytes n c r = (remaining, c', r')" and "unat n \<le> unat r + unat c"
  shows "remaining = 0" and "unat c' = unat c - unat n" and "unat r' = unat r - (unat n - unat c)"
proof -
  obtain c1 rem1 where take: "take_committed n c = (c1, rem1)" by (cases "take_committed n c")
  note ex = take_committed_exact [OF take]
  from ex assms(2) have "rem1 \<le> r" by (simp add: word_le_nat)
  with assms(1) take show "remaining = 0" "unat c' = unat c - unat n" "unat r' = unat r - (unat n - unat c)"
    using ex by (auto simp: release_bytes_def word_gt_0 unat_sub_u64 split: if_splits)
qed

lemma reserve_word_exact: "unat (x::u64) + unat n \<le> unat (t::u64) \<Longrightarrow> unat (x + n) = unat x + unat n"
  using unat_u64_bound [of t] by (intro unat_add_u64) linarith

lemma pool_reserve_law:
  assumes "pool_ok p" and "unat n \<le> unat (pool_free p)"
  shows "pool_ok (pool_reserve n p)" and "unat (pool_free (pool_reserve n p)) = unat (pool_free p) - unat n"
    and "unat (pool_reserved_bytes (pool_reserve n p)) = unat (pool_reserved_bytes p) + unat n"
proof -
  have room: "pool_sum p + unat n \<le> unat (pool_total_governed_bytes p)"
    using assms pool_free_exact [of p] by linarith
  show r: "unat (pool_reserved_bytes (pool_reserve n p)) = unat (pool_reserved_bytes p) + unat n"
    using room unfolding pool_reserve_def pool_sum_def
    by (simp add: reserve_word_exact [of _ _ "pool_total_governed_bytes p"])
  then have sum: "pool_sum (pool_reserve n p) = pool_sum p + unat n"
    by (simp add: pool_sum_def pool_reserve_def)
  then show ok: "pool_ok (pool_reserve n p)"
    using room by (simp add: pool_ok_def pool_reserve_def)
  show "unat (pool_free (pool_reserve n p)) = unat (pool_free p) - unat n"
    using pool_free_exact [OF ok] pool_free_exact [OF assms(1)] sum by (simp add: pool_reserve_def)
qed

lemma pool_commit_law:
  assumes "pool_ok p" and "unat n \<le> unat (pool_reserved_bytes p)"
  shows "pool_ok (pool_commit n p)" and "unat (pool_free (pool_commit n p)) = unat (pool_free p)"
    and "unat (pool_reserved_bytes (pool_commit n p)) = unat (pool_reserved_bytes p) - unat n"
    and "unat (pool_committed_bytes (pool_commit n p)) = unat (pool_committed_bytes p) + unat n"
proof -
  show r: "unat (pool_reserved_bytes (pool_commit n p)) = unat (pool_reserved_bytes p) - unat n"
    using assms(2) by (simp add: pool_commit_def unat_sub_u64 word_le_nat)
  show c: "unat (pool_committed_bytes (pool_commit n p)) = unat (pool_committed_bytes p) + unat n"
    using assms unfolding pool_commit_def pool_ok_def pool_sum_def
    by (simp add: reserve_word_exact [of _ _ "pool_total_governed_bytes p"])
  from r c have sum: "pool_sum (pool_commit n p) = pool_sum p"
    using assms(2) by (simp add: pool_sum_def pool_commit_def)
  then show ok: "pool_ok (pool_commit n p)"
    using assms(1) by (simp add: pool_ok_def pool_commit_def)
  show "unat (pool_free (pool_commit n p)) = unat (pool_free p)"
    using pool_free_exact [OF ok] pool_free_exact [OF assms(1)] sum by (simp add: pool_commit_def)
qed

lemma pool_release_law:
  assumes "pool_ok p" and "unat n \<le> unat (pool_reserved_bytes p) + unat (pool_committed_bytes p)"
  shows "fst (pool_release n p) = 0" and "pool_ok (snd (pool_release n p))"
    and "unat (pool_free (snd (pool_release n p))) = unat (pool_free p) + unat n"
    and "unat (pool_reserved_bytes (snd (pool_release n p))) =
           unat (pool_reserved_bytes p) - (unat n - unat (pool_committed_bytes p))"
    and "unat (pool_committed_bytes (snd (pool_release n p))) = unat (pool_committed_bytes p) - unat n"
proof -
  obtain rem c r where rel: "release_bytes n (pool_committed_bytes p) (pool_reserved_bytes p) = (rem, c, r)"
    by (cases "release_bytes n (pool_committed_bytes p) (pool_reserved_bytes p)")
  note ex = release_bytes_exact [OF rel assms(2)]
  let ?p = "p\<lparr>pool_committed_bytes := c, pool_reserved_bytes := r\<rparr>"
  have res: "pool_release n p = (0, ?p)" using rel ex by (simp add: pool_release_def)
  have sum: "pool_sum ?p + unat n = pool_sum p" using ex assms(2) by (simp add: pool_sum_def)
  then have ok: "pool_ok ?p" using assms(1) by (simp add: pool_ok_def)
  show "fst (pool_release n p) = 0" "pool_ok (snd (pool_release n p))" using res ok by simp_all
  show "unat (pool_free (snd (pool_release n p))) = unat (pool_free p) + unat n"
    using pool_free_exact [OF ok] pool_free_exact [OF assms(1)] sum by (simp add: res)
  show "unat (pool_reserved_bytes (snd (pool_release n p))) =
          unat (pool_reserved_bytes p) - (unat n - unat (pool_committed_bytes p))"
    "unat (pool_committed_bytes (snd (pool_release n p))) = unat (pool_committed_bytes p) - unat n"
    using ex by (simp_all add: res)
qed

interpretation pl: ledger pool_ok "\<lambda>p. unat (pool_free p)" "\<lambda>p. unat (pool_reserved_bytes p)"
  "\<lambda>p. unat (pool_committed_bytes p)" pool_reserve pool_commit "\<lambda>n p. snd (pool_release n p)"
  by unfold_locales (simp_all add: pool_reserve_law pool_commit_law pool_release_law, simp add: pool_reserve_def)

lemma region_reserve_law:
  assumes "region_ok g" and "unat n \<le> unat (region_free g)"
  shows "region_ok (region_reserve n g)" and "unat (region_free (region_reserve n g)) = unat (region_free g) - unat n"
    and "unat (reg_reserved_bytes (region_reserve n g)) = unat (reg_reserved_bytes g) + unat n"
proof -
  have room: "region_sum g + unat n \<le> unat (reg_region_capacity_bytes g)"
    using assms region_free_exact [of g] by linarith
  show r: "unat (reg_reserved_bytes (region_reserve n g)) = unat (reg_reserved_bytes g) + unat n"
    using room unfolding region_reserve_def region_sum_def
    by (simp add: reserve_word_exact [of _ _ "reg_region_capacity_bytes g"])
  then have sum: "region_sum (region_reserve n g) = region_sum g + unat n"
    by (simp add: region_sum_def region_reserve_def)
  then show ok: "region_ok (region_reserve n g)"
    using room by (simp add: region_ok_def region_reserve_def)
  show "unat (region_free (region_reserve n g)) = unat (region_free g) - unat n"
    using region_free_exact [OF ok] region_free_exact [OF assms(1)] sum by (simp add: region_reserve_def)
qed

lemma region_commit_law:
  assumes "region_ok g" and "unat n \<le> unat (reg_reserved_bytes g)"
  shows "region_ok (region_commit n g)" and "unat (region_free (region_commit n g)) = unat (region_free g)"
    and "unat (reg_reserved_bytes (region_commit n g)) = unat (reg_reserved_bytes g) - unat n"
    and "unat (reg_committed_bytes (region_commit n g)) = unat (reg_committed_bytes g) + unat n"
proof -
  show r: "unat (reg_reserved_bytes (region_commit n g)) = unat (reg_reserved_bytes g) - unat n"
    using assms(2) by (simp add: region_commit_def unat_sub_u64 word_le_nat)
  show c: "unat (reg_committed_bytes (region_commit n g)) = unat (reg_committed_bytes g) + unat n"
    using assms unfolding region_commit_def region_ok_def region_sum_def
    by (simp add: reserve_word_exact [of _ _ "reg_region_capacity_bytes g"])
  from r c have sum: "region_sum (region_commit n g) = region_sum g"
    using assms(2) by (simp add: region_sum_def region_commit_def)
  then show ok: "region_ok (region_commit n g)"
    using assms(1) by (simp add: region_ok_def region_commit_def)
  show "unat (region_free (region_commit n g)) = unat (region_free g)"
    using region_free_exact [OF ok] region_free_exact [OF assms(1)] sum by (simp add: region_commit_def)
qed

lemma region_release_law:
  assumes "region_ok g" and "unat n \<le> unat (reg_reserved_bytes g) + unat (reg_committed_bytes g)"
  shows "fst (region_release n g) = 0" and "region_ok (snd (region_release n g))"
    and "unat (region_free (snd (region_release n g))) = unat (region_free g) + unat n"
    and "unat (reg_reserved_bytes (snd (region_release n g))) =
           unat (reg_reserved_bytes g) - (unat n - unat (reg_committed_bytes g))"
    and "unat (reg_committed_bytes (snd (region_release n g))) = unat (reg_committed_bytes g) - unat n"
proof -
  obtain rem c r where rel: "release_bytes n (reg_committed_bytes g) (reg_reserved_bytes g) = (rem, c, r)"
    by (cases "release_bytes n (reg_committed_bytes g) (reg_reserved_bytes g)")
  note ex = release_bytes_exact [OF rel assms(2)]
  let ?g = "g\<lparr>reg_committed_bytes := c, reg_reserved_bytes := r\<rparr>"
  have res: "region_release n g = (0, ?g)" using rel ex by (simp add: region_release_def)
  have sum: "region_sum ?g + unat n = region_sum g" using ex assms(2) by (simp add: region_sum_def)
  then have ok: "region_ok ?g" using assms(1) by (simp add: region_ok_def)
  show "fst (region_release n g) = 0" "region_ok (snd (region_release n g))" using res ok by simp_all
  show "unat (region_free (snd (region_release n g))) = unat (region_free g) + unat n"
    using region_free_exact [OF ok] region_free_exact [OF assms(1)] sum by (simp add: res)
  show "unat (reg_reserved_bytes (snd (region_release n g))) =
          unat (reg_reserved_bytes g) - (unat n - unat (reg_committed_bytes g))"
    "unat (reg_committed_bytes (snd (region_release n g))) = unat (reg_committed_bytes g) - unat n"
    using ex by (simp_all add: res)
qed

interpretation rg: ledger region_ok "\<lambda>g. unat (region_free g)" "\<lambda>g. unat (reg_reserved_bytes g)"
  "\<lambda>g. unat (reg_committed_bytes g)" region_reserve region_commit "\<lambda>n g. snd (region_release n g)"
  by unfold_locales (simp_all add: region_reserve_law region_commit_law region_release_law, simp add: region_reserve_def)

end
