(* ===== verification/Engine.thy ===== *)
theory Engine
  imports Admission
begin

text \<open>
  The governance engine as a transition system: a \<open>call\<close> is one invocation of a mutating method of
  \<^verbatim>\<open>Fabric\<close>, \<open>exec\<close> its effect and \<open>reply\<close> the reason it answers with. Every method runs under the mutex,
  so any interleaving of concurrent callers is a list of calls. \<open>reachable\<close> is the closure under the
  calls an environment may make.

  The shape lemmas split every operation into its refusals and the one update it can make; the
  invariants of the theories that follow are proved from them.
\<close>

section \<open>Calls\<close>

datatype call =
    Set_epoch CoordinatorEpoch
  | Set_policy_generation PolicyGeneration
  | Advance_evidence_generation
  | Register_device CxlDevice AuthorityContext
  | Create_region CxlRegion AuthorityContext
  | Update_region CxlRegion AuthorityContext
  | Reconfigure_region RegionId "DeviceId list" AuthorityContext
  | Create_pool CxlPool AuthorityContext
  | Add_pool_member PoolId PoolMember AuthorityContext
  | Remove_pool_member PoolId DeviceId AuthorityContext
  | Mark_device_revalidation DeviceId AuthorityContext
  | Mark_device_online DeviceId AuthorityContext
  | Mark_region_draining RegionId AuthorityContext
  | Mark_pool_draining PoolId AuthorityContext
  | Reconcile_pool PoolId AuthorityContext
  | Revalidate_pool PoolId AuthorityContext
  | Revalidate_region RegionId AuthorityContext
  | Reserve AdmissionRequest AuthorityContext
  | Commit ReservationId AuthorityContext
  | Release ReservationId AuthorityContext
  | Import_persisted PersistedState

fun perform :: "call \<Rightarrow> Fabric \<Rightarrow> DecisionReason \<times> Fabric" where
  "perform (Set_epoch e) f = (DecisionReason.OK, set_epoch e f)"
| "perform (Set_policy_generation p) f = (DecisionReason.OK, set_policy_generation p f)"
| "perform Advance_evidence_generation f = (DecisionReason.OK, advance_evidence_generation f)"
| "perform (Register_device d ctx) f = register_device d ctx f"
| "perform (Create_region r ctx) f = create_region r ctx f"
| "perform (Update_region r ctx) f = update_region r ctx f"
| "perform (Reconfigure_region k ds ctx) f = map_prod rc_reason id (reconfigure_region k ds ctx f)"
| "perform (Create_pool p ctx) f = create_pool p ctx f"
| "perform (Add_pool_member k m ctx) f = add_pool_member k m ctx f"
| "perform (Remove_pool_member k d ctx) f = remove_pool_member k d ctx f"
| "perform (Mark_device_revalidation d ctx) f = mark_device_revalidation d ctx f"
| "perform (Mark_device_online d ctx) f = mark_device_online d ctx f"
| "perform (Mark_region_draining k ctx) f = mark_region_draining k ctx f"
| "perform (Mark_pool_draining k ctx) f = mark_pool_draining k ctx f"
| "perform (Reconcile_pool k ctx) f = reconcile_pool k ctx f"
| "perform (Revalidate_pool k ctx) f = revalidate_pool k ctx f"
| "perform (Revalidate_region k ctx) f = revalidate_region k ctx f"
| "perform (Reserve req ctx) f = map_prod ro_reason id (reserve req ctx f)"
| "perform (Commit k ctx) f = map_prod ro_reason id (commit k ctx f)"
| "perform (Release k ctx) f = map_prod ro_reason id (release k ctx f)"
| "perform (Import_persisted ps) f = (DecisionReason.OK, import_persisted ps f)"

definition exec :: "call \<Rightarrow> Fabric \<Rightarrow> Fabric" where
  "exec c f = snd (perform c f)"

definition reply :: "call \<Rightarrow> Fabric \<Rightarrow> DecisionReason" where
  "reply c f = fst (perform c f)"

text \<open>The authority context a call carries, if it carries one.\<close>

fun call_ctx :: "call \<Rightarrow> AuthorityContext option" where
  "call_ctx (Set_epoch e) = None"
| "call_ctx (Set_policy_generation p) = None"
| "call_ctx Advance_evidence_generation = None"
| "call_ctx (Import_persisted ps) = None"
| "call_ctx (Register_device d ctx) = Some ctx"
| "call_ctx (Create_region r ctx) = Some ctx"
| "call_ctx (Update_region r ctx) = Some ctx"
| "call_ctx (Reconfigure_region k ds ctx) = Some ctx"
| "call_ctx (Create_pool p ctx) = Some ctx"
| "call_ctx (Add_pool_member k m ctx) = Some ctx"
| "call_ctx (Remove_pool_member k d ctx) = Some ctx"
| "call_ctx (Mark_device_revalidation d ctx) = Some ctx"
| "call_ctx (Mark_device_online d ctx) = Some ctx"
| "call_ctx (Mark_region_draining k ctx) = Some ctx"
| "call_ctx (Mark_pool_draining k ctx) = Some ctx"
| "call_ctx (Reconcile_pool k ctx) = Some ctx"
| "call_ctx (Revalidate_pool k ctx) = Some ctx"
| "call_ctx (Revalidate_region k ctx) = Some ctx"
| "call_ctx (Reserve req ctx) = Some ctx"
| "call_ctx (Commit k ctx) = Some ctx"
| "call_ctx (Release k ctx) = Some ctx"

inductive reachable :: "(call \<Rightarrow> Fabric \<Rightarrow> bool) \<Rightarrow> Fabric \<Rightarrow> nat \<Rightarrow> Fabric \<Rightarrow> bool"
  for allowed :: "call \<Rightarrow> Fabric \<Rightarrow> bool" and start :: Fabric where
  initial: "reachable allowed start 0 start"
| step: "reachable allowed start n f \<Longrightarrow> allowed c f \<Longrightarrow> reachable allowed start (Suc n) (exec c f)"

code_pred reachable .

text \<open>A sequence of calls.\<close>

fun run :: "call list \<Rightarrow> Fabric \<Rightarrow> Fabric" where
  "run [] f = f"
| "run (c # cs) f = run cs (exec c f)"

fun allowed_run :: "(call \<Rightarrow> Fabric \<Rightarrow> bool) \<Rightarrow> call list \<Rightarrow> Fabric \<Rightarrow> bool" where
  "allowed_run allowed [] f \<longleftrightarrow> True"
| "allowed_run allowed (c # cs) f \<longleftrightarrow> allowed c f \<and> allowed_run allowed cs (exec c f)"

lemma allowed_run_all: "(\<And>call g. call \<in> set cs \<Longrightarrow> P call g) \<Longrightarrow> allowed_run P cs f"
  by (induction cs arbitrary: f) auto

lemma reachable_run:
  "reachable allowed s n f \<Longrightarrow> allowed_run allowed cs f \<Longrightarrow> reachable allowed s (n + length cs) (run cs f)"
proof (induction cs arbitrary: n f)
  case (Cons c cs)
  then have "reachable allowed s (Suc n) (exec c f)" by (auto intro: reachable.step)
  with Cons show ?case by fastforce
qed simp

section \<open>The shape of each operation\<close>

text \<open>
  Each operation either refuses and leaves the state alone, or stores one record. The rules name what
  is known of the record that is stored.
\<close>

lemma register_device_shape:
  "snd (register_device dev ctx f) = f \<and>
      fst (register_device dev ctx f) \<noteq> DecisionReason.OK \<or>
   (register_device dev ctx f = (DecisionReason.OK, put_device (dev_id dev) dev f) \<and>
      ctx_coordinator_epoch ctx = epoch f \<and>
      \<not> id_empty (dev_id dev) \<and>
      \<not> gen_empty (dev_generation dev) \<and>
      \<not> id_empty (dev_boot_id dev) \<and>
      (\<forall>old. find_device f (dev_id dev) = Some old \<longrightarrow> dev_generation old \<le> dev_generation dev))"
  unfolding register_device_def by (auto split: option.splits if_splits simp: not_less)

lemma mark_device_revalidation_shape:
  "snd (mark_device_revalidation d ctx f) = f \<and>
      fst (mark_device_revalidation d ctx f) \<noteq> DecisionReason.OK \<or>
   (\<exists>dev. mark_device_revalidation d ctx f = (DecisionReason.OK,
        put_device d (dev\<lparr>dev_state := DeviceState.REVALIDATION_REQUIRED, dev_evidence_current := False\<rparr>) f) \<and>
      ctx_coordinator_epoch ctx = epoch f \<and>
      find_device f d = Some dev \<and>
      valid_transition_device (dev_state dev) DeviceState.REVALIDATION_REQUIRED)"
  unfolding mark_device_revalidation_def by (auto split: option.splits if_splits)

lemma mark_device_online_shape:
  "snd (mark_device_online d ctx f) = f \<and>
      fst (mark_device_online d ctx f) \<noteq> DecisionReason.OK \<or>
   (\<exists>dev. mark_device_online d ctx f = (DecisionReason.OK,
        put_device d (dev\<lparr>dev_state := DeviceState.ONLINE, dev_evidence_current := True\<rparr>) f) \<and>
      ctx_coordinator_epoch ctx = epoch f \<and>
      find_device f d = Some dev \<and>
      valid_transition_device (dev_state dev) DeviceState.ONLINE)"
  unfolding mark_device_online_def by (auto split: option.splits if_splits)

lemma check_region_members_objection: "check_region_members f pool ds = Some r \<Longrightarrow> r \<noteq> DecisionReason.OK"
  by (induction ds) (auto split: if_splits)

lemma check_region_members_None:
  "check_region_members f pool ds = None \<longleftrightarrow> (\<forall>d \<in> set ds. find_device f d \<noteq> None \<and> has_member pool d)"
  by (induction ds) (auto simp: om_count_find)

lemma create_region_shape:
  "snd (create_region r ctx f) = f \<and>
      fst (create_region r ctx f) \<noteq> DecisionReason.OK \<or>
   (\<exists>pool. create_region r ctx f = (DecisionReason.OK, put_region (reg_id r) r f) \<and>
      ctx_coordinator_epoch ctx = epoch f \<and>
      \<not> id_empty (reg_id r) \<and>
      \<not> gen_empty (reg_generation r) \<and>
      find_region f (reg_id r) = None \<and>
      find_pool f (reg_pool r) = Some pool \<and>
      (\<forall>d \<in> set (reg_member_devices r). find_device f d \<noteq> None \<and> has_member pool d))"
  unfolding create_region_def
  by (auto split: option.splits if_splits dest: check_region_members_objection
      simp: om_count_find check_region_members_None)

lemma update_region_shape:
  "snd (update_region r ctx f) = f \<and>
      fst (update_region r ctx f) \<noteq> DecisionReason.OK \<or>
   (\<exists>old. update_region r ctx f = (DecisionReason.OK, put_region (reg_id r) r f) \<and>
      ctx_coordinator_epoch ctx = epoch f \<and>
      find_region f (reg_id r) = Some old \<and>
      reg_generation old \<le> reg_generation r)"
  unfolding update_region_def by (auto split: option.splits if_splits simp: not_less)

lemma reconfigure_region_shape:
  "snd (reconfigure_region k ds ctx f) = f \<and>
      \<not> rc_ok (fst (reconfigure_region k ds ctx f)) \<and>
      rc_reason (fst (reconfigure_region k ds ctx f)) \<noteq> DecisionReason.OK \<or>
   (\<exists>r. snd (reconfigure_region k ds ctx f) = put_region k (r\<lparr>reg_generation := gen_next (reg_generation r),
        reg_member_devices := ds, reg_state := RegionState.RECONFIGURING, reg_evidence_current := False\<rparr>) f \<and>
      rc_ok (fst (reconfigure_region k ds ctx f)) \<and>
      rc_reason (fst (reconfigure_region k ds ctx f)) = DecisionReason.OK \<and>
      rc_new_generation (fst (reconfigure_region k ds ctx f)) = gen_next (reg_generation r) \<and>
      ctx_coordinator_epoch ctx = epoch f \<and>
      find_region f k = Some r \<and>
      \<not> gen_empty (gen_next (reg_generation r)))"
  unfolding reconfigure_region_def Let_def ReconfigureOutcome_default_def
  by (auto split: option.splits if_splits)

lemma mark_region_draining_shape:
  "snd (mark_region_draining k ctx f) = f \<and>
      fst (mark_region_draining k ctx f) \<noteq> DecisionReason.OK \<or>
   (\<exists>r. mark_region_draining k ctx f = (DecisionReason.OK, put_region k (r\<lparr>reg_state := RegionState.DRAINING\<rparr>) f) \<and>
      ctx_coordinator_epoch ctx = epoch f \<and>
      find_region f k = Some r \<and>
      valid_transition_region (reg_state r) RegionState.DRAINING)"
  unfolding mark_region_draining_def by (auto split: option.splits if_splits)

lemma revalidate_region_shape:
  "snd (revalidate_region k ctx f) = f \<and>
      fst (revalidate_region k ctx f) \<noteq> DecisionReason.OK \<or>
   (\<exists>r. revalidate_region k ctx f = (DecisionReason.OK, put_region k (r\<lparr>reg_state := RegionState.ONLINE,
        reg_evidence_current := True, reg_health := HealthState.HEALTHY\<rparr>) f) \<and>
      ctx_coordinator_epoch ctx = epoch f \<and>
      find_region f k = Some r \<and>
      valid_transition_region (reg_state r) RegionState.ONLINE)"
  unfolding revalidate_region_def by (auto split: option.splits if_splits)

lemma check_pool_members_objection: "check_pool_members f seen ms = Some r \<Longrightarrow> r \<noteq> DecisionReason.OK"
  by (induction ms arbitrary: seen) (auto split: if_splits)

lemma check_pool_members_None:
  "check_pool_members f seen ms = None \<longleftrightarrow>
     distinct (map pm_device ms) \<and> (\<forall>m \<in> set ms. find_device f (pm_device m) \<noteq> None \<and> pm_device m \<notin> set seen \<and>
       (\<forall>kv \<in> set (st_pools (fab_state f)). \<not> has_member (snd kv) (pm_device m)))"
  by (induction ms arbitrary: seen) (auto simp: om_count_find image_iff)

lemma create_pool_shape:
  "snd (create_pool p ctx f) = f \<and> fst (create_pool p ctx f) \<noteq> DecisionReason.OK \<or>
   (create_pool p ctx f = (DecisionReason.OK, recompute_global (put_pool (pool_id p)
        ((recompute_pool p)\<lparr>pool_state := PoolState.AVAILABLE, pool_evidence_current := True\<rparr>) f)) \<and>
      ctx_coordinator_epoch ctx = epoch f \<and> \<not> id_empty (pool_id p) \<and> \<not> gen_empty (pool_generation p) \<and>
      find_pool f (pool_id p) = None \<and> distinct (map pm_device (pool_members p)) \<and>
      (\<forall>m \<in> set (pool_members p). find_device f (pm_device m) \<noteq> None \<and>
         (\<forall>kv \<in> set (st_pools (fab_state f)). \<not> has_member (snd kv) (pm_device m))))"
  unfolding create_pool_def Let_def
  by (auto split: option.splits if_splits dest: check_pool_members_objection
      simp: om_count_find check_pool_members_None)

lemma add_pool_member_shape:
  "snd (add_pool_member k m ctx f) = f \<and> fst (add_pool_member k m ctx f) \<noteq> DecisionReason.OK \<or>
   (\<exists>p. add_pool_member k m ctx f = (DecisionReason.OK, recompute_global (put_pool k
          (advance_pool (p\<lparr>pool_members := pool_members p @ [m]\<rparr>)) f)) \<and>
      ctx_coordinator_epoch ctx = epoch f \<and> find_pool f k = Some p \<and> find_device f (pm_device m) \<noteq> None \<and>
      \<not> has_member p (pm_device m) \<and>
      (\<forall>kv \<in> set (st_pools (fab_state f)). fst kv \<noteq> k \<longrightarrow> \<not> has_member (snd kv) (pm_device m)))"
  unfolding add_pool_member_def by (auto split: option.splits if_splits simp: om_count_find)

lemma remove_pool_member_shape:
  "snd (remove_pool_member k d ctx f) = f \<and> fst (remove_pool_member k d ctx f) \<noteq> DecisionReason.OK \<or>
   (\<exists>p. remove_pool_member k d ctx f = (DecisionReason.OK, recompute_global (put_pool k
          (advance_pool (p\<lparr>pool_members := erase_member d (pool_members p)\<rparr>)) f)) \<and>
      ctx_coordinator_epoch ctx = epoch f \<and> find_pool f k = Some p \<and> has_member p d)"
  unfolding remove_pool_member_def by (auto split: option.splits if_splits)

lemma mark_pool_draining_shape:
  "snd (mark_pool_draining k ctx f) = f \<and> fst (mark_pool_draining k ctx f) \<noteq> DecisionReason.OK \<or>
   (\<exists>p. mark_pool_draining k ctx f = (DecisionReason.OK, put_pool k (p\<lparr>pool_state := PoolState.DRAINING\<rparr>) f) \<and>
      ctx_coordinator_epoch ctx = epoch f \<and> find_pool f k = Some p \<and>
      valid_transition_pool (pool_state p) PoolState.DRAINING)"
  unfolding mark_pool_draining_def by (auto split: option.splits if_splits)

lemma reconcile_pool_shape:
  "snd (reconcile_pool k ctx f) = f \<and> fst (reconcile_pool k ctx f) \<noteq> DecisionReason.OK \<or>
   (\<exists>p. reconcile_pool k ctx f = (DecisionReason.OK, recompute_global (put_pool k (recompute_pool p) f)) \<and>
      ctx_coordinator_epoch ctx = epoch f \<and> find_pool f k = Some p)"
  unfolding reconcile_pool_def by (auto split: option.splits if_splits)

lemma revalidate_pool_shape:
  "snd (revalidate_pool k ctx f) = f \<and> fst (revalidate_pool k ctx f) \<noteq> DecisionReason.OK \<or>
   (\<exists>p. revalidate_pool k ctx f = (DecisionReason.OK, recompute_global (put_pool k
          (recompute_pool (p\<lparr>pool_state := PoolState.AVAILABLE, pool_evidence_current := True,
             pool_health_summary := HealthState.HEALTHY\<rparr>)) f)) \<and>
      ctx_coordinator_epoch ctx = epoch f \<and> find_pool f k = Some p \<and>
      valid_transition_pool (pool_state p) PoolState.AVAILABLE)"
  unfolding revalidate_pool_def by (auto split: option.splits if_splits)

lemma refuse_simps [simp]: "ro_ok (refuse r) = False" "ro_reason (refuse r) = r"
  by (simp_all add: refuse_def ReserveOutcome_default_def)

lemma grant_simps [simp]: "ro_ok (grant r)" "ro_reason (grant r) = DecisionReason.OK" "ro_reservation (grant r) = r"
  by (simp_all add: grant_def)

lemma book_fst [simp]:
  "fst (book req ctx c pool region dev f) = grant (new_reservation (fab_sequence f + 1) req ctx c dev (epoch f))"
  by (simp add: book_def Let_def)

lemma reserve_shape:
  "snd (reserve req ctx f) = f \<and> \<not> ro_ok (fst (reserve req ctx f)) \<or>
   (\<exists>c pool region dev. reserve req ctx f = book req ctx c pool region dev f \<and>
      ctx_coordinator_epoch ctx = epoch f \<and> req_bytes req \<noteq> 0 \<and>
      so_ok (select req f) \<and> c = so_chosen (select req f) \<and>
      find_pool f (cand_pool c) = Some pool \<and> find_region f (cand_region c) = Some region \<and>
      find_device f (cand_device c) = Some dev \<and> pool_generation pool = cand_pool_generation c \<and>
      reg_generation region = cand_region_generation c \<and> dev_generation dev = cand_device_generation c \<and>
      req_bytes req \<le> pool_free pool \<and> req_bytes req \<le> region_free region)"
  unfolding reserve_def select_def Let_def by (auto split: option.splits if_splits simp: not_less)

lemma commit_shape:
  "snd (commit k ctx f) = f \<and> \<not> ro_ok (fst (commit k ctx f)) \<and> ro_reason (fst (commit k ctx f)) \<noteq> DecisionReason.OK \<or>
   (\<exists>v pool region dev. commit k ctx f =
        (grant (v\<lparr>res_state := ResumeState.COMMITTED, res_commit_epoch := epoch f\<rparr>),
         recompute_global (put_reservation k (v\<lparr>res_state := ResumeState.COMMITTED, res_commit_epoch := epoch f\<rparr>)
           (put_region (res_region v) (region_commit (res_bytes v) region)
           (put_pool (res_pool v) (pool_commit (res_bytes v) pool) f)))) \<and>
      ctx_coordinator_epoch ctx = epoch f \<and> find_reservation f k = Some v \<and>
      res_state v = ResumeState.RESERVED \<and> res_created_epoch v = epoch f \<and>
      (id_empty (ctx_worker_boot_id ctx) \<or> ctx_worker_boot_id ctx = res_worker_boot_id v) \<and>
      find_pool f (res_pool v) = Some pool \<and> find_region f (res_region v) = Some region \<and>
      find_device f (res_device v) = Some dev \<and> pool_generation pool = res_pool_generation v \<and>
      reg_generation region = res_region_generation v \<and> dev_generation dev = res_device_generation v \<and>
      res_bytes v \<le> pool_reserved_bytes pool)"
  unfolding commit_def Let_def by (auto split: option.splits if_splits simp: not_less)

lemma release_shape:
  "snd (release k ctx f) = f \<and> ro_reason (fst (release k ctx f)) = DecisionReason.RESERVATION_STALE \<and>
     \<not> ro_ok (fst (release k ctx f)) \<or>
   (\<exists>v. ctx_coordinator_epoch ctx = epoch f \<and> find_reservation f k = Some v \<and>
      (res_state v = ResumeState.RESERVED \<or> res_state v = ResumeState.COMMITTED) \<and>
      (if fst (release_from_pool v f)
       then release k ctx f = (grant (v\<lparr>res_state := ResumeState.RELEASED\<rparr>),
          recompute_global (put_reservation k (v\<lparr>res_state := ResumeState.RELEASED\<rparr>)
            (release_from_region v (snd (release_from_pool v f)))))
       else release k ctx f = (refuse DecisionReason.RESERVATION_CONFLICT, snd (release_from_pool v f))))"
  unfolding release_def Let_def by (auto split: option.splits if_splits prod.splits)

section \<open>Stale authority\<close>

lemmas operation_defs = register_device_def create_region_def update_region_def reconfigure_region_def create_pool_def
  add_pool_member_def remove_pool_member_def mark_device_revalidation_def mark_device_online_def mark_region_draining_def
  mark_pool_draining_def reconcile_pool_def revalidate_pool_def revalidate_region_def reserve_def commit_def release_def

text \<open>A call made under another epoch than the current one changes nothing and is told so.\<close>

lemma stale_epoch_fenced:
  assumes "call_ctx c = Some ctx" and "ctx_coordinator_epoch ctx \<noteq> epoch f"
  shows "perform c f = (DecisionReason.RESERVATION_STALE, f)"
  using assms
  by (cases c)
    (simp_all add: operation_defs ReconfigureOutcome_default_def split: option.splits)

end
