(* ===== verification/Structure.thy ===== *)
theory Structure
  imports Engine
begin

text \<open>
  The structural invariant of the registries: every map is well formed and keyed by the identity of
  its records, generations are set, every pool member is a registered device, no device is a member
  twice, neither of one pool nor of two, and no pool is retired. It is kept by every call; an import
  needs the same of the imported records.
\<close>

section \<open>The invariant\<close>

definition members_ok :: "(DeviceId \<Rightarrow> CxlDevice option) \<Rightarrow> (PoolId \<Rightarrow> CxlPool option) \<Rightarrow> bool" where
  "members_ok devs pools \<longleftrightarrow>
     (\<forall>k p. pools k = Some p \<longrightarrow> distinct (map pm_device (pool_members p)) \<and>
        (\<forall>d. has_member p d \<longrightarrow> devs d \<noteq> None \<and> (\<forall>j q. pools j = Some q \<and> has_member q d \<longrightarrow> j = k)))"

definition records_ok ::
  "(DeviceId \<Rightarrow> CxlDevice option) \<Rightarrow> (RegionId \<Rightarrow> CxlRegion option) \<Rightarrow> (PoolId \<Rightarrow> CxlPool option) \<Rightarrow> bool" where
  "records_ok devs regs pools \<longleftrightarrow>
     (\<forall>k d. devs k = Some d \<longrightarrow> dev_id d = k \<and> \<not> id_empty k \<and> \<not> gen_empty (dev_generation d)) \<and>
     (\<forall>k r. regs k = Some r \<longrightarrow> reg_id r = k \<and> \<not> id_empty k \<and> \<not> gen_empty (reg_generation r)) \<and>
     (\<forall>k p. pools k = Some p \<longrightarrow> pool_id p = k \<and> \<not> id_empty k \<and> \<not> gen_empty (pool_generation p)) \<and>
     members_ok devs pools"

text \<open>The names of reservations are made by the engine.\<close>

definition numbered :: "ReservationId \<Rightarrow> bool" where
  "numbered k \<longleftrightarrow> (\<exists>i. k = reservation_id i)"

lemma numbered_reservation_id [simp]: "numbered (reservation_id i)"
  by (auto simp: numbered_def)

definition structure_ok :: "Fabric \<Rightarrow> bool" where
  "structure_ok f \<longleftrightarrow> wf_maps f \<and> records_ok (find_device f) (find_region f) (find_pool f) \<and>
     (\<forall>k p. find_pool f k = Some p \<longrightarrow> pool_state p \<noteq> PoolState.RETIRED) \<and>
     (\<forall>k v. find_reservation f k = Some v \<longrightarrow> res_id v = k \<and> numbered k)"

definition persisted_ok :: "PersistedState \<Rightarrow> bool" where
  "persisted_ok ps \<longleftrightarrow> om_wf (ps_devices ps) \<and> om_wf (ps_regions ps) \<and> om_wf (ps_pools ps) \<and>
     records_ok (om_find (ps_devices ps)) (om_find (ps_regions ps)) (om_find (ps_pools ps))"

text \<open>The environment may make any call; only an import must bring records that are well formed.\<close>

fun well_formed_call :: "call \<Rightarrow> Fabric \<Rightarrow> bool" where
  "well_formed_call (Import_persisted ps) f \<longleftrightarrow> persisted_ok ps"
| "well_formed_call _ f \<longleftrightarrow> True"

section \<open>One record is stored\<close>

lemma structure_wf: "structure_ok f \<Longrightarrow> wf_maps f"
  by (simp add: structure_ok_def)

lemma structure_device:
  "structure_ok f \<Longrightarrow> find_device f k = Some d \<Longrightarrow> dev_id d = k \<and> \<not> id_empty k \<and> \<not> gen_empty (dev_generation d)"
  by (simp add: structure_ok_def records_ok_def)

lemma structure_region:
  "structure_ok f \<Longrightarrow> find_region f k = Some r \<Longrightarrow> reg_id r = k \<and> \<not> id_empty k \<and> \<not> gen_empty (reg_generation r)"
  by (simp add: structure_ok_def records_ok_def)

lemma structure_pool:
  "structure_ok f \<Longrightarrow> find_pool f k = Some p \<Longrightarrow>
     pool_id p = k \<and> \<not> id_empty k \<and> \<not> gen_empty (pool_generation p) \<and> pool_state p \<noteq> PoolState.RETIRED"
  by (simp add: structure_ok_def records_ok_def)

lemma structure_members: "structure_ok f \<Longrightarrow> members_ok (find_device f) (find_pool f)"
  by (simp add: structure_ok_def records_ok_def)

lemma structure_put_device:
  assumes "structure_ok f" and "dev_id d = k" and "\<not> id_empty k" and "\<not> gen_empty (dev_generation d)"
  shows "structure_ok (put_device k d f)"
  using assms structure_wf [OF assms(1)]
  by (auto simp: structure_ok_def records_ok_def members_ok_def)

lemma structure_put_region:
  assumes "structure_ok f" and "reg_id r = k" and "\<not> id_empty k" and "\<not> gen_empty (reg_generation r)"
  shows "structure_ok (put_region k r f)"
  using assms structure_wf [OF assms(1)]
  by (auto simp: structure_ok_def records_ok_def)

lemma structure_put_pool:
  assumes "structure_ok f" and "pool_id p = k" and "\<not> id_empty k" and "\<not> gen_empty (pool_generation p)"
    and "pool_state p \<noteq> PoolState.RETIRED" and "distinct (map pm_device (pool_members p))"
    and "\<And>d. has_member p d \<Longrightarrow> find_device f d \<noteq> None"
    and "\<And>d j q. has_member p d \<Longrightarrow> find_pool f j = Some q \<Longrightarrow> has_member q d \<Longrightarrow> j = k"
  shows "structure_ok (put_pool k p f)"
proof -
  note wf = structure_wf [OF assms(1)]
  have "members_ok (find_device f) (find_pool (put_pool k p f))"
    using structure_members [OF assms(1)] assms(6,7,8) wf unfolding members_ok_def by (auto split: if_splits)
  then show ?thesis
    using assms(1-5) wf by (auto simp: structure_ok_def records_ok_def)
qed

lemma structure_put_reservation:
  "structure_ok f \<Longrightarrow> res_id v = k \<Longrightarrow> numbered k \<Longrightarrow> structure_ok (put_reservation k v f)"
  using structure_wf [of f] by (auto simp: structure_ok_def)

lemma structure_recompute_global [simp]: "structure_ok (recompute_global f) = structure_ok f"
  by (simp add: structure_ok_def)

text \<open>A pool whose members are a part of what they were, or one member more that no pool has.\<close>

lemma structure_same_members:
  assumes "structure_ok f" and "find_pool f k = Some p" and "pool_id q = pool_id p"
    and "\<not> gen_empty (pool_generation q)" and "pool_state q \<noteq> PoolState.RETIRED" and "pool_members q = pool_members p"
  shows "structure_ok (put_pool k q f)"
proof (rule structure_put_pool)
  have same: "has_member q d \<longleftrightarrow> has_member p d" for d by (simp add: has_member_def assms(6))
  show "distinct (map pm_device (pool_members q))"
    "has_member q d \<Longrightarrow> find_device f d \<noteq> None"
    "has_member q d \<Longrightarrow> find_pool f j = Some q' \<Longrightarrow> has_member q' d \<Longrightarrow> j = k" for d j q'
    using structure_members [OF assms(1)] assms(2,6) same by (auto simp: members_ok_def)
qed (use assms structure_pool [OF assms(1,2)] in auto)

lemma advance_pool_frame [simp]:
  "pool_id (advance_pool p) = pool_id p" "pool_members (advance_pool p) = pool_members p"
  "pool_state (advance_pool p) = pool_state p" "pool_reserved_bytes (advance_pool p) = pool_reserved_bytes p"
  "pool_committed_bytes (advance_pool p) = pool_committed_bytes p"
  "pool_draining_bytes (advance_pool p) = pool_draining_bytes p"
  by (simp_all add: advance_pool_def Let_def)

lemma advance_pool_generation [simp]:
  "pool_generation (advance_pool p) =
     (if gen_empty (gen_next (pool_generation p)) then pool_generation p else gen_next (pool_generation p))"
  by (simp add: advance_pool_def Let_def)

lemma set_erase_member: "m \<in> set (erase_member d ms) \<Longrightarrow> m \<in> set ms"
  by (induction ms) (auto split: if_splits)

lemma distinct_erase_member: "distinct (map pm_device ms) \<Longrightarrow> distinct (map pm_device (erase_member d ms))"
  by (induction ms) (auto dest: set_erase_member)

lemma erase_member_gone: "distinct (map pm_device ms) \<Longrightarrow> d \<notin> pm_device ` set (erase_member d ms)"
  by (induction ms) auto

lemma structure_add_member:
  assumes "structure_ok f" and "find_pool f k = Some p" and "find_device f (pm_device m) \<noteq> None"
    and "\<not> has_member p (pm_device m)"
    and "\<forall>kv \<in> set (st_pools (fab_state f)). fst kv \<noteq> k \<longrightarrow> \<not> has_member (snd kv) (pm_device m)"
  shows "structure_ok (put_pool k (advance_pool (p\<lparr>pool_members := pool_members p @ [m]\<rparr>)) f)"
proof (rule structure_put_pool)
  let ?q = "advance_pool (p\<lparr>pool_members := pool_members p @ [m]\<rparr>)"
  have q: "has_member ?q d \<longleftrightarrow> has_member p d \<or> d = pm_device m" for d by (auto simp: has_member_def)
  note mem = structure_members [OF assms(1), unfolded members_ok_def] and P = structure_pool [OF assms(1,2)]
  show "distinct (map pm_device (pool_members ?q))"
    using mem assms(2,4) by (auto simp: has_member_def)
  show "find_device f d \<noteq> None" if "has_member ?q d" for d
    using that q mem assms(2,3) by auto
  show "j = k" if "has_member ?q d" "find_pool f j = Some q'" "has_member q' d" for d j q'
    using that q mem assms(2,5) find_pool_entries [OF structure_wf [OF assms(1)], of j q'] by force
qed (use assms(1) structure_pool [OF assms(1,2)] in auto)

lemma structure_remove_member:
  assumes "structure_ok f" and "find_pool f k = Some p"
  shows "structure_ok (put_pool k (advance_pool (p\<lparr>pool_members := erase_member d (pool_members p)\<rparr>)) f)"
proof (rule structure_put_pool)
  let ?q = "advance_pool (p\<lparr>pool_members := erase_member d (pool_members p)\<rparr>)"
  have q: "has_member ?q x \<Longrightarrow> has_member p x" for x by (auto simp: has_member_def dest: set_erase_member)
  note mem = structure_members [OF assms(1), unfolded members_ok_def]
  show "distinct (map pm_device (pool_members ?q))"
    using mem assms(2) by (simp add: distinct_erase_member)
  show "find_device f x \<noteq> None" if "has_member ?q x" for x
    using q [OF that] mem assms(2) by blast
  show "j = k" if "has_member ?q x" "find_pool f j = Some q'" "has_member q' x" for x j q'
    using q [OF that(1)] that(2,3) mem assms(2) by blast
qed (use assms(1) structure_pool [OF assms] in auto)

lemma structure_create_pool:
  assumes "structure_ok f" and "\<not> id_empty (pool_id p)" and "\<not> gen_empty (pool_generation p)"
    and "find_pool f (pool_id p) = None" and "distinct (map pm_device (pool_members p))"
    and "\<forall>m \<in> set (pool_members p). find_device f (pm_device m) \<noteq> None \<and>
         (\<forall>kv \<in> set (st_pools (fab_state f)). \<not> has_member (snd kv) (pm_device m))"
    and "pool_id q = pool_id p" "pool_members q = pool_members p" "pool_generation q = pool_generation p"
      "pool_state q \<noteq> PoolState.RETIRED"
  shows "structure_ok (put_pool (pool_id p) q f)"
proof (rule structure_put_pool)
  show "find_device f d \<noteq> None" if "has_member q d" for d
    using that assms(6,8) by (auto simp: has_member_def)
  show "j = pool_id p" if "has_member q d" "find_pool f j = Some q'" "has_member q' d" for d j q'
  proof -
    from that(1) obtain m where "m \<in> set (pool_members p)" "pm_device m = d"
      by (auto simp: has_member_def assms(8))
    moreover have "(j, q') \<in> set (st_pools (fab_state f))"
      using that(2) structure_wf [OF assms(1)] by (simp add: find_pool_entries)
    ultimately show ?thesis using assms(6) that(3) by force
  qed
qed (use assms in auto)

section \<open>Reservations\<close>

lemma booking_frame [simp]:
  "pool_id (pool_reserve n p) = pool_id p" "pool_members (pool_reserve n p) = pool_members p"
  "pool_generation (pool_reserve n p) = pool_generation p" "pool_state (pool_reserve n p) = pool_state p"
  "pool_id (pool_commit n p) = pool_id p" "pool_members (pool_commit n p) = pool_members p"
  "pool_generation (pool_commit n p) = pool_generation p" "pool_state (pool_commit n p) = pool_state p"
  "pool_id (snd (pool_release n p)) = pool_id p" "pool_members (snd (pool_release n p)) = pool_members p"
  "pool_generation (snd (pool_release n p)) = pool_generation p" "pool_state (snd (pool_release n p)) = pool_state p"
  "reg_id (region_reserve n r) = reg_id r" "reg_generation (region_reserve n r) = reg_generation r"
  "reg_id (region_commit n r) = reg_id r" "reg_generation (region_commit n r) = reg_generation r"
  "reg_id (snd (region_release n r)) = reg_id r" "reg_generation (snd (region_release n r)) = reg_generation r"
  by (simp_all add: pool_reserve_def pool_commit_def pool_release_def region_reserve_def region_commit_def
      region_release_def split: prod.splits)

text \<open>\<open>emplace\<close> of a reservation is a store, unless the identity is taken.\<close>

lemma snd_book:
  "snd (book req ctx c pool region dev f) =
     (let f1 = recompute_global (put_region (cand_region c) (region_reserve (req_bytes req) region)
                 (put_pool (cand_pool c) (pool_reserve (req_bytes req) pool) f));
          n = fab_sequence f + 1 in
      (if find_reservation f (reservation_id n) = None
       then put_reservation (reservation_id n) (new_reservation n req ctx c dev (epoch f)) f1 else f1)
        \<lparr>fab_sequence := n\<rparr>)"
  by (auto simp: book_def Let_def om_emplace_def om_count_def new_reservation_def put_defs find_reservation_def)

lemma find_sequence_update [simp]:
  "find_device (f\<lparr>fab_sequence := n\<rparr>) = find_device f" "find_region (f\<lparr>fab_sequence := n\<rparr>) = find_region f"
  "find_pool (f\<lparr>fab_sequence := n\<rparr>) = find_pool f" "find_reservation (f\<lparr>fab_sequence := n\<rparr>) = find_reservation f"
  "wf_maps (f\<lparr>fab_sequence := n\<rparr>) = wf_maps f"
  by (simp_all add: find_defs wf_maps_def)

lemma structure_sequence [simp]: "structure_ok (f\<lparr>fab_sequence := n\<rparr>) = structure_ok f"
  by (simp add: structure_ok_def)

lemma structure_book_pool:
  assumes "structure_ok f" and "find_pool f k = Some p"
    and "pool_id q = pool_id p" "pool_members q = pool_members p" "pool_generation q = pool_generation p"
      "pool_state q = pool_state p"
  shows "structure_ok (put_pool k q f)"
  using assms structure_pool [OF assms(1,2)] by (intro structure_same_members [of f k p]) auto

lemma structure_book_region:
  assumes "structure_ok f" and "find_region f k = Some r" and "reg_id q = reg_id r" "reg_generation q = reg_generation r"
  shows "structure_ok (put_region k q f)"
  using assms structure_region [OF assms(1,2)] by (intro structure_put_region) auto

lemma res_id_new_reservation [simp]: "res_id (new_reservation n req ctx c dev e) = reservation_id n"
  by (simp add: new_reservation_def)

lemma structure_reserve:
  assumes "structure_ok f"
  shows "structure_ok (snd (reserve req ctx f))"
proof -
  have "structure_ok (snd (book req ctx c pool region dev f))"
    if "find_pool f (cand_pool c) = Some pool" "find_region f (cand_region c) = Some region" for c pool region dev
    using assms that
    by (auto simp: snd_book Let_def
        intro!: structure_put_reservation structure_book_region [of _ _ region] structure_book_pool [of _ _ pool])
  with reserve_shape [of req ctx f] assms show ?thesis by auto
qed

lemma structure_commit:
  assumes "structure_ok f"
  shows "structure_ok (snd (commit k ctx f))"
proof -
  have "res_id v = k \<and> numbered k" if "find_reservation f k = Some v" for v
    using assms that by (simp add: structure_ok_def)
  with commit_shape [of k ctx f] assms show ?thesis
    by (auto intro!: structure_put_reservation structure_book_region structure_book_pool)
qed

lemma release_from_pool_cases:
  "release_from_pool v f = (True, f) \<and> find_pool f (res_pool v) = None \<or>
   (\<exists>p. find_pool f (res_pool v) = Some p \<and>
      release_from_pool v f = (fst (pool_release (res_bytes v) p) = 0, put_pool (res_pool v) (snd (pool_release (res_bytes v) p)) f))"
  by (auto simp: release_from_pool_def split: option.splits prod.splits)

lemma structure_release:
  assumes "structure_ok f"
  shows "structure_ok (snd (release k ctx f))"
proof -
  have pool: "structure_ok (snd (release_from_pool v f))" for v
    using release_from_pool_cases [of v f] assms by (auto intro!: structure_book_pool)
  have region: "structure_ok (release_from_region v g)" if "structure_ok g" for v g
    using that by (auto simp: release_from_region_def intro!: structure_book_region split: option.splits)
  have "res_id v = k \<and> numbered k" if "find_reservation f k = Some v" for v
    using assms that by (simp add: structure_ok_def)
  with release_shape [of k ctx f] pool region assms show ?thesis
    by (auto intro!: structure_put_reservation split: if_splits)
qed

section \<open>Every call keeps the invariant\<close>

lemma structure_import:
  assumes "persisted_ok ps" and "structure_ok f"
  shows "structure_ok (import_persisted ps f)"
proof -
  let ?g = "import_persisted ps f"
  have finds: "find_device ?g = (\<lambda>k. map_option fence_device (om_find (ps_devices ps) k))"
    "find_region ?g = (\<lambda>k. map_option fence_region (om_find (ps_regions ps) k))"
    "find_pool ?g = (\<lambda>k. map_option fence_pool (om_find (ps_pools ps) k))"
    "find_reservation ?g = (\<lambda>k. None)"
    by (auto simp: import_persisted_def find_defs recompute_global_def)
  have "has_member (fence_pool p) d = has_member p d" for p d
    by (simp add: has_member_def fence_pool_def)
  then show ?thesis
    using assms unfolding structure_ok_def persisted_ok_def records_ok_def members_ok_def finds
    by (auto simp: import_persisted_def wf_maps_def recompute_global_def
        fence_device_def fence_region_def fence_pool_def)
qed

lemma structure_regions:
  assumes "structure_ok f"
  shows "structure_ok (snd (create_region r ctx f))" and "structure_ok (snd (update_region r ctx f))"
    and "structure_ok (snd (reconfigure_region k ds ctx f))" and "structure_ok (snd (mark_region_draining k ctx f))"
    and "structure_ok (snd (revalidate_region k ctx f))"
proof -
  have grown: "\<not> gen_empty (reg_generation r)" if "find_region f (reg_id r) = Some old" "reg_generation old \<le> reg_generation r" for old
    using structure_region [OF assms that(1)] that(2)
    by (auto simp: gen_empty_def generation_le_iff)
  show "structure_ok (snd (create_region r ctx f))"
    using create_region_shape [of r ctx f] assms by (auto intro!: structure_put_region)
  show "structure_ok (snd (update_region r ctx f))"
    using update_region_shape [of r ctx f] assms grown structure_region [OF assms]
    by (auto intro!: structure_put_region)
  show "structure_ok (snd (reconfigure_region k ds ctx f))"
    using reconfigure_region_shape [of k ds ctx f] assms structure_region [OF assms]
    by (auto intro!: structure_put_region)
  show "structure_ok (snd (mark_region_draining k ctx f))"
    using mark_region_draining_shape [of k ctx f] assms by (auto intro!: structure_book_region)
  show "structure_ok (snd (revalidate_region k ctx f))"
    using revalidate_region_shape [of k ctx f] assms by (auto intro!: structure_book_region)
qed

lemma structure_devices:
  assumes "structure_ok f"
  shows "structure_ok (snd (register_device d ctx f))" and "structure_ok (snd (mark_device_revalidation k ctx f))"
    and "structure_ok (snd (mark_device_online k ctx f))"
  using register_device_shape [of d ctx f] mark_device_revalidation_shape [of k ctx f]
    mark_device_online_shape [of k ctx f] assms structure_device [OF assms]
  by (auto intro!: structure_put_device)

lemma structure_pools:
  assumes "structure_ok f"
  shows "structure_ok (snd (create_pool p ctx f))" and "structure_ok (snd (add_pool_member k m ctx f))"
    and "structure_ok (snd (remove_pool_member k d ctx f))" and "structure_ok (snd (mark_pool_draining k ctx f))"
    and "structure_ok (snd (reconcile_pool k ctx f))" and "structure_ok (snd (revalidate_pool k ctx f))"
proof -
  show "structure_ok (snd (create_pool p ctx f))"
    using create_pool_shape [of p ctx f] assms by (auto intro!: structure_create_pool [of f p]) force
  show "structure_ok (snd (add_pool_member k m ctx f))"
    using add_pool_member_shape [of k m ctx f] assms by (auto intro!: structure_add_member)
  show "structure_ok (snd (remove_pool_member k d ctx f))"
    using remove_pool_member_shape [of k d ctx f] assms by (auto intro!: structure_remove_member)
  show "structure_ok (snd (mark_pool_draining k ctx f))"
    using mark_pool_draining_shape [of k ctx f] assms structure_pool [OF assms]
    by (auto intro!: structure_same_members)
  show "structure_ok (snd (reconcile_pool k ctx f))"
    using reconcile_pool_shape [of k ctx f] assms by (auto intro!: structure_book_pool)
  show "structure_ok (snd (revalidate_pool k ctx f))"
    using revalidate_pool_shape [of k ctx f] assms structure_pool [OF assms]
    by (auto intro!: structure_same_members)
qed

lemma structure_meta:
  "structure_ok (set_epoch e f) = structure_ok f" "structure_ok (set_policy_generation p f) = structure_ok f"
  "structure_ok (advance_evidence_generation f) = structure_ok f"
  by (simp_all add: structure_ok_def wf_maps_def find_defs set_epoch_def set_policy_generation_def
      advance_evidence_generation_def Let_def)

lemma structure_exec: "structure_ok f \<Longrightarrow> well_formed_call c f \<Longrightarrow> structure_ok (exec c f)"
  by (cases c) (simp_all add: exec_def structure_meta structure_devices structure_regions structure_pools
      structure_reserve structure_commit structure_release structure_import)

lemma structure_new: "structure_ok (Fabric_new e p)"
  by (simp add: structure_ok_def records_ok_def members_ok_def wf_maps_def find_defs Fabric_new_def
      Fabric_default_def StateSnapshot_default_def)

lemma structure_reachable: "reachable well_formed_call (Fabric_new e p) n f \<Longrightarrow> structure_ok f"
  by (induction rule: reachable.induct) (auto simp: structure_new intro: structure_exec)

lemma structure_run: "structure_ok f \<Longrightarrow> allowed_run well_formed_call cs f \<Longrightarrow> structure_ok (run cs f)"
  by (induction cs arbitrary: f) (auto intro: structure_exec)

section \<open>What a selection chooses\<close>

text \<open>The candidate that is chosen names records that are in the maps, with their current generations.\<close>

lemma chosen_current:
  assumes "structure_ok f" and "so_ok (select req f)"
  obtains pool region dev where "so_chosen (select req f) = region_candidate pool region (dev_id dev) dev"
    and "find_pool f (pool_id pool) = Some pool" and "find_region f (reg_id region) = Some region"
    and "find_device f (dev_id dev) = Some dev" and "req_bytes req \<le> region_free region" and "dev_state dev = DeviceState.ONLINE"
proof -
  from assms(2) have "so_chosen (select req f) \<in> set (admissible req (selection_snapshot f))"
    using chosen_admissible by (simp add: select_def)
  then obtain pool region dev did where c: "so_chosen (select req f) = region_candidate pool region (dev_id dev) dev"
    and pl: "placement (fab_state f) pool region did dev" and room: "req_bytes req \<le> region_free region" and srv: "dev_state dev = DeviceState.ONLINE"
    using in_service_current by (force simp: admissible_iff fit_placement_def)
  note wf = structure_wf [OF assms(1)]
  from pl obtain kp kr where "find_pool f kp = Some pool" "find_region f kr = Some region" "find_device f did = Some dev"
    unfolding placement_def using find_pool_entries [OF wf] find_region_entries [OF wf]
    by (force simp: find_device_def)
  with structure_pool [OF assms(1)] structure_region [OF assms(1)] structure_device [OF assms(1)] c room srv
  show ?thesis by (intro that [OF c]) auto
qed

section \<open>Generations grow\<close>

definition grows :: "Fabric \<Rightarrow> Fabric \<Rightarrow> bool" where
  "grows f g \<longleftrightarrow>
     (\<forall>k d. find_device f k = Some d \<longrightarrow> (\<exists>d'. find_device g k = Some d' \<and> dev_generation d \<le> dev_generation d')) \<and>
     (\<forall>k r. find_region f k = Some r \<longrightarrow> (\<exists>r'. find_region g k = Some r' \<and> reg_generation r \<le> reg_generation r')) \<and>
     (\<forall>k p. find_pool f k = Some p \<longrightarrow> (\<exists>p'. find_pool g k = Some p' \<and> pool_generation p \<le> pool_generation p'))"

lemma grows_refl [simp]: "grows f f"
  by (simp add: grows_def)

lemma grows_put_device:
  "grows f g \<Longrightarrow> wf_maps g \<Longrightarrow> (\<And>old. find_device g k = Some old \<Longrightarrow> dev_generation old \<le> dev_generation d) \<Longrightarrow>
     grows f (put_device k d g)"
  unfolding grows_def by (auto split: if_splits) (metis order_trans)

lemma grows_put_region:
  "grows f g \<Longrightarrow> wf_maps g \<Longrightarrow> (\<And>old. find_region g k = Some old \<Longrightarrow> reg_generation old \<le> reg_generation r) \<Longrightarrow>
     grows f (put_region k r g)"
  unfolding grows_def by (auto split: if_splits) (metis order_trans)

lemma grows_put_pool:
  "grows f g \<Longrightarrow> wf_maps g \<Longrightarrow> (\<And>old. find_pool g k = Some old \<Longrightarrow> pool_generation old \<le> pool_generation p) \<Longrightarrow>
     grows f (put_pool k p g)"
  unfolding grows_def by (auto split: if_splits) (metis order_trans)

lemma grows_frame [simp]:
  "grows f (put_reservation k v g) = grows f g" "grows f (recompute_global g) = grows f g"
  "grows f (g\<lparr>fab_sequence := n\<rparr>) = grows f g"
  by (simp_all add: grows_def)

lemma grows_meta:
  "grows f (set_epoch e f)" "grows f (set_policy_generation p f)" "grows f (advance_evidence_generation f)"
  by (simp_all add: grows_def find_defs set_epoch_def set_policy_generation_def advance_evidence_generation_def Let_def)

lemmas grows_puts = grows_put_device grows_put_region grows_put_pool

lemma grows_devices:
  assumes "wf_maps f"
  shows "grows f (snd (register_device d ctx f))" and "grows f (snd (mark_device_revalidation k ctx f))"
    and "grows f (snd (mark_device_online k ctx f))"
  using register_device_shape [of d ctx f] mark_device_revalidation_shape [of k ctx f]
    mark_device_online_shape [of k ctx f] assms
  by (auto intro!: grows_puts)

lemma grows_regions:
  assumes "wf_maps f"
  shows "grows f (snd (create_region r ctx f))" and "grows f (snd (update_region r ctx f))"
    and "grows f (snd (reconfigure_region k ds ctx f))" and "grows f (snd (mark_region_draining k ctx f))"
    and "grows f (snd (revalidate_region k ctx f))"
proof -
  show "grows f (snd (create_region r ctx f))"
    using create_region_shape [of r ctx f] assms by (auto intro!: grows_puts)
  show "grows f (snd (update_region r ctx f))"
    using update_region_shape [of r ctx f] assms by (auto intro!: grows_puts)
  show "grows f (snd (reconfigure_region k ds ctx f))"
    using reconfigure_region_shape [of k ds ctx f] assms by (auto intro!: grows_puts less_imp_le [OF gen_next_greater])
  show "grows f (snd (mark_region_draining k ctx f))"
    using mark_region_draining_shape [of k ctx f] assms by (auto intro!: grows_puts)
  show "grows f (snd (revalidate_region k ctx f))"
    using revalidate_region_shape [of k ctx f] assms by (auto intro!: grows_puts)
qed

lemma grows_pools:
  assumes "wf_maps f"
  shows "grows f (snd (create_pool p ctx f))" and "grows f (snd (add_pool_member k m ctx f))"
    and "grows f (snd (remove_pool_member k d ctx f))" and "grows f (snd (mark_pool_draining k ctx f))"
    and "grows f (snd (reconcile_pool k ctx f))" and "grows f (snd (revalidate_pool k ctx f))"
proof -
  show "grows f (snd (create_pool p ctx f))"
    using create_pool_shape [of p ctx f] assms by (auto intro!: grows_puts)
  show "grows f (snd (add_pool_member k m ctx f))"
    using add_pool_member_shape [of k m ctx f] assms by (auto intro!: grows_puts less_imp_le [OF gen_next_greater])
  show "grows f (snd (remove_pool_member k d ctx f))"
    using remove_pool_member_shape [of k d ctx f] assms by (auto intro!: grows_puts less_imp_le [OF gen_next_greater])
  show "grows f (snd (mark_pool_draining k ctx f))"
    using mark_pool_draining_shape [of k ctx f] assms by (auto intro!: grows_puts)
  show "grows f (snd (reconcile_pool k ctx f))"
    using reconcile_pool_shape [of k ctx f] assms by (auto intro!: grows_puts)
  show "grows f (snd (revalidate_pool k ctx f))"
    using revalidate_pool_shape [of k ctx f] assms by (auto intro!: grows_puts)
qed

lemma grows_reservations:
  assumes "wf_maps f"
  shows "grows f (snd (reserve req ctx f))" and "grows f (snd (commit k ctx f))" and "grows f (snd (release k ctx f))"
proof -
  show "grows f (snd (reserve req ctx f))"
    using reserve_shape [of req ctx f] assms by (auto simp: snd_book Let_def intro!: grows_puts)
  show "grows f (snd (commit k ctx f))"
    using commit_shape [of k ctx f] assms by (auto intro!: grows_puts)
  have pool: "grows f (snd (release_from_pool v f)) \<and> wf_maps (snd (release_from_pool v f))" for v
    using release_from_pool_cases [of v f] assms by (auto intro!: grows_puts)
  have "grows f (release_from_region v g)" if "grows f g" "wf_maps g" for v g
    using that by (auto simp: release_from_region_def intro!: grows_puts split: option.splits)
  with release_shape [of k ctx f] pool show "grows f (snd (release k ctx f))"
    by (auto split: if_splits)
qed

lemma grows_exec:
  assumes "wf_maps f" and "\<forall>ps. c \<noteq> Import_persisted ps"
  shows "grows f (exec c f)"
  using assms
  by (cases c) (simp_all add: exec_def grows_meta grows_devices grows_regions grows_pools grows_reservations)

end
