(* ===== verification/Accounts.thy ===== *)
theory Accounts
  imports Structure
begin

text \<open>
  Accounting over whole runs of the engine: pools and regions agree with the reservations outstanding
  against them, byte for byte, and nothing is overcommitted. The engine takes some numbers on trust from
  its callers (the accounting fields of a created pool or region, the fields of an updated region, the
  capacity left after a member is removed, the imported state); \<open>sound_call\<close> says what it takes on trust
  and is the only restriction on the calls.
\<close>

section \<open>Bytes held by reservations\<close>

definition live :: "Reservation \<Rightarrow> bool" where
  "live v \<longleftrightarrow> res_state v = ResumeState.RESERVED \<or> res_state v = ResumeState.COMMITTED"

definition charge :: "(Reservation \<Rightarrow> bool) \<Rightarrow> Reservation \<Rightarrow> nat" where
  "charge P v = (if P v then unat (res_bytes v) else 0)"

definition held :: "(Reservation \<Rightarrow> bool) \<Rightarrow> Fabric \<Rightarrow> nat" where
  "held P f = sum_list (map (\<lambda>e. charge P (snd e)) (st_reservations (fab_state f)))"

definition pool_pending :: "PoolId \<Rightarrow> Fabric \<Rightarrow> nat" where
  "pool_pending k f = held (\<lambda>v. res_pool v = k \<and> res_state v = ResumeState.RESERVED) f"

definition pool_held :: "PoolId \<Rightarrow> Fabric \<Rightarrow> nat" where
  "pool_held k f = held (\<lambda>v. res_pool v = k \<and> live v) f"

definition region_pending :: "RegionId \<Rightarrow> Fabric \<Rightarrow> nat" where
  "region_pending k f = held (\<lambda>v. res_region v = k \<and> res_state v = ResumeState.RESERVED) f"

definition region_held :: "RegionId \<Rightarrow> Fabric \<Rightarrow> nat" where
  "region_held k f = held (\<lambda>v. res_region v = k \<and> live v) f"

lemmas held_defs = pool_pending_def pool_held_def region_pending_def region_held_def

lemma held_frame [simp]:
  "held P (put_device kd d f) = held P f" "held P (put_region kr r f) = held P f"
  "held P (put_pool kp p f) = held P f" "held P (recompute_global f) = held P f"
  "held P (f\<lparr>fab_sequence := n\<rparr>) = held P f"
  by (simp_all add: held_def)

lemma held_put_new:
  assumes "wf_maps f" and "find_reservation f k = None"
  shows "held P (put_reservation k v f) = charge P v + held P f"
  using om.sum_assign_new [of "st_reservations (fab_state f)" k "\<lambda>e. charge P (snd e)" v] assms
  by (simp add: held_def wf_maps_def find_reservation_def)

lemma held_put_old:
  assumes "wf_maps f" and "find_reservation f k = Some w"
  shows "held P (put_reservation k v f) = charge P v + held P f - charge P w"
proof -
  have "held P (put_reservation k v f) + charge P w = charge P v + held P f"
    using om.sum_assign_old [of "st_reservations (fab_state f)" k w "\<lambda>e. charge P (snd e)" v] assms
    by (simp add: held_def wf_maps_def find_reservation_def)
  then show ?thesis by linarith
qed

lemma held_ge:
  assumes "wf_maps f" and "find_reservation f k = Some v"
  shows "charge P v \<le> held P f"
proof -
  have "(k, v) \<in> set (st_reservations (fab_state f))"
    using assms by (simp add: wf_maps_def find_reservation_def om.find_entries)
  then have "(\<lambda>e. charge P (snd e)) (k, v) \<le> held P f"
    unfolding held_def by (intro member_le_sum_list) (force, simp)
  then show ?thesis by simp
qed

lemma held_split:
  assumes "\<And>v. P v \<Longrightarrow> \<not> Q v"
  shows "held P f + held Q f = held (\<lambda>v. P v \<or> Q v) f"
proof -
  have "(\<lambda>e. charge P (snd e) + charge Q (snd e)) = (\<lambda>e :: ReservationId \<times> Reservation. charge (\<lambda>v. P v \<or> Q v) (snd e))"
    using assms by (auto simp: charge_def)
  then show ?thesis by (simp add: held_def sum_list_addf [symmetric])
qed

lemma held_none: "(\<And>e. e \<in> set (st_reservations (fab_state f)) \<Longrightarrow> \<not> P (snd e)) \<Longrightarrow> held P f = 0"
  by (simp add: held_def charge_def)

section \<open>What the engine takes on trust\<close>

definition totals_kept :: "CxlPool \<Rightarrow> bool" where
  "totals_kept p \<longleftrightarrow> nominal_fits (pool_members p) \<and>
     unat (pool_total_governed_bytes p) = member_total (pool_members p) \<and>
     unat (pool_unavailable_bytes p) = member_unavailable (pool_members p)"

definition persisted_clean :: "PersistedState \<Rightarrow> bool" where
  "persisted_clean ps \<longleftrightarrow> persisted_ok ps \<and>
     (\<forall>kv \<in> set (ps_pools ps). totals_kept (snd kv) \<and> pool_reserved_bytes (snd kv) = 0 \<and>
        pool_committed_bytes (snd kv) = 0 \<and> pool_draining_bytes (snd kv) = 0) \<and>
     (\<forall>kv \<in> set (ps_regions ps). reg_reserved_bytes (snd kv) = 0 \<and> reg_committed_bytes (snd kv) = 0)"

fun sound_call :: "call \<Rightarrow> Fabric \<Rightarrow> bool" where
  "sound_call (Create_pool p ctx) f \<longleftrightarrow> nominal_fits (pool_members p) \<and>
     pool_reserved_bytes p = 0 \<and> pool_committed_bytes p = 0 \<and> pool_draining_bytes p = 0"
| "sound_call (Add_pool_member k m ctx) f \<longleftrightarrow>
     (case find_pool f k of None \<Rightarrow> True | Some p \<Rightarrow> nominal_fits (pool_members p @ [m]))"
| "sound_call (Remove_pool_member k d ctx) f \<longleftrightarrow>
     (case find_pool f k of None \<Rightarrow> True | Some p \<Rightarrow>
        let ms = erase_member d (pool_members p) in
        member_unavailable ms + unat (pool_reserved_bytes p) + unat (pool_committed_bytes p) +
          unat (pool_draining_bytes p) \<le> member_total ms)"
| "sound_call (Create_region r ctx) f \<longleftrightarrow> reg_reserved_bytes r = 0 \<and> reg_committed_bytes r = 0"
| "sound_call (Update_region r ctx) f \<longleftrightarrow>
     (case find_region f (reg_id r) of None \<Rightarrow> True | Some old \<Rightarrow>
        reg_reserved_bytes r = reg_reserved_bytes old \<and> reg_committed_bytes r = reg_committed_bytes old \<and>
        region_sum old \<le> unat (reg_region_capacity_bytes r))"
| "sound_call (Import_persisted ps) f \<longleftrightarrow> persisted_clean ps"
| "sound_call _ f \<longleftrightarrow> True"

section \<open>The invariant\<close>

definition reservations_ok :: "Fabric \<Rightarrow> bool" where
  "reservations_ok f \<longleftrightarrow>
     (\<forall>k v. find_reservation f k = Some v \<longrightarrow>
        find_pool f (res_pool v) \<noteq> None \<and> find_region f (res_region v) \<noteq> None \<and> 0 < res_bytes v \<and>
        (\<exists>i. k = reservation_id i \<and> i \<le> fab_sequence f))"

definition accounts_ok :: "Fabric \<Rightarrow> bool" where
  "accounts_ok f \<longleftrightarrow> structure_ok f \<and> reservations_ok f \<and>
     (\<forall>k p. find_pool f k = Some p \<longrightarrow> totals_kept p \<and> pl.covers p (pool_pending k f) (pool_held k f)) \<and>
     (\<forall>k r. find_region f k = Some r \<longrightarrow> rg.covers r (region_pending k f) (region_held k f))"

lemma accounts_structure: "accounts_ok f \<Longrightarrow> structure_ok f"
  by (simp add: accounts_ok_def)

lemma accounts_wf: "accounts_ok f \<Longrightarrow> wf_maps f"
  by (simp add: accounts_structure structure_wf)

lemma accounts_pool:
  "accounts_ok f \<Longrightarrow> find_pool f k = Some p \<Longrightarrow> totals_kept p \<and> pl.covers p (pool_pending k f) (pool_held k f)"
  by (simp add: accounts_ok_def)

lemma accounts_region: "accounts_ok f \<Longrightarrow> find_region f k = Some r \<Longrightarrow> rg.covers r (region_pending k f) (region_held k f)"
  by (simp add: accounts_ok_def)

lemma reservation_id_inject [simp]: "reservation_id m = reservation_id n \<longleftrightarrow> m = n"
  by (simp add: reservation_id_def)

lemma held_fresh:
  assumes "reservations_ok f" and "wf_maps f"
  shows "find_pool f kp = None \<Longrightarrow> pool_pending kp f = 0 \<and> pool_held kp f = 0"
    and "find_region f kr = None \<Longrightarrow> region_pending kr f = 0 \<and> region_held kr f = 0"
proof -
  have entry: "find_reservation f (fst e) = Some (snd e)" if "e \<in> set (st_reservations (fab_state f))" for e
    using that assms(2) om.find_entries [of "st_reservations (fab_state f)" "fst e" "snd e"]
    by (simp add: wf_maps_def find_reservation_def)
  have linked: "find_pool f (res_pool (snd e)) \<noteq> None" "find_region f (res_region (snd e)) \<noteq> None"
    if "e \<in> set (st_reservations (fab_state f))" for e
    using entry [OF that] assms(1) unfolding reservations_ok_def by blast+
  show "find_pool f kp = None \<Longrightarrow> pool_pending kp f = 0 \<and> pool_held kp f = 0"
    unfolding held_defs by (intro conjI held_none) (use linked(1) in blast)+
  show "find_region f kr = None \<Longrightarrow> region_pending kr f = 0 \<and> region_held kr f = 0"
    unfolding held_defs by (intro conjI held_none) (use linked(2) in blast)+
qed

section \<open>Updates that move no bytes\<close>

lemma by_key_frame [simp]:
  "pool_pending k (put_device kd d f) = pool_pending k f" "pool_held k (put_device kd d f) = pool_held k f"
  "pool_pending k (put_region kr r f) = pool_pending k f" "pool_held k (put_region kr r f) = pool_held k f"
  "pool_pending k (put_pool kp p f) = pool_pending k f" "pool_held k (put_pool kp p f) = pool_held k f"
  "pool_pending k (recompute_global f) = pool_pending k f" "pool_held k (recompute_global f) = pool_held k f"
  "region_pending j (put_device kd d f) = region_pending j f" "region_held j (put_device kd d f) = region_held j f"
  "region_pending j (put_region kr r f) = region_pending j f" "region_held j (put_region kr r f) = region_held j f"
  "region_pending j (put_pool kp p f) = region_pending j f" "region_held j (put_pool kp p f) = region_held j f"
  "region_pending j (recompute_global f) = region_pending j f" "region_held j (recompute_global f) = region_held j f"
  by (simp_all add: held_defs)

lemma accounts_recompute_global [simp]: "accounts_ok (recompute_global f) = accounts_ok f"
  by (simp add: accounts_ok_def reservations_ok_def)

lemma accounts_put_device:
  "accounts_ok f \<Longrightarrow> structure_ok (put_device k d f) \<Longrightarrow> accounts_ok (put_device k d f)"
  by (simp add: accounts_ok_def reservations_ok_def)

lemma accounts_put_region:
  "accounts_ok f \<Longrightarrow> structure_ok (put_region k r f) \<Longrightarrow> rg.covers r (region_pending k f) (region_held k f) \<Longrightarrow>
     accounts_ok (put_region k r f)"
  using accounts_wf [of f] by (auto simp: accounts_ok_def reservations_ok_def)

lemma accounts_put_pool:
  "accounts_ok f \<Longrightarrow> structure_ok (put_pool k p f) \<Longrightarrow> totals_kept p \<Longrightarrow>
     pl.covers p (pool_pending k f) (pool_held k f) \<Longrightarrow> accounts_ok (put_pool k p f)"
  using accounts_wf [of f] by (auto simp: accounts_ok_def reservations_ok_def)

lemma region_covers_same:
  "rg.covers r a b \<Longrightarrow> reg_reserved_bytes q = reg_reserved_bytes r \<Longrightarrow> reg_committed_bytes q = reg_committed_bytes r \<Longrightarrow>
     region_ok q \<Longrightarrow> rg.covers q a b"
  by (simp add: rg.covers_def)

lemma pool_covers_same:
  "pl.covers p a b \<Longrightarrow> pool_reserved_bytes q = pool_reserved_bytes p \<Longrightarrow> pool_committed_bytes q = pool_committed_bytes p \<Longrightarrow>
     pool_ok q \<Longrightarrow> pl.covers q a b"
  by (simp add: pl.covers_def)

text \<open>A region update that keeps the capacity and the accounting fields.\<close>

lemma accounts_region_same:
  assumes "accounts_ok f" and "find_region f k = Some r" and "structure_ok (put_region k q f)"
    and "reg_reserved_bytes q = reg_reserved_bytes r" and "reg_committed_bytes q = reg_committed_bytes r"
    and "region_sum r \<le> unat (reg_region_capacity_bytes q)"
  shows "accounts_ok (put_region k q f)"
proof (rule accounts_put_region)
  show "rg.covers q (region_pending k f) (region_held k f)"
    using accounts_region [OF assms(1,2)] assms(4-6)
    by (auto intro: region_covers_same [of r] simp: region_ok_def region_sum_def)
qed fact+

lemma region_ok_find: "accounts_ok f \<Longrightarrow> find_region f k = Some r \<Longrightarrow> region_sum r \<le> unat (reg_region_capacity_bytes r)"
  using accounts_region [of f k r] by (simp add: rg.covers_def region_ok_def)

text \<open>A pool whose totals are recomputed keeps room for what is held.\<close>

lemma recompute_pool_ok:
  assumes "nominal_fits (pool_members p)"
    and "member_unavailable (pool_members p) + unat (pool_reserved_bytes p) + unat (pool_committed_bytes p) +
       unat (pool_draining_bytes p) \<le> member_total (pool_members p)"
  shows "pool_ok (recompute_pool p)" and "totals_kept (recompute_pool p)"
  using assms recompute_pool_exact [OF assms(1)] by (simp_all add: pool_ok_def pool_sum_def totals_kept_def)

lemma accounts_room:
  assumes "accounts_ok f" and "find_pool f k = Some p"
  shows "nominal_fits (pool_members p)"
    and "member_unavailable (pool_members p) + unat (pool_reserved_bytes p) + unat (pool_committed_bytes p) +
       unat (pool_draining_bytes p) \<le> member_total (pool_members p)"
  using accounts_pool [OF assms] by (simp_all add: pl.covers_def pool_ok_def pool_sum_def totals_kept_def)

lemma accounts_recomputed:
  assumes "accounts_ok f" and "find_pool f k = Some p" and "structure_ok (put_pool k (recompute_pool q) f)"
    and "pool_reserved_bytes q = pool_reserved_bytes p" and "pool_committed_bytes q = pool_committed_bytes p"
    and "nominal_fits (pool_members q)"
    and "member_unavailable (pool_members q) + unat (pool_reserved_bytes q) + unat (pool_committed_bytes q) +
       unat (pool_draining_bytes q) \<le> member_total (pool_members q)"
  shows "accounts_ok (put_pool k (recompute_pool q) f)"
proof (rule accounts_put_pool)
  show "totals_kept (recompute_pool q)" using recompute_pool_ok(2) [OF assms(6,7)] .
  show "pl.covers (recompute_pool q) (pool_pending k f) (pool_held k f)"
    using accounts_pool [OF assms(1,2)] assms(4,5) recompute_pool_ok(1) [OF assms(6,7)]
    by (auto intro: pool_covers_same [of p])
qed fact+

lemma totals_kept_cong:
  "totals_kept p \<Longrightarrow> pool_members q = pool_members p \<Longrightarrow> pool_total_governed_bytes q = pool_total_governed_bytes p \<Longrightarrow>
     pool_unavailable_bytes q = pool_unavailable_bytes p \<Longrightarrow> totals_kept q"
  by (simp add: totals_kept_def)

lemma member_total_erase: "member_total (erase_member d ms) \<le> member_total ms"
  by (induction ms) auto

section \<open>Registry calls\<close>

lemma accounts_devices:
  assumes "accounts_ok f"
  shows "accounts_ok (snd (register_device d ctx f))" and "accounts_ok (snd (mark_device_revalidation k ctx f))"
    and "accounts_ok (snd (mark_device_online k ctx f))"
  using register_device_shape [of d ctx f] mark_device_revalidation_shape [of k ctx f]
    mark_device_online_shape [of k ctx f] assms
    structure_devices(1) [OF accounts_structure [OF assms], of d ctx]
    structure_devices(2) [OF accounts_structure [OF assms], of k ctx]
    structure_devices(3) [OF accounts_structure [OF assms], of k ctx]
  by (auto intro!: accounts_put_device)

lemma accounts_regions:
  assumes "accounts_ok f"
  shows "sound_call (Create_region r ctx) f \<Longrightarrow> accounts_ok (snd (create_region r ctx f))"
    and "sound_call (Update_region r ctx) f \<Longrightarrow> accounts_ok (snd (update_region r ctx f))"
    and "accounts_ok (snd (reconfigure_region k ds ctx f))" and "accounts_ok (snd (mark_region_draining k ctx f))"
    and "accounts_ok (snd (revalidate_region k ctx f))"
proof -
  note S = structure_regions [OF accounts_structure [OF assms], where ctx = ctx]
  show "accounts_ok (snd (create_region r ctx f))" if "sound_call (Create_region r ctx) f"
  proof -
    have "rg.covers r (region_pending (reg_id r) f) (region_held (reg_id r) f)" if "find_region f (reg_id r) = None"
      using that held_fresh(2) [OF _ accounts_wf [OF assms]] assms \<open>sound_call (Create_region r ctx) f\<close>
      by (simp add: accounts_ok_def rg.covers_def region_ok_def region_sum_def)
    then show ?thesis
      using create_region_shape [of r ctx f] assms S(1) [of r] by (auto intro!: accounts_put_region)
  qed
  show "accounts_ok (snd (update_region r ctx f))" if "sound_call (Update_region r ctx) f"
    using update_region_shape [of r ctx f] assms S(2) [of r] that
    by (auto intro!: accounts_region_same)
  show "accounts_ok (snd (reconfigure_region k ds ctx f))"
    using reconfigure_region_shape [of k ds ctx f] assms S(3) [of k ds]
    by (auto intro!: accounts_region_same region_ok_find)
  show "accounts_ok (snd (mark_region_draining k ctx f))"
    using mark_region_draining_shape [of k ctx f] assms S(4) [of k]
    by (auto intro!: accounts_region_same region_ok_find)
  show "accounts_ok (snd (revalidate_region k ctx f))"
    using revalidate_region_shape [of k ctx f] assms S(5) [of k]
    by (auto intro!: accounts_region_same region_ok_find)
qed

lemma advance_pool_recompute:
  "advance_pool p = recompute_pool (p\<lparr>pool_generation :=
     (if gen_empty (gen_next (pool_generation p)) then pool_generation p else gen_next (pool_generation p))\<rparr>)"
  by (simp add: advance_pool_def Let_def)

lemma accounts_create_pool:
  assumes "accounts_ok f" and "sound_call (Create_pool p ctx) f"
  shows "accounts_ok (snd (create_pool p ctx f))"
proof -
  let ?q = "(recompute_pool p)\<lparr>pool_state := PoolState.AVAILABLE, pool_evidence_current := True\<rparr>"
  have ok: "pool_ok ?q \<and> totals_kept ?q"
    using assms(2) recompute_pool_ok [of p] member_unavailable_le [of "pool_members p"]
    by (simp add: pool_ok_def pool_sum_def totals_kept_def)
  have "pl.covers ?q (pool_pending (pool_id p) f) (pool_held (pool_id p) f)" if "find_pool f (pool_id p) = None"
    using that held_fresh(1) [OF _ accounts_wf [OF assms(1)]] assms ok by (simp add: accounts_ok_def pl.covers_def)
  then show ?thesis
    using create_pool_shape [of p ctx f] assms(1) ok structure_pools(1) [OF accounts_structure [OF assms(1)], of p ctx]
    by (auto intro!: accounts_put_pool)
qed

lemma accounts_add_pool_member:
  assumes "accounts_ok f" and "sound_call (Add_pool_member k m ctx) f"
  shows "accounts_ok (snd (add_pool_member k m ctx f))"
proof -
  have "accounts_ok (put_pool k (advance_pool (p\<lparr>pool_members := pool_members p @ [m]\<rparr>)) f)"
    if "find_pool f k = Some p" "structure_ok (put_pool k (advance_pool (p\<lparr>pool_members := pool_members p @ [m]\<rparr>)) f)" for p
    using that assms accounts_room(2) [OF assms(1) that(1)]
    unfolding advance_pool_recompute by (auto intro!: accounts_recomputed [of f k p])
  then show ?thesis
    using add_pool_member_shape [of k m ctx f] assms(1)
      structure_pools(2) [OF accounts_structure [OF assms(1)], of k m ctx] by auto
qed

lemma accounts_remove_pool_member:
  assumes "accounts_ok f" and "sound_call (Remove_pool_member k d ctx) f"
  shows "accounts_ok (snd (remove_pool_member k d ctx f))"
proof -
  have "accounts_ok (put_pool k (advance_pool (p\<lparr>pool_members := erase_member d (pool_members p)\<rparr>)) f)"
    if "find_pool f k = Some p"
      "structure_ok (put_pool k (advance_pool (p\<lparr>pool_members := erase_member d (pool_members p)\<rparr>)) f)" for p
  proof -
    have "nominal_fits (erase_member d (pool_members p))"
      using accounts_pool [OF assms(1) that(1)] member_total_erase [of d "pool_members p"]
      by (simp add: totals_kept_def nominal_fits_def)
    with that assms show ?thesis
      unfolding advance_pool_recompute by (auto simp: Let_def intro!: accounts_recomputed [of f k p])
  qed
  then show ?thesis
    using remove_pool_member_shape [of k d ctx f] assms(1)
      structure_pools(3) [OF accounts_structure [OF assms(1)], of k d ctx] by auto
qed

lemma accounts_pools:
  assumes "accounts_ok f"
  shows "accounts_ok (snd (mark_pool_draining k ctx f))" and "accounts_ok (snd (reconcile_pool k ctx f))"
    and "accounts_ok (snd (revalidate_pool k ctx f))"
proof -
  note S = structure_pools(4-6) [OF accounts_structure [OF assms], of k ctx]
  note fits = accounts_room [OF assms, of k]
  have "accounts_ok (put_pool k (p\<lparr>pool_state := s\<rparr>) f)"
    if "find_pool f k = Some p" "structure_ok (put_pool k (p\<lparr>pool_state := s\<rparr>) f)" for p s
    using accounts_pool [OF assms that(1)] assms that(2)
    by (intro accounts_put_pool)
      (auto intro: totals_kept_cong [of p] pool_covers_same [of p] simp: pl.covers_def pool_ok_def pool_sum_def)
  then show "accounts_ok (snd (mark_pool_draining k ctx f))"
    using mark_pool_draining_shape [of k ctx f] assms S(1) by auto
  show "accounts_ok (snd (reconcile_pool k ctx f))"
    using reconcile_pool_shape [of k ctx f] assms S(2) fits by (auto intro!: accounts_recomputed)
  show "accounts_ok (snd (revalidate_pool k ctx f))"
    using revalidate_pool_shape [of k ctx f] assms S(3) fits by (auto intro!: accounts_recomputed)
qed

section \<open>Reservation calls\<close>

text \<open>One pool, one region and one reservation change together.\<close>

lemma accounts_moved:
  assumes "accounts_ok f" and "structure_ok g" and "reservations_ok g"
    and "find_pool g = (find_pool f)(kp := Some p)" and "find_region g = (find_region f)(kr := Some r)"
    and "totals_kept p" and "pl.covers p (pool_pending kp g) (pool_held kp g)"
    and "rg.covers r (region_pending kr g) (region_held kr g)"
    and "\<And>k. k \<noteq> kp \<Longrightarrow> pool_pending k g = pool_pending k f \<and> pool_held k g = pool_held k f"
    and "\<And>k. k \<noteq> kr \<Longrightarrow> region_pending k g = region_pending k f \<and> region_held k g = region_held k f"
  shows "accounts_ok g"
  using assms unfolding accounts_ok_def by (auto split: if_splits)

lemma totals_kept_booking [simp]:
  "totals_kept (pool_reserve n p) = totals_kept p" "totals_kept (pool_commit n p) = totals_kept p"
  "totals_kept (snd (pool_release n p)) = totals_kept p"
  by (simp_all add: totals_kept_def pool_reserve_def pool_commit_def pool_release_def split: prod.splits)

lemma charge_simps [simp]:
  "P v \<Longrightarrow> charge P v = unat (res_bytes v)" "\<not> P v \<Longrightarrow> charge P v = 0"
  by (simp_all add: charge_def)

text \<open>What the reservation being moved contributes to the sums of its pool and region.\<close>

lemma pending_ge:
  assumes "wf_maps f" and "find_reservation f k = Some v" and "res_state v = ResumeState.RESERVED"
  shows "unat (res_bytes v) \<le> pool_pending (res_pool v) f" and "unat (res_bytes v) \<le> region_pending (res_region v) f"
  using assms(3) held_ge [OF assms(1,2), of "\<lambda>w. res_pool w = res_pool v \<and> res_state w = ResumeState.RESERVED"]
    held_ge [OF assms(1,2), of "\<lambda>w. res_region w = res_region v \<and> res_state w = ResumeState.RESERVED"]
  by (simp_all add: held_defs)

lemma committed_ge:
  assumes "wf_maps f" and "find_reservation f k = Some v" and "res_state v = ResumeState.COMMITTED"
  shows "pool_pending (res_pool v) f + unat (res_bytes v) \<le> pool_held (res_pool v) f"
    and "region_pending (res_region v) f + unat (res_bytes v) \<le> region_held (res_region v) f"
proof -
  have p: "pool_held k f = pool_pending k f + held (\<lambda>w. res_pool w = k \<and> res_state w = ResumeState.COMMITTED) f" for k
    unfolding held_defs by (subst held_split) (auto simp: live_def intro: arg_cong [of _ _ "\<lambda>P. held P f"])
  have r: "region_held k f = region_pending k f + held (\<lambda>w. res_region w = k \<and> res_state w = ResumeState.COMMITTED) f" for k
    unfolding held_defs by (subst held_split) (auto simp: live_def intro: arg_cong [of _ _ "\<lambda>P. held P f"])
  show "pool_pending (res_pool v) f + unat (res_bytes v) \<le> pool_held (res_pool v) f"
    using assms(3) held_ge [OF assms(1,2), of "\<lambda>w. res_pool w = res_pool v \<and> res_state w = ResumeState.COMMITTED"]
    by (simp add: p)
  show "region_pending (res_region v) f + unat (res_bytes v) \<le> region_held (res_region v) f"
    using assms(3) held_ge [OF assms(1,2), of "\<lambda>w. res_region w = res_region v \<and> res_state w = ResumeState.COMMITTED"]
    by (simp add: r)
qed

lemma next_id_fresh:
  assumes "reservations_ok f" and "unat (fab_sequence f) + 1 < 2 ^ 64"
  shows "find_reservation f (reservation_id (fab_sequence f + 1)) = None"
    and "fab_sequence f < fab_sequence f + 1"
proof -
  show less: "fab_sequence f < fab_sequence f + 1"
    using assms(2) by (simp add: word_less_nat unat_add_u64)
  show "find_reservation f (reservation_id (fab_sequence f + 1)) = None"
  proof (rule ccontr)
    assume "find_reservation f (reservation_id (fab_sequence f + 1)) \<noteq> None"
    then obtain i where "reservation_id (fab_sequence f + 1) = reservation_id i" and "i \<le> fab_sequence f"
      using assms(1) unfolding reservations_ok_def by blast
    with less show False by simp
  qed
qed

lemma by_key_sequence [simp]:
  "pool_pending k (f\<lparr>fab_sequence := n\<rparr>) = pool_pending k f" "pool_held k (f\<lparr>fab_sequence := n\<rparr>) = pool_held k f"
  "region_pending j (f\<lparr>fab_sequence := n\<rparr>) = region_pending j f" "region_held j (f\<lparr>fab_sequence := n\<rparr>) = region_held j f"
  by (simp_all add: held_defs)

lemma new_reservation_simps [simp]:
  "res_pool (new_reservation n req ctx c dev e) = cand_pool c"
  "res_region (new_reservation n req ctx c dev e) = cand_region c"
  "res_bytes (new_reservation n req ctx c dev e) = req_bytes req"
  "res_state (new_reservation n req ctx c dev e) = ResumeState.RESERVED"
  by (simp_all add: new_reservation_def)

lemma accounts_book:
  assumes f: "accounts_ok f" and seq: "unat (fab_sequence f) + 1 < 2 ^ 64" and pos: "0 < req_bytes req"
    and p: "find_pool f (cand_pool c) = Some p" and r: "find_region f (cand_region c) = Some r"
    and pf: "req_bytes req \<le> pool_free p" and rf: "req_bytes req \<le> region_free r"
    and S: "structure_ok (snd (book req ctx c p r dev f))"
  shows "accounts_ok (snd (book req ctx c p r dev f))"
proof -
  let ?n = "req_bytes req" and ?i = "fab_sequence f + 1"
  let ?v = "new_reservation ?i req ctx c dev (epoch f)"
  define g where "g = put_pool (cand_pool c) (pool_reserve ?n p) f"
  define h where "h = put_region (cand_region c) (region_reserve ?n r) g"
  have wf: "wf_maps f" "wf_maps g" "wf_maps h" using accounts_wf [OF f] by (simp_all add: g_def h_def)
  have R: "reservations_ok f" using f by (simp add: accounts_ok_def)
  note fresh = next_id_fresh [OF R seq]
  have none: "find_reservation h (reservation_id ?i) = None" using fresh(1) by (simp add: h_def g_def)
  have G: "snd (book req ctx c p r dev f) = (put_reservation (reservation_id ?i) ?v (recompute_global h))\<lparr>fab_sequence := ?i\<rparr>"
    using fresh(1) by (simp add: snd_book Let_def h_def g_def)
  define b where "b = snd (book req ctx c p r dev f)"
  have held: "held P b = charge P ?v + held P f" for P
    using held_put_new [of "recompute_global h" "reservation_id ?i" P ?v] wf none unfolding b_def G
    by (simp add: h_def g_def)
  have finds: "find_pool b = (find_pool f)(cand_pool c := Some (pool_reserve ?n p))"
    "find_region b = (find_region f)(cand_region c := Some (region_reserve ?n r))"
    using wf by (auto simp: b_def G h_def g_def)
  have "pl.covers (pool_reserve ?n p) (pool_pending (cand_pool c) f + unat ?n) (pool_held (cand_pool c) f + unat ?n)"
    using accounts_pool [OF f p] pos pf by (intro pl.covers_reserve) (simp_all add: word_le_nat)
  moreover have "rg.covers (region_reserve ?n r) (region_pending (cand_region c) f + unat ?n) (region_held (cand_region c) f + unat ?n)"
    using accounts_region [OF f r] pos rf by (intro rg.covers_reserve) (simp_all add: word_le_nat)
  moreover have "reservations_ok b"
    using R p r pos fresh(2) wf unfolding b_def G reservations_ok_def
    by (auto simp: h_def g_def split: if_splits) (meson less_imp_le order_trans)
  moreover have "totals_kept (pool_reserve ?n p)" using accounts_pool [OF f p] by simp
  ultimately show ?thesis
    unfolding b_def [symmetric]
    by (intro accounts_moved [OF f S [folded b_def] _ finds])
      (simp_all add: held held_defs live_def add.commute)
qed

text \<open>A stored reservation that is replaced by one with the same pool, region and bytes.\<close>

lemma reservations_replace:
  assumes "reservations_ok f" and "wf_maps g" and "find_reservation f k = Some v"
    and "find_reservation g = find_reservation f" and "fab_sequence g = fab_sequence f"
    and "\<And>j. find_pool g j = None \<Longrightarrow> find_pool f j = None" and "\<And>j. find_region g j = None \<Longrightarrow> find_region f j = None"
    and "res_pool w = res_pool v" "res_region w = res_region v" "res_bytes w = res_bytes v"
  shows "reservations_ok (put_reservation k w g)"
  unfolding reservations_ok_def
proof (intro allI impI)
  fix j x
  assume "find_reservation (put_reservation k w g) j = Some x"
  then obtain y where "find_reservation f j = Some y" and "res_pool x = res_pool y" "res_region x = res_region y"
      "res_bytes x = res_bytes y"
    using assms by (auto split: if_splits)
  then show "find_pool (put_reservation k w g) (res_pool x) \<noteq> None \<and>
      find_region (put_reservation k w g) (res_region x) \<noteq> None \<and> 0 < res_bytes x \<and>
      (\<exists>i. j = reservation_id i \<and> i \<le> fab_sequence (put_reservation k w g))"
    using assms(1,5-7) unfolding reservations_ok_def by fastforce
qed

lemma accounts_linked:
  "accounts_ok f \<Longrightarrow> find_reservation f k = Some v \<Longrightarrow>
     \<exists>p r. find_pool f (res_pool v) = Some p \<and> find_region f (res_region v) = Some r \<and> 0 < res_bytes v"
  unfolding accounts_ok_def reservations_ok_def by blast

abbreviation reserved :: "Reservation \<Rightarrow> bool" where
  "reserved v \<equiv> res_state v = ResumeState.RESERVED"

text \<open>
  A reservation changes its state while its pool and its region are rebooked: the books stay in step
  if the new pool and region cover the sums without the old and with the new state.
\<close>

lemma accounts_replaced:
  assumes f: "accounts_ok f" and v: "find_reservation f k = Some v"
    and p: "find_pool f (res_pool v) = Some p" and r: "find_region f (res_region v) = Some r"
    and w: "res_pool w = res_pool v" "res_region w = res_region v" "res_bytes w = res_bytes v"
    and S: "structure_ok (put_reservation k w (put_region (res_region v) r' (put_pool (res_pool v) p' f)))"
    and kept: "totals_kept p'"
    and cp: "pl.covers p' (charge reserved w + pool_pending (res_pool v) f - charge reserved v)
               (charge live w + pool_held (res_pool v) f - charge live v)"
    and cr: "rg.covers r' (charge reserved w + region_pending (res_region v) f - charge reserved v)
               (charge live w + region_held (res_region v) f - charge live v)"
  shows "accounts_ok (put_reservation k w (put_region (res_region v) r' (put_pool (res_pool v) p' f)))"
proof -
  define g where "g = put_region (res_region v) r' (put_pool (res_pool v) p' f)"
  note wf = accounts_wf [OF f]
  have wg: "wf_maps g" using wf by (simp add: g_def)
  have R: "reservations_ok f" using f by (simp add: accounts_ok_def)
  have Rb: "reservations_ok (put_reservation k w g)"
    by (rule reservations_replace [OF R wg v]) (use wf w in \<open>auto simp: g_def split: if_splits\<close>)
  have held: "held P (put_reservation k w g) = charge P w + held P f - charge P v" for P
    using held_put_old [OF wg, of k v P w] v by (simp add: g_def)
  have charges: "charge (\<lambda>x. res_pool x = j \<and> Q x) u = (if res_pool u = j then charge Q u else 0)"
    "charge (\<lambda>x. res_region x = j' \<and> Q x) u = (if res_region u = j' then charge Q u else 0)" for j j' Q u
    by (simp_all add: charge_def)
  have finds: "find_pool (put_reservation k w g) = (find_pool f)(res_pool v := Some p')"
    "find_region (put_reservation k w g) = (find_region f)(res_region v := Some r')"
    using wf by (auto simp: g_def)
  show ?thesis
    unfolding g_def [symmetric]
    using S [folded g_def] kept cp cr w Rb
    by (intro accounts_moved [OF f _ _ finds]) (simp_all add: held held_defs charges)
qed

lemma accounts_commit:
  assumes f: "accounts_ok f"
  shows "accounts_ok (snd (commit k ctx f))"
proof (cases "snd (commit k ctx f) = f")
  case True
  then show ?thesis using f by simp
next
  case False
  then obtain v p r dev where v: "find_reservation f k = Some v" "res_state v = ResumeState.RESERVED"
    and p: "find_pool f (res_pool v) = Some p" and r: "find_region f (res_region v) = Some r"
    and c: "commit k ctx f = (grant (v\<lparr>res_state := ResumeState.COMMITTED, res_commit_epoch := epoch f\<rparr>),
         recompute_global (put_reservation k (v\<lparr>res_state := ResumeState.COMMITTED, res_commit_epoch := epoch f\<rparr>)
           (put_region (res_region v) (region_commit (res_bytes v) r)
           (put_pool (res_pool v) (pool_commit (res_bytes v) p) f))))"
    using commit_shape [of k ctx f] by blast
  note ge = pending_ge [OF accounts_wf [OF f] v] and pos = accounts_linked [OF f v(1)]
  have "pl.covers (pool_commit (res_bytes v) p) (pool_pending (res_pool v) f - unat (res_bytes v)) (pool_held (res_pool v) f)"
    "rg.covers (region_commit (res_bytes v) r) (region_pending (res_region v) f - unat (res_bytes v)) (region_held (res_region v) f)"
    using accounts_pool [OF f p] accounts_region [OF f r] pos ge by (auto intro: pl.covers_commit rg.covers_commit)
  with v accounts_pool [OF f p] structure_commit [OF accounts_structure [OF f], of k ctx]
  show ?thesis unfolding c snd_conv accounts_recompute_global structure_recompute_global
    by (intro accounts_replaced [OF f v(1) p r]) (auto simp: live_def)
qed

text \<open>In a sound state a release of live bytes never finds a mismatch.\<close>

lemma live_covered:
  assumes "accounts_ok f" and "find_reservation f k = Some v" and "live v"
  shows "find_pool f (res_pool v) = Some p \<Longrightarrow>
       unat (res_bytes v) \<le> unat (pool_reserved_bytes p) + unat (pool_committed_bytes p)"
    and "find_region f (res_region v) = Some r \<Longrightarrow>
       unat (res_bytes v) \<le> unat (reg_reserved_bytes r) + unat (reg_committed_bytes r)"
  using held_ge [OF accounts_wf [OF assms(1)] assms(2), of "\<lambda>w. res_pool w = res_pool v \<and> live w"]
    held_ge [OF accounts_wf [OF assms(1)] assms(2), of "\<lambda>w. res_region w = res_region v \<and> live w"]
    accounts_pool [OF assms(1), of "res_pool v" p] accounts_region [OF assms(1), of "res_region v" r] assms(3)
  by (simp_all add: pl.covers_def rg.covers_def held_defs)

lemma release_from_pool_sound:
  assumes "accounts_ok f" and "find_reservation f k = Some v" and "live v" and "find_pool f (res_pool v) = Some p"
  shows "release_from_pool v f = (True, put_pool (res_pool v) (snd (pool_release (res_bytes v) p)) f)"
proof -
  have "fst (pool_release (res_bytes v) p) = 0"
    using live_covered(1) [OF assms] accounts_pool [OF assms(1,4)] by (simp add: pool_release_law pl.covers_def)
  with assms(4) show ?thesis using release_from_pool_cases [of v f] by auto
qed

lemma release_sound:
  assumes f: "accounts_ok f" and v: "find_reservation f k = Some v" "live v" and e: "ctx_coordinator_epoch ctx = epoch f"
    and p: "find_pool f (res_pool v) = Some p" and r: "find_region f (res_region v) = Some r"
  shows "release k ctx f = (grant (v\<lparr>res_state := ResumeState.RELEASED\<rparr>),
      recompute_global (put_reservation k (v\<lparr>res_state := ResumeState.RELEASED\<rparr>)
        (put_region (res_region v) (snd (region_release (res_bytes v) r))
        (put_pool (res_pool v) (snd (pool_release (res_bytes v) p)) f))))"
  using v e r release_from_pool_sound [OF f v p]
  by (auto simp: release_def release_from_region_def live_def Let_def)

lemma accounts_release:
  assumes f: "accounts_ok f"
  shows "accounts_ok (snd (release k ctx f))"
proof (cases "snd (release k ctx f) = f")
  case True
  then show ?thesis using f by simp
next
  case False
  then obtain v where v: "find_reservation f k = Some v" and live: "live v" and e: "ctx_coordinator_epoch ctx = epoch f"
    using release_shape [of k ctx f] unfolding live_def by blast
  from accounts_linked [OF f v] obtain p r where p: "find_pool f (res_pool v) = Some p"
    and r: "find_region f (res_region v) = Some r" and pos: "0 < res_bytes v" by blast
  note c = release_sound [OF f v live e p r] and wf = accounts_wf [OF f]
  let ?n = "unat (res_bytes v)"
  have "pl.covers (snd (pool_release (res_bytes v) p)) (pool_pending (res_pool v) f - charge reserved v) (pool_held (res_pool v) f - ?n)"
    using accounts_pool [OF f p] pos pending_ge(1) [OF wf v] committed_ge(1) [OF wf v] live
    by (auto simp: live_def intro: pl.covers_release_reserved pl.covers_release_committed)
  moreover have "rg.covers (snd (region_release (res_bytes v) r)) (region_pending (res_region v) f - charge reserved v) (region_held (res_region v) f - ?n)"
    using accounts_region [OF f r] pos pending_ge(2) [OF wf v] committed_ge(2) [OF wf v] live
    by (auto simp: live_def intro: rg.covers_release_reserved rg.covers_release_committed)
  ultimately show ?thesis
    using live accounts_pool [OF f p] structure_release [OF accounts_structure [OF f], of k ctx]
    unfolding c snd_conv accounts_recompute_global structure_recompute_global
    by (intro accounts_replaced [OF f v p r]) (auto simp: live_def)
qed

section \<open>Whole runs\<close>

lemma accounts_import:
  assumes "accounts_ok f" and "persisted_clean ps"
  shows "accounts_ok (import_persisted ps f)"
proof -
  let ?g = "import_persisted ps f"
  have finds: "find_region ?g k = map_option fence_region (om_find (ps_regions ps) k)"
    "find_pool ?g j = map_option fence_pool (om_find (ps_pools ps) j)" "find_reservation ?g i = None" for k j i
    by (auto simp: import_persisted_def find_defs recompute_global_def)
  have none: "held P ?g = 0" for P
    by (simp add: import_persisted_def held_def recompute_global_def)
  have "(j, p) \<in> set (ps_pools ps)" if "om_find (ps_pools ps) j = Some p" for j p
    using assms(2) that by (simp add: persisted_clean_def persisted_ok_def om.find_entries)
  then have pools: "totals_kept p \<and> pool_reserved_bytes p = 0 \<and> pool_committed_bytes p = 0 \<and> pool_draining_bytes p = 0"
    if "om_find (ps_pools ps) j = Some p" for j p
    using assms(2) that unfolding persisted_clean_def by fastforce
  have "(j, r) \<in> set (ps_regions ps)" if "om_find (ps_regions ps) j = Some r" for j r
    using assms(2) that by (simp add: persisted_clean_def persisted_ok_def om.find_entries)
  then have regions: "reg_reserved_bytes r = 0 \<and> reg_committed_bytes r = 0" if "om_find (ps_regions ps) j = Some r" for j r
    using assms(2) that unfolding persisted_clean_def by fastforce
  have kept: "totals_kept (fence_pool p) = totals_kept p" for p by (simp add: totals_kept_def fence_pool_def)
  have "pl.covers (fence_pool p) 0 0" if "om_find (ps_pools ps) j = Some p" for j p
    using pools [OF that] member_unavailable_le [of "pool_members p"]
    by (simp add: pl.covers_def pool_ok_def pool_sum_def fence_pool_def totals_kept_def)
  moreover have "rg.covers (fence_region r) 0 0" if "om_find (ps_regions ps) j = Some r" for j r
    using regions [OF that] by (simp add: rg.covers_def region_ok_def region_sum_def fence_region_def)
  moreover have "structure_ok ?g"
    using structure_import [of ps f] assms by (simp add: accounts_structure persisted_clean_def)
  ultimately show ?thesis
    unfolding accounts_ok_def reservations_ok_def held_defs finds none using pools kept by auto
qed

lemma accounts_meta:
  "accounts_ok f \<Longrightarrow> accounts_ok (set_epoch e f)" "accounts_ok f \<Longrightarrow> accounts_ok (set_policy_generation p f)"
  "accounts_ok f \<Longrightarrow> accounts_ok (advance_evidence_generation f)"
  unfolding accounts_ok_def structure_meta
  by (simp_all add: reservations_ok_def held_defs held_def find_defs
      set_epoch_def set_policy_generation_def advance_evidence_generation_def Let_def)

lemma accounts_reserve:
  assumes "accounts_ok f" and "unat (fab_sequence f) + 1 < 2 ^ 64"
  shows "accounts_ok (snd (reserve req ctx f))"
  using reserve_shape [of req ctx f] assms structure_reserve [OF accounts_structure [OF assms(1)], of req ctx]
  by (auto intro!: accounts_book simp: word_gt_0)

lemma accounts_exec:
  assumes "accounts_ok f" and "sound_call c f" and "unat (fab_sequence f) + 1 < 2 ^ 64"
  shows "accounts_ok (exec c f)"
  using assms
  by (cases c) (simp_all only: exec_def perform.simps snd_conv snd_map_prod id_apply accounts_meta accounts_devices
      accounts_regions accounts_create_pool accounts_add_pool_member accounts_remove_pool_member accounts_pools
      accounts_reserve accounts_commit accounts_release accounts_import sound_call.simps)

lemma accounts_new: "accounts_ok (Fabric_new e p)"
  using structure_new [of e p]
  by (simp add: accounts_ok_def reservations_ok_def find_defs Fabric_new_def Fabric_default_def StateSnapshot_default_def)

text \<open>The sequence counter counts the reservations that were granted.\<close>

lemma sequence_book: "fab_sequence (snd (book req ctx c p r d f)) = fab_sequence f + 1"
  by (simp add: snd_book Let_def)

lemma sequence_release_parts [simp]:
  "fab_sequence (snd (release_from_pool v f)) = fab_sequence f" "fab_sequence (release_from_region v f) = fab_sequence f"
  by (auto simp: release_from_pool_def release_from_region_def split: option.splits prod.splits)

lemma sequence_release_pool: "release_from_pool v f = (b, g) \<Longrightarrow> fab_sequence g = fab_sequence f"
  using sequence_release_parts(1) [of v f] by simp

lemma sequence_exec: "unat (fab_sequence (exec c f)) \<le> unat (fab_sequence f) + 1"
proof -
  have "unat (x + 1) \<le> unat x + 1" for x :: u64
    by (simp add: unat_word_ariths)
  then show ?thesis
    by (cases c)
      (auto simp: exec_def sequence_book set_epoch_def set_policy_generation_def advance_evidence_generation_def Let_def
        operation_defs import_persisted_def
        split: option.splits prod.splits dest!: sequence_release_pool)
qed

lemma accounts_reachable:
  "reachable sound_call (Fabric_new e p) n f \<Longrightarrow> n < 2 ^ 64 \<Longrightarrow> accounts_ok f \<and> unat (fab_sequence f) \<le> n"
proof (induction rule: reachable.induct)
  case initial
  show ?case by (simp add: accounts_new) (simp add: Fabric_new_def Fabric_default_def)
next
  case (step n f c)
  then have f: "accounts_ok f" "unat (fab_sequence f) \<le> n" by simp_all
  with step have "accounts_ok (exec c f)" by (intro accounts_exec) auto
  with f(2) sequence_exec [of c f] show ?case by simp
qed

section \<open>The global ledger\<close>

definition ledger_synced :: "Fabric \<Rightarrow> bool" where
  "ledger_synced f \<longleftrightarrow> st_global_ledger (fab_state f) = global_line (st_pools (fab_state f))"

lemma synced_frame [simp]:
  "ledger_synced (put_device kd d f) = ledger_synced f" "ledger_synced (put_region kr r f) = ledger_synced f"
  "ledger_synced (put_reservation kv v f) = ledger_synced f" "ledger_synced (recompute_global f)"
  "ledger_synced (f\<lparr>fab_sequence := n\<rparr>) = ledger_synced f"
  by (simp_all add: ledger_synced_def)

lemma synced_put_pool_state:
  assumes "structure_ok f" and "ledger_synced f" and "find_pool f k = Some p" and "s \<noteq> PoolState.RETIRED"
  shows "ledger_synced (put_pool k (p\<lparr>pool_state := s\<rparr>) f)"
proof -
  have "add_pool_line (p\<lparr>pool_state := s\<rparr>) g = add_pool_line p g" for g
    using structure_pool [OF assms(1,3)] assms(4)
    by (simp add: add_pool_line_def Let_def cong: option.case_cong)
  then have "global_line (om_assign k (p\<lparr>pool_state := s\<rparr>) (st_pools (fab_state f))) = global_line (st_pools (fab_state f))"
    unfolding global_line_def using structure_wf [OF assms(1)] assms(3)
    by (intro fold_om_assign [of _ _ p]) (simp_all add: wf_maps_def find_pool_def)
  with assms(2) show ?thesis by (simp add: ledger_synced_def)
qed

lemma synced_book: "ledger_synced (snd (book req ctx c p r d f))"
  by (simp add: snd_book Let_def)

lemma synced_exec:
  assumes "structure_ok f" and "ledger_synced f"
    and "\<And>k ctx. c = Release k ctx \<Longrightarrow> reply c f \<noteq> DecisionReason.RESERVATION_CONFLICT"
  shows "ledger_synced (exec c f)"
proof (cases c)
  case (Mark_pool_draining k ctx)
  then show ?thesis using mark_pool_draining_shape [of k ctx f] synced_put_pool_state [OF assms(1,2)] assms(2) by (auto simp: exec_def)
next
  case (Reserve req ctx)
  then show ?thesis using reserve_shape [of req ctx f] synced_book assms(2) by (auto simp: exec_def)
next
  case (Commit k ctx)
  then show ?thesis using commit_shape [of k ctx f] assms(2) by (auto simp: exec_def)
next
  case (Release k ctx)
  then show ?thesis using release_shape [of k ctx f] assms by (auto simp: exec_def reply_def split: if_splits)
qed (use assms(2) in \<open>simp_all add: exec_def operation_defs Let_def split: option.splits\<close>,
  auto simp: ledger_synced_def set_epoch_def set_policy_generation_def advance_evidence_generation_def import_persisted_def Let_def)

lemma grant_not_refuse [simp]: "grant v \<noteq> refuse r"
  by (metis grant_simps(1) refuse_simps(1))

lemma release_no_conflict:
  assumes "accounts_ok f"
  shows "reply (Release k ctx) f \<noteq> DecisionReason.RESERVATION_CONFLICT"
proof -
  have "fst (release_from_pool v f)" if "find_reservation f k = Some v" "live v" for v
    using that accounts_linked [OF assms that(1)] release_from_pool_sound [OF assms that] by auto
  then show ?thesis
    using release_shape [of k ctx f] by (auto simp: reply_def live_def split: if_splits)
qed

lemma synced_new: "ledger_synced (Fabric_new e p)"
  by (simp add: ledger_synced_def Fabric_new_def Fabric_default_def StateSnapshot_default_def global_line_def)

lemma synced_reachable: "reachable sound_call (Fabric_new e p) n f \<Longrightarrow> n < 2 ^ 64 \<Longrightarrow> ledger_synced f"
proof (induction rule: reachable.induct)
  case initial
  show ?case by (rule synced_new)
next
  case (step n f c)
  then have "accounts_ok f" using accounts_reachable [of e p n f] by simp
  with step show ?case by (auto intro!: synced_exec accounts_structure release_no_conflict)
qed

section \<open>The audit of sound books\<close>

text \<open>If every pool's books close, so do the sums over all pools.\<close>

lemma live_sums_close:
  assumes "\<And>kv. kv \<in> set pools \<Longrightarrow> pool_ok (snd kv)"
  shows "live_sum pool_unavailable_bytes pools + live_sum pool_reserved_bytes pools +
     live_sum pool_committed_bytes pools + live_sum pool_draining_bytes pools \<le> live_sum pool_total_governed_bytes pools"
  using assms by (induction pools) (force simp: pool_ok_def pool_sum_def)+

lemma cl_audit_ok: "cl_ok l \<Longrightarrow> cl_audit l = None"
  using cl_used_exact [OF cl_ok_fits, of l] cl_free_exact [of l]
  by (auto simp: cl_audit_def Let_def cl_ok_def word_less_nat word_le_nat)

lemma audit_passes:
  assumes "\<And>k p. (k, p) \<in> set (st_pools (fab_state f)) \<Longrightarrow> pool_ok p"
    and "live_sum pool_total_governed_bytes (st_pools (fab_state f)) < 2 ^ 64"
  shows "audit_ok (audit f)" and "audit_errors (audit f) = []"
    and "audit_global_ledger (audit f) = global_line (st_pools (fab_state f))"
    and "totals (st_pools (fab_state f)) CapacityLine_default (global_line (st_pools (fab_state f)))"
proof -
  let ?ps = "st_pools (fab_state f)" and ?g = "global_line (st_pools (fab_state f))"
  note close = live_sums_close [of ?ps]
  have sums: "live_sum pool_unavailable_bytes ?ps + live_sum pool_reserved_bytes ?ps +
     live_sum pool_committed_bytes ?ps + live_sum pool_draining_bytes ?ps \<le> live_sum pool_total_governed_bytes ?ps"
    using close assms(1) by force
  then have fits: "line_fits ?ps CapacityLine_default"
    using assms(2) by (simp add: line_fits_def CapacityLine_default_def)
  show totals: "totals ?ps CapacityLine_default ?g" by (rule global_line_exact [OF fits])
  show ledger: "audit_global_ledger (audit f) = ?g" by (rule audit_ledger_exact [OF fits])
  have "cl_ok ?g"
    using totals sums by (simp add: totals_def cl_ok_def cl_sum_def CapacityLine_default_def word_le_nat)
  then have line: "cl_audit (audit_global_ledger (audit f)) = None" by (simp add: ledger cl_audit_ok)
  have "audit_pool_errors (snd kv) = []" if "kv \<in> set ?ps" for kv
    using assms(1) [of "fst kv" "snd kv"] that pool_used_exact [of "snd kv"]
    by (auto simp: audit_pool_errors_def pool_ok_def word_less_nat)
  then show errors: "audit_errors (audit f) = []"
    using line by (simp add: audit_def Let_def)
  then show "audit_ok (audit f)" by (simp add: audit_def Let_def)
qed

lemma audit_sound:
  assumes "reachable sound_call (Fabric_new e pol) n f" and "n < 2 ^ 64"
    and "live_sum pool_total_governed_bytes (st_pools (fab_state f)) < 2 ^ 64"
  shows "audit_ok (audit f)" and "audit_errors (audit f) = []"
    and "audit_global_ledger (audit f) = st_global_ledger (fab_state f)"
    and "totals (st_pools (fab_state f)) CapacityLine_default (st_global_ledger (fab_state f))"
proof -
  have ok: "accounts_ok f" using accounts_reachable [OF assms(1,2)] by simp
  have "pool_ok p" if "(k, p) \<in> set (st_pools (fab_state f))" for k p
    using that accounts_pool [OF ok, of k p] by (simp add: find_pool_entries [OF accounts_wf [OF ok]] pl.covers_def)
  note passes = audit_passes [OF this assms(3)]
  from passes(1,2) show "audit_ok (audit f)" "audit_errors (audit f) = []" by simp_all
  from synced_reachable [OF assms(1,2)] passes(3,4)
  show "audit_global_ledger (audit f) = st_global_ledger (fab_state f)"
    "totals (st_pools (fab_state f)) CapacityLine_default (st_global_ledger (fab_state f))" by (simp_all add: ledger_synced_def)
qed

section \<open>The books close\<close>

lemma accounts_closed:
  assumes "accounts_ok f"
  shows "(\<forall>k p. find_pool f k = Some p \<longrightarrow>
            pool_held k f + unat (pool_unavailable_bytes p) + unat (pool_draining_bytes p) + unat (pool_free p) =
            unat (pool_total_governed_bytes p)) \<and>
         (\<forall>k r. find_region f k = Some r \<longrightarrow>
            region_held k f + unat (region_free r) = unat (reg_region_capacity_bytes r))"
proof -
  have "pool_held k f + unat (pool_unavailable_bytes p) + unat (pool_draining_bytes p) + unat (pool_free p) =
      unat (pool_total_governed_bytes p)" if "find_pool f k = Some p" for k p
    using accounts_pool [OF assms that] pool_free_exact [of p] by (simp add: pl.covers_def pool_sum_def)
  moreover have "region_held k f + unat (region_free r) = unat (reg_region_capacity_bytes r)"
    if "find_region f k = Some r" for k r
    using accounts_region [OF assms that] region_free_exact [of r] by (simp add: rg.covers_def region_sum_def)
  ultimately show ?thesis by blast
qed

section \<open>Programs that drive the engine\<close>

text \<open>
  What a program that owns an engine has to show to inherit the results on sound runs: each of its steps is
  a sequence of engine calls, and the calls of the steps it takes are sound.
\<close>

locale engine_client =
  fixes step :: "'e \<Rightarrow> 's \<Rightarrow> 's \<Rightarrow> bool" and fabric :: "'s \<Rightarrow> Fabric" and calls :: "'e \<Rightarrow> 's \<Rightarrow> call list"
    and allowed :: "'e \<Rightarrow> 's \<Rightarrow> bool"
  assumes step_run: "step e s s' \<Longrightarrow> fabric s' = run (calls e s) (fabric s)"
    and calls_sound: "allowed e s \<Longrightarrow> c \<in> set (calls e s) \<Longrightarrow> sound_call c f"
begin

lemma allowed_calls: "allowed e s \<Longrightarrow> set cs \<subseteq> set (calls e s) \<Longrightarrow> allowed_run sound_call cs f"
  by (induction cs arbitrary: f) (auto dest: calls_sound)

lemma step_reachable:
  "step e s s' \<Longrightarrow> allowed e s \<Longrightarrow> reachable sound_call f0 k (fabric s) \<Longrightarrow>
     reachable sound_call f0 (k + length (calls e s)) (fabric s')"
  using reachable_run [of sound_call f0 k "fabric s" "calls e s"] allowed_calls [of e s "calls e s" "fabric s"] by (simp add: step_run)

text \<open>Calls of several steps may also run in any order between each other: every shuffle of them is sound.\<close>

lemma shuffled_sound:
  "(\<And>c. c \<in> set cs \<Longrightarrow> \<exists>e s. allowed e s \<and> c \<in> set (calls e s)) \<Longrightarrow> allowed_run sound_call cs f"
proof (induction cs arbitrary: f)
  case (Cons c cs)
  then obtain e s where "allowed e s" "c \<in> set (calls e s)" by force
  then have "sound_call c g" for g by (rule calls_sound)
  with Cons show ?case by simp
qed simp

end

end
