(* ===== verification/Synthetic.thy ===== *)
theory Synthetic
  imports Records
begin

text \<open>
  Discovery backends: the result record of \<^verbatim>\<open>include/cxl_fabric/backend/backend.hpp\<close>, the synthetic record
  constructors of \<^verbatim>\<open>include/cxl_fabric/backend/synthetic.hpp\<close> with the baseline topology, and the synthetic
  and unsupported backends (\<^verbatim>\<open>src/backend\<close>). The locale \<open>honest_backend\<close> is the contract the interface
  comment states: a backend marks every device with its own provenance, and only a backend that
  supports CXL memory reports devices.
\<close>

section \<open>Record constructors\<close>

definition addcap :: "CapabilityClass \<Rightarrow> SupportState \<Rightarrow> Capabilities \<Rightarrow> Capabilities" where
  "addcap k s m = caps_set (Capability_default\<lparr>cap_klass := k, cap_state := s, cap_version := 1,
     cap_provenance := Provenance.SYNTHETIC, cap_evidence_current := True,
     cap_evidence_generation := Generation 1\<rparr>) m"

definition make_device ::
  "DeviceId \<Rightarrow> DeviceGeneration \<Rightarrow> DeviceBootId \<Rightarrow> HostId \<Rightarrow> u64 \<Rightarrow> VolatilityKind \<Rightarrow> SharingMode \<Rightarrow>
   LocalityClass \<Rightarrow> u64 \<Rightarrow> u64 \<Rightarrow> u32 \<Rightarrow> string \<Rightarrow> CxlDevice" where
  "make_device i gen boot host bytes vol sharing loc latency_ns bw_mbps hops domain =
     (let econ = AccessEconomics_default\<lparr>econ_locality := loc,
        econ_tier := (if vol = VolatilityKind.PERSISTENT then TierClass.CXL_PERSISTENT else TierClass.CXL_CAPACITY),
        econ_evidence_class := EvidenceClass.SYNTHETIC, econ_provenance := Provenance.SYNTHETIC,
        econ_estimated_latency_ns := latency_ns, econ_estimated_bandwidth_mbps := bw_mbps,
        econ_hop_count := hops, econ_access_penalty_vs_local := 1 + of_nat (unat hops) / 4,
        econ_migration_cost_bytes := bytes div 8, econ_failsafe_valid := True, econ_notes := domain\<rparr>;
      caps = addcap CapabilityClass.DYNAMIC_CAPACITY SupportState.SUPPORTED
        (addcap CapabilityClass.VOLATILE_CAPACITY SupportState.SUPPORTED
        (addcap CapabilityClass.TYPE3_MEMORY SupportState.SUPPORTED
        (addcap CapabilityClass.MEMORY_DEVICE SupportState.SUPPORTED [])));
      pcap = Capability_default\<lparr>cap_klass := CapabilityClass.PERSISTENT_CAPACITY,
        cap_state := (if vol = VolatilityKind.PERSISTENT then SupportState.SUPPORTED else SupportState.UNSUPPORTED),
        cap_provenance := Provenance.SYNTHETIC, cap_evidence_current := True\<rparr> in
      CxlDevice_default\<lparr>dev_id := i, dev_generation := gen, dev_boot_id := boot,
        dev_raw_identity := ''synthetic:'' @ id_value i, dev_vendor_device_id := ''VEND:0001 DEVI:0001'',
        dev_cxl_device_class := ''Type-3'', dev_device_type := ''memory'', dev_host := host,
        dev_total_physical_bytes := bytes, dev_online_bytes := bytes, dev_volatility := vol,
        dev_sharing := sharing, dev_multi_host_capable := False,
        dev_interleave_capable := (vol = VolatilityKind.VOLATILE),
        dev_accelerator_access := AcceleratorAccessState.HOST_MEDIATED, dev_health := HealthState.HEALTHY,
        dev_state := DeviceState.ONLINE, dev_provenance := Provenance.SYNTHETIC,
        dev_evidence_current := True, dev_evidence_generation := Generation 1,
        dev_lifecycle_note := ''synthetic'', dev_economics := econ,
        dev_capabilities := caps_set pcap caps\<rparr>)"

definition make_region ::
  "RegionId \<Rightarrow> RegionGeneration \<Rightarrow> PoolId \<Rightarrow> DeviceId list \<Rightarrow> u64 \<Rightarrow> LocalityClass \<Rightarrow> TierClass \<Rightarrow> RegionState \<Rightarrow> CxlRegion" where
  "make_region i gen pool members bytes loc tier st = CxlRegion_default
     \<lparr>reg_id := i, reg_generation := gen, reg_pool := pool, reg_member_devices := members,
      reg_region_capacity_bytes := bytes, reg_interleaved := (length members > 1), reg_state := st,
      reg_access_mode := ''dedicated'', reg_locality := loc, reg_tier := tier,
      reg_health := HealthState.HEALTHY, reg_provenance := Provenance.SYNTHETIC,
      reg_evidence_current := True, reg_evidence_generation := Generation 1\<rparr>"

definition make_pool :: "PoolId \<Rightarrow> PoolGeneration \<Rightarrow> PoolMember list \<Rightarrow> CxlPool" where
  "make_pool i gen members = CxlPool_default
     \<lparr>pool_id := i, pool_generation := gen, pool_members := members, pool_admission_policy := ''default'',
      pool_state := PoolState.AVAILABLE, pool_health_summary := HealthState.HEALTHY,
      pool_provenance := Provenance.SYNTHETIC, pool_evidence_current := True,
      pool_evidence_generation := Generation 1\<rparr>"

definition baseline_devices :: "HostId \<Rightarrow> CxlDevice list" where
  "baseline_devices host =
     [make_device (Ident ''dev-1'') (Generation 1) (Ident ''boot-1'') host
        (16 * 1024 * 1024 * 1024) VolatilityKind.VOLATILE SharingMode.DEDICATED
        LocalityClass.SAME_HOST 180 32000 1 ''fd-root-a'',
      make_device (Ident ''dev-2'') (Generation 1) (Ident ''boot-2'') host
        (64 * 1024 * 1024 * 1024) VolatilityKind.VOLATILE SharingMode.SHARED
        LocalityClass.REMOTE_NUMA_DOMAIN 400 16000 3 ''fd-root-b'',
      make_device (Ident ''dev-3'') (Generation 1) (Ident ''boot-3'') host
        (8 * 1024 * 1024 * 1024) VolatilityKind.PERSISTENT SharingMode.DEDICATED
        LocalityClass.SAME_CXL_ROOT 260 24000 2 ''fd-root-a'']"

section \<open>Backends\<close>

record DiscoveryResult =
  disc_backend_name :: string
  disc_devices :: "CxlDevice list"
  disc_host_id :: HostId
  disc_accelerators :: "string list"
  disc_notes :: "string list"
  disc_cxl_memory_supported :: bool
  disc_provenance :: Provenance

definition DiscoveryResult_default :: DiscoveryResult where
  [record_defs]: "DiscoveryResult_default = \<lparr>disc_backend_name = [], disc_devices = [],
     disc_host_id = Ident_default, disc_accelerators = [], disc_notes = [],
     disc_cxl_memory_supported = False, disc_provenance = Provenance.UNSUPPORTED\<rparr>"

definition add_note :: "string \<Rightarrow> DiscoveryResult \<Rightarrow> DiscoveryResult" where
  "add_note n r = r\<lparr>disc_notes := disc_notes r @ [n]\<rparr>"

definition synthetic_discover :: DiscoveryResult where
  "synthetic_discover =
     (let r = add_note (''SyntheticBackend: deterministic constructed topology. SYNTHETIC evidence only; '' @
            ''this never models physical CXL hardware.'')
          (DiscoveryResult_default\<lparr>disc_backend_name := ''synthetic'', disc_provenance := Provenance.SYNTHETIC,
             disc_cxl_memory_supported := True, disc_host_id := Ident ''host-synth''\<rparr>) in
      r\<lparr>disc_devices := baseline_devices (disc_host_id r)\<rparr>)"

definition unsupported_discover :: DiscoveryResult where
  "unsupported_discover =
     add_note ''UnsupportedBackend: no supported physical CXL discovery path is available on this platform.''
       (DiscoveryResult_default\<lparr>disc_backend_name := ''unsupported'', disc_provenance := Provenance.UNSUPPORTED,
          disc_cxl_memory_supported := False\<rparr>)"

section \<open>The contract of a backend\<close>

locale honest_backend =
  fixes result :: DiscoveryResult
  assumes own_provenance: "d \<in> set (disc_devices result) \<Longrightarrow> dev_provenance d = disc_provenance result"
    and supported: "disc_devices result \<noteq> [] \<Longrightarrow> disc_cxl_memory_supported result"
    and unique_ids: "distinct (map dev_id (disc_devices result))"
begin

lemma nothing_fabricated: "\<not> disc_cxl_memory_supported result \<Longrightarrow> disc_devices result = []"
  using supported by blast

end

lemma make_device_simps [simp]:
  "dev_id (make_device i g b h n v s l lat bw hops d) = i"
  "dev_generation (make_device i g b h n v s l lat bw hops d) = g"
  "dev_boot_id (make_device i g b h n v s l lat bw hops d) = b"
  "dev_provenance (make_device i g b h n v s l lat bw hops d) = Provenance.SYNTHETIC"
  "dev_state (make_device i g b h n v s l lat bw hops d) = DeviceState.ONLINE"
  "dev_evidence_current (make_device i g b h n v s l lat bw hops d)"
  "dev_total_physical_bytes (make_device i g b h n v s l lat bw hops d) = n"
  by (simp_all add: make_device_def Let_def)

interpretation synthetic_backend: honest_backend synthetic_discover
  by unfold_locales
    (auto simp: synthetic_discover_def add_note_def DiscoveryResult_default_def baseline_devices_def)

interpretation unsupported_backend: honest_backend unsupported_discover
  by unfold_locales (auto simp: unsupported_discover_def add_note_def DiscoveryResult_default_def)

text \<open>A capability of a synthetic device can be relied on only if it was added as supported.\<close>

lemma make_device_persistent_capability:
  "caps_required_supported (dev_capabilities (make_device i g b h n v s l lat bw hops d))
     CapabilityClass.PERSISTENT_CAPACITY True \<longleftrightarrow> v = VolatilityKind.PERSISTENT"
  unfolding make_device_def Let_def addcap_def
  by (simp add: caps_required_supported_def caps_get_def caps_set_def cap_key_def
      CapabilityClass_to_u32.simps om_find_assign)

end
