(* ===== verification/Single.thy ===== *)
theory Single
  imports Engine
begin

text \<open>
  Fabrics with one device, one pool that governs it and one region on it: how the calls that publish them build such a
  fabric up from an empty one, and how a request that fits the placement is admitted. The programs of the
  repository start from such a fabric.
\<close>

definition empty_fabric :: "Fabric \<Rightarrow> bool" where
  "empty_fabric f \<longleftrightarrow> st_devices (fab_state f) = [] \<and> st_pools (fab_state f) = [] \<and> st_regions (fab_state f) = [] \<and>
     st_reservations (fab_state f) = [] \<and> fab_sequence f = 0"

definition has_device :: "CxlDevice \<Rightarrow> Fabric \<Rightarrow> bool" where
  "has_device dev f \<longleftrightarrow> st_devices (fab_state f) = [(dev_id dev, dev)] \<and> st_pools (fab_state f) = [] \<and>
     st_regions (fab_state f) = [] \<and> st_reservations (fab_state f) = [] \<and> fab_sequence f = 0"

definition has_pool :: "CxlDevice \<Rightarrow> CxlPool \<Rightarrow> Fabric \<Rightarrow> bool" where
  "has_pool dev pool f \<longleftrightarrow> st_devices (fab_state f) = [(dev_id dev, dev)] \<and> st_pools (fab_state f) = [(pool_id pool, pool)] \<and>
     st_regions (fab_state f) = [] \<and> st_reservations (fab_state f) = [] \<and> fab_sequence f = 0"

definition single :: "CxlDevice \<Rightarrow> CxlPool \<Rightarrow> CxlRegion \<Rightarrow> Fabric \<Rightarrow> bool" where
  "single dev pool reg f \<longleftrightarrow> st_devices (fab_state f) = [(dev_id dev, dev)] \<and> st_pools (fab_state f) = [(pool_id pool, pool)] \<and>
     st_regions (fab_state f) = [(reg_id reg, reg)] \<and> st_reservations (fab_state f) = [] \<and> fab_sequence f = 0 \<and>
     reg_pool reg = pool_id pool \<and> reg_member_devices reg = [dev_id dev]"

lemmas single_defs = empty_fabric_def has_device_def has_pool_def single_def

lemma empty_Fabric_new: "empty_fabric (Fabric_new e p)"
  by (simp add: empty_fabric_def Fabric_new_def Fabric_default_def StateSnapshot_default_def)

section \<open>Publishing\<close>

lemma register_first:
  assumes "empty_fabric f" and "ctx_coordinator_epoch ctx = epoch f"
    and "\<not> id_empty (dev_id dev)" and "\<not> gen_empty (dev_generation dev)" and "\<not> id_empty (dev_boot_id dev)"
  shows "\<exists>f'. register_device dev ctx f = (DecisionReason.OK, f') \<and> has_device dev f' \<and> epoch f' = epoch f"
  using assms by (auto simp: register_device_def find_defs single_defs put_device_def epoch_def)

lemma create_first_pool:
  assumes "has_device dev f" and "ctx_coordinator_epoch ctx = epoch f" and "\<not> id_empty (pool_id pool)" and "\<not> gen_empty (pool_generation pool)"
    and "pool_members pool = [m]" and "pm_device m = dev_id dev" and "pool_id (recompute_pool pool) = pool_id pool"
  shows "\<exists>f'. create_pool pool ctx f = (DecisionReason.OK, f') \<and> epoch f' = epoch f \<and>
     has_pool dev ((recompute_pool pool)\<lparr>pool_state := PoolState.AVAILABLE, pool_evidence_current := True\<rparr>) f'"
  using assms by (auto simp: create_pool_def om_count_def single_defs put_defs epoch_def recompute_global_def Let_def)

lemma create_first_region:
  assumes "has_pool dev pool f" and "ctx_coordinator_epoch ctx = epoch f" and "\<not> id_empty (reg_id reg)"
    and "\<not> gen_empty (reg_generation reg)" and "\<not> id_empty (reg_pool reg)" and "reg_pool reg = pool_id pool" and "reg_member_devices reg = [dev_id dev]"
    and "has_member pool (dev_id dev)"
  shows "\<exists>f'. create_region reg ctx f = (DecisionReason.OK, f') \<and> single dev pool reg f' \<and> epoch f' = epoch f"
  using assms by (auto simp: create_region_def om_count_def find_defs single_defs put_defs epoch_def)

section \<open>Admission\<close>

lemma single_placement:
  "single dev pool reg f \<Longrightarrow> placement (fab_state f) p r did d \<Longrightarrow> p = pool \<and> r = reg \<and> d = dev"
  by (auto simp: placement_def single_def split: if_splits)

lemma single_select:
  assumes "single dev pool reg f" and "in_service dev reg pool (pool_evidence_current pool)" and "request_fits req dev reg pool"
    and "req_bytes req \<le> region_free reg"
  shows "so_ok (select req f) \<and> so_chosen (select req f) = region_candidate pool reg (dev_id dev) dev"
proof -
  have "placement (fab_state f) pool reg (dev_id dev) dev"
    using assms(1) by (simp add: placement_def single_def)
  with assms have "region_candidate pool reg (dev_id dev) dev \<in> set (admissible req (selection_snapshot f))"
    by (auto simp: admissible_iff fit_placement_def)
  then have ok: "so_ok (build_selection (selection_snapshot f) req)" by (auto simp: build_selection_ok)
  from chosen_admissible [OF this] single_placement [OF assms(1)] ok show ?thesis
    by (auto simp: admissible_iff fit_placement_def select_def)
qed

lemma single_reserve:
  assumes "single dev pool reg f" and "in_service dev reg pool (pool_evidence_current pool)" and "request_fits req dev reg pool"
    and "req_bytes req \<le> region_free reg" and "req_bytes req \<le> pool_free pool" and "req_bytes req \<noteq> 0"
    and "ctx_coordinator_epoch ctx = epoch f"
  shows "reserve req ctx f = book req ctx (region_candidate pool reg (dev_id dev) dev) pool reg dev f"
proof -
  note sel = single_select [OF assms(1-4), unfolded select_def]
  have "find_pool f (pool_id pool) = Some pool" "find_region f (reg_id reg) = Some reg" "find_device f (dev_id dev) = Some dev"
    using assms(1) by (simp_all add: single_def find_defs)
  with sel assms show ?thesis by (auto simp: reserve_def Let_def region_candidate_def not_less [symmetric])
qed

end
