(* ===== verification/Scenario.thy ===== *)
theory Scenario
  imports Accounts Synthetic Single
begin

text \<open>
  A concrete fabric, the one that \<^verbatim>\<open>examples/reservation_lifecycle.cpp\<close> builds: one synthetic device, a pool
  that governs it and a region on it, with a reservation that is made, committed and released.
  It shows that the hypotheses of the theorems about runs of the engine can be met.
\<close>

definition ex_ctx :: AuthorityContext where
  "ex_ctx = AuthorityContext_default\<lparr>ctx_coordinator_epoch := Generation 1, ctx_policy_generation := Generation 1,
     ctx_worker_boot_id := Ident ''w1'', ctx_consumer_generation := Generation 1\<rparr>"

definition ex_device :: CxlDevice where
  "ex_device = make_device (Ident ''d1'') (Generation 1) (Ident ''b1'') (Ident ''host-r'') (16 * 1024 * 1024 * 1024)
     VolatilityKind.VOLATILE SharingMode.DEDICATED LocalityClass.SAME_HOST 200 16000 1 ''fd''"

definition ex_member :: PoolMember where
  "ex_member = \<lparr>pm_device = Ident ''d1'', pm_device_generation = Generation 1,
     pm_nominal_bytes = 16 * 1024 * 1024 * 1024, pm_online = True, pm_health_ok = True,
     pm_failure_domain = ''fd'', pm_locality = LocalityClass.SAME_HOST\<rparr>"

definition ex_pool :: CxlPool where
  "ex_pool = make_pool (Ident ''p-1'') (Generation 1) [ex_member]"

definition ex_region :: CxlRegion where
  "ex_region = make_region (Ident ''r1'') (Generation 1) (Ident ''p-1'') [Ident ''d1''] (16 * 1024 * 1024 * 1024)
     LocalityClass.SAME_HOST TierClass.CXL_NEAR RegionState.ONLINE"

definition ex_f0 :: Fabric where
  "ex_f0 = Fabric_new (Generation 1) (Generation 1)"

definition ex_setup :: "call list" where
  "ex_setup = [Register_device ex_device ex_ctx, Create_pool ex_pool ex_ctx, Create_region ex_region ex_ctx]"

definition ex_ready :: Fabric where
  "ex_ready = run ex_setup ex_f0"

definition ex_req :: AdmissionRequest where
  "ex_req = AdmissionRequest_default\<lparr>req_bytes := 4 * 1024 * 1024 * 1024, req_consumer := Ident ''svc''\<rparr>"

section \<open>The state the set-up reaches\<close>

text \<open>The pool as \<^verbatim>\<open>create_pool\<close> stores it, with the totals of its member.\<close>

definition ex_pool' :: CxlPool where
  "ex_pool' = ex_pool\<lparr>pool_total_governed_bytes := 16 * 1024 * 1024 * 1024, pool_failure_domains := [''fd'']\<rparr>"

lemma ex_f0_maps [simp]:
  "st_devices (fab_state ex_f0) = []" "st_regions (fab_state ex_f0) = []" "st_pools (fab_state ex_f0) = []"
  "st_reservations (fab_state ex_f0) = []" "fab_sequence ex_f0 = 0" "epoch ex_f0 = Generation 1"
  by (simp_all add: ex_f0_def Fabric_new_def Fabric_default_def StateSnapshot_default_def epoch_def)

lemma ex_records [simp]:
  "ctx_coordinator_epoch ex_ctx = Generation 1" "dev_id ex_device = Ident ''d1''"
  "dev_generation ex_device = Generation 1" "dev_boot_id ex_device = Ident ''b1''"
  "pool_id ex_pool = Ident ''p-1''" "pool_generation ex_pool = Generation 1" "pool_members ex_pool = [ex_member]"
  "reg_id ex_region = Ident ''r1''" "reg_generation ex_region = Generation 1" "reg_pool ex_region = Ident ''p-1''"
  "reg_member_devices ex_region = [Ident ''d1'']" "pm_device ex_member = Ident ''d1''"
  by (simp_all add: ex_ctx_def ex_device_def ex_pool_def ex_region_def ex_member_def make_pool_def make_region_def)

lemma ex_nonempty [simp]: "\<not> id_empty (Ident (c # cs))" "\<not> gen_empty (Generation 1)"
  by (simp_all add: id_empty_def gen_empty_def)

lemma ex_pool_stored:
  "(recompute_pool ex_pool)\<lparr>pool_state := PoolState.AVAILABLE, pool_evidence_current := True\<rparr> = ex_pool'"
  by (simp add: recompute_pool_def add_member_def add_checked_def ex_member_def ex_pool'_def ex_pool_def make_pool_def
      CxlPool_default_def)

lemma ex_up [simp]:
  "pool_evidence_current ex_pool'" "pool_state ex_pool' = PoolState.AVAILABLE" "pool_id ex_pool' = Ident ''p-1''"
  "pool_generation ex_pool' = Generation 1" "pool_members ex_pool' = [ex_member]"
  "reg_evidence_current ex_region" "reg_state ex_region = RegionState.ONLINE"
  "dev_evidence_current ex_device" "dev_state ex_device = DeviceState.ONLINE"
  by (simp_all add: ex_pool'_def ex_pool_def ex_region_def ex_device_def make_pool_def make_region_def)

definition ex_f1 :: Fabric where "ex_f1 = put_device (Ident ''d1'') ex_device ex_f0"

definition ex_f2 :: Fabric where "ex_f2 = recompute_global (put_pool (Ident ''p-1'') ex_pool' ex_f1)"

lemma ex_f1_maps [simp]:
  "st_devices (fab_state ex_f1) = [(Ident ''d1'', ex_device)]" "st_regions (fab_state ex_f1) = []"
  "st_pools (fab_state ex_f1) = []" "st_reservations (fab_state ex_f1) = []" "fab_sequence ex_f1 = 0"
  "epoch ex_f1 = Generation 1"
  using ex_f0_maps by (simp_all add: ex_f1_def put_device_def epoch_def)

lemma ex_f2_maps [simp]:
  "st_devices (fab_state ex_f2) = [(Ident ''d1'', ex_device)]" "st_regions (fab_state ex_f2) = []"
  "st_pools (fab_state ex_f2) = [(Ident ''p-1'', ex_pool')]" "st_reservations (fab_state ex_f2) = []"
  "fab_sequence ex_f2 = 0" "epoch ex_f2 = Generation 1"
  using ex_f1_maps by (simp_all add: ex_f2_def put_defs epoch_def)

lemma ex_step1: "exec (Register_device ex_device ex_ctx) ex_f0 = ex_f1"
  by (simp add: exec_def register_device_def find_defs ex_f1_def)

lemma ex_step2: "exec (Create_pool ex_pool ex_ctx) ex_f1 = ex_f2"
  using ex_pool_stored
  by (simp add: exec_def create_pool_def om_count_def ex_f2_def Let_def)

lemma ex_step3: "exec (Create_region ex_region ex_ctx) ex_f2 = put_region (Ident ''r1'') ex_region ex_f2"
  by (simp add: exec_def create_region_def om_count_def find_defs has_member_def ex_pool'_def)

lemma ex_ready_eq: "ex_ready = put_region (Ident ''r1'') ex_region ex_f2"
  by (simp add: ex_ready_def ex_setup_def ex_step1 ex_step2 ex_step3)

lemma ex_ready_maps [simp]:
  "st_devices (fab_state ex_ready) = [(Ident ''d1'', ex_device)]"
  "st_regions (fab_state ex_ready) = [(Ident ''r1'', ex_region)]"
  "st_pools (fab_state ex_ready) = [(Ident ''p-1'', ex_pool')]" "st_reservations (fab_state ex_ready) = []"
  "fab_sequence ex_ready = 0" "epoch ex_ready = Generation 1"
  using ex_f2_maps by (simp_all add: ex_ready_eq put_defs epoch_def)

lemma ex_ready_policy: "policy_generation ex_ready = Generation 1"
  by (simp add: ex_ready_eq ex_f2_def ex_f1_def ex_f0_def put_defs policy_generation_def Fabric_new_def)

lemma ex_ready_find [simp]:
  "find_device ex_ready (Ident ''d1'') = Some ex_device" "find_region ex_ready (Ident ''r1'') = Some ex_region"
  "find_pool ex_ready (Ident ''p-1'') = Some ex_pool'" "find_reservation ex_ready k = None"
  by (simp_all add: find_defs)

lemma ex_setup_sound: "allowed_run sound_call ex_setup ex_f0"
proof -
  have "nominal_fits [ex_member]" by (simp add: nominal_fits_def ex_member_def)
  then show ?thesis
    by (simp add: ex_setup_def ex_step1 ex_step2 ex_step3)
      (simp add: ex_pool_def ex_region_def make_pool_def make_region_def CxlPool_default_def CxlRegion_default_def)
qed

lemma ex_ready_reachable: "reachable sound_call ex_f0 3 ex_ready"
  using reachable_run [OF reachable.initial ex_setup_sound] by (simp add: ex_ready_def ex_setup_def numeral_3_eq_3)

section \<open>Selection and reservation on it\<close>

definition ex_candidate :: Candidate where
  "ex_candidate = region_candidate ex_pool' ex_region (Ident ''d1'') ex_device"

lemma ex_room: "unat (pool_free ex_pool') = 2 ^ 34" "unat (region_free ex_region) = 2 ^ 34" "unat (req_bytes ex_req) = 2 ^ 32"
  by (simp_all add: pool_free_def pool_used_def region_free_def ex_pool'_def ex_pool_def ex_region_def ex_req_def
      make_pool_def make_region_def CxlPool_default_def CxlRegion_default_def)

lemma ex_fits: "in_service ex_device ex_region ex_pool' True" "request_fits ex_req ex_device ex_region ex_pool'"
  by (simp_all add: in_service_def request_fits_def acceptable_health_def ex_req_def AdmissionRequest_default_def
      ex_device_def ex_region_def ex_pool'_def ex_pool_def make_device_def make_region_def make_pool_def Let_def)

lemma ex_single: "single ex_device ex_pool' ex_region ex_ready"
  by (simp add: single_def)

lemma ex_admitted: "in_service ex_device ex_region ex_pool' (pool_evidence_current ex_pool')"
  "req_bytes ex_req \<le> region_free ex_region" "req_bytes ex_req \<le> pool_free ex_pool'" "req_bytes ex_req \<noteq> 0"
  using ex_fits ex_room by (auto simp: word_le_nat)

lemma ex_select: "so_ok (select ex_req ex_ready)" "so_chosen (select ex_req ex_ready) = ex_candidate"
  using single_select [OF ex_single ex_admitted(1) ex_fits(2) ex_admitted(2)] by (simp_all add: ex_candidate_def)

lemma ex_admissible: "admissible ex_req (selection_snapshot ex_ready) = [ex_candidate]"
proof -
  have "sr_selected (evaluated ex_req ex_candidate)"
    using ex_fits ex_admitted by (simp add: ex_candidate_def evaluated_region_candidate)
  then show ?thesis
    by (simp add: admissible_def snapshot_candidates_def region_candidates_def device_candidates_def Let_def ex_candidate_def [symmetric])
qed

definition ex_reservation :: Reservation where
  "ex_reservation = new_reservation 1 ex_req ex_ctx ex_candidate ex_device (Generation 1)"

definition ex_reserved :: Fabric where
  "ex_reserved = exec (Reserve ex_req ex_ctx) ex_ready"

lemma ex_candidate_simps [simp]:
  "cand_pool ex_candidate = Ident ''p-1''" "cand_region ex_candidate = Ident ''r1''"
  "cand_device ex_candidate = Ident ''d1''" "cand_pool_generation ex_candidate = Generation 1"
  "cand_region_generation ex_candidate = Generation 1" "cand_device_generation ex_candidate = Generation 1"
  by (simp_all add: ex_candidate_def region_candidate_def)

lemma ex_reserve: "reserve ex_req ex_ctx ex_ready = book ex_req ex_ctx ex_candidate ex_pool' ex_region ex_device ex_ready"
  using single_reserve [OF ex_single ex_admitted(1) ex_fits(2) ex_admitted(2-4), of ex_ctx] by (simp add: ex_candidate_def)

lemma ex_reserved_find:
  "find_reservation ex_reserved (reservation_id 1) = Some ex_reservation"
  "epoch ex_reserved = Generation 1"
proof -
  have wf: "wf_maps ex_ready" by (simp add: wf_maps_def om_wf_Cons)
  then show "find_reservation ex_reserved (reservation_id 1) = Some ex_reservation"
    by (simp add: ex_reserved_def exec_def ex_reserve snd_book Let_def ex_reservation_def)
  show "epoch ex_reserved = Generation 1"
    using ex_ready_maps(6)
    by (simp add: ex_reserved_def exec_def ex_reserve snd_book Let_def epoch_def put_defs)
qed

lemma ex_reserved_reachable: "reachable sound_call ex_f0 4 ex_reserved"
  using reachable.step [OF ex_ready_reachable, of "Reserve ex_req ex_ctx"] by (simp add: ex_reserved_def)

lemma ex_reserved_maps:
  "find_pool ex_reserved (Ident ''p-1'') = Some (pool_reserve (req_bytes ex_req) ex_pool')"
  "find_region ex_reserved (Ident ''r1'') = Some (region_reserve (req_bytes ex_req) ex_region)"
  "find_device ex_reserved (Ident ''d1'') = Some ex_device"
proof -
  have wf: "wf_maps ex_ready" by (simp add: wf_maps_def om_wf_Cons)
  then show "find_pool ex_reserved (Ident ''p-1'') = Some (pool_reserve (req_bytes ex_req) ex_pool')"
    "find_region ex_reserved (Ident ''r1'') = Some (region_reserve (req_bytes ex_req) ex_region)"
    "find_device ex_reserved (Ident ''d1'') = Some ex_device"
    by (simp_all add: ex_reserved_def exec_def ex_reserve snd_book Let_def)
qed

lemma ex_reservation_simps [simp]:
  "res_pool ex_reservation = Ident ''p-1''" "res_region ex_reservation = Ident ''r1''"
  "res_device ex_reservation = Ident ''d1''" "res_pool_generation ex_reservation = Generation 1"
  "res_region_generation ex_reservation = Generation 1" "res_device_generation ex_reservation = Generation 1"
  "res_state ex_reservation = ResumeState.RESERVED" "res_created_epoch ex_reservation = Generation 1"
  "res_bytes ex_reservation = req_bytes ex_req" "res_worker_boot_id ex_reservation = ctx_worker_boot_id ex_ctx"
  "res_consumer_generation ex_reservation = ctx_consumer_generation ex_ctx" "res_device_boot_id ex_reservation = Ident ''b1''"
  by (simp_all add: ex_reservation_def new_reservation_def ex_ctx_def AuthorityContext_default_def)

lemma ex_commit: "ro_ok (fst (commit (reservation_id 1) ex_ctx ex_reserved))"
proof -
  have "pool_reserved_bytes (pool_reserve (req_bytes ex_req) ex_pool') = req_bytes ex_req"
    by (simp add: pool_reserve_def ex_pool'_def ex_pool_def make_pool_def CxlPool_default_def)
  then show ?thesis
    by (simp add: commit_def ex_reserved_find ex_reserved_maps Let_def)
qed

end
