(* ===== verification/Fencing.thy ===== *)
theory Fencing
  imports Structure
begin

text \<open>
  Reservations and the generations they are pinned to. A reservation keeps the pool and the pool generation it was made
  under, and the generation of the pool is never behind it. So once the pool has moved on the reservation is fenced for good.
\<close>

section \<open>Reservations stay what they are\<close>

text \<open>Only the admission calls and an import touch the reservations.\<close>

definition admission_call :: "call \<Rightarrow> bool" where
  "admission_call c \<longleftrightarrow> (\<exists>req ctx. c = Reserve req ctx) \<or> (\<exists>k ctx. c = Commit k ctx) \<or> (\<exists>k ctx. c = Release k ctx)"

lemma other_calls_keep_reservations:
  assumes "\<not> admission_call c" and "\<forall>ps. c \<noteq> Import_persisted ps"
  shows "find_reservation (exec c f) = find_reservation f"
proof (cases c)
  case (Set_epoch e)
  then show ?thesis by (simp add: exec_def set_epoch_def find_defs)
next
  case (Set_policy_generation p)
  then show ?thesis by (simp add: exec_def set_policy_generation_def find_defs)
next
  case Advance_evidence_generation
  then show ?thesis by (simp add: exec_def advance_evidence_generation_def find_defs Let_def)
qed (use assms in \<open>auto simp: admission_call_def exec_def operation_defs Let_def split: option.splits if_splits\<close>)

definition same_pin :: "Reservation \<Rightarrow> Reservation \<Rightarrow> bool" where
  "same_pin v w \<longleftrightarrow> res_pool w = res_pool v \<and> res_pool_generation w = res_pool_generation v"

lemma same_pin_simps [simp]:
  "same_pin v v" "same_pin v (v\<lparr>res_state := s\<rparr>)" "same_pin v (v\<lparr>res_state := s, res_commit_epoch := e\<rparr>)"
  by (simp_all add: same_pin_def)

text \<open>What the reservations of the state after an admission call were before it.\<close>

lemma reserve_reservations:
  assumes "wf_maps f"
  shows "find_reservation f k = Some v \<Longrightarrow> find_reservation (snd (reserve req ctx f)) k = Some v"
    and "find_reservation (snd (reserve req ctx f)) k = Some w \<Longrightarrow> find_reservation f k = Some w \<or>
      (\<exists>p. find_pool f (res_pool w) = Some p \<and> pool_generation p = res_pool_generation w)"
  using reserve_shape [of req ctx f] assms
  by (auto simp: snd_book Let_def new_reservation_def split: if_splits)

lemma commit_reservations:
  assumes "wf_maps f"
  shows "find_reservation f k = Some v \<Longrightarrow> \<exists>w. find_reservation (snd (commit j ctx f)) k = Some w \<and> same_pin v w"
    and "find_reservation (snd (commit j ctx f)) k = Some w \<Longrightarrow> \<exists>v. find_reservation f k = Some v \<and> same_pin v w"
  using commit_shape [of j ctx f] assms by (auto split: if_splits)

lemma release_reservations:
  assumes "wf_maps f"
  shows "find_reservation f k = Some v \<Longrightarrow> \<exists>w. find_reservation (snd (release j ctx f)) k = Some w \<and> same_pin v w"
    and "find_reservation (snd (release j ctx f)) k = Some w \<Longrightarrow> \<exists>v. find_reservation f k = Some v \<and> same_pin v w"
proof -
  have pool: "wf_maps (snd (release_from_pool v f))" "find_reservation (snd (release_from_pool v f)) = find_reservation f" for v
    using release_from_pool_cases [of v f] assms by auto
  have region: "wf_maps (release_from_region v g) = wf_maps g \<or> wf_maps (release_from_region v g)"
    "find_reservation (release_from_region v g) = find_reservation g" for v g
    by (auto simp: release_from_region_def split: option.splits)
  have wf: "wf_maps (release_from_region v (snd (release_from_pool v f)))" for v
    using pool(1) [of v] region(1) [of v "snd (release_from_pool v f)"] by auto
  show "find_reservation f k = Some v \<Longrightarrow> \<exists>w. find_reservation (snd (release j ctx f)) k = Some w \<and> same_pin v w"
    and "find_reservation (snd (release j ctx f)) k = Some w \<Longrightarrow> \<exists>v. find_reservation f k = Some v \<and> same_pin v w"
    using release_shape [of j ctx f] by (auto simp: pool region wf split: if_splits)
qed

lemma reservation_kept:
  assumes "wf_maps f" and "\<forall>ps. c \<noteq> Import_persisted ps" and "find_reservation f k = Some v"
  shows "\<exists>w. find_reservation (exec c f) k = Some w \<and> same_pin v w"
proof (cases "admission_call c")
  case True
  then show ?thesis
    using reserve_reservations(1) [OF assms(1,3)] commit_reservations(1) [OF assms(1,3)] release_reservations(1) [OF assms(1,3)]
    by (fastforce simp: admission_call_def exec_def)
qed (use assms other_calls_keep_reservations [of c f] in simp)

lemma reservation_origin:
  assumes "wf_maps f" and "\<forall>ps. c \<noteq> Import_persisted ps" and "find_reservation (exec c f) k = Some w"
  shows "(\<exists>v. find_reservation f k = Some v \<and> same_pin v w) \<or>
     (\<exists>p. find_pool f (res_pool w) = Some p \<and> pool_generation p = res_pool_generation w)"
proof (cases "admission_call c")
  case True
  then consider req ctx where "c = Reserve req ctx" | j ctx where "c = Commit j ctx" | j ctx where "c = Release j ctx"
    by (auto simp: admission_call_def)
  then show ?thesis
  proof cases
    case 1
    then show ?thesis using reserve_reservations(2) [OF assms(1), of req ctx k w] assms(3) by (auto simp: exec_def)
  next
    case 2
    then show ?thesis using commit_reservations(2) [OF assms(1), of j ctx k w] assms(3) by (simp add: exec_def)
  next
    case 3
    then show ?thesis using release_reservations(2) [OF assms(1), of j ctx k w] assms(3) by (simp add: exec_def)
  qed
qed (use assms other_calls_keep_reservations [of c f] in auto)

section \<open>Pins are never ahead of their pools\<close>

definition pinned :: "Fabric \<Rightarrow> bool" where
  "pinned f \<longleftrightarrow> (\<forall>k v. find_reservation f k = Some v \<longrightarrow>
     (\<exists>p. find_pool f (res_pool v) = Some p \<and> res_pool_generation v \<le> pool_generation p))"

lemma grows_pool: "grows f g \<Longrightarrow> find_pool f k = Some p \<Longrightarrow> \<exists>q. find_pool g k = Some q \<and> pool_generation p \<le> pool_generation q"
  by (simp add: grows_def)

lemma pinned_import: "pinned (import_persisted ps f)"
  by (simp add: pinned_def import_persisted_def find_defs recompute_global_def)

lemma pinned_exec:
  assumes "wf_maps f" and "pinned f"
  shows "pinned (exec c f)"
proof (cases "\<exists>ps. c = Import_persisted ps")
  case True
  then show ?thesis using pinned_import by (auto simp: exec_def)
next
  case False
  note grows = grows_pool [OF grows_exec [OF assms(1), of c]]
  show ?thesis
    unfolding pinned_def
  proof (intro allI impI)
    fix k w
    assume "find_reservation (exec c f) k = Some w"
    from reservation_origin [OF assms(1) _ this] False obtain p where
      "find_pool f (res_pool w) = Some p" "res_pool_generation w \<le> pool_generation p"
      using assms(2) by (fastforce simp: pinned_def same_pin_def)
    with grows False show "\<exists>p. find_pool (exec c f) (res_pool w) = Some p \<and> res_pool_generation w \<le> pool_generation p"
      by (blast intro: order_trans)
  qed
qed

lemma pinned_reachable: "reachable well_formed_call (Fabric_new e p) n f \<Longrightarrow> pinned f"
proof (induction rule: reachable.induct)
  case initial
  then show ?case by (simp add: pinned_def Fabric_new_def find_defs StateSnapshot_default_def Fabric_default_def)
next
  case (step n f c)
  then show ?case using structure_reachable structure_wf pinned_exec by blast
qed

section \<open>Fenced for good\<close>

definition outdated :: "ReservationId \<Rightarrow> Fabric \<Rightarrow> bool" where
  "outdated k f \<longleftrightarrow> (\<exists>v p. find_reservation f k = Some v \<and> find_pool f (res_pool v) = Some p \<and> res_pool_generation v < pool_generation p)"

lemma outdated_commit: "outdated k f \<Longrightarrow> \<not> ro_ok (fst (commit k ctx f))"
  using commit_shape [of k ctx f] by (auto simp: outdated_def)

lemma outdated_exec:
  assumes "wf_maps f" and "\<forall>ps. c \<noteq> Import_persisted ps" and "outdated k f"
  shows "outdated k (exec c f)"
proof -
  from assms(3) obtain v p where v: "find_reservation f k = Some v" and p: "find_pool f (res_pool v) = Some p"
    and lt: "res_pool_generation v < pool_generation p" unfolding outdated_def by blast
  from reservation_kept [OF assms(1,2) v] obtain w where "find_reservation (exec c f) k = Some w" "same_pin v w" by blast
  moreover from grows_pool [OF grows_exec [OF assms(1,2)] p] obtain q where
    "find_pool (exec c f) (res_pool v) = Some q" "pool_generation p \<le> pool_generation q" by blast
  ultimately show ?thesis using lt by (auto simp: outdated_def same_pin_def)
qed

lemma outdated_run:
  "structure_ok f \<Longrightarrow> outdated k f \<Longrightarrow> \<forall>ps. Import_persisted ps \<notin> set cs \<Longrightarrow> outdated k (run cs f)"
proof (induction cs arbitrary: f)
  case (Cons c cs)
  then have c: "\<forall>ps. c \<noteq> Import_persisted ps" by auto
  have "structure_ok (exec c f)" using structure_exec [OF Cons.prems(1), of c] c by (cases c) auto
  with Cons.IH outdated_exec [OF structure_wf [OF Cons.prems(1)] c Cons.prems(2)] Cons.prems(3) show ?case by auto
qed simp

section \<open>Current claims\<close>

text \<open>
  The caller is the worker that made the reservation, under the epoch in which it was made, and the pool, the region and the device still
  have the generations that were pinned. \<open>fully_current\<close> adds what else a caller can be out of date with: the policy
  generation, the consumer generation and the incarnation of the device.
\<close>

definition current_claim :: "AuthorityContext \<Rightarrow> Fabric \<Rightarrow> Reservation \<Rightarrow> bool" where
  "current_claim ctx f v \<longleftrightarrow>
     ctx_coordinator_epoch ctx = epoch f \<and> res_created_epoch v = epoch f \<and> ctx_worker_boot_id ctx = res_worker_boot_id v \<and>
     map_option pool_generation (find_pool f (res_pool v)) = Some (res_pool_generation v) \<and>
     map_option reg_generation (find_region f (res_region v)) = Some (res_region_generation v) \<and>
     map_option dev_generation (find_device f (res_device v)) = Some (res_device_generation v)"

definition fully_current :: "AuthorityContext \<Rightarrow> Fabric \<Rightarrow> Reservation \<Rightarrow> bool" where
  "fully_current ctx f v \<longleftrightarrow> current_claim ctx f v \<and>
     ctx_policy_generation ctx = policy_generation f \<and> ctx_consumer_generation ctx = res_consumer_generation v \<and>
     map_option dev_boot_id (find_device f (res_device v)) = Some (res_device_boot_id v)"

lemma commit_claim:
  assumes "ro_ok (fst (commit k ctx f))" and "\<not> id_empty (ctx_worker_boot_id ctx)"
  shows "\<exists>v. find_reservation f k = Some v \<and> res_state v = ResumeState.RESERVED \<and> current_claim ctx f v"
  using commit_shape [of k ctx f] assms by (auto simp: current_claim_def)

lemma claim_commits:
  assumes "find_reservation f k = Some v" and "res_state v = ResumeState.RESERVED" and "current_claim ctx f v"
    and "\<And>p. find_pool f (res_pool v) = Some p \<Longrightarrow> res_bytes v \<le> pool_reserved_bytes p"
  shows "ro_ok (fst (commit k ctx f))"
  using assms by (auto simp: commit_def current_claim_def not_less Let_def)

end
