(* ===== verification/Bytes.thy ===== *)
theory Bytes
  imports Prelude
begin

text \<open>
  Big-endian packing and the bounds-checked readers of \<^verbatim>\<open>src/core/protocol.cpp\<close>. A reader takes the buffer
  and a position; \<open>Rd v p\<close> is success with the position after the field, \<open>Fail\<close> the result \<^verbatim>\<open>false\<close>, and
  \<open>OutOfBounds\<close> the case in which the check passes and the code reads past the buffer: the subtraction
  \<^verbatim>\<open>len - n\<close> is one on \<^verbatim>\<open>std::size_t\<close> and wraps when the buffer is shorter than the field.
\<close>

section \<open>Packing\<close>

definition store_u16 :: "u16 \<Rightarrow> bytes" where
  [codec_defs]: "store_u16 v = [ucast (drop_bit 8 v), ucast v]"

definition store_u32 :: "u32 \<Rightarrow> bytes" where
  [codec_defs]: "store_u32 v = [ucast (drop_bit 24 v), ucast (drop_bit 16 v), ucast (drop_bit 8 v), ucast v]"

definition store_u64 :: "u64 \<Rightarrow> bytes" where
  [codec_defs]: "store_u64 v = [ucast (drop_bit 56 v), ucast (drop_bit 48 v), ucast (drop_bit 40 v), ucast (drop_bit 32 v),
     ucast (drop_bit 24 v), ucast (drop_bit 16 v), ucast (drop_bit 8 v), ucast v]"

definition load_u16 :: "bytes \<Rightarrow> u16" where
  [codec_defs]: "load_u16 p = push_bit 8 (ucast (p ! 0)) OR ucast (p ! 1)"

definition load_u32 :: "bytes \<Rightarrow> u32" where
  [codec_defs]: "load_u32 p = push_bit 24 (ucast (p ! 0)) OR push_bit 16 (ucast (p ! 1)) OR
     push_bit 8 (ucast (p ! 2)) OR ucast (p ! 3)"

text \<open>The loop of \<^verbatim>\<open>get_u64\<close>: shift in one byte after the other.\<close>

definition load_u64 :: "bytes \<Rightarrow> u64" where
  [codec_defs]: "load_u64 p = fold (\<lambda>b v. push_bit 8 v OR ucast b) (take 8 p) 0"

definition put_u16 :: "bytes \<Rightarrow> u16 \<Rightarrow> bytes" where
  [codec_defs]: "put_u16 out v = out @ store_u16 v"

definition put_u32 :: "bytes \<Rightarrow> u32 \<Rightarrow> bytes" where
  [codec_defs]: "put_u32 out v = out @ store_u32 v"

definition put_u64 :: "bytes \<Rightarrow> u64 \<Rightarrow> bytes" where
  [codec_defs]: "put_u64 out v = out @ store_u64 v"

definition put_bytes :: "bytes \<Rightarrow> bytes \<Rightarrow> bytes" where
  [codec_defs]: "put_bytes out xs = out @ xs"

section \<open>Readers\<close>

datatype 'a rd = Rd 'a nat | Fail | OutOfBounds

text \<open>\<^verbatim>\<open>a - b\<close> on \<^verbatim>\<open>std::size_t\<close>.\<close>

definition size_sub :: "nat \<Rightarrow> nat \<Rightarrow> nat" where
  "size_sub a b = (if b \<le> a then a - b else a + 2 ^ 64 - b)"

definition read_field :: "nat \<Rightarrow> (bytes \<Rightarrow> 'a) \<Rightarrow> bytes \<Rightarrow> nat \<Rightarrow> 'a rd" where
  [codec_defs]: "read_field n load data pos =
     (if length data < pos \<or> pos > size_sub (length data) n then Fail
      else if pos + n > length data then OutOfBounds
      else Rd (load (drop pos data)) (pos + n))"

definition get_u16 :: "bytes \<Rightarrow> nat \<Rightarrow> u16 rd" where
  "get_u16 data pos = read_field 2 load_u16 data pos"

definition get_u32 :: "bytes \<Rightarrow> nat \<Rightarrow> u32 rd" where
  "get_u32 data pos = read_field 4 load_u32 data pos"

definition get_u64 :: "bytes \<Rightarrow> nat \<Rightarrow> u64 rd" where
  "get_u64 data pos = read_field 8 load_u64 data pos"

definition get_bytes :: "bytes \<Rightarrow> nat \<Rightarrow> nat \<Rightarrow> bytes rd" where
  "get_bytes data pos n = read_field n (take n) data pos"

section \<open>Round trips\<close>

lemma length_store [simp]: "length (store_u16 v) = 2" "length (store_u32 w) = 4" "length (store_u64 x) = 8"
  by (simp_all add: codec_defs)

text \<open>One step of shifting bytes in: the byte at \<open>n\<close> joins what lies above it.\<close>

lemma shift_in_byte:
  fixes v :: "'a::len word"
  shows "push_bit 8 (drop_bit (n + 8) v) OR ucast (ucast (drop_bit n v) :: u8) = drop_bit n v"
  by (rule bit_word_eqI) (auto simp: bit_simps not_less le_Suc_ex dest: bit_imp_le_length)

lemma shift_in_top:
  fixes v :: "'a::len word"
  assumes "LENGTH('a) \<le> n + 8"
  shows "ucast (ucast (drop_bit n v) :: u8) = drop_bit n v"
proof -
  have "drop_bit (n + 8) v = 0"
    using assms by (intro bit_word_eqI) (auto simp: bit_simps dest: bit_imp_le_length)
  with shift_in_byte [of n v] show ?thesis by simp
qed

lemma load_store_u16: "load_u16 (store_u16 v @ ys) = v"
  using shift_in_byte [of 0 v] shift_in_top [of 8 v] by (simp add: load_u16_def store_u16_def)

lemma load_store_u32: "load_u32 (store_u32 v @ ys) = v"
proof -
  have "load_u32 (store_u32 v @ ys) =
      push_bit 8 (push_bit 8 (push_bit 8 (ucast (ucast (drop_bit 24 v) :: u8)) OR ucast (ucast (drop_bit 16 v) :: u8)) OR
        ucast (ucast (drop_bit 8 v) :: u8)) OR ucast (ucast v :: u8)"
    by (simp add: load_u32_def store_u32_def push_bit_or or.assoc)
  also have "\<dots> = v"
    using shift_in_byte [of 0 v] shift_in_byte [of 8 v] shift_in_byte [of 16 v] shift_in_top [of 24 v] by simp
  finally show ?thesis .
qed

lemma load_store_u64: "load_u64 (store_u64 v @ ys) = v"
  using shift_in_byte [of 0 v] shift_in_byte [of 8 v] shift_in_byte [of 16 v] shift_in_byte [of 24 v]
    shift_in_byte [of 32 v] shift_in_byte [of 40 v] shift_in_byte [of 48 v] shift_in_top [of 56 v]
  by (simp add: load_u64_def store_u64_def)

text \<open>What was stored reads back, byte for byte, from four or eight bytes.\<close>

lemma store_load_u32:
  assumes "length p = 4"
  shows "store_u32 (load_u32 p) = p"
proof -
  from assms obtain a b c d where p: "p = [a, b, c, d]"
    by (auto simp: length_Suc_conv numeral_eq_Suc)
  show ?thesis
    unfolding p store_u32_def load_u32_def
    by (intro list.inject [THEN iffD2] conjI refl bit_word_eqI) (auto simp: bit_simps dest: bit_imp_le_length)
qed

lemma store_load_u16:
  assumes "length p = 2"
  shows "store_u16 (load_u16 p) = p"
proof -
  from assms obtain a b where p: "p = [a, b]"
    by (auto simp: length_Suc_conv numeral_eq_Suc)
  show ?thesis
    unfolding p store_u16_def load_u16_def
    by (intro list.inject [THEN iffD2] conjI refl bit_word_eqI) (auto simp: bit_simps dest: bit_imp_le_length)
qed

section \<open>The readers\<close>

text \<open>A field that was written is read back wherever it stands.\<close>

lemma read_field_stored:
  "length field = n \<Longrightarrow> (\<And>zs. load (field @ zs) = v) \<Longrightarrow> read_field n load (xs @ field @ ys) (length xs) = Rd v (length xs + n)"
  by (auto simp: read_field_def size_sub_def)

lemma get_put_u16 [simp]: "get_u16 (xs @ store_u16 v @ ys) (length xs) = Rd v (length xs + 2)"
  unfolding get_u16_def by (rule read_field_stored) (simp_all add: load_store_u16)

lemma get_put_u32 [simp]: "get_u32 (xs @ store_u32 v @ ys) (length xs) = Rd v (length xs + 4)"
  unfolding get_u32_def by (rule read_field_stored) (simp_all add: load_store_u32)

lemma get_put_u64 [simp]: "get_u64 (xs @ store_u64 v @ ys) (length xs) = Rd v (length xs + 8)"
  unfolding get_u64_def by (rule read_field_stored) (simp_all add: load_store_u64)

lemma get_put_bytes [simp]: "n = length zs \<Longrightarrow> get_bytes (xs @ zs @ ys) (length xs) n = Rd zs (length xs + n)"
  unfolding get_bytes_def by (rule read_field_stored) simp_all

text \<open>The checks are exact on a buffer that is at least as long as the field.\<close>

lemma read_field_long:
  "n \<le> length data \<Longrightarrow> read_field n load data pos = (if pos + n \<le> length data then Rd (load (drop pos data)) (pos + n) else Fail)"
  by (auto simp: read_field_def size_sub_def)

lemma read_field_short:
  assumes "length data < n" and "n \<le> 2 ^ 64"
  shows "read_field n load data pos = (if pos \<le> length data then OutOfBounds else Fail)"
  using assms by (auto simp: read_field_def size_sub_def)

end
