(* ===== verification/Readers.thy ===== *)
theory Readers
  imports Bytes
begin

text \<open>
  Composition of the bounds-checked readers. The decoders of the control plane and of the persisted state
  read one field after the other and stop at the first that fails; \<open>reading g k\<close> is that composition. The
  locale \<open>field\<close> states what a decoder needs of an encoder and a reader that belong together, and derives
  the same for counted lists of such fields; \<open>canonical_field\<close> adds that the reader accepts only what the
  encoder writes.
\<close>

section \<open>Characters and bytes\<close>

text \<open>\<^verbatim>\<open>reinterpret_cast\<close> between \<^verbatim>\<open>char\<close> and \<^verbatim>\<open>std::uint8_t\<close> arrays.\<close>

definition bytes_of :: "string \<Rightarrow> bytes" where
  "bytes_of s = map (\<lambda>c. of_nat (of_char c)) s"

definition string_of :: "bytes \<Rightarrow> string" where
  "string_of b = map (\<lambda>w. char_of (unat w)) b"

lemma length_bytes_of [simp]: "length (bytes_of s) = length s"
  by (simp add: bytes_of_def)

lemma length_string_of [simp]: "length (string_of b) = length b"
  by (simp add: string_of_def)

lemma string_of_bytes_of [simp]: "string_of (bytes_of s) = s"
proof -
  have "char_of (unat (of_nat (of_char c) :: u8)) = c" for c :: char
  proof -
    have "of_char c < (256 :: nat)" using of_char_mod_256 [of c] by (metis mod_less_divisor zero_less_numeral)
    then show ?thesis by (simp add: unat_of_nat take_bit_nat_eq_self)
  qed
  then show ?thesis by (simp add: string_of_def bytes_of_def map_idI)
qed

lemma bytes_of_string_of [simp]: "bytes_of (string_of b) = b"
proof -
  have "of_nat (of_char (char_of (unat w) :: char)) = w" for w :: u8
    using unsigned_less [of w, where 'a = nat] by (simp add: of_char_of)
  then show ?thesis by (simp add: string_of_def bytes_of_def map_idI)
qed

lemma bytes_of_inject [simp]: "bytes_of s = bytes_of t \<longleftrightarrow> s = t"
  by (metis string_of_bytes_of)

section \<open>One reader after another\<close>

type_synonym 'a reader = "bytes \<Rightarrow> nat \<Rightarrow> 'a rd"

definition reading :: "'a reader \<Rightarrow> ('a \<Rightarrow> 'b reader) \<Rightarrow> 'b reader" where
  "reading g k data pos = (case g data pos of Rd v p \<Rightarrow> k v data p | Fail \<Rightarrow> Fail | OutOfBounds \<Rightarrow> OutOfBounds)"

definition rd_return :: "'a \<Rightarrow> 'a reader" where
  "rd_return v data pos = Rd v pos"

definition rd_check :: "bool \<Rightarrow> 'a reader \<Rightarrow> 'a reader" where
  "rd_check c g data pos = (if c then g data pos else Fail)"

fun read_many :: "nat \<Rightarrow> 'a reader \<Rightarrow> 'a list reader" where
  "read_many 0 g = rd_return []"
| "read_many (Suc n) g = reading g (\<lambda>x. reading (read_many n g) (\<lambda>xs. rd_return (x # xs)))"

text \<open>A decoder of a whole buffer: read from the start, and nothing may be left.\<close>

definition whole :: "'a reader \<Rightarrow> bytes \<Rightarrow> 'a rd" where
  "whole g data = (case g data 0 of Rd v p \<Rightarrow> (if p = length data then Rd v p else Fail)
     | Fail \<Rightarrow> Fail | OutOfBounds \<Rightarrow> OutOfBounds)"

section \<open>What was written is read back\<close>

definition parses :: "'a reader \<Rightarrow> bytes \<Rightarrow> 'a \<Rightarrow> bool" where
  "parses g bs v \<longleftrightarrow> (\<forall>xs ys. g (xs @ bs @ ys) (length xs) = Rd v (length xs + length bs))"

lemma parses_return: "parses (rd_return v) [] v"
  by (simp add: parses_def rd_return_def)

lemma parses_return_iff: "parses (rd_return v) [] w \<longleftrightarrow> v = w"
  by (simp add: parses_def rd_return_def)

lemma parses_reading:
  assumes "parses g b1 v" and "parses (k v) b2 w"
  shows "parses (reading g k) (b1 @ b2) w"
  unfolding parses_def
proof (intro allI)
  fix xs ys
  have "g (xs @ b1 @ b2 @ ys) (length xs) = Rd v (length xs + length b1)"
    using assms(1) by (simp add: parses_def)
  moreover have "k v ((xs @ b1) @ b2 @ ys) (length (xs @ b1)) = Rd w (length (xs @ b1) + length b2)"
    using assms(2) unfolding parses_def by blast
  ultimately show "reading g k (xs @ (b1 @ b2) @ ys) (length xs) = Rd w (length xs + length (b1 @ b2))"
    by (simp add: reading_def add.assoc)
qed

lemma parses_last: "parses g b v \<Longrightarrow> parses (\<lambda>d p. k v d p) [] w \<Longrightarrow> parses (reading g k) b w"
  using parses_reading [of g b v k "[]" w] by simp

lemma parses_check: "c \<Longrightarrow> parses g b v \<Longrightarrow> parses (rd_check c g) b v"
  by (simp add: parses_def rd_check_def)

lemma parses_whole: "parses g b v \<Longrightarrow> whole g b = Rd v (length b)"
  unfolding parses_def whole_def by (drule spec [of _ "[]"], drule spec [of _ "[]"]) simp

lemma parses_u16: "parses get_u16 (store_u16 v) v"
  by (simp add: parses_def)

lemma parses_u32: "parses get_u32 (store_u32 v) v"
  by (simp add: parses_def)

lemma parses_u64: "parses get_u64 (store_u64 v) v"
  by (simp add: parses_def)

lemma parses_bytes: "n = length b \<Longrightarrow> parses (\<lambda>d p. get_bytes d p n) b b"
  by (simp add: parses_def)

section \<open>Encoders and readers that belong together\<close>

locale field =
  fixes put :: "'a \<Rightarrow> bytes" and get :: "'b reader" and ok :: "'a \<Rightarrow> bool" and view :: "'a \<Rightarrow> 'b"
  assumes parses_put: "ok v \<Longrightarrow> parses get (put v) (view v)"
begin

lemma parses_many: "(\<And>v. v \<in> set vs \<Longrightarrow> ok v) \<Longrightarrow> parses (read_many (length vs) get) (concat (map put vs)) (map view vs)"
proof (induction vs)
  case (Cons v vs)
  have "parses (read_many (length vs) get) (concat (map put vs)) (map view vs)"
    using Cons.IH Cons.prems by simp
  then have "parses (reading (read_many (length vs) get) (\<lambda>xs. rd_return (view v # xs))) (concat (map put vs)) (map view (v # vs))"
    by (rule parses_last) (simp add: parses_def rd_return_def)
  with parses_put [of v] Cons.prems show ?case by (simp add: parses_reading)
qed (simp add: parses_def rd_return_def)

end

text \<open>A reader that accepts nothing but encodings: the bytes it takes are those of the value it returns.\<close>

locale canonical_field = field put get ok "\<lambda>v. v"
  for put :: "'a \<Rightarrow> bytes" and get :: "'a reader" and ok :: "'a \<Rightarrow> bool" +
  assumes get_exact: "get data pos = Rd v q \<Longrightarrow> ok v \<and> pos \<le> q \<and> q \<le> length data \<and> take (q - pos) (drop pos data) = put v"

end
