(* ===== verification/Codec.thy ===== *)
theory Codec
  imports Records Readers
begin

text \<open>
  The payload codec of the control plane, \<^verbatim>\<open>include/cxl_fabric/control/codec.hpp\<close>. The encoders append field
  after field to a buffer; the decoders are readers in the sense of \<open>Readers\<close>, with the record that the
  caller passes by reference as an argument. \<open>OutOfBounds\<close> is the outcome of a decoder that passes its own
  bounds check and then reads past the end of the payload.
\<close>

section \<open>Strings\<close>

definition put_str :: "bytes \<Rightarrow> string \<Rightarrow> bytes" where
  "put_str out s =
     (let out = put_u32 out (of_nat (length s)) in
      if s \<noteq> [] then put_bytes out (bytes_of s) else out)"

definition get_str :: "string reader" where
  "get_str = reading get_u32 (\<lambda>n. rd_check (unat n \<le> 65536)
     (reading (\<lambda>d pos. get_bytes d pos (unat n)) (\<lambda>b. rd_return (string_of b))))"

section \<open>Devices\<close>

definition encode_device :: "CxlDevice \<Rightarrow> bytes" where
  "encode_device d =
     (let b = put_u64 [] (gen_value (dev_generation d));
          b = put_u64 b (dev_total_physical_bytes d);
          b = put_u64 b (dev_online_bytes d);
          b = put_str b (id_value (dev_id d));
          b = put_str b (id_value (dev_host d));
          b = put_u32 b (VolatilityKind_to_u32 (dev_volatility d));
          b = put_u32 b (DeviceState_to_u32 (dev_state d));
          b = put_u32 b (Provenance_to_u32 (dev_provenance d));
          b = put_u32 b (LocalityClass_to_u32 (econ_locality (dev_economics d)));
          b = put_u32 b (AcceleratorAccessState_to_u32 (dev_accelerator_access d));
          b = put_u32 b (if dev_evidence_current d then 1 else 0) in
      put_u32 b (if dev_state d = DeviceState.ONLINE then 1 else 0))"

definition decoded_device ::
  "CxlDevice \<Rightarrow> u64 \<Rightarrow> u64 \<Rightarrow> u64 \<Rightarrow> string \<Rightarrow> string \<Rightarrow> u32 \<Rightarrow> u32 \<Rightarrow> u32 \<Rightarrow> u32 \<Rightarrow> u32 \<Rightarrow> u32 \<Rightarrow> u32 \<Rightarrow> CxlDevice" where
  "decoded_device d g bytes online ident host vol st prov loc accel evc onl =
     d\<lparr>dev_id := Ident ident, dev_host := Ident host, dev_generation := Generation g,
       dev_total_physical_bytes := bytes, dev_online_bytes := online,
       dev_volatility := VolatilityKind_of_u32 vol,
       dev_state := (if onl \<noteq> 0 then DeviceState.ONLINE else DeviceState_of_u32 st),
       dev_provenance := Provenance_of_u32 prov,
       dev_economics := (dev_economics d)\<lparr>econ_locality := LocalityClass_of_u32 loc\<rparr>,
       dev_accelerator_access := AcceleratorAccessState_of_u32 accel,
       dev_evidence_current := (evc \<noteq> 0),
       dev_boot_id := Ident (ident @ ''-boot''), dev_cxl_device_class := ''Type-3'', dev_device_type := ''memory'',
       dev_vendor_device_id := ''VEND:0001 DEVI:0001'', dev_raw_identity := ''control:'' @ ident,
       dev_health := HealthState.HEALTHY, dev_lifecycle_note := ''multiprocess''\<rparr>"

definition decode_device :: "bytes \<Rightarrow> CxlDevice \<Rightarrow> CxlDevice rd" where
  "decode_device p d = whole
     (reading get_u64 (\<lambda>g. reading get_u64 (\<lambda>bytes. reading get_u64 (\<lambda>online.
      reading get_str (\<lambda>ident. reading get_str (\<lambda>host. reading get_u32 (\<lambda>vol.
      reading get_u32 (\<lambda>st. reading get_u32 (\<lambda>prov. reading get_u32 (\<lambda>loc.
      reading get_u32 (\<lambda>accel. reading get_u32 (\<lambda>evc. reading get_u32 (\<lambda>onl.
      rd_return (decoded_device d g bytes online ident host vol st prov loc accel evc onl)))))))))))))) p"

section \<open>Reservation requests\<close>

definition encode_reserve :: "u64 \<Rightarrow> string \<Rightarrow> bytes" where
  "encode_reserve bytes consumer = put_str (put_u64 [] bytes) consumer"

definition decode_reserve :: "bytes \<Rightarrow> (u64 \<times> string) rd" where
  "decode_reserve p = whole (reading get_u64 (\<lambda>bytes. reading get_str (\<lambda>consumer. rd_return (bytes, consumer)))) p"

section \<open>Pools\<close>

definition put_pool_member :: "bytes \<Rightarrow> PoolMember \<Rightarrow> bytes" where
  "put_pool_member b m =
     (let b = put_str b (id_value (pm_device m));
          b = put_u64 b (gen_value (pm_device_generation m));
          b = put_u64 b (pm_nominal_bytes m);
          b = put_u32 b (if pm_online m then 1 else 0);
          b = put_u32 b (if pm_health_ok m then 1 else 0);
          b = put_str b (pm_failure_domain m) in
      put_u32 b (LocalityClass_to_u32 (pm_locality m)))"

definition get_pool_member :: "PoolMember reader" where
  "get_pool_member =
     reading get_str (\<lambda>dev. reading get_u64 (\<lambda>gen. reading get_u64 (\<lambda>nominal.
     reading get_u32 (\<lambda>onl. reading get_u32 (\<lambda>hok. reading get_str (\<lambda>fd. reading get_u32 (\<lambda>loc.
     rd_return \<lparr>pm_device = Ident dev, pm_device_generation = Generation gen, pm_nominal_bytes = nominal,
       pm_online = (onl \<noteq> 0), pm_health_ok = (hok \<noteq> 0), pm_failure_domain = fd,
       pm_locality = LocalityClass_of_u32 loc\<rparr>)))))))"

definition encode_pool :: "PoolId \<Rightarrow> PoolGeneration \<Rightarrow> PoolMember list \<Rightarrow> bytes" where
  "encode_pool pid gen members =
     (let b = put_str [] (id_value pid);
          b = put_u64 b (gen_value gen);
          b = put_u32 b (of_nat (length members)) in
      fold (\<lambda>m b. put_pool_member b m) members b)"

definition decode_pool :: "bytes \<Rightarrow> (PoolId \<times> PoolGeneration \<times> PoolMember list) rd" where
  "decode_pool p = whole
     (reading get_str (\<lambda>ident. reading get_u64 (\<lambda>g. reading get_u32 (\<lambda>n. rd_check (unat n \<le> 100000)
      (reading (read_many (unat n) get_pool_member) (\<lambda>members.
       rd_return (Ident ident, Generation g, members))))))) p"

section \<open>Regions\<close>

definition encode_region ::
  "RegionId \<Rightarrow> RegionGeneration \<Rightarrow> PoolId \<Rightarrow> DeviceId list \<Rightarrow> u64 \<Rightarrow> LocalityClass \<Rightarrow> TierClass \<Rightarrow> RegionState \<Rightarrow> bytes" where
  "encode_region rid gen pid members bytes loc tier st =
     (let b = put_str [] (id_value rid);
          b = put_u64 b (gen_value gen);
          b = put_str b (id_value pid);
          b = put_u32 b (of_nat (length members));
          b = fold (\<lambda>m b. put_str b (id_value m)) members b;
          b = put_u64 b bytes;
          b = put_u32 b (LocalityClass_to_u32 loc);
          b = put_u32 b (TierClass_to_u32 tier) in
      put_u32 b (RegionState_to_u32 st))"

definition decoded_region ::
  "CxlRegion \<Rightarrow> string \<Rightarrow> u64 \<Rightarrow> string \<Rightarrow> string list \<Rightarrow> u64 \<Rightarrow> u32 \<Rightarrow> u32 \<Rightarrow> u32 \<Rightarrow> CxlRegion" where
  "decoded_region r rid g pid ms bytes loc tier st =
     (let members = reg_member_devices r @ map Ident ms in
      r\<lparr>reg_id := Ident rid, reg_generation := Generation g, reg_pool := Ident pid, reg_member_devices := members,
        reg_region_capacity_bytes := bytes, reg_locality := LocalityClass_of_u32 loc, reg_tier := TierClass_of_u32 tier,
        reg_state := RegionState_of_u32 st, reg_interleaved := (length members > 1), reg_health := HealthState.HEALTHY,
        reg_provenance := Provenance.SYNTHETIC, reg_evidence_current := True,
        reg_evidence_generation := Generation 1\<rparr>)"

definition decode_region :: "bytes \<Rightarrow> CxlRegion \<Rightarrow> CxlRegion rd" where
  "decode_region p r = whole
     (reading get_str (\<lambda>rid. reading get_u64 (\<lambda>g. reading get_str (\<lambda>pid.
      reading get_u32 (\<lambda>n. rd_check (unat n \<le> 100000)
      (reading (read_many (unat n) get_str) (\<lambda>ms.
       reading get_u64 (\<lambda>bytes. reading get_u32 (\<lambda>loc. reading get_u32 (\<lambda>tier. reading get_u32 (\<lambda>st.
       rd_return (decoded_region r rid g pid ms bytes loc tier st)))))))))))) p"

section \<open>Strings read back\<close>

definition str_bytes :: "string \<Rightarrow> bytes" where
  "str_bytes s = store_u32 (of_nat (length s)) @ bytes_of s"

lemma put_str_append: "put_str out s = out @ str_bytes s"
  by (cases s) (simp_all add: put_str_def str_bytes_def put_u32_def put_bytes_def bytes_of_def)

definition wire_string :: "string \<Rightarrow> bool" where
  "wire_string s \<longleftrightarrow> length s \<le> 65536"

lemma parses_str: "wire_string s \<Longrightarrow> parses get_str (str_bytes s) s"
  unfolding get_str_def str_bytes_def wire_string_def
  by (intro parses_reading [OF parses_u32] parses_check parses_last [OF parses_bytes])
    (simp_all add: unat_of_nat take_bit_nat_eq_self parses_return)

interpretation str: field str_bytes get_str wire_string "\<lambda>s. s"
  by unfold_locales (rule parses_str)
section \<open>Records read back\<close>

lemma append_put: "put_u16 out a = out @ store_u16 a" "put_u32 out b = out @ store_u32 b" "put_u64 out c = out @ store_u64 c"
  by (simp_all add: codec_defs)

lemmas put_append = append_put put_str_append

lemma flag_u32: "((if b then 1 else 0 :: u32) \<noteq> 0) = b"
  by simp

lemmas parses_intros = parses_reading [OF parses_u64] parses_reading [OF parses_u32] parses_reading [OF parses_str]

definition device_wired :: "CxlDevice \<Rightarrow> bool" where
  "device_wired d \<longleftrightarrow> wire_string (id_value (dev_id d)) \<and> wire_string (id_value (dev_host d)) \<and>
     VolatilityKind_valid (dev_volatility d) \<and> DeviceState_valid (dev_state d) \<and> Provenance_valid (dev_provenance d) \<and>
     LocalityClass_valid (econ_locality (dev_economics d)) \<and> AcceleratorAccessState_valid (dev_accelerator_access d)"

definition device_view :: "CxlDevice \<Rightarrow> CxlDevice \<Rightarrow> CxlDevice" where
  "device_view base d = base\<lparr>dev_id := dev_id d, dev_host := dev_host d, dev_generation := dev_generation d,
     dev_total_physical_bytes := dev_total_physical_bytes d, dev_online_bytes := dev_online_bytes d,
     dev_volatility := dev_volatility d, dev_state := dev_state d, dev_provenance := dev_provenance d,
     dev_economics := (dev_economics base)\<lparr>econ_locality := econ_locality (dev_economics d)\<rparr>,
     dev_accelerator_access := dev_accelerator_access d, dev_evidence_current := dev_evidence_current d,
     dev_boot_id := Ident (id_value (dev_id d) @ ''-boot''), dev_cxl_device_class := ''Type-3'',
     dev_device_type := ''memory'', dev_vendor_device_id := ''VEND:0001 DEVI:0001'',
     dev_raw_identity := ''control:'' @ id_value (dev_id d), dev_health := HealthState.HEALTHY,
     dev_lifecycle_note := ''multiprocess''\<rparr>"

lemma decode_encode_device:
  assumes "device_wired d"
  shows "decode_device (encode_device d) base = Rd (device_view base d) (length (encode_device d))"
proof -
  have "decoded_device base (gen_value (dev_generation d)) (dev_total_physical_bytes d) (dev_online_bytes d)
      (id_value (dev_id d)) (id_value (dev_host d)) (VolatilityKind_to_u32 (dev_volatility d))
      (DeviceState_to_u32 (dev_state d)) (Provenance_to_u32 (dev_provenance d))
      (LocalityClass_to_u32 (econ_locality (dev_economics d)))
      (AcceleratorAccessState_to_u32 (dev_accelerator_access d)) (if dev_evidence_current d then 1 else 0)
      (if dev_state d = DeviceState.ONLINE then 1 else 0) = device_view base d"
    using assms
    by (simp add: decoded_device_def device_view_def device_wired_def VolatilityKind_cast.of_to DeviceState_cast.of_to
        Provenance_cast.of_to LocalityClass_cast.of_to AcceleratorAccessState_cast.of_to)
  note view = this
  show ?thesis
    unfolding decode_device_def encode_device_def Let_def put_append append_Nil append_assoc
    by (intro parses_whole parses_intros parses_last [OF parses_u32])
      (use assms view in \<open>simp_all add: device_wired_def parses_return\<close>)
qed
definition member_wired :: "PoolMember \<Rightarrow> bool" where
  "member_wired m \<longleftrightarrow> wire_string (id_value (pm_device m)) \<and> wire_string (pm_failure_domain m) \<and>
     LocalityClass_valid (pm_locality m)"

lemma put_pool_member_append: "put_pool_member out m = out @ put_pool_member [] m"
  by (simp add: put_pool_member_def Let_def put_append)

interpretation pool_member: field "put_pool_member []" get_pool_member member_wired "\<lambda>m. m"
proof
  fix m
  assume "member_wired m"
  then show "parses get_pool_member (put_pool_member [] m) m"
    unfolding get_pool_member_def put_pool_member_def Let_def put_append append_Nil append_assoc
    by (intro parses_intros parses_last [OF parses_u32])
      (cases m, auto simp: member_wired_def parses_return_iff LocalityClass_cast.of_to)
qed

lemma fold_append: "(\<And>b x. f x b = b @ g x) \<Longrightarrow> fold f xs b = b @ concat (map g xs)"
  by (induction xs arbitrary: b) simp_all

lemma count_u32: "n \<le> 100000 \<Longrightarrow> unat (of_nat n :: u32) = n"
  by (simp add: unat_of_nat take_bit_nat_eq_self)

lemma decode_encode_pool:
  assumes "wire_string (id_value pid)" and "length ms \<le> 100000" and "\<And>m. m \<in> set ms \<Longrightarrow> member_wired m"
  shows "decode_pool (encode_pool pid gen ms) = Rd (pid, gen, ms) (length (encode_pool pid gen ms))"
proof -
  have "parses (read_many (length ms) get_pool_member) (concat (map (put_pool_member []) ms)) ms"
    using pool_member.parses_many [of ms] assms(3) by simp
  note many = parses_last [OF this]
  have enc: "encode_pool pid gen ms = str_bytes (id_value pid) @ store_u64 (gen_value gen) @
      store_u32 (of_nat (length ms)) @ concat (map (put_pool_member []) ms)"
    by (simp add: encode_pool_def Let_def put_append fold_append [OF put_pool_member_append])
  show ?thesis
    unfolding decode_pool_def enc
    by (intro parses_whole parses_intros) (use assms in \<open>simp_all add: count_u32 parses_check parses_return many\<close>)
qed

definition region_view ::
  "CxlRegion \<Rightarrow> RegionId \<Rightarrow> RegionGeneration \<Rightarrow> PoolId \<Rightarrow> DeviceId list \<Rightarrow> u64 \<Rightarrow> LocalityClass \<Rightarrow> TierClass \<Rightarrow> RegionState \<Rightarrow> CxlRegion" where
  "region_view base rid gen pid ms bytes loc tier st =
     base\<lparr>reg_id := rid, reg_generation := gen, reg_pool := pid, reg_member_devices := ms,
       reg_region_capacity_bytes := bytes, reg_locality := loc, reg_tier := tier, reg_state := st,
       reg_interleaved := (length ms > 1), reg_health := HealthState.HEALTHY, reg_provenance := Provenance.SYNTHETIC,
       reg_evidence_current := True, reg_evidence_generation := Generation 1\<rparr>"

lemma decode_encode_region:
  assumes "wire_string (id_value rid)" and "wire_string (id_value pid)" and "length ms \<le> 100000"
    and "\<And>m. m \<in> set ms \<Longrightarrow> wire_string (id_value m)" and "LocalityClass_valid loc" and "TierClass_valid tier"
    and "RegionState_valid st" and "reg_member_devices base = []"
  shows "decode_region (encode_region rid gen pid ms bytes loc tier st) base =
     Rd (region_view base rid gen pid ms bytes loc tier st) (length (encode_region rid gen pid ms bytes loc tier st))"
proof -
  have many: "parses (read_many (unat (of_nat (length ms) :: u32)) get_str) (concat (map (\<lambda>m. str_bytes (id_value m)) ms)) (map id_value ms)"
    using str.parses_many [of "map id_value ms"] assms(4) by (auto simp: comp_def count_u32 [OF assms(3)])
  have enc: "encode_region rid gen pid ms bytes loc tier st = str_bytes (id_value rid) @ store_u64 (gen_value gen) @
      str_bytes (id_value pid) @ store_u32 (of_nat (length ms)) @ concat (map (\<lambda>m. str_bytes (id_value m)) ms) @
      store_u64 bytes @ store_u32 (LocalityClass_to_u32 loc) @ store_u32 (TierClass_to_u32 tier) @
      store_u32 (RegionState_to_u32 st)"
    by (simp add: encode_region_def Let_def put_append fold_append [where g = "\<lambda>m. str_bytes (id_value m)"])
  have view: "decoded_region base (id_value rid) (gen_value gen) (id_value pid) (map id_value ms) bytes
      (LocalityClass_to_u32 loc) (TierClass_to_u32 tier) (RegionState_to_u32 st) = region_view base rid gen pid ms bytes loc tier st"
    using assms by (simp add: decoded_region_def region_view_def Let_def comp_def LocalityClass_cast.of_to TierClass_cast.of_to
        RegionState_cast.of_to)
  show ?thesis
    unfolding decode_region_def enc
    by (intro parses_whole parses_intros parses_check parses_reading [OF many]
        parses_last [OF parses_u32]) (use assms view in \<open>simp_all add: count_u32 parses_return\<close>)
qed
section \<open>What a decoder accepts, and where it reads past the payload\<close>

lemma store_load_u64:
  assumes "length p = 8"
  shows "store_u64 (load_u64 p) = p"
proof -
  from assms obtain a b c d e f g h where p: "p = [a, b, c, d, e, f, g, h]"
    by (auto simp: length_Suc_conv numeral_eq_Suc)
  show ?thesis
    unfolding p store_u64_def load_u64_def
    by (intro list.inject [THEN iffD2] conjI refl bit_word_eqI) (auto simp: bit_simps dest: bit_imp_le_length)
qed

lemma read_field_Rd:
  "read_field n load data pos = Rd v q \<longleftrightarrow> q = pos + n \<and> pos + n \<le> length data \<and> pos \<le> size_sub (length data) n \<and> v = load (drop pos data)"
  by (auto simp: read_field_def)

lemma load_u64_take: "8 \<le> n \<Longrightarrow> load_u64 (take n p) = load_u64 p"
  by (simp add: load_u64_def min_def)

interpretation u64: canonical_field store_u64 get_u64 "\<lambda>v. True"
proof
  show "parses get_u64 (store_u64 v) v" for v by (rule parses_u64)
  fix data pos v q
  assume "get_u64 data pos = Rd v q"
  then have q: "q = pos + 8" "pos + 8 \<le> length data" and v: "v = load_u64 (drop pos data)"
    by (simp_all add: get_u64_def read_field_Rd)
  from v have "v = load_u64 (take 8 (drop pos data))" by (simp add: load_u64_take)
  with q store_load_u64 [of "take 8 (drop pos data)"]
  show "True \<and> pos \<le> q \<and> q \<le> length data \<and> take (q - pos) (drop pos data) = store_u64 v"
    by simp
qed

interpretation u32: canonical_field store_u32 get_u32 "\<lambda>v. True"
proof
  show "parses get_u32 (store_u32 v) v" for v by (rule parses_u32)
  fix data pos v q
  assume "get_u32 data pos = Rd v q"
  then have q: "q = pos + 4" "pos + 4 \<le> length data" and v: "v = load_u32 (drop pos data)"
    by (simp_all add: get_u32_def read_field_Rd)
  from v have "v = load_u32 (take 4 (drop pos data))" by (simp add: load_u32_def)
  with q store_load_u32 [of "take 4 (drop pos data)"]
  show "True \<and> pos \<le> q \<and> q \<le> length data \<and> take (q - pos) (drop pos data) = store_u32 v"
    by simp
qed

text \<open>The outcome of \<open>get_str\<close> in full.\<close>

lemma get_str_cases:
  "get_str data pos =
     (if length data < 4 then (if pos \<le> length data then OutOfBounds else Fail)
      else if length data < pos + 4 then Fail
      else let n = unat (load_u32 (drop pos data)) in
        if 65536 < n then Fail
        else if length data < n then OutOfBounds
        else if length data < pos + 4 + n then Fail
        else Rd (string_of (take n (drop (pos + 4) data))) (pos + 4 + n))"
proof (cases "length data < 4")
  case True
  then show ?thesis
    by (simp add: get_str_def reading_def get_u32_def read_field_short)
next
  case False
  let ?n = "unat (load_u32 (drop pos data))"
  have u32: "get_u32 data pos = (if pos + 4 \<le> length data then Rd (load_u32 (drop pos data)) (pos + 4) else Fail)"
    using False by (simp add: get_u32_def read_field_long)
  have bytes: "get_bytes data (pos + 4) ?n =
      (if length data < ?n then (if pos + 4 \<le> length data then OutOfBounds else Fail)
       else if pos + 4 + ?n \<le> length data then Rd (take ?n (drop (pos + 4) data)) (pos + 4 + ?n) else Fail)"
    if "?n \<le> 65536"
    using that by (simp add: get_bytes_def read_field_long read_field_short)
  show ?thesis
    using False bytes by (auto simp: get_str_def reading_def u32 rd_check_def rd_return_def Let_def)
qed

interpretation str_exact: canonical_field str_bytes get_str wire_string
proof
  fix data pos v q
  assume "get_str data pos = Rd v q"
  then have fit: "pos + 4 \<le> length data" and n: "unat (load_u32 (drop pos data)) \<le> 65536"
    and q: "q = pos + 4 + unat (load_u32 (drop pos data))" "q \<le> length data"
    and v: "v = string_of (take (unat (load_u32 (drop pos data))) (drop (pos + 4) data))"
    by (auto simp: get_str_cases Let_def split: if_splits)
  have len: "length v = unat (load_u32 (drop pos data))" using q v by simp
  have "store_u32 (load_u32 (drop pos data)) = take 4 (drop pos data)"
    using u32.get_exact [of data pos "load_u32 (drop pos data)" "pos + 4"] fit
    by (simp add: get_u32_def read_field_long)
  then have "str_bytes v = take 4 (drop pos data) @ take (length v) (drop (pos + 4) data)"
    using len v by (simp add: str_bytes_def)
  also have "\<dots> = take (q - pos) (drop pos data)"
    using q len by (simp add: take_add add.commute)
  finally show "wire_string v \<and> pos \<le> q \<and> q \<le> length data \<and> take (q - pos) (drop pos data) = str_bytes v"
    using n q len by (simp add: wire_string_def)
qed

lemma encode_reserve_append: "encode_reserve b c = store_u64 b @ str_bytes c"
  by (simp add: encode_reserve_def put_append)

lemma decode_reserve_exact:
  "decode_reserve p = Rd (b, c) q \<longleftrightarrow> wire_string c \<and> p = encode_reserve b c \<and> q = length p"
proof
  assume "decode_reserve p = Rd (b, c) q"
  then obtain p1 where 1: "get_u64 p 0 = Rd b p1" and 2: "get_str p p1 = Rd c q" and q: "q = length p"
    by (auto simp: decode_reserve_def whole_def reading_def rd_return_def split: rd.splits if_splits)
  have "p1 = 8" using 1 by (simp add: get_u64_def read_field_Rd)
  have "take 8 p = store_u64 b" "8 \<le> length p" using u64.get_exact [OF 1] \<open>p1 = 8\<close> by simp_all
  moreover have "wire_string c" "drop 8 p = str_bytes c"
    using str_exact.get_exact [OF 2] \<open>p1 = 8\<close> q by simp_all
  ultimately show "wire_string c \<and> p = encode_reserve b c \<and> q = length p"
    using q by (metis append_take_drop_id encode_reserve_append)
next
  assume "wire_string c \<and> p = encode_reserve b c \<and> q = length p"
  then have c: "wire_string c" and p: "p = store_u64 b @ str_bytes c" and q: "q = length p"
    by (simp_all add: encode_reserve_append)
  show "decode_reserve p = Rd (b, c) q"
    unfolding decode_reserve_def q p
    by (intro parses_whole parses_intros parses_last [OF parses_str] parses_return c)
qed
section \<open>Properties\<close>

text \<open>
  C36. A device that is published over the control plane arrives with its identity, host, generation, sizes,
  volatility, state, provenance, locality, accelerator access and evidence flag; everything else is set by the
  receiver, the boot identity to the device identity followed by a fixed suffix.
\<close>

theorem device_roundtrip:
  assumes "device_wired d"
  shows "decode_device (encode_device d) base = Rd (device_view base d) (length (encode_device d))"
  using assms by (rule decode_encode_device)

theorem device_roundtrip_witness:
  "\<exists>q. decode_device (encode_device (CxlDevice_default\<lparr>dev_id := Ident ''d''\<rparr>)) CxlDevice_default =
     Rd (device_view CxlDevice_default (CxlDevice_default\<lparr>dev_id := Ident ''d''\<rparr>)) q"
  using device_roundtrip [of "CxlDevice_default\<lparr>dev_id := Ident ''d''\<rparr>" CxlDevice_default]
  by (simp add: device_wired_def CxlDevice_default_def AccessEconomics_default_def Ident_default_def wire_string_def)

text \<open>
  C37. The pools and regions that are published over the control plane arrive with the fields that the format carries: a pool with its
  identity, generation and all its members in order, a region with its identity, generation, pool, devices, capacity, locality, tier
  and state, as long as the strings and the number of members are within the limits of the decoder and the enumeration values
  have names. The receiver sets the remaining fields of a region.
\<close>

theorem publish_roundtrip:
  assumes "wire_string (id_value pid)" and "length ms \<le> 100000" and "\<And>m. m \<in> set ms \<Longrightarrow> member_wired m"
    and "wire_string (id_value rid)" and "length ds \<le> 100000" and "\<And>d. d \<in> set ds \<Longrightarrow> wire_string (id_value d)"
    and "LocalityClass_valid loc" and "TierClass_valid tier" and "RegionState_valid st"
  shows "decode_pool (encode_pool pid pg ms) = Rd (pid, pg, ms) (length (encode_pool pid pg ms)) \<and>
     decode_region (encode_region rid rg pid ds bytes loc tier st) CxlRegion_default =
       Rd (region_view CxlRegion_default rid rg pid ds bytes loc tier st)
         (length (encode_region rid rg pid ds bytes loc tier st))"
  using assms by (simp add: decode_encode_pool decode_encode_region CxlRegion_default_def)

theorem publish_roundtrip_witness:
  "\<exists>q. decode_pool (encode_pool (Ident ''p-1'') (Generation 1) [PoolMember_default\<lparr>pm_device := Ident ''dev-1''\<rparr>]) =
     Rd (Ident ''p-1'', Generation 1, [PoolMember_default\<lparr>pm_device := Ident ''dev-1''\<rparr>]) q"
  using publish_roundtrip [of "Ident ''p-1''" "[PoolMember_default\<lparr>pm_device := Ident ''dev-1''\<rparr>]" "Ident ''r-1''"
      "[Ident ''dev-1'']" LocalityClass.SAME_HOST TierClass.CXL_NEAR RegionState.ONLINE "Generation 1" "Generation 1" 64]
  by (simp add: member_wired_def PoolMember_default_def wire_string_def)

text \<open>
  A reservation request is accepted exactly when the payload is, byte for byte, the encoding of a request
  with a consumer name of at most 65536 characters: no bytes may be missing or left over.
\<close>

theorem reserve_request_exact:
  "decode_reserve p = Rd (b, c) q \<longleftrightarrow> length c \<le> 65536 \<and> p = encode_reserve b c \<and> q = length p"
  using decode_reserve_exact by (simp add: wire_string_def)

text \<open>
  C38. The decoder of a reservation request reads past the end of the payload exactly when the payload is shorter
  than its first field, or is at least 12 bytes long and announces a consumer name of at most 65536 characters that is longer than the
  whole payload. An announced length past 65536 is refused without a read.
\<close>

theorem reserve_decoder_overruns_iff:
  "decode_reserve p = OutOfBounds \<longleftrightarrow>
     length p < 8 \<or>
     (12 \<le> length p \<and> unat (load_u32 (drop 8 p)) \<le> 65536 \<and> length p < unat (load_u32 (drop 8 p)))"
proof (cases "length p < 8")
  case True
  then show ?thesis by (simp add: decode_reserve_def whole_def reading_def get_u64_def read_field_short)
next
  case False
  then have "get_u64 p 0 = Rd (load_u64 p) 8" by (simp add: get_u64_def read_field_long)
  with False show ?thesis
    by (auto simp: decode_reserve_def whole_def reading_def rd_return_def get_str_cases Let_def split: rd.splits if_splits)
qed

end
