(* ===== verification/Crc.thy ===== *)
theory Crc
  imports Bytes
begin

text \<open>
  The checksum of \<^verbatim>\<open>src/core/protocol.cpp\<close>, table driven as in the source, and the bit-by-bit definition it
  implements. The step for one bit is linear over exclusive or and injective; from this follows that
  the table-driven loop computes the bitwise checksum and that any change confined to four consecutive
  bytes changes it.
\<close>

section \<open>The checksum\<close>

definition crc_poly :: u32 where
  "crc_poly = 0xEDB88320"

text \<open>One round of the inner loop that fills the table.\<close>

definition crc_shift :: "u32 \<Rightarrow> u32" where
  "crc_shift c = (if c AND 1 \<noteq> 0 then crc_poly XOR drop_bit 1 c else drop_bit 1 c)"

definition crc_table :: "u32 list" where
  "crc_table = map (\<lambda>i. (crc_shift ^^ 8) (of_nat i)) [0..<256]"

text \<open>The loop over the data, with the index into the table as the source computes it.\<close>

definition crc_update :: "u8 \<Rightarrow> u32 \<Rightarrow> u32" where
  "crc_update b crc = crc_table ! unat ((crc XOR ucast b) AND 0xFF) XOR drop_bit 8 crc"

definition crc32 :: "bytes \<Rightarrow> u32" where
  "crc32 data = fold crc_update data 0xFFFFFFFF XOR 0xFFFFFFFF"

section \<open>The bitwise reference\<close>

definition crc_bits :: "u8 \<Rightarrow> u32 \<Rightarrow> u32" where
  "crc_bits b crc = (crc_shift ^^ 8) (crc XOR ucast b)"

definition crc32_bitwise :: "bytes \<Rightarrow> u32" where
  "crc32_bitwise data = NOT (fold crc_bits data (NOT 0))"

section \<open>One bit\<close>

lemma and_one_bit: "(c :: u32) AND 1 \<noteq> 0 \<longleftrightarrow> bit c 0"
  by (simp add: and_one_eq bit_0 odd_iff_mod_2_eq_one [symmetric])

lemma xor_cancel_left [simp]: "(a :: u32) XOR b = a XOR c \<longleftrightarrow> b = c"
  by (metis xor.assoc xor_self_eq xor.left_neutral)

lemma xor_cancel_right [simp]: "(b :: u32) XOR a = c XOR a \<longleftrightarrow> b = c"
  by (metis xor.commute xor_cancel_left)

lemma crc_shift_bit: "crc_shift c = (if bit c 0 then crc_poly XOR drop_bit 1 c else drop_bit 1 c)"
  by (simp add: crc_shift_def and_one_bit)

lemma crc_shift_xor: "crc_shift (a XOR b) = crc_shift a XOR crc_shift b"
  by (simp add: crc_shift_bit bit_xor_iff xor.assoc xor.left_commute)

lemma crc_shift_0 [simp]: "crc_shift 0 = 0"
  by (simp add: crc_shift_bit)

lemma crc_shifts_xor: "(crc_shift ^^ n) (a XOR b) = (crc_shift ^^ n) a XOR (crc_shift ^^ n) b"
  by (induction n) (simp_all add: crc_shift_xor)

lemma crc_shifts_0 [simp]: "(crc_shift ^^ n) 0 = 0"
  by (induction n) simp_all

text \<open>The top bit of the result is the bit that was shifted out, so nothing is lost.\<close>

lemma crc_shift_top: "bit (crc_shift c) 31 \<longleftrightarrow> bit c 0"
proof -
  have "bit crc_poly 31" by (simp add: crc_poly_def bit_iff_odd)
  moreover have "\<not> bit (drop_bit 1 c) 31" by (auto simp: bit_simps dest: bit_imp_le_length)
  ultimately show ?thesis by (simp add: crc_shift_bit bit_xor_iff)
qed

lemma crc_shift_inject [simp]: "crc_shift a = crc_shift b \<longleftrightarrow> a = b"
proof
  assume eq: "crc_shift a = crc_shift b"
  then have low: "bit a 0 = bit b 0" using crc_shift_top by metis
  with eq have "drop_bit 1 a = drop_bit 1 b"
    by (auto simp: crc_shift_bit split: if_splits)
  then have up: "bit a (Suc n) = bit b (Suc n)" for n
    by (metis bit_drop_bit_eq comp_apply plus_1_eq_Suc)
  show "a = b"
  proof (rule bit_word_eqI)
    fix n
    show "bit a n = bit b n" using low up by (cases n) auto
  qed
qed simp

lemma crc_shifts_inject [simp]: "(crc_shift ^^ n) a = (crc_shift ^^ n) b \<longleftrightarrow> a = b"
  by (induction n) simp_all

text \<open>A value whose low bits are clear is only shifted.\<close>

lemma crc_shifts_clear: "(\<And>i. i < n \<Longrightarrow> \<not> bit c i) \<Longrightarrow> (crc_shift ^^ n) c = drop_bit n c"
proof (induction n)
  case (Suc n)
  then have "(crc_shift ^^ n) c = drop_bit n c" by simp
  moreover have "\<not> bit (drop_bit n c) 0" using Suc.prems [of n] by (simp add: bit_simps)
  ultimately show ?case by (simp add: crc_shift_bit [of "drop_bit n c"])
qed simp

section \<open>The table-driven loop computes the bitwise checksum\<close>

lemma and_FF: "(x :: u32) AND 0xFF = take_bit 8 x"
  by (simp add: take_bit_eq_mask mask_eq_exp_minus_1)

lemma crc_table_entry: "crc_table ! unat (take_bit 8 x :: u32) = (crc_shift ^^ 8) (take_bit 8 x)"
proof -
  have "unat (take_bit 8 x :: u32) < 256"
    using take_bit_nat_less_exp [of 8 "unat x"] by (simp add: unsigned_take_bit_eq)
  then show ?thesis by (simp add: crc_table_def)
qed

lemma crc_update_eq: "crc_update b crc = crc_bits b crc"
proof -
  let ?x = "crc XOR ucast b"
  have low: "take_bit 8 ?x XOR (?x AND NOT (mask 8)) = ?x"
    by (rule bit_word_eqI) (auto simp: bit_simps)
  have "(crc_shift ^^ 8) (?x AND NOT (mask 8)) = drop_bit 8 (?x AND NOT (mask 8))"
    by (rule crc_shifts_clear) (auto simp: bit_simps)
  also have "\<dots> = drop_bit 8 crc"
    by (rule bit_word_eqI) (auto simp: bit_simps dest: bit_imp_le_length)
  finally have high: "(crc_shift ^^ 8) (?x AND NOT (mask 8)) = drop_bit 8 crc" .
  have "crc_bits b crc = (crc_shift ^^ 8) (take_bit 8 ?x) XOR (crc_shift ^^ 8) (?x AND NOT (mask 8))"
    by (simp only: crc_bits_def crc_shifts_xor [symmetric] low)
  with high show ?thesis using crc_table_entry [of ?x] by (simp add: crc_update_def and_FF)
qed

lemma crc32_eq_bitwise: "crc32 data = crc32_bitwise data"
proof -
  have ones: "(0xFFFFFFFF :: u32) = NOT 0" by simp
  have "crc_update = crc_bits" by (intro ext) (rule crc_update_eq)
  then show ?thesis
    unfolding crc32_def crc32_bitwise_def ones by simp
qed

section \<open>Bursts of up to four bytes\<close>

text \<open>The bytes of a burst as one word, first byte lowest, from byte position \<open>k\<close> on.\<close>

fun pack_from :: "nat \<Rightarrow> bytes \<Rightarrow> u32" where
  "pack_from k [] = 0"
| "pack_from k (b # bs) = push_bit (8 * k) (ucast b) XOR pack_from (Suc k) bs"

lemma pack_from_low: "i < 8 * k \<Longrightarrow> \<not> bit (pack_from k bs) i"
  by (induction k bs rule: pack_from.induct) (auto simp: bit_simps)

lemma pack_from_inject:
  "length xs = length ys \<Longrightarrow> k + length xs \<le> 4 \<Longrightarrow> pack_from k xs = pack_from k ys \<Longrightarrow> xs = ys"
proof (induction xs ys arbitrary: k rule: list_induct2)
  case (Cons x xs y ys)
  have byte: "bit (pack_from k (b # bs)) (8 * k + i) = bit b i" if "i < 8" "k + length bs < 4" for b bs i
    using that pack_from_low [of "8 * k + i" "Suc k" bs] by (auto simp: bit_simps dest: bit_imp_le_length)
  have "x = y"
  proof (rule bit_word_eqI)
    fix i
    assume "i < LENGTH(8)"
    then show "bit x i = bit y i"
      using byte [of i xs x] byte [of i ys y] Cons.prems Cons.hyps by simp
  qed
  moreover from this Cons.prems have "pack_from (Suc k) xs = pack_from (Suc k) ys" by simp
  then have "xs = ys" using Cons.prems(1) by (intro Cons.IH) simp_all
  ultimately show ?case by simp
qed simp

lemma crc_byte_at:
  assumes "k \<le> 3"
  shows "crc_bits b ((crc_shift ^^ (8 * k)) c) = (crc_shift ^^ (8 * Suc k)) (c XOR push_bit (8 * k) (ucast b))"
proof -
  have "(crc_shift ^^ (8 * k)) (push_bit (8 * k) (ucast b)) = drop_bit (8 * k) (push_bit (8 * k) (ucast b) :: u32)"
    by (rule crc_shifts_clear) (simp add: bit_simps)
  also have "\<dots> = ucast b"
    using assms by (intro bit_word_eqI) (auto simp: bit_simps dest: bit_imp_le_length)
  finally have "(crc_shift ^^ (8 * k)) c XOR ucast b = (crc_shift ^^ (8 * k)) (c XOR push_bit (8 * k) (ucast b))"
    by (simp only: crc_shifts_xor)
  then show ?thesis
    unfolding crc_bits_def by (simp add: funpow_add [THEN fun_cong, unfolded comp_def, symmetric])
qed

lemma fold_crc_pack:
  "k + length xs \<le> 4 \<Longrightarrow>
     fold crc_bits xs ((crc_shift ^^ (8 * k)) c) = (crc_shift ^^ (8 * (k + length xs))) (c XOR pack_from k xs)"
proof (induction xs arbitrary: k c)
  case (Cons b bs)
  then have "fold crc_bits (b # bs) ((crc_shift ^^ (8 * k)) c) =
      fold crc_bits bs ((crc_shift ^^ (8 * Suc k)) (c XOR push_bit (8 * k) (ucast b)))"
    by (simp add: crc_byte_at)
  also have "\<dots> = (crc_shift ^^ (8 * (Suc k + length bs))) ((c XOR push_bit (8 * k) (ucast b)) XOR pack_from (Suc k) bs)"
    using Cons.prems by (intro Cons.IH) simp
  finally show ?case by (simp add: xor.assoc)
qed simp

lemma fold_crc_inject [simp]: "fold crc_bits xs c = fold crc_bits xs d \<longleftrightarrow> c = d"
  by (induction xs arbitrary: c d) (simp_all add: crc_bits_def)

lemma crc32_burst:
  assumes "length xs = length ys" and "length xs \<le> 4"
  shows "crc32 (pre @ xs @ post) = crc32 (pre @ ys @ post) \<longleftrightarrow> xs = ys"
proof -
  define c where "c = fold crc_bits pre (NOT 0)"
  have "crc32 (pre @ xs @ post) = crc32 (pre @ ys @ post) \<longleftrightarrow> fold crc_bits xs c = fold crc_bits ys c"
    by (simp add: crc32_eq_bitwise crc32_bitwise_def c_def)
  also have "\<dots> \<longleftrightarrow> pack_from 0 xs = pack_from 0 ys"
    using fold_crc_pack [of 0 xs c] fold_crc_pack [of 0 ys c] assms by simp
  also have "\<dots> \<longleftrightarrow> xs = ys"
    using pack_from_inject [of xs ys 0] assms by auto
  finally show ?thesis .
qed

section \<open>Buffers with a checksum inside\<close>

text \<open>
  The frames of the wire, the envelope of a persisted file and its payload all hold the checksum of the other
  bytes in four bytes at some position. No single byte of such a buffer can be changed unnoticed.
\<close>

definition checksummed :: "nat \<Rightarrow> bytes \<Rightarrow> bool" where
  "checksummed k e \<longleftrightarrow> k + 4 \<le> length e \<and> load_u32 (drop k e) = crc32 (take k e @ drop (k + 4) e)"

lemma load_u32_take4: "load_u32 (take 4 p) = load_u32 p"
  by (simp add: load_u32_def)

lemma load_u32_inject: "length p = 4 \<Longrightarrow> length q = 4 \<Longrightarrow> load_u32 p = load_u32 q \<longleftrightarrow> p = q"
  using store_load_u32 by metis

lemma crc32_update_byte:
  assumes "i < length xs" and "b \<noteq> xs ! i"
  shows "crc32 (xs[i := b]) \<noteq> crc32 xs"
proof -
  have "xs[i := b] = take i xs @ [b] @ drop (Suc i) xs" "xs = take i xs @ [xs ! i] @ drop (Suc i) xs"
    using assms(1) by (simp_all add: upd_conv_take_nth_drop id_take_nth_drop)
  with crc32_burst [of "[b]" "[xs ! i]" "take i xs" "drop (Suc i) xs"] assms(2) show ?thesis by simp
qed

lemma checksummed_update:
  assumes e: "checksummed k e" and i: "i < length e" and b: "b \<noteq> e ! i"
  shows "\<not> checksummed k (e[i := b])"
proof
  let ?d = "e[i := b]" and ?body = "take k e @ drop (k + 4) e"
  assume d: "checksummed k ?d"
  from e have len: "k + 4 \<le> length e" by (simp add: checksummed_def)
  note pe = e [unfolded checksummed_def, THEN conjunct2] and pd = d [unfolded checksummed_def, THEN conjunct2]
  consider "i < k" | "k \<le> i" "i < k + 4" | "k + 4 \<le> i" by linarith
  then show False
  proof cases
    case 1
    then have "take k ?d @ drop (k + 4) ?d = ?body[i := b]" "drop k ?d = drop k e"
      using len by (simp_all add: take_update_swap list_update_append)
    moreover have "crc32 (?body[i := b]) \<noteq> crc32 ?body"
      using 1 b len by (intro crc32_update_byte) (simp_all add: nth_append)
    ultimately show False using pe pd by simp
  next
    case 2
    then have same: "take k ?d @ drop (k + 4) ?d = ?body" using len by simp
    have "take 4 (drop k ?d) = take 4 (drop k e)"
      using pe pd len load_u32_inject [of "take 4 (drop k ?d)" "take 4 (drop k e)"] unfolding same by (simp add: load_u32_take4)
    then have "take 4 (drop k ?d) ! (i - k) = take 4 (drop k e) ! (i - k)" by simp
    with 2 b i show False by simp
  next
    case 3
    then have idx: "\<not> i - 4 < k" "i - 4 - k = i - (k + 4)" by simp_all
    from 3 have "take k ?d @ drop (k + 4) ?d = ?body[i - 4 := b]" "take 4 (drop k ?d) = take 4 (drop k e)"
      using len idx by (simp_all add: drop_update_swap list_update_append min_def)
    moreover have "crc32 (?body[i - 4 := b]) \<noteq> crc32 ?body"
      using 3 b len i idx by (intro crc32_update_byte) (simp_all add: nth_append)
    ultimately show False using pe pd load_u32_take4 [of "drop k ?d"] load_u32_take4 [of "drop k e"] by simp
  qed
qed

section \<open>Evaluation on integers\<close>

text \<open>The bit step on integers in range, on which checksums of concrete bytes are computed.\<close>

definition crc_step :: "int \<Rightarrow> int" where
  "crc_step c = (if odd c then 0xEDB88320 XOR (c div 2) else c div 2)"

lemma crc_step_range: "0 \<le> c \<Longrightarrow> c < 2 ^ 32 \<Longrightarrow> 0 \<le> crc_step c \<and> crc_step c < 2 ^ 32"
  using XOR_upper [of "0xEDB88320" 32 "c div 2"] by (auto simp: crc_step_def)

lemma crc_shift_int:
  assumes "0 \<le> c" "c < 2 ^ 32"
  shows "crc_shift (word_of_int c) = word_of_int (crc_step c)"
proof -
  have top: "\<not> bit c 32" using assms by (metis bit_take_bit_iff less_irrefl take_bit_int_eq_self)
  have d: "drop_bit 1 (word_of_int c :: u32) = word_of_int (c div 2)"
  proof (rule bit_word_eqI)
    fix n assume "n < LENGTH(32)"
    then show "bit (drop_bit 1 (word_of_int c :: u32)) n \<longleftrightarrow> bit (word_of_int (c div 2) :: u32) n"
      using top by (cases "n = 31") (auto simp: bit_simps bit_Suc [symmetric])
  qed
  have o: "bit (word_of_int c :: u32) 0 \<longleftrightarrow> odd c" by (simp only: bit_word_of_int_iff) (simp add: bit_0)
  have x: "crc_poly XOR word_of_int (c div 2) = word_of_int (0xEDB88320 XOR (c div 2))"
    by (rule bit_word_eqI) (simp add: crc_poly_def bit_simps)
  show ?thesis unfolding crc_shift_bit crc_step_def o d x by simp
qed

definition crc_int :: "int list \<Rightarrow> int" where
  "crc_int bs = fold (\<lambda>b c. (crc_step ^^ 8) (c XOR b)) bs 0xFFFFFFFF"

lemma crc_steps:
  "0 \<le> c \<Longrightarrow> c < 2 ^ 32 \<Longrightarrow> (crc_shift ^^ k) (word_of_int c) = word_of_int ((crc_step ^^ k) c) \<and> 0 \<le> (crc_step ^^ k) c \<and> (crc_step ^^ k) c < 2 ^ 32"
  by (induction k) (simp_all add: crc_shift_int crc_step_range [simplified])

lemma crc_fold:
  "0 \<le> c \<Longrightarrow> c < 2 ^ 32 \<Longrightarrow> fold crc_bits bs (word_of_int c) = word_of_int (fold (\<lambda>b c. (crc_step ^^ 8) (c XOR b)) (map uint bs) c)"
proof (induction bs arbitrary: c)
  case (Cons b bs)
  have "uint b < 2 ^ 32" using unsigned_less [of b, where ?'a = int] by simp
  then have x: "0 \<le> c XOR uint b" "c XOR uint b < 2 ^ 32" 
    using Cons.prems XOR_upper [of c 32 "uint b"] by simp_all
  have "word_of_int c XOR ucast b = (word_of_int (c XOR uint b) :: u32)"
    by (rule bit_word_eqI) (simp add: bit_simps)
  then have "crc_bits b (word_of_int c) = word_of_int ((crc_step ^^ 8) (c XOR uint b))"
    using crc_steps [OF x, of 8] by (simp add: crc_bits_def)
  with Cons.IH [of "(crc_step ^^ 8) (c XOR uint b)"] crc_steps [OF x, of 8] show ?case by simp
qed simp

lemma crc32_int: "crc32 bs = NOT (word_of_int (crc_int (map uint bs)))"
proof -
  have ones: "(- 1 :: u32) = 0xFFFFFFFF" by simp
  show ?thesis
    using crc_fold [of "0xFFFFFFFF" bs] by (simp add: crc32_eq_bitwise crc32_bitwise_def crc_int_def ones del: numeral_eq_iff)
qed

section \<open>Properties\<close>

text \<open>
  C27. The table-driven checksum of the source computes the bit-by-bit CRC-32 with the reflected polynomial
  EDB88320, initial value and final complement all ones.
\<close>

theorem crc32_table_correct: "crc32 data = crc32_bitwise data"
  by (rule crc32_eq_bitwise)

text \<open>
  C28. The checksum detects every corruption that is confined to four consecutive bytes: replacing up to four
  bytes in place changes the checksum unless the bytes are the same.
\<close>

theorem crc32_detects_burst:
  assumes "length xs = length ys" and "length xs \<le> 4"
  shows "crc32 (pre @ xs @ post) = crc32 (pre @ ys @ post) \<longleftrightarrow> xs = ys"
  by (rule crc32_burst [OF assms])

theorem crc32_detects_burst_witness: "crc32 ([1] @ [2, 3] @ [4]) \<noteq> crc32 ([1] @ [2, 5] @ [4])"
  using crc32_detects_burst [of "[2, 3]" "[2, 5]" "[1]" "[4]"] by simp

end
