(* ===== verification/Persistence.thy ===== *)
theory Persistence
  imports Registry Codec Crc
begin

text \<open>
  The persisted form of the structural state, \<^verbatim>\<open>src/core/persistence.cpp\<close>: \<^verbatim>\<open>serialize_state\<close> and
  \<^verbatim>\<open>deserialize_state\<close> with the error texts of every field, the envelope that is written to disk, and the
  replacement of the file by a rename. \<open>Overrun\<close> is the outcome of a reader that passes its own bounds
  check and then reads past the body, as in \<open>Bytes\<close>.
\<close>

section \<open>Loading with error texts\<close>

datatype 'a ld = Loaded 'a nat | Rejected string | Overrun

type_synonym 'a loader = "bytes \<Rightarrow> nat \<Rightarrow> 'a ld"

text \<open>\<^verbatim>\<open>if (!r.field(x)) { err = msg; return false; }\<close> and what follows it.\<close>

definition need :: "'a reader \<Rightarrow> string \<Rightarrow> ('a \<Rightarrow> 'b loader) \<Rightarrow> 'b loader" where
  "need g msg k data pos = (case g data pos of Rd v p \<Rightarrow> k v data p | Fail \<Rightarrow> Rejected msg | OutOfBounds \<Rightarrow> Overrun)"

definition ld_return :: "'a \<Rightarrow> 'a loader" where
  "ld_return v data pos = Loaded v pos"

definition loading :: "'a loader \<Rightarrow> ('a \<Rightarrow> 'b loader) \<Rightarrow> 'b loader" where
  "loading l k data pos = (case l data pos of Loaded v p \<Rightarrow> k v data p | Rejected msg \<Rightarrow> Rejected msg | Overrun \<Rightarrow> Overrun)"

text \<open>\<^verbatim>\<open>for (i = 0; i < n; ++i)\<close> with a body that loads an item and adds it to what the loop builds.\<close>

fun load_loop :: "nat \<Rightarrow> 'a loader \<Rightarrow> ('a \<Rightarrow> 's \<Rightarrow> 's) \<Rightarrow> 's \<Rightarrow> 's loader" where
  "load_loop 0 l step acc = ld_return acc"
| "load_loop (Suc n) l step acc = loading l (\<lambda>v. load_loop n l step (step v acc))"

section \<open>The reader\<close>

definition Reader_str :: "string reader" where
  "Reader_str = reading get_u32 (\<lambda>n. rd_check (unat n \<le> 65536)
     (reading (\<lambda>d pos. get_bytes d pos (unat n)) (\<lambda>b. rd_return (string_of b))))"

definition Reader_vec_str :: "string list reader" where
  "Reader_vec_str = reading get_u32 (\<lambda>n. rd_check (unat n \<le> 4096) (read_many (unat n) Reader_str))"

definition count_upto :: "nat \<Rightarrow> nat reader" where
  "count_upto limit = reading get_u32 (\<lambda>n. rd_check (unat n \<le> limit) (rd_return (unat n)))"

definition w_str :: "bytes \<Rightarrow> string \<Rightarrow> bytes" where
  "w_str b s = put_bytes (put_u32 b (of_nat (length s))) (bytes_of s)"

definition w_vec_str :: "bytes \<Rightarrow> string list \<Rightarrow> bytes" where
  "w_vec_str b v = fold (\<lambda>s b. w_str b s) v (put_u32 b (of_nat (length v)))"

abbreviation w_flag :: "bytes \<Rightarrow> bool \<Rightarrow> bytes" where
  "w_flag b c \<equiv> put_u32 b (if c then 1 else 0)"

section \<open>Serialisation\<close>

definition w_capability :: "bytes \<Rightarrow> Capability \<Rightarrow> bytes" where
  "w_capability out cap =
     (let out = put_u32 out (CapabilityClass_to_u32 (cap_klass cap));
          out = put_u32 out (SupportState_to_u32 (cap_state cap));
          out = put_u64 out (cap_version cap);
          out = put_u32 out (Provenance_to_u32 (cap_provenance cap));
          out = put_u64 out (gen_value (cap_evidence_generation cap));
          out = w_flag out (cap_evidence_current cap) in
      w_str out (cap_constraints cap))"

definition w_economics :: "bytes \<Rightarrow> AccessEconomics \<Rightarrow> bytes" where
  "w_economics out e =
     (let out = put_u32 out (LocalityClass_to_u32 (econ_locality e));
          out = put_u32 out (TierClass_to_u32 (econ_tier e));
          out = put_u32 out (EvidenceClass_to_u32 (econ_evidence_class e));
          out = put_u32 out (Provenance_to_u32 (econ_provenance e));
          out = put_u64 out (econ_estimated_latency_ns e);
          out = put_u64 out (econ_estimated_bandwidth_mbps e);
          out = put_u32 out (econ_hop_count e);
          out = put_u64 out (econ_migration_cost_bytes e);
          out = w_flag out (econ_failsafe_valid e) in
      w_str out (econ_notes e))"

definition w_device :: "bytes \<Rightarrow> CxlDevice \<Rightarrow> bytes" where
  "w_device out d =
     (let out = w_str out (id_value (dev_id d));
          out = put_u64 out (gen_value (dev_generation d));
          out = w_str out (id_value (dev_boot_id d));
          out = w_str out (dev_raw_identity d);
          out = w_str out (dev_vendor_device_id d);
          out = w_str out (dev_cxl_device_class d);
          out = w_str out (dev_device_type d);
          out = w_str out (id_value (dev_host d));
          out = w_vec_str out [];
          out = w_vec_str out [];
          out = put_u64 out (dev_total_physical_bytes d);
          out = put_u64 out (dev_online_bytes d);
          out = put_u32 out (VolatilityKind_to_u32 (dev_volatility d));
          out = put_u32 out (SharingMode_to_u32 (dev_sharing d));
          out = w_flag out (dev_multi_host_capable d);
          out = w_flag out (dev_interleave_capable d);
          out = put_u32 out (AcceleratorAccessState_to_u32 (dev_accelerator_access d));
          out = put_u32 out (Provenance_to_u32 (dev_provenance d));
          out = put_u64 out (gen_value (dev_evidence_generation d));
          out = w_str out (dev_firmware_metadata d);
          out = w_str out (dev_lifecycle_note d);
          out = put_u32 out (of_nat (length (dev_capabilities d)));
          out = fold (\<lambda>ckv out. w_capability out (snd ckv)) (dev_capabilities d) out in
      w_economics out (dev_economics d))"

definition w_region :: "bytes \<Rightarrow> CxlRegion \<Rightarrow> bytes" where
  "w_region out r =
     (let out = w_str out (id_value (reg_id r));
          out = put_u64 out (gen_value (reg_generation r));
          out = w_str out (id_value (reg_pool r));
          out = put_u32 out (of_nat (length (reg_member_devices r)));
          out = fold (\<lambda>m out. w_str out (id_value m)) (reg_member_devices r) out;
          out = w_str out (reg_interleave_set r);
          out = put_u64 out (reg_region_capacity_bytes r);
          out = w_flag out (reg_interleaved r);
          out = put_u32 out (Provenance_to_u32 (reg_provenance r));
          out = put_u64 out (gen_value (reg_evidence_generation r)) in
      w_flag out (reg_device_local r))"

definition w_member :: "bytes \<Rightarrow> PoolMember \<Rightarrow> bytes" where
  "w_member out m =
     (let out = w_str out (id_value (pm_device m));
          out = put_u64 out (gen_value (pm_device_generation m));
          out = put_u64 out (pm_nominal_bytes m);
          out = w_flag out (pm_online m);
          out = w_flag out (pm_health_ok m);
          out = w_str out (pm_failure_domain m) in
      put_u32 out (LocalityClass_to_u32 (pm_locality m)))"

definition w_pool :: "bytes \<Rightarrow> CxlPool \<Rightarrow> bytes" where
  "w_pool out p =
     (let out = w_str out (id_value (pool_id p));
          out = put_u64 out (gen_value (pool_generation p));
          out = put_u32 out (of_nat (length (pool_members p)));
          out = fold (\<lambda>m out. w_member out m) (pool_members p) out;
          out = put_u64 out (pool_total_governed_bytes p);
          out = put_u64 out (pool_committed_bytes p);
          out = put_u64 out (pool_reserved_bytes p);
          out = put_u64 out (pool_draining_bytes p);
          out = put_u64 out (pool_unavailable_bytes p);
          out = w_str out (pool_admission_policy p);
          out = w_vec_str out (pool_failure_domains p);
          out = put_u32 out (LocalityClass_to_u32 (pool_locality_distribution p));
          out = put_u32 out (HealthState_to_u32 (pool_health_summary p));
          out = put_u32 out (Provenance_to_u32 (pool_provenance p));
          out = put_u64 out (gen_value (pool_evidence_generation p));
          out = w_flag out (pool_evidence_current p) in
      w_str out (pool_lifecycle_note p))"

definition w_body :: "PersistedState \<Rightarrow> bytes" where
  "w_body st =
     (let out = put_u64 [] (gen_value (ps_policy_generation st));
          out = put_u32 out (of_nat (length (ps_devices st)));
          out = fold (\<lambda>kv out. w_device out (snd kv)) (ps_devices st) out;
          out = put_u32 out (of_nat (length (ps_regions st)));
          out = fold (\<lambda>kv out. w_region out (snd kv)) (ps_regions st) out;
          out = put_u32 out (of_nat (length (ps_pools st))) in
      fold (\<lambda>kv out. w_pool out (snd kv)) (ps_pools st) out)"

definition serialize_state :: "PersistedState \<Rightarrow> string + bytes" where
  "serialize_state st =
     (if length (ps_devices st) > 100000 \<or> length (ps_regions st) > 100000 \<or> length (ps_pools st) > 100000
      then Inl ''state exceeds persistence bounds''
      else let out = w_body st in Inr (put_u32 out (crc32 out)))"
section \<open>Deserialisation\<close>

text \<open>
  Fields that are read under one error text with a chain of \<^verbatim>\<open>||\<close> appear as consecutive fields with the
  same text.
\<close>

definition load_capability :: "Capability loader" where
  "load_capability =
     need get_u32 ''cap klass'' (\<lambda>k. need get_u32 ''cap state'' (\<lambda>s. need get_u64 ''cap version'' (\<lambda>v.
     need get_u32 ''cap prov'' (\<lambda>p. need get_u64 ''cap ev gen'' (\<lambda>eg. need get_u32 ''cap current'' (\<lambda>ui.
     need Reader_str ''cap constraints'' (\<lambda>c.
     ld_return \<lparr>cap_klass = CapabilityClass_of_u32 k, cap_state = SupportState_of_u32 s, cap_version = v,
       cap_provenance = Provenance_of_u32 p, cap_evidence_generation = Generation eg,
       cap_evidence_current = (ui \<noteq> 0), cap_constraints = c\<rparr>)))))))"

definition load_economics :: "AccessEconomics loader" where
  "load_economics =
     need get_u32 ''econ enum'' (\<lambda>el. need get_u32 ''econ enum'' (\<lambda>et. need get_u32 ''econ enum'' (\<lambda>ee.
     need get_u32 ''econ enum'' (\<lambda>ep. need get_u64 ''econ'' (\<lambda>lat. need get_u64 ''econ'' (\<lambda>bw.
     need get_u32 ''econ2'' (\<lambda>hops. need get_u64 ''econ2'' (\<lambda>mig. need get_u32 ''econ failsafe'' (\<lambda>ui.
     need Reader_str ''econ notes'' (\<lambda>notes.
     ld_return (AccessEconomics_default\<lparr>econ_locality := LocalityClass_of_u32 el, econ_tier := TierClass_of_u32 et,
       econ_evidence_class := EvidenceClass_of_u32 ee, econ_provenance := Provenance_of_u32 ep,
       econ_estimated_latency_ns := lat, econ_estimated_bandwidth_mbps := bw, econ_hop_count := hops,
       econ_migration_cost_bytes := mig, econ_failsafe_valid := (ui \<noteq> 0), econ_notes := notes\<rparr>)))))))))))"

definition load_device :: "CxlDevice loader" where
  "load_device =
     need Reader_str ''device id'' (\<lambda>sid. need get_u64 ''device gen'' (\<lambda>g. need Reader_str ''device boot'' (\<lambda>b.
     need Reader_str ''device strings'' (\<lambda>raw. need Reader_str ''device strings'' (\<lambda>vendor.
     need Reader_str ''device strings'' (\<lambda>klass. need Reader_str ''device strings'' (\<lambda>type.
     need Reader_str ''device host'' (\<lambda>host. need Reader_vec_str ''device ports'' (\<lambda>tmp.
     need Reader_vec_str ''device switch'' (\<lambda>tmp2. need get_u64 ''total'' (\<lambda>tp. need get_u64 ''online'' (\<lambda>onl.
     need get_u32 ''vol'' (\<lambda>vol. need get_u32 ''sharing'' (\<lambda>sh. need get_u32 ''multi'' (\<lambda>mh.
     need get_u32 ''interleave'' (\<lambda>il. need get_u32 ''accel'' (\<lambda>acc. need get_u32 ''prov'' (\<lambda>prov.
     need get_u64 ''evidence gen'' (\<lambda>eg. need Reader_str ''device notes'' (\<lambda>fw. need Reader_str ''device notes'' (\<lambda>note.
     need (count_upto 256) ''cap count'' (\<lambda>ccap.
     loading (load_loop ccap load_capability caps_set []) (\<lambda>caps.
     loading load_economics (\<lambda>econ.
     ld_return (CxlDevice_default\<lparr>dev_id := Ident sid, dev_generation := Generation g, dev_boot_id := Ident b,
       dev_raw_identity := raw, dev_vendor_device_id := vendor, dev_cxl_device_class := klass, dev_device_type := type,
       dev_host := Ident host, dev_total_physical_bytes := tp, dev_online_bytes := onl,
       dev_volatility := VolatilityKind_of_u32 vol, dev_sharing := SharingMode_of_u32 sh,
       dev_multi_host_capable := (mh \<noteq> 0), dev_interleave_capable := (il \<noteq> 0),
       dev_accelerator_access := AcceleratorAccessState_of_u32 acc, dev_provenance := Provenance_of_u32 prov,
       dev_evidence_generation := Generation eg, dev_firmware_metadata := fw, dev_lifecycle_note := note,
       dev_capabilities := caps, dev_economics := econ\<rparr>)))))))))))))))))))))))))"

definition load_region :: "CxlRegion loader" where
  "load_region =
     need Reader_str ''region id'' (\<lambda>sid. need get_u64 ''region gen'' (\<lambda>g. need Reader_str ''region pool'' (\<lambda>pool.
     need (count_upto 100000) ''region members'' (\<lambda>mc.
     loading (load_loop mc (need Reader_str ''region member'' ld_return) (\<lambda>ms acc. acc @ [Ident ms]) []) (\<lambda>members.
     need Reader_str ''region interleave'' (\<lambda>il. need get_u64 ''region cap'' (\<lambda>cap.
     need get_u32 ''region interleaved'' (\<lambda>ui. need get_u32 ''region prov'' (\<lambda>prov.
     need get_u64 ''region ev gen'' (\<lambda>eg. need get_u32 ''region device_local'' (\<lambda>dl.
     ld_return (CxlRegion_default\<lparr>reg_id := Ident sid, reg_generation := Generation g, reg_pool := Ident pool,
       reg_member_devices := members, reg_interleave_set := il, reg_region_capacity_bytes := cap,
       reg_interleaved := (ui \<noteq> 0), reg_provenance := Provenance_of_u32 prov,
       reg_evidence_generation := Generation eg, reg_device_local := (dl \<noteq> 0)\<rparr>))))))))))))"

definition load_member :: "PoolMember loader" where
  "load_member =
     need Reader_str ''pool member device'' (\<lambda>ds. need get_u64 ''pool member gen'' (\<lambda>dg.
     need get_u64 ''pool member nominal'' (\<lambda>nom. need get_u32 ''pool member online'' (\<lambda>onl.
     need get_u32 ''pool member health'' (\<lambda>hok. need Reader_str ''pool member fd'' (\<lambda>fd.
     need get_u32 ''pool member locality'' (\<lambda>loc.
     ld_return \<lparr>pm_device = Ident ds, pm_device_generation = Generation dg, pm_nominal_bytes = nom,
       pm_online = (onl \<noteq> 0), pm_health_ok = (hok \<noteq> 0), pm_failure_domain = fd,
       pm_locality = LocalityClass_of_u32 loc\<rparr>)))))))"

definition load_pool :: "CxlPool loader" where
  "load_pool =
     need Reader_str ''pool id'' (\<lambda>sid. need get_u64 ''pool gen'' (\<lambda>g. need (count_upto 100000) ''pool members'' (\<lambda>mc.
     loading (load_loop mc load_member (\<lambda>m acc. acc @ [m]) []) (\<lambda>members.
     need get_u64 ''pool accounting'' (\<lambda>total. need get_u64 ''pool accounting'' (\<lambda>committed.
     need get_u64 ''pool accounting'' (\<lambda>resv. need get_u64 ''pool accounting'' (\<lambda>draining.
     need get_u64 ''pool accounting'' (\<lambda>unavailable. need Reader_str ''pool policy'' (\<lambda>policy.
     need Reader_vec_str ''pool domains'' (\<lambda>domains. need get_u32 ''pool locality dist'' (\<lambda>ld.
     need get_u32 ''pool health'' (\<lambda>health. need get_u32 ''pool prov'' (\<lambda>prov. need get_u64 ''pool ev gen'' (\<lambda>eg.
     need get_u32 ''pool evidence'' (\<lambda>ev. need Reader_str ''pool note'' (\<lambda>note.
     ld_return (CxlPool_default\<lparr>pool_id := Ident sid, pool_generation := Generation g, pool_members := members,
       pool_total_governed_bytes := total, pool_committed_bytes := committed, pool_reserved_bytes := resv,
       pool_draining_bytes := draining, pool_unavailable_bytes := unavailable, pool_admission_policy := policy,
       pool_failure_domains := domains, pool_locality_distribution := LocalityClass_of_u32 ld,
       pool_health_summary := HealthState_of_u32 health, pool_provenance := Provenance_of_u32 prov,
       pool_evidence_generation := Generation eg, pool_evidence_current := (ev \<noteq> 0),
       pool_lifecycle_note := note\<rparr>))))))))))))))))))"

definition load_body :: "PersistedState loader" where
  "load_body =
     need get_u64 ''missing policy generation'' (\<lambda>polgen.
     need (count_upto 100000) ''device count invalid'' (\<lambda>dcount.
     loading (load_loop dcount load_device (\<lambda>d. om_assign (dev_id d) d) []) (\<lambda>devices.
     need (count_upto 100000) ''region count'' (\<lambda>rcount.
     loading (load_loop rcount load_region (\<lambda>r. om_assign (reg_id r) r) []) (\<lambda>regions.
     need (count_upto 100000) ''pool count'' (\<lambda>pcount.
     loading (load_loop pcount load_pool (\<lambda>p. om_assign (pool_id p) p) []) (\<lambda>pools.
     ld_return \<lparr>ps_policy_generation = Generation polgen, ps_devices = devices, ps_regions = regions,
       ps_pools = pools\<rparr>)))))))"

definition deserialize_state :: "bytes \<Rightarrow> PersistedState ld" where
  "deserialize_state payload =
     (if length payload < 4 then Rejected ''payload too small''
      else let body_len = length payload - 4; body = take body_len payload;
               stored_crc = load_u32 (drop body_len payload) in
        if crc32 body \<noteq> stored_crc then Rejected ''payload checksum mismatch''
        else case load_body body 0 of
            Loaded st pos \<Rightarrow> (if pos \<noteq> body_len then Rejected ''trailing garbage'' else Loaded st pos)
          | Rejected msg \<Rightarrow> Rejected msg
          | Overrun \<Rightarrow> Overrun)"
section \<open>What was written is loaded\<close>

definition loads :: "'a loader \<Rightarrow> bytes \<Rightarrow> 'a \<Rightarrow> bool" where
  "loads l bs v \<longleftrightarrow> (\<forall>xs ys. l (xs @ bs @ ys) (length xs) = Loaded v (length xs + length bs))"

lemma loads_return: "loads (ld_return v) [] w \<longleftrightarrow> v = w"
  by (simp add: loads_def ld_return_def)

lemma loads_need:
  assumes "parses g b1 v" and "loads (k v) b2 w"
  shows "loads (need g msg k) (b1 @ b2) w"
  unfolding loads_def
proof (intro allI)
  fix xs ys
  have "g (xs @ b1 @ b2 @ ys) (length xs) = Rd v (length xs + length b1)"
    using assms(1) by (simp add: parses_def)
  moreover have "k v ((xs @ b1) @ b2 @ ys) (length (xs @ b1)) = Loaded w (length (xs @ b1) + length b2)"
    using assms(2) unfolding loads_def by blast
  ultimately show "need g msg k (xs @ (b1 @ b2) @ ys) (length xs) = Loaded w (length xs + length (b1 @ b2))"
    by (simp add: need_def add.assoc)
qed

lemma loads_need_last: "parses g b v \<Longrightarrow> loads (k v) [] w \<Longrightarrow> loads (need g msg k) b w"
  using loads_need [of g b v k "[]" w msg] by simp

lemma loads_loading:
  assumes "loads l b1 v" and "loads (k v) b2 w"
  shows "loads (loading l k) (b1 @ b2) w"
  unfolding loads_def
proof (intro allI)
  fix xs ys
  have "l (xs @ b1 @ b2 @ ys) (length xs) = Loaded v (length xs + length b1)"
    using assms(1) by (simp add: loads_def)
  moreover have "k v ((xs @ b1) @ b2 @ ys) (length (xs @ b1)) = Loaded w (length (xs @ b1) + length b2)"
    using assms(2) unfolding loads_def by blast
  ultimately show "loading l k (xs @ (b1 @ b2) @ ys) (length xs) = Loaded w (length xs + length (b1 @ b2))"
    by (simp add: loading_def add.assoc)
qed

lemma loads_loading_last: "loads l b v \<Longrightarrow> loads (k v) [] w \<Longrightarrow> loads (loading l k) b w"
  using loads_loading [of l b v k "[]" w] by simp

text \<open>An item the loops of the loader can read back.\<close>

locale stored_item =
  fixes put :: "'a \<Rightarrow> bytes" and load :: "'b loader" and ok :: "'a \<Rightarrow> bool" and view :: "'a \<Rightarrow> 'b"
  assumes loads_put: "ok v \<Longrightarrow> loads load (put v) (view v)"
begin

lemma loads_loop:
  "(\<And>v. v \<in> set vs \<Longrightarrow> ok v) \<Longrightarrow> n = length vs \<Longrightarrow>
     loads (load_loop n load step acc) (concat (map put vs)) (fold (\<lambda>v. step (view v)) vs acc)"
proof (induction vs arbitrary: acc n)
  case (Cons v vs)
  then have "loads (load_loop (length vs) load step (step (view v) acc)) (concat (map put vs))
      (fold (\<lambda>v. step (view v)) vs (step (view v) acc))"
    by simp
  with loads_put [of v] Cons.prems show ?case by (simp add: loads_loading)
qed (simp add: loads_return)

end

lemma Reader_str_get_str: "Reader_str = get_str"
  by (simp add: Reader_str_def get_str_def)

lemma w_append: "w_str out s = out @ str_bytes s" "put_u32 out a = out @ store_u32 a" "put_u64 out b = out @ store_u64 b"
  by (simp_all add: w_str_def str_bytes_def codec_defs)

lemma w_vec_append: "w_vec_str out v = out @ store_u32 (of_nat (length v)) @ concat (map str_bytes v)"
  by (simp add: w_vec_str_def w_append fold_append [where g = str_bytes])

lemma parses_stored_str: "wire_string s \<Longrightarrow> parses Reader_str (str_bytes s) s"
  by (simp add: Reader_str_get_str parses_str)

definition stored_strings :: "string list \<Rightarrow> bool" where
  "stored_strings v \<longleftrightarrow> length v \<le> 4096 \<and> (\<forall>s \<in> set v. wire_string s)"

lemma parses_vec_str:
  assumes "stored_strings v"
  shows "parses Reader_vec_str (store_u32 (of_nat (length v)) @ concat (map str_bytes v)) v"
proof -
  have n: "unat (of_nat (length v) :: u32) = length v"
    using assms by (simp add: stored_strings_def unat_of_nat take_bit_nat_eq_self)
  have "parses (read_many (length v) get_str) (concat (map str_bytes v)) (map (\<lambda>s. s) v)"
    using assms by (intro str.parses_many) (simp add: stored_strings_def)
  then show ?thesis
    unfolding Reader_vec_str_def Reader_str_get_str
    using n assms by (intro parses_reading [OF parses_u32] parses_check) (simp_all add: stored_strings_def)
qed

lemma parses_count: "n \<le> limit \<Longrightarrow> limit \<le> 100000 \<Longrightarrow> parses (count_upto limit) (store_u32 (of_nat n)) n"
  unfolding count_upto_def
  by (intro parses_last [OF parses_u32]) (simp add: parses_check count_u32 parses_return)

lemmas loads_field = loads_need [OF parses_u64] loads_need [OF parses_u32] loads_need [OF parses_stored_str]
  loads_need [OF parses_vec_str, unfolded append_assoc] loads_need [OF parses_count]
lemmas loads_end = loads_need_last [OF parses_u32] loads_need_last [OF parses_stored_str]

section \<open>The parts of the state\<close>

definition capability_stored :: "Capability \<Rightarrow> bool" where
  "capability_stored c \<longleftrightarrow> CapabilityClass_valid (cap_klass c) \<and> SupportState_valid (cap_state c) \<and>
     Provenance_valid (cap_provenance c) \<and> wire_string (cap_constraints c)"

interpretation capability: stored_item "w_capability []" load_capability capability_stored "\<lambda>c. c"
proof
  fix c
  assume "capability_stored c"
  then show "loads load_capability (w_capability [] c) c"
    unfolding load_capability_def w_capability_def Let_def w_append append_Nil append_assoc
    by (intro loads_field loads_end)
      (cases c, auto simp: capability_stored_def loads_return CapabilityClass_cast.of_to SupportState_cast.of_to Provenance_cast.of_to)
qed

definition economics_stored :: "AccessEconomics \<Rightarrow> bool" where
  "economics_stored e \<longleftrightarrow> LocalityClass_valid (econ_locality e) \<and> TierClass_valid (econ_tier e) \<and>
     EvidenceClass_valid (econ_evidence_class e) \<and> Provenance_valid (econ_provenance e) \<and> wire_string (econ_notes e)"

text \<open>The access penalty is not stored and comes back as its default.\<close>

definition durable_economics :: "AccessEconomics \<Rightarrow> AccessEconomics" where
  "durable_economics e = e\<lparr>econ_access_penalty_vs_local := 1\<rparr>"

interpretation economics: stored_item "w_economics []" load_economics economics_stored durable_economics
proof
  fix e
  assume "economics_stored e"
  then show "loads load_economics (w_economics [] e) (durable_economics e)"
    unfolding load_economics_def w_economics_def Let_def w_append append_Nil append_assoc
    by (intro loads_field loads_end)
      (cases e, auto simp: economics_stored_def durable_economics_def AccessEconomics_default_def loads_return
        LocalityClass_cast.of_to TierClass_cast.of_to EvidenceClass_cast.of_to Provenance_cast.of_to)
qed
lemma om_assign_last: "(\<And>e. e \<in> set m \<Longrightarrow> fst e < k) \<Longrightarrow> om_assign k v m = m @ [(k, v)]"
  by (induction m) auto

text \<open>Storing the entries of a map one after the other rebuilds the map.\<close>

lemma fold_assign_entries: "om_wf m \<Longrightarrow> fold (\<lambda>e. om_assign (fst e) (f (snd e))) m [] = om_map f m"
proof (induction m rule: rev_induct)
  case (snoc e m)
  then have "om_wf m" and less: "\<And>a. a \<in> set m \<Longrightarrow> fst a < fst e"
    by (auto simp: om_wf_def sorted_wrt_append)
  have "om_assign (fst e) (f (snd e)) (om_map f m) = om_map f m @ [(fst e, f (snd e))]"
    using less by (intro om_assign_last) (auto simp: om_map_def)
  with snoc.IH [OF \<open>om_wf m\<close>] show ?case by (simp add: om_map_def)
qed (simp add: om_map_def)

lemma fold_assign_values:
  assumes "om_wf m" and "\<And>e. e \<in> set m \<Longrightarrow> key (f (snd e)) = fst e"
  shows "fold (\<lambda>v. om_assign (key (f v)) (f v)) (map snd m) [] = om_map f m"
proof -
  have "fold (\<lambda>v. om_assign (key (f v)) (f v)) (map snd m) [] = fold (\<lambda>e. om_assign (fst e) (f (snd e))) m []"
    unfolding fold_map comp_def by (rule fold_cong) (simp_all add: assms(2))
  with fold_assign_entries [OF assms(1), of f] show ?thesis by simp
qed

definition device_stored :: "CxlDevice \<Rightarrow> bool" where
  "device_stored d \<longleftrightarrow> (\<forall>s \<in> {id_value (dev_id d), id_value (dev_boot_id d), dev_raw_identity d, dev_vendor_device_id d,
       dev_cxl_device_class d, dev_device_type d, id_value (dev_host d), dev_firmware_metadata d, dev_lifecycle_note d}.
       wire_string s) \<and>
     VolatilityKind_valid (dev_volatility d) \<and> SharingMode_valid (dev_sharing d) \<and>
     AcceleratorAccessState_valid (dev_accelerator_access d) \<and> Provenance_valid (dev_provenance d) \<and>
     length (dev_capabilities d) \<le> 256 \<and> om_wf (dev_capabilities d) \<and>
     (\<forall>e \<in> set (dev_capabilities d). fst e = cap_key (cap_klass (snd e)) \<and> capability_stored (snd e)) \<and>
     economics_stored (dev_economics d)"

text \<open>
  What a stored device comes back as: the ports, the switch ancestry, the health, the state and the
  evidence flag are not stored and come back as their defaults.
\<close>

definition durable_device :: "CxlDevice \<Rightarrow> CxlDevice" where
  "durable_device d = d\<lparr>dev_ports := [], dev_switch_ancestry := [], dev_health := HealthState.UNKNOWN,
     dev_state := DeviceState.DISCOVERED, dev_evidence_current := False,
     dev_economics := durable_economics (dev_economics d)\<rparr>"

lemma w_capability_append: "w_capability out c = out @ w_capability [] c"
  by (simp add: w_capability_def Let_def w_append)

lemma w_economics_append: "w_economics out e = out @ w_economics [] e"
  by (simp add: w_economics_def Let_def w_append)

lemma loads_capabilities:
  assumes "device_stored d"
  shows "loads (load_loop (length (dev_capabilities d)) load_capability caps_set [])
     (concat (map (w_capability []) (map snd (dev_capabilities d)))) (dev_capabilities d)"
proof -
  have "fold caps_set (map snd (dev_capabilities d)) [] = om_map (\<lambda>c. c) (dev_capabilities d)"
    using fold_assign_values [of "dev_capabilities d" "\<lambda>c. cap_key (cap_klass c)" "\<lambda>c. c"] assms
    by (simp add: device_stored_def caps_set_def [abs_def])
  moreover have "loads (load_loop (length (dev_capabilities d)) load_capability caps_set [])
     (concat (map (w_capability []) (map snd (dev_capabilities d)))) (fold caps_set (map snd (dev_capabilities d)) [])"
    using assms by (intro capability.loads_loop) (auto simp: device_stored_def)
  ultimately show ?thesis by (simp add: om_map_def)
qed

interpretation device: stored_item "w_device []" load_device device_stored durable_device
proof
  fix d
  assume d: "device_stored d"
  have w: "w_device [] d = str_bytes (id_value (dev_id d)) @ store_u64 (gen_value (dev_generation d)) @
      str_bytes (id_value (dev_boot_id d)) @ str_bytes (dev_raw_identity d) @ str_bytes (dev_vendor_device_id d) @
      str_bytes (dev_cxl_device_class d) @ str_bytes (dev_device_type d) @ str_bytes (id_value (dev_host d)) @
      store_u32 (of_nat (length ([] :: string list))) @ concat (map str_bytes []) @
      store_u32 (of_nat (length ([] :: string list))) @ concat (map str_bytes []) @
      store_u64 (dev_total_physical_bytes d) @ store_u64 (dev_online_bytes d) @
      store_u32 (VolatilityKind_to_u32 (dev_volatility d)) @ store_u32 (SharingMode_to_u32 (dev_sharing d)) @
      store_u32 (if dev_multi_host_capable d then 1 else 0) @ store_u32 (if dev_interleave_capable d then 1 else 0) @
      store_u32 (AcceleratorAccessState_to_u32 (dev_accelerator_access d)) @ store_u32 (Provenance_to_u32 (dev_provenance d)) @
      store_u64 (gen_value (dev_evidence_generation d)) @ str_bytes (dev_firmware_metadata d) @
      str_bytes (dev_lifecycle_note d) @ store_u32 (of_nat (length (dev_capabilities d))) @
      concat (map (w_capability []) (map snd (dev_capabilities d))) @ w_economics [] (dev_economics d)"
    unfolding w_device_def Let_def w_append w_vec_append
      fold_append [where f = "\<lambda>ckv out. w_capability out (snd ckv)" and g = "\<lambda>ckv. w_capability [] (snd ckv)",
        OF w_capability_append]
    by (subst w_economics_append) (simp add: comp_def)
  show "loads load_device (w_device [] d) (durable_device d)"
    unfolding load_device_def w
    by (intro loads_field loads_loading [OF loads_capabilities [OF d]] loads_loading_last [OF economics.loads_put])
      (use d in \<open>cases d, auto simp: device_stored_def durable_device_def CxlDevice_default_def stored_strings_def loads_return
        VolatilityKind_cast.of_to SharingMode_cast.of_to AcceleratorAccessState_cast.of_to Provenance_cast.of_to\<close>)
qed
definition region_stored :: "CxlRegion \<Rightarrow> bool" where
  "region_stored r \<longleftrightarrow> wire_string (id_value (reg_id r)) \<and> wire_string (id_value (reg_pool r)) \<and>
     wire_string (reg_interleave_set r) \<and> length (reg_member_devices r) \<le> 100000 \<and>
     (\<forall>m \<in> set (reg_member_devices r). wire_string (id_value m)) \<and> Provenance_valid (reg_provenance r)"

definition durable_region :: "CxlRegion \<Rightarrow> CxlRegion" where
  "durable_region r = CxlRegion_default\<lparr>reg_id := reg_id r, reg_generation := reg_generation r, reg_pool := reg_pool r,
     reg_member_devices := reg_member_devices r, reg_interleave_set := reg_interleave_set r,
     reg_region_capacity_bytes := reg_region_capacity_bytes r, reg_interleaved := reg_interleaved r,
     reg_provenance := reg_provenance r, reg_evidence_generation := reg_evidence_generation r,
     reg_device_local := reg_device_local r\<rparr>"

interpretation member_name: stored_item "\<lambda>m. str_bytes (id_value m)" "need Reader_str ''region member'' ld_return"
    "\<lambda>m. wire_string (id_value m)" id_value
  by unfold_locales (simp add: loads_need_last [OF parses_stored_str] loads_return)

lemma fold_snoc: "fold (\<lambda>v acc. acc @ [f v]) vs acc = acc @ map f vs"
  by (induction vs arbitrary: acc) simp_all

interpretation region: stored_item "w_region []" load_region region_stored durable_region
proof
  fix r
  assume r: "region_stored r"
  have w: "w_region [] r = str_bytes (id_value (reg_id r)) @ store_u64 (gen_value (reg_generation r)) @
      str_bytes (id_value (reg_pool r)) @ store_u32 (of_nat (length (reg_member_devices r))) @
      concat (map (\<lambda>m. str_bytes (id_value m)) (reg_member_devices r)) @ str_bytes (reg_interleave_set r) @
      store_u64 (reg_region_capacity_bytes r) @ store_u32 (if reg_interleaved r then 1 else 0) @
      store_u32 (Provenance_to_u32 (reg_provenance r)) @ store_u64 (gen_value (reg_evidence_generation r)) @
      store_u32 (if reg_device_local r then 1 else 0)"
    by (simp add: w_region_def Let_def w_append fold_append [where g = "\<lambda>m. str_bytes (id_value m)"])
  have loop: "loads (load_loop (length (reg_member_devices r)) (need Reader_str ''region member'' ld_return)
      (\<lambda>ms acc. acc @ [Ident ms]) []) (concat (map (\<lambda>m. str_bytes (id_value m)) (reg_member_devices r))) (reg_member_devices r)"
    using member_name.loads_loop [of "reg_member_devices r" _ "\<lambda>ms acc. acc @ [Ident ms :: DeviceId]" "[]"] r
    by (simp add: region_stored_def fold_snoc [where f = "\<lambda>m. m"])
  show "loads load_region (w_region [] r) (durable_region r)"
    unfolding load_region_def w
    by (intro loads_field loads_loading [OF loop] loads_end)
      (use r in \<open>simp_all add: region_stored_def durable_region_def loads_return Provenance_cast.of_to\<close>)
qed

lemma w_member_append: "w_member out m = out @ w_member [] m"
  by (simp add: w_member_def Let_def w_append)

interpretation member: stored_item "w_member []" load_member member_wired "\<lambda>m. m"
proof
  fix m
  assume "member_wired m"
  then show "loads load_member (w_member [] m) m"
    unfolding load_member_def w_member_def Let_def w_append append_Nil append_assoc
    by (intro loads_field loads_end)
      (cases m, auto simp: member_wired_def loads_return LocalityClass_cast.of_to)
qed

definition pool_stored :: "CxlPool \<Rightarrow> bool" where
  "pool_stored p \<longleftrightarrow> wire_string (id_value (pool_id p)) \<and> wire_string (pool_admission_policy p) \<and>
     wire_string (pool_lifecycle_note p) \<and> stored_strings (pool_failure_domains p) \<and>
     length (pool_members p) \<le> 100000 \<and> (\<forall>m \<in> set (pool_members p). member_wired m) \<and>
     LocalityClass_valid (pool_locality_distribution p) \<and> HealthState_valid (pool_health_summary p) \<and>
     Provenance_valid (pool_provenance p)"

definition durable_pool :: "CxlPool \<Rightarrow> CxlPool" where
  "durable_pool p = p\<lparr>pool_state := PoolState.DEFINED\<rparr>"

interpretation pool: stored_item "w_pool []" load_pool pool_stored durable_pool
proof
  fix p
  assume p: "pool_stored p"
  have w: "w_pool [] p = str_bytes (id_value (pool_id p)) @ store_u64 (gen_value (pool_generation p)) @
      store_u32 (of_nat (length (pool_members p))) @ concat (map (w_member []) (pool_members p)) @
      store_u64 (pool_total_governed_bytes p) @ store_u64 (pool_committed_bytes p) @ store_u64 (pool_reserved_bytes p) @
      store_u64 (pool_draining_bytes p) @ store_u64 (pool_unavailable_bytes p) @ str_bytes (pool_admission_policy p) @
      store_u32 (of_nat (length (pool_failure_domains p))) @ concat (map str_bytes (pool_failure_domains p)) @
      store_u32 (LocalityClass_to_u32 (pool_locality_distribution p)) @ store_u32 (HealthState_to_u32 (pool_health_summary p)) @
      store_u32 (Provenance_to_u32 (pool_provenance p)) @ store_u64 (gen_value (pool_evidence_generation p)) @
      store_u32 (if pool_evidence_current p then 1 else 0) @ str_bytes (pool_lifecycle_note p)"
    by (simp add: w_pool_def Let_def w_append w_vec_append
        fold_append [where g = "w_member []", OF w_member_append])
  have loop: "loads (load_loop (length (pool_members p)) load_member (\<lambda>m acc. acc @ [m]) [])
      (concat (map (w_member []) (pool_members p))) (pool_members p)"
    using member.loads_loop [of "pool_members p" _ "\<lambda>m acc. acc @ [m]" "[]"] p
    by (simp add: pool_stored_def fold_snoc [where f = "\<lambda>m. m"])
  show "loads load_pool (w_pool [] p) (durable_pool p)"
    unfolding load_pool_def w
    by (intro loads_field loads_loading [OF loop] loads_end)
      (use p in \<open>cases p, auto simp: pool_stored_def durable_pool_def CxlPool_default_def loads_return Provenance_cast.of_to
        LocalityClass_cast.of_to HealthState_cast.of_to\<close>)
qed
section \<open>The whole state\<close>

definition state_stored :: "PersistedState \<Rightarrow> bool" where
  "state_stored st \<longleftrightarrow> length (ps_devices st) \<le> 100000 \<and> length (ps_regions st) \<le> 100000 \<and> length (ps_pools st) \<le> 100000 \<and>
     om_wf (ps_devices st) \<and> om_wf (ps_regions st) \<and> om_wf (ps_pools st) \<and>
     (\<forall>e \<in> set (ps_devices st). dev_id (snd e) = fst e \<and> device_stored (snd e)) \<and>
     (\<forall>e \<in> set (ps_regions st). reg_id (snd e) = fst e \<and> region_stored (snd e)) \<and>
     (\<forall>e \<in> set (ps_pools st). pool_id (snd e) = fst e \<and> pool_stored (snd e))"

definition durable :: "PersistedState \<Rightarrow> PersistedState" where
  "durable st = \<lparr>ps_policy_generation = ps_policy_generation st, ps_devices = om_map durable_device (ps_devices st),
     ps_regions = om_map durable_region (ps_regions st), ps_pools = om_map durable_pool (ps_pools st)\<rparr>"

lemma w_item_append: "w_device out d = out @ w_device [] d" "w_region out r = out @ w_region [] r" "w_pool out p = out @ w_pool [] p"
proof -
  have caps: "fold (\<lambda>ckv out. w_capability out (snd ckv)) cs out = out @ concat (map (\<lambda>ckv. w_capability [] (snd ckv)) cs)"
    for cs :: Capabilities and out
    by (rule fold_append) (rule w_capability_append)
  show "w_device out d = out @ w_device [] d"
    unfolding w_device_def Let_def w_append w_vec_append caps
    by (subst (1 2) w_economics_append) simp
  have names: "fold (\<lambda>m out. w_str out (id_value m)) ms out = out @ concat (map (\<lambda>m. str_bytes (id_value m)) ms)"
    for ms :: "DeviceId list" and out
    by (rule fold_append) (rule w_append)
  show "w_region out r = out @ w_region [] r"
    by (simp only: w_region_def Let_def names) (simp add: w_append)
  have mems: "fold (\<lambda>m out. w_member out m) ms out = out @ concat (map (w_member []) ms)" for ms out
    by (rule fold_append) (rule w_member_append)
  show "w_pool out p = out @ w_pool [] p"
    by (simp only: w_pool_def Let_def mems) (simp add: w_append w_vec_append)
qed

lemma w_body_eq:
  "w_body st = store_u64 (gen_value (ps_policy_generation st)) @ store_u32 (of_nat (length (ps_devices st))) @
     concat (map (w_device []) (map snd (ps_devices st))) @ store_u32 (of_nat (length (ps_regions st))) @
     concat (map (w_region []) (map snd (ps_regions st))) @ store_u32 (of_nat (length (ps_pools st))) @
     concat (map (w_pool []) (map snd (ps_pools st)))"
proof -
  have "fold (\<lambda>kv out. w_device out (snd kv)) ds out = out @ concat (map (\<lambda>kv. w_device [] (snd kv)) ds)"
    "fold (\<lambda>kv out. w_region out (snd kv)) rs out = out @ concat (map (\<lambda>kv. w_region [] (snd kv)) rs)"
    "fold (\<lambda>kv out. w_pool out (snd kv)) ps out = out @ concat (map (\<lambda>kv. w_pool [] (snd kv)) ps)"
    for ds :: "(DeviceId, CxlDevice) omap" and rs :: "(RegionId, CxlRegion) omap" and ps :: "(PoolId, CxlPool) omap" and out
    by (rule fold_append, rule w_item_append)+
  then show ?thesis by (simp add: w_body_def Let_def w_append comp_def)
qed

lemma loads_body:
  assumes "state_stored st"
  shows "loads load_body (w_body st) (durable st)"
proof -
  have devs: "loads (load_loop (length (ps_devices st)) load_device (\<lambda>d. om_assign (dev_id d) d) [])
      (concat (map (w_device []) (map snd (ps_devices st)))) (om_map durable_device (ps_devices st))"
  proof -
    have "fold (\<lambda>v. om_assign (dev_id (durable_device v)) (durable_device v)) (map snd (ps_devices st)) [] =
        om_map durable_device (ps_devices st)"
      using assms by (intro fold_assign_values) (auto simp: state_stored_def durable_device_def)
    then show ?thesis
      using device.loads_loop [of "map snd (ps_devices st)" "length (ps_devices st)" "\<lambda>d. om_assign (dev_id d) d" "[]"] assms
      by (auto simp: state_stored_def)
  qed
  have regs: "loads (load_loop (length (ps_regions st)) load_region (\<lambda>r. om_assign (reg_id r) r) [])
      (concat (map (w_region []) (map snd (ps_regions st)))) (om_map durable_region (ps_regions st))"
  proof -
    have "fold (\<lambda>v. om_assign (reg_id (durable_region v)) (durable_region v)) (map snd (ps_regions st)) [] =
        om_map durable_region (ps_regions st)"
      using assms by (intro fold_assign_values) (auto simp: state_stored_def durable_region_def)
    then show ?thesis
      using region.loads_loop [of "map snd (ps_regions st)" "length (ps_regions st)" "\<lambda>r. om_assign (reg_id r) r" "[]"] assms
      by (auto simp: state_stored_def)
  qed
  have pools: "loads (load_loop (length (ps_pools st)) load_pool (\<lambda>p. om_assign (pool_id p) p) [])
      (concat (map (w_pool []) (map snd (ps_pools st)))) (om_map durable_pool (ps_pools st))"
  proof -
    have "fold (\<lambda>v. om_assign (pool_id (durable_pool v)) (durable_pool v)) (map snd (ps_pools st)) [] =
        om_map durable_pool (ps_pools st)"
      using assms by (intro fold_assign_values) (auto simp: state_stored_def durable_pool_def)
    then show ?thesis
      using pool.loads_loop [of "map snd (ps_pools st)" "length (ps_pools st)" "\<lambda>p. om_assign (pool_id p) p" "[]"] assms
      by (auto simp: state_stored_def)
  qed
  show ?thesis
    unfolding load_body_def w_body_eq
    by (intro loads_field loads_loading [OF devs] loads_loading [OF regs] loads_loading_last [OF pools])
      (use assms in \<open>simp_all add: state_stored_def loads_return durable_def\<close>)
qed

lemma load_whole: "loads l b v \<Longrightarrow> l b 0 = Loaded v (length b)"
  unfolding loads_def by (drule spec [of _ "[]"], drule spec [of _ "[]"]) simp

lemma deserialize_serialized:
  assumes "state_stored st"
  shows "\<exists>payload. serialize_state st = Inr payload \<and> deserialize_state payload = Loaded (durable st) (length payload - 4)"
proof -
  have "load_u32 (store_u32 c) = c" for c using load_store_u32 [of c "[]"] by simp
  then show ?thesis
    using load_whole [OF loads_body [OF assms]] assms
    by (simp add: serialize_state_def state_stored_def Let_def w_append deserialize_state_def)
qed
section \<open>The envelope\<close>

definition kPersistMagic :: u32 where "kPersistMagic = 0x43584C50"
definition kPersistVersion :: u32 where "kPersistVersion = 1"
definition kPersistEnvelopeSize :: nat where "kPersistEnvelopeSize = 20"
definition kMaxPersistPayload :: nat where "kMaxPersistPayload = 2 ^ 24"

definition b8 :: "u32 \<Rightarrow> u8" where
  "b8 v = ucast (v AND 0xFF)"

definition hdr_u32 :: "u32 \<Rightarrow> bytes" where
  "hdr_u32 v = [b8 (drop_bit 24 v), b8 (drop_bit 16 v), b8 (drop_bit 8 v), b8 v]"

definition envelope :: "bytes \<Rightarrow> bytes" where
  "envelope payload =
     (let hdr = hdr_u32 kPersistMagic @ hdr_u32 kPersistVersion @ hdr_u32 (of_nat (length payload)) @ [0, 0, 0, 0] in
      hdr @ hdr_u32 (crc32 (hdr @ payload)) @ payload)"

definition read_envelope :: "bytes \<Rightarrow> string + bytes" where
  "read_envelope file =
     (if length file < kPersistEnvelopeSize then Inl ''truncated header''
      else let hdr = take kPersistEnvelopeSize file; rest = drop kPersistEnvelopeSize file;
               magic = load_u32 hdr; ver = load_u32 (drop 4 hdr); len32 = load_u32 (drop 8 hdr) in
        if magic \<noteq> kPersistMagic then Inl ''bad magic''
        else if ver \<noteq> kPersistVersion then Inl ''bad version''
        else if unat len32 > kMaxPersistPayload then Inl ''oversized payload''
        else if unat len32 > 0 \<and> length rest < unat len32 then Inl ''truncated payload''
        else if length rest > unat len32 then Inl ''trailing garbage''
        else let payload = take (unat len32) rest; crc = load_u32 (drop 16 hdr) in
          if crc32 (take 16 hdr @ payload) \<noteq> crc then Inl ''checksum mismatch''
          else Inr payload)"

section \<open>The file\<close>

text \<open>
  The file system is a map from paths to contents, and a program changes it by operations: a file is created empty or truncated,
  bytes are appended, a file is renamed. \<open>op_states\<close> lists the states the file system goes through while an operation is
  under way, the last one being its result: appended bytes may reach the file in pieces of any size, a rename happens
  at once, which is what POSIX documents.
\<close>

type_synonym files = "string \<Rightarrow> bytes option"

datatype file_op = Create_file string | Append_file string bytes | Rename_file string string

fun op_states :: "file_op \<Rightarrow> files \<Rightarrow> files list" where
  "op_states (Create_file p) fs = [fs(p \<mapsto> [])]"
| "op_states (Append_file p xs) fs =
     map (\<lambda>n. fs(p \<mapsto> (case fs p of None \<Rightarrow> [] | Some ys \<Rightarrow> ys) @ take n xs)) [0..<Suc (length xs)]"
| "op_states (Rename_file p q) fs = [(fs(q := fs p))(p := None)]"

text \<open>All states a sequence of operations goes through, from the first to the last.\<close>

fun ops_states :: "file_op list \<Rightarrow> files \<Rightarrow> files list" where
  "ops_states [] fs = [fs]"
| "ops_states (x # xs) fs = fs # op_states x fs @ ops_states xs (last (op_states x fs))"

text \<open>
  What the operating system may do to a write is an argument: whether the temporary file opens, how many bytes reach it before a
  failing flush (if one fails), and whether the rename succeeds; a failing rename throws. \<open>write_program\<close> is the result
  of \<^verbatim>\<open>write_persisted\<close> and the operations it has carried out when it returns.
\<close>

record file_faults =
  open_fails :: bool
  flush_fails_at :: "nat option"
  rename_fails :: bool

datatype write_result = Written | Write_failed string | Rename_throws

definition tmp_path :: "string \<Rightarrow> string" where
  "tmp_path path = path @ ''.tmp''"

definition write_program :: "file_faults \<Rightarrow> string \<Rightarrow> bytes \<Rightarrow> write_result \<times> file_op list" where
  "write_program flt path payload =
     (if length payload > kMaxPersistPayload then (Write_failed ''payload too large'', [])
      else if open_fails flt then (Write_failed ''cannot open temp'', [])
      else case flush_fails_at flt of
          Some n \<Rightarrow> (Write_failed ''flush failed'', [Create_file (tmp_path path), Append_file (tmp_path path) (take n (envelope payload))])
        | None \<Rightarrow>
            let written = [Create_file (tmp_path path), Append_file (tmp_path path) (envelope payload)] in
            if rename_fails flt then (Rename_throws, written)
            else (Written, written @ [Rename_file (tmp_path path) path]))"

definition write_persisted :: "file_faults \<Rightarrow> string \<Rightarrow> bytes \<Rightarrow> files \<Rightarrow> write_result \<times> files" where
  "write_persisted flt path payload fs = map_prod id (\<lambda>ops. last (ops_states ops fs)) (write_program flt path payload)"

text \<open>The states in which a process that is killed during the write can leave the file system.\<close>

definition crash_states :: "file_faults \<Rightarrow> string \<Rightarrow> bytes \<Rightarrow> files \<Rightarrow> files list" where
  "crash_states flt path payload fs = ops_states (snd (write_program flt path payload)) fs"

definition read_persisted :: "string \<Rightarrow> files \<Rightarrow> string + bytes" where
  "read_persisted path fs = (case fs path of None \<Rightarrow> Inl ''cannot open'' | Some file \<Rightarrow> read_envelope file)"

lemma b8_ucast: "b8 v = ucast v"
proof -
  have "v AND 0xFF = take_bit 8 v" by (simp add: take_bit_eq_mask mask_eq_exp_minus_1)
  then show ?thesis unfolding b8_def by (intro bit_word_eqI) (auto simp: bit_simps)
qed

lemma hdr_u32_store: "hdr_u32 v = store_u32 v"
  by (simp add: hdr_u32_def store_u32_def b8_ucast)

lemmas persist_consts = kPersistMagic_def kPersistVersion_def kPersistEnvelopeSize_def kMaxPersistPayload_def

lemma read_envelope_written:
  assumes "length payload \<le> kMaxPersistPayload"
  shows "read_envelope (envelope payload) = Inr payload"
proof -
  have n: "unat (of_nat (length payload) :: u32) = length payload"
    using assms by (simp add: kMaxPersistPayload_def unat_of_nat take_bit_nat_eq_self)
  have "load_u32 (take 4 (store_u32 c)) = c" "load_u32 (store_u32 c) = c" for c
    using load_store_u32 [of c "[]"] by simp_all
  then show ?thesis
    using assms by (simp add: read_envelope_def envelope_def Let_def hdr_u32_store kPersistEnvelopeSize_def load_store_u32 n)
qed

lemma read_envelope_checksummed:
  assumes "read_envelope file = Inr payload"
  shows "checksummed 16 file \<and> payload = drop 20 file"
proof -
  from assms have "20 \<le> length file" "crc32 (take 16 (take 20 file) @ payload) = load_u32 (drop 16 (take 20 file))"
    "payload = drop 20 file"
    by (auto simp: read_envelope_def Let_def kPersistEnvelopeSize_def split: if_splits)
  moreover have "load_u32 (drop 16 (take 20 file)) = load_u32 (drop 16 file)"
    using load_u32_take4 [of "drop 16 file"] by (simp add: drop_take)
  ultimately show ?thesis by (simp add: checksummed_def min_def)
qed

lemma corrupted_envelope:
  assumes "length payload \<le> kMaxPersistPayload" and "i < length (envelope payload)" and "b \<noteq> envelope payload ! i"
  shows "\<exists>msg. read_envelope ((envelope payload)[i := b]) = Inl msg"
  using checksummed_update [OF _ assms(2,3), of 16] read_envelope_written [OF assms(1)] read_envelope_checksummed
  by (metis sum.exhaust)

lemma op_states_last [simp]:
  "last (op_states (Append_file p xs) fs) = fs(p \<mapsto> (case fs p of None \<Rightarrow> [] | Some ys \<Rightarrow> ys) @ xs)"
  by simp

lemma ops_states_not_Nil [simp]: "ops_states ops fs \<noteq> []"
  by (cases ops) simp_all

text \<open>What a write comes to, and what the path holds on the way.\<close>

lemma write_persisted_eq:
  "write_persisted flt path payload fs =
     (if length payload > kMaxPersistPayload then (Write_failed ''payload too large'', fs)
      else if open_fails flt then (Write_failed ''cannot open temp'', fs)
      else case flush_fails_at flt of
          Some n \<Rightarrow> (Write_failed ''flush failed'', fs(tmp_path path \<mapsto> take n (envelope payload)))
        | None \<Rightarrow>
            let fs1 = fs(tmp_path path \<mapsto> envelope payload) in
            if rename_fails flt then (Rename_throws, fs1)
            else (Written, (fs1(path \<mapsto> envelope payload))(tmp_path path := None)))"
  by (simp add: write_persisted_def write_program_def Let_def del: op_states.simps(2) split: option.split)

lemma write_read:
  "write_persisted flt path payload fs = (Written, fs') \<Longrightarrow> read_persisted path fs' = Inr payload"
  by (auto simp: write_persisted_eq read_persisted_def read_envelope_written tmp_path_def Let_def split: if_splits option.splits)

lemma crash_states_path:
  assumes "fs' \<in> set (crash_states flt path payload fs)"
  shows "fs' path = fs path \<or> length payload \<le> kMaxPersistPayload \<and> fs' path = Some (envelope payload)"
    and "q \<noteq> path \<Longrightarrow> q \<noteq> tmp_path path \<Longrightarrow> fs' q = fs q"
  using assms
  by (auto simp: crash_states_def write_program_def Let_def tmp_path_def split: option.splits if_splits)

lemma deserialize_checksummed:
  "deserialize_state payload = Loaded st q \<Longrightarrow> checksummed (length payload - 4) payload"
  by (auto simp: deserialize_state_def checksummed_def Let_def split: if_splits ld.splits)

section \<open>Properties\<close>

text \<open>
  The format does not store the ports, the switch ancestry and the access penalty of a device, nor the decoders, windows, access mode,
  consumer scope, locality and tier of a region. \<open>nothing_dropped\<close> says that these fields have their default values. \<open>dormant\<close>
  resets what describes the moment: state, health and evidence of devices and regions, the byte counters of regions and
  the state of pools.
\<close>

definition nothing_dropped :: "PersistedState \<Rightarrow> bool" where
  "nothing_dropped st \<longleftrightarrow>
     (\<forall>d \<in> snd ` set (ps_devices st). dev_ports d = [] \<and> dev_switch_ancestry d = [] \<and> econ_access_penalty_vs_local (dev_economics d) = 1) \<and>
     (\<forall>r \<in> snd ` set (ps_regions st). reg_decoders r = [] \<and> reg_windows r = [] \<and> reg_access_mode r = [] \<and> reg_consumer_scope r = Ident_default \<and>
        reg_locality r = LocalityClass.UNKNOWN \<and> reg_tier r = TierClass.CXL_UNKNOWN)"

definition dormant_device :: "CxlDevice \<Rightarrow> CxlDevice" where
  "dormant_device d = d\<lparr>dev_health := HealthState.UNKNOWN, dev_state := DeviceState.DISCOVERED, dev_evidence_current := False\<rparr>"

definition dormant_region :: "CxlRegion \<Rightarrow> CxlRegion" where
  "dormant_region r = r\<lparr>reg_state := RegionState.DEFINED, reg_health := HealthState.UNKNOWN, reg_reserved_bytes := 0,
     reg_committed_bytes := 0, reg_evidence_current := False\<rparr>"

definition dormant :: "PersistedState \<Rightarrow> PersistedState" where
  "dormant st = \<lparr>ps_policy_generation = ps_policy_generation st, ps_devices = om_map dormant_device (ps_devices st),
     ps_regions = om_map dormant_region (ps_regions st),
     ps_pools = om_map (\<lambda>p. p\<lparr>pool_state := PoolState.DEFINED\<rparr>) (ps_pools st)\<rparr>"

lemma durable_idem: "durable (durable st) = durable st"
  by (simp add: durable_def om_map_def durable_device_def durable_economics_def durable_region_def durable_pool_def comp_def
      CxlRegion_default_def)

lemma durable_dormant:
  assumes "nothing_dropped st"
  shows "durable st = dormant st"
proof -
  have d: "durable_device d = dormant_device d" if "d \<in> snd ` set (ps_devices st)" for d
  proof -
    from that assms have "dev_ports d = []" "dev_switch_ancestry d = []" "econ_access_penalty_vs_local (dev_economics d) = 1"
      unfolding nothing_dropped_def by blast+
    then show ?thesis
      by (cases d, cases "dev_economics d") (simp add: durable_device_def durable_economics_def dormant_device_def)
  qed
  have r: "durable_region r = dormant_region r" if "r \<in> snd ` set (ps_regions st)" for r
  proof -
    from that assms have "reg_decoders r = [] \<and> reg_windows r = [] \<and> reg_access_mode r = [] \<and> reg_consumer_scope r = Ident_default \<and>
        reg_locality r = LocalityClass.UNKNOWN \<and> reg_tier r = TierClass.CXL_UNKNOWN"
      unfolding nothing_dropped_def by blast
    then show ?thesis by (cases r) (simp add: durable_region_def dormant_region_def CxlRegion_default_def)
  qed
  show ?thesis
    using d r by (simp add: durable_def dormant_def om_map_def durable_pool_def [abs_def])
qed

text \<open>
  C33. A save and a load keep what the format stores: serialising succeeds within the bounds of the format, and loading the
  result returns, under the same identities, records that agree with the saved ones in every stored field. When the fields the
  format does not store have their default values, the loaded state is the saved one with the state, health and
  evidence of devices and regions, the byte counters of regions and the state of pools reset, and nothing else changed.
\<close>

theorem state_roundtrip:
  assumes "state_stored st"
  shows "\<exists>payload st'. serialize_state st = Inr payload \<and> deserialize_state payload = Loaded st' (length payload - 4) \<and>
     durable st' = durable st \<and> (nothing_dropped st \<longrightarrow> st' = dormant st)"
  using deserialize_serialized [OF assms] durable_idem durable_dormant by blast

theorem state_roundtrip_witness:
  "\<exists>payload q. serialize_state
       \<lparr>ps_policy_generation = Generation 3,
        ps_devices = [(Ident ''d'', CxlDevice_default\<lparr>dev_id := Ident ''d'', dev_generation := Generation 2, dev_state := DeviceState.ONLINE\<rparr>)],
        ps_regions = [(Ident ''r'', CxlRegion_default\<lparr>reg_id := Ident ''r'', reg_region_capacity_bytes := 64, reg_reserved_bytes := 8,
          reg_member_devices := [Ident ''d'']\<rparr>)],
        ps_pools = [(Ident ''p'', CxlPool_default\<lparr>pool_id := Ident ''p'', pool_state := PoolState.AVAILABLE\<rparr>)]\<rparr> = Inr payload \<and>
     deserialize_state payload = Loaded
       \<lparr>ps_policy_generation = Generation 3,
        ps_devices = [(Ident ''d'', CxlDevice_default\<lparr>dev_id := Ident ''d'', dev_generation := Generation 2, dev_state := DeviceState.DISCOVERED\<rparr>)],
        ps_regions = [(Ident ''r'', CxlRegion_default\<lparr>reg_id := Ident ''r'', reg_region_capacity_bytes := 64, reg_reserved_bytes := 0,
          reg_member_devices := [Ident ''d'']\<rparr>)],
        ps_pools = [(Ident ''p'', CxlPool_default\<lparr>pool_id := Ident ''p'', pool_state := PoolState.DEFINED\<rparr>)]\<rparr> q"
proof -
  let ?st = "\<lparr>ps_policy_generation = Generation 3,
        ps_devices = [(Ident ''d'', CxlDevice_default\<lparr>dev_id := Ident ''d'', dev_generation := Generation 2, dev_state := DeviceState.ONLINE\<rparr>)],
        ps_regions = [(Ident ''r'', CxlRegion_default\<lparr>reg_id := Ident ''r'', reg_region_capacity_bytes := 64, reg_reserved_bytes := 8,
          reg_member_devices := [Ident ''d'']\<rparr>)],
        ps_pools = [(Ident ''p'', CxlPool_default\<lparr>pool_id := Ident ''p'', pool_state := PoolState.AVAILABLE\<rparr>)]\<rparr>"
  have "state_stored ?st"
    by (simp add: state_stored_def om_wf_def device_stored_def region_stored_def pool_stored_def stored_strings_def wire_string_def
        economics_stored_def record_defs Ident_default_def)
  moreover have "nothing_dropped ?st" by (simp add: nothing_dropped_def record_defs)
  ultimately show ?thesis using state_roundtrip [of ?st]
    by (auto simp: dormant_def dormant_device_def dormant_region_def om_map_def CxlDevice_default_def CxlRegion_default_def)
qed

text \<open>
  C35. A damaged file is never loaded: with any one byte of a written file changed, reading it back reports an
  error, and so does loading a payload with any one byte changed, whatever the state was.
\<close>

theorem damaged_file_rejected:
  assumes "length payload \<le> kMaxPersistPayload" and "i < length (envelope payload)" and "b \<noteq> envelope payload ! i"
    and "serialize_state st = Inr body" and "deserialize_state body = Loaded st' q" and "j < length body" and "c \<noteq> body ! j"
  shows "(\<exists>msg. read_envelope ((envelope payload)[i := b]) = Inl msg) \<and>
     (\<forall>st'' q'. deserialize_state (body[j := c]) \<noteq> Loaded st'' q')"
  using corrupted_envelope [OF assms(1-3)] checksummed_update [OF deserialize_checksummed [OF assms(5)] assms(6,7)]
    deserialize_checksummed [of "body[j := c]"] by auto

theorem damaged_file_rejected_witness:
  "\<exists>msg. read_envelope ((envelope [])[0 := 0]) = Inl msg"
proof -
  let ?st = "\<lparr>ps_policy_generation = Generation 3, ps_devices = [], ps_regions = [], ps_pools = []\<rparr>"
  have "state_stored ?st" by (simp add: state_stored_def om_wf_def)
  from deserialize_serialized [OF this] obtain body where
    body: "serialize_state ?st = Inr body" "deserialize_state body = Loaded (durable ?st) (length body - 4)" by blast
  from body(1) obtain rest where "body = store_u64 3 @ rest"
    by (auto simp: serialize_state_def w_body_eq w_append Let_def)
  then have "0 < length body" "body ! 0 = 0" by (simp_all add: store_u64_def drop_bit_eq_div)
  with damaged_file_rejected [OF _ _ _ body, of "[]" 0 0 0 1] show ?thesis
    by (simp add: envelope_def Let_def hdr_u32_store store_u32_def kPersistMagic_def kMaxPersistPayload_def drop_bit_eq_div)
qed

text \<open>
  C34. The file is replaced atomically with respect to the end of the process: in whatever state a process that is killed at some
  point of the write leaves the file system, with bytes reaching the temporary file in any pieces and renames happening at once,
  reading the path returns what it returned before or the complete new payload, and every file but the path and its temporary
  file is untouched. After a write that reports success the new payload is read back, and after any other the old one.
\<close>

theorem write_is_atomic:
  assumes "crashed \<in> set (crash_states flt path payload fs)" and "write_persisted flt path payload fs = (r, fs')"
  shows "(read_persisted path crashed = read_persisted path fs \<or> read_persisted path crashed = Inr payload) \<and>
     (\<forall>q. q \<noteq> path \<and> q \<noteq> tmp_path path \<longrightarrow> crashed q = fs q) \<and>
     read_persisted path fs' = (if r = Written then Inr payload else read_persisted path fs)"
proof -
  have "read_persisted path crashed = read_persisted path fs \<or> read_persisted path crashed = Inr payload"
    using crash_states_path(1) [OF assms(1)] read_envelope_written [of payload] by (auto simp: read_persisted_def)
  moreover have "r \<noteq> Written \<Longrightarrow> fs' path = fs path"
    using assms(2) by (auto simp: write_persisted_eq Let_def tmp_path_def split: if_splits option.splits)
  ultimately show ?thesis
    using crash_states_path(2) [OF assms(1)] write_read [of flt path payload fs fs'] assms(2)
    by (auto simp: read_persisted_def)
qed

theorem write_is_atomic_witness:
  "read_persisted ''s'' (snd (write_persisted \<lparr>open_fails = False, flush_fails_at = None, rename_fails = True\<rparr>
     ''s'' [7] ((\<lambda>p. None)(''s'' \<mapsto> envelope [9])))) = read_persisted ''s'' ((\<lambda>p. None)(''s'' \<mapsto> envelope [9]))"
proof -
  let ?flt = "\<lparr>open_fails = False, flush_fails_at = None, rename_fails = True\<rparr>" and ?fs = "(\<lambda>p. None)(''s'' \<mapsto> envelope [9])"
  obtain fs' where w: "write_persisted ?flt ''s'' [7] ?fs = (Rename_throws, fs')"
    by (simp add: write_persisted_eq kMaxPersistPayload_def)
  have "hd (crash_states ?flt ''s'' [7] ?fs) \<in> set (crash_states ?flt ''s'' [7] ?fs)"
    by (rule hd_in_set) (simp add: crash_states_def)
  from write_is_atomic [OF this w] w show ?thesis by simp
qed

text \<open>
  A body of fewer than eight bytes passes the checksum test and makes the loader read past its end.
\<close>

theorem short_body_overruns:
  assumes "length b < 8"
  shows "deserialize_state (b @ store_u32 (crc32 b)) = Overrun"
  using assms load_store_u32 [of "crc32 b" "[]"]
  by (simp add: deserialize_state_def Let_def load_body_def need_def get_u64_def read_field_short)

theorem short_body_overruns_witness: "deserialize_state ([] @ store_u32 (crc32 [])) = Overrun"
  by (rule short_body_overruns) simp

end
