(* ===== verification/Protocol.thy ===== *)
theory Protocol
  imports Crc
begin

text \<open>
  The wire frames of \<^verbatim>\<open>include/cxl_fabric/protocol/protocol.hpp\<close> and \<^verbatim>\<open>src/core/protocol.cpp\<close>: a 16-byte header
  (magic, version, type, length, checksum, big-endian) and the payload. \<open>frame_parts\<close> lists what the
  decoder reads; the lemmas show that it accepts exactly the encodings of frames and notices every
  corrupted byte.
\<close>

section \<open>Frames\<close>

definition kProtocolMagic :: u32 where "kProtocolMagic = 0x43584C46"
definition kProtocolVersion :: u16 where "kProtocolVersion = 1"
definition kFrameHeaderSize :: nat where "kFrameHeaderSize = 16"
definition kMaxPayloadBytes :: nat where "kMaxPayloadBytes = 65536"

lemmas frame_consts = kFrameHeaderSize_def kMaxPayloadBytes_def

datatype FrameType =
    HELLO | WORKER_BOOT | WORKER_DEAD | PUBLISH_DEVICE | PUBLISH_CAPABILITY | PUBLISH_REGION
  | PUBLISH_POOL | PUBLISH_HEALTH | PUBLISH_LOCALITY | RESERVE | RESERVE_RESULT | COMMIT
  | COMMIT_RESULT | RELEASE | RELEASE_RESULT | REVALIDATE | REVALIDATE_RESULT | EPOCH
  | ERROR_REPORT | SHUTDOWN | ACK | QUERY_STATE | QUERY_STATE_RESULT

primrec FrameType_to_u16 :: "FrameType \<Rightarrow> u16" where
  "FrameType_to_u16 FrameType.HELLO = 1"
| "FrameType_to_u16 FrameType.WORKER_BOOT = 2"
| "FrameType_to_u16 FrameType.WORKER_DEAD = 3"
| "FrameType_to_u16 FrameType.PUBLISH_DEVICE = 4"
| "FrameType_to_u16 FrameType.PUBLISH_CAPABILITY = 5"
| "FrameType_to_u16 FrameType.PUBLISH_REGION = 6"
| "FrameType_to_u16 FrameType.PUBLISH_POOL = 7"
| "FrameType_to_u16 FrameType.PUBLISH_HEALTH = 8"
| "FrameType_to_u16 FrameType.PUBLISH_LOCALITY = 9"
| "FrameType_to_u16 FrameType.RESERVE = 10"
| "FrameType_to_u16 FrameType.RESERVE_RESULT = 11"
| "FrameType_to_u16 FrameType.COMMIT = 12"
| "FrameType_to_u16 FrameType.COMMIT_RESULT = 13"
| "FrameType_to_u16 FrameType.RELEASE = 14"
| "FrameType_to_u16 FrameType.RELEASE_RESULT = 15"
| "FrameType_to_u16 FrameType.REVALIDATE = 16"
| "FrameType_to_u16 FrameType.REVALIDATE_RESULT = 17"
| "FrameType_to_u16 FrameType.EPOCH = 18"
| "FrameType_to_u16 FrameType.ERROR_REPORT = 19"
| "FrameType_to_u16 FrameType.SHUTDOWN = 20"
| "FrameType_to_u16 FrameType.ACK = 21"
| "FrameType_to_u16 FrameType.QUERY_STATE = 22"
| "FrameType_to_u16 FrameType.QUERY_STATE_RESULT = 23"

text \<open>\<^verbatim>\<open>FrameType(type)\<close> for a number that \<^verbatim>\<open>valid_type\<close> has accepted.\<close>

definition FrameType_all :: "FrameType list" where
  "FrameType_all =
     [FrameType.HELLO, FrameType.WORKER_BOOT, FrameType.WORKER_DEAD, FrameType.PUBLISH_DEVICE, FrameType.PUBLISH_CAPABILITY,
      FrameType.PUBLISH_REGION, FrameType.PUBLISH_POOL, FrameType.PUBLISH_HEALTH, FrameType.PUBLISH_LOCALITY, FrameType.RESERVE,
      FrameType.RESERVE_RESULT, FrameType.COMMIT, FrameType.COMMIT_RESULT, FrameType.RELEASE, FrameType.RELEASE_RESULT,
      FrameType.REVALIDATE, FrameType.REVALIDATE_RESULT, FrameType.EPOCH, FrameType.ERROR_REPORT, FrameType.SHUTDOWN,
      FrameType.ACK, FrameType.QUERY_STATE, FrameType.QUERY_STATE_RESULT]"

definition FrameType_of_u16 :: "u16 \<Rightarrow> FrameType" where
  "FrameType_of_u16 t = FrameType_all ! (unat t - 1)"

definition valid_type :: "u16 \<Rightarrow> bool" where
  "valid_type t \<longleftrightarrow> t \<ge> 1 \<and> t \<le> FrameType_to_u16 FrameType.QUERY_STATE_RESULT"

record Frame =
  frame_type :: FrameType
  frame_payload :: bytes

definition Frame_default :: Frame where
  [record_defs]: "Frame_default = \<lparr>frame_type = FrameType.HELLO, frame_payload = []\<rparr>"

datatype DecodeStatus =
    OK | BAD_MAGIC | BAD_VERSION | BAD_TYPE | BAD_LENGTH | OVERSIZED | TRUNCATED
  | BAD_CHECKSUM | TRAILING_GARBAGE | MALFORMED

record DecodeResult =
  dr_status :: DecodeStatus
  dr_frame :: Frame
  dr_consumed :: nat
  dr_error :: string

definition DecodeResult_default :: DecodeResult where
  [record_defs]: "DecodeResult_default = \<lparr>dr_status = DecodeStatus.MALFORMED, dr_frame = Frame_default,
     dr_consumed = 0, dr_error = []\<rparr>"

section \<open>Encoding and decoding\<close>

definition encode_frame :: "Frame \<Rightarrow> u16 \<Rightarrow> bytes" where
  [codec_defs]: "encode_frame f version =
     (let hdr = store_u32 kProtocolMagic @ store_u16 version @ store_u16 (FrameType_to_u16 (frame_type f)) in
      if length (frame_payload f) > kMaxPayloadBytes then hdr @ replicate 8 0
      else let first = hdr @ store_u32 (of_nat (length (frame_payload f))) in
        first @ store_u32 (crc32 (first @ frame_payload f)) @ frame_payload f)"

definition decode_failed :: "DecodeStatus \<Rightarrow> string \<Rightarrow> DecodeResult" where
  "decode_failed s err = DecodeResult_default\<lparr>dr_status := s, dr_error := err\<rparr>"

definition decode_frame :: "bytes \<Rightarrow> DecodeResult" where
  [codec_defs]: "decode_frame data =
     (if length data < kFrameHeaderSize then decode_failed DecodeStatus.TRUNCATED ''header truncated''
      else let magic = load_u32 data; version = load_u16 (drop 4 data); type = load_u16 (drop 6 data);
               len = load_u32 (drop 8 data); checksum = load_u32 (drop 12 data) in
        if magic \<noteq> kProtocolMagic then decode_failed DecodeStatus.BAD_MAGIC ''bad magic''
        else if version \<noteq> kProtocolVersion then decode_failed DecodeStatus.BAD_VERSION ''bad version''
        else if \<not> valid_type type then decode_failed DecodeStatus.BAD_TYPE ''bad type''
        else if unat len > kMaxPayloadBytes then decode_failed DecodeStatus.OVERSIZED ''oversized payload''
        else let total = kFrameHeaderSize + unat len in
          if total > length data then decode_failed DecodeStatus.TRUNCATED ''payload truncated''
          else let body = take 12 data @ take (unat len) (drop kFrameHeaderSize data) in
            if crc32 body \<noteq> checksum then decode_failed DecodeStatus.BAD_CHECKSUM ''checksum mismatch''
            else let r = DecodeResult_default\<lparr>dr_frame := \<lparr>frame_type = FrameType_of_u16 type,
                       frame_payload = take (unat len) (drop kFrameHeaderSize data)\<rparr>, dr_consumed := total\<rparr> in
              if total \<noteq> length data
              then r\<lparr>dr_status := DecodeStatus.TRAILING_GARBAGE, dr_error := ''trailing bytes''\<rparr>
              else r\<lparr>dr_status := DecodeStatus.OK\<rparr>)"

section \<open>Frame types\<close>

lemma FrameType_of_to [simp]: "FrameType_of_u16 (FrameType_to_u16 t) = t"
  by (cases t) (simp_all add: FrameType_of_u16_def FrameType_all_def)

lemma FrameType_valid [simp]: "valid_type (FrameType_to_u16 t)"
  by (cases t) (simp_all add: valid_type_def)

lemma FrameType_all_length [simp]: "length FrameType_all = 23"
  by (simp add: FrameType_all_def)

lemma FrameType_to_of: "valid_type w \<Longrightarrow> FrameType_to_u16 (FrameType_of_u16 w) = w"
proof -
  assume "valid_type w"
  then have w: "1 \<le> unat w" "unat w \<le> 23" by (simp_all add: valid_type_def word_le_nat_alt)
  have "map FrameType_to_u16 FrameType_all = map (\<lambda>i. of_nat (Suc i)) [0..<23]"
    by (simp add: FrameType_all_def upt_rec)
  then have "map FrameType_to_u16 FrameType_all ! (unat w - 1) = map (\<lambda>i. of_nat (Suc i)) [0..<23] ! (unat w - 1)"
    by (rule arg_cong)
  then have "FrameType_to_u16 (FrameType_all ! (unat w - 1)) = of_nat (Suc (unat w - 1))"
    using w by (simp del: of_nat_Suc)
  with w show ?thesis by (simp add: FrameType_of_u16_def)
qed

section \<open>The decoder accepts exactly the encodings\<close>

lemma load_u16_take: "load_u16 (take 2 q) = load_u16 q"
  by (simp add: load_u16_def)

lemmas load_take = load_u32_take4 load_u16_take

lemma decode_encoded:
  assumes "length (frame_payload f) \<le> kMaxPayloadBytes"
  shows "decode_frame (encode_frame f kProtocolVersion @ rest) =
     \<lparr>dr_status = (if rest = [] then DecodeStatus.OK else DecodeStatus.TRAILING_GARBAGE), dr_frame = f,
      dr_consumed = kFrameHeaderSize + length (frame_payload f),
      dr_error = (if rest = [] then [] else ''trailing bytes'')\<rparr>"
proof -
  let ?n = "length (frame_payload f)"
  have n: "unat (of_nat ?n :: u32) = ?n"
    using assms by (simp add: kMaxPayloadBytes_def unat_of_nat take_bit_nat_eq_self)
  define hdr where "hdr = store_u32 kProtocolMagic @ store_u16 kProtocolVersion @ store_u16 (FrameType_to_u16 (frame_type f)) @
    store_u32 (of_nat ?n)"
  have h: "length hdr = 12" by (simp add: hdr_def)
  have enc: "encode_frame f kProtocolVersion = hdr @ store_u32 (crc32 (hdr @ frame_payload f)) @ frame_payload f"
    using assms by (simp add: encode_frame_def hdr_def Let_def)
  have "load_u32 (hdr @ ys) = kProtocolMagic" "load_u16 (drop 4 (hdr @ ys)) = kProtocolVersion"
    "load_u16 (drop 6 (hdr @ ys)) = FrameType_to_u16 (frame_type f)" "load_u32 (drop 8 (hdr @ ys)) = of_nat ?n" for ys
    by (simp_all add: hdr_def load_store_u16 load_store_u32)
  note fields = this
  have "load_u32 (drop 12 (hdr @ store_u32 c @ ys)) = c" for c ys
    using h by (simp add: load_store_u32)
  note sum = this
  define d where "d = encode_frame f kProtocolVersion @ rest"
  have body: "take 12 d @ take ?n (drop 16 d) = hdr @ frame_payload f" "length d = 16 + ?n + length rest"
    "take ?n (drop 16 d) = frame_payload f"
    using h by (simp_all add: d_def enc)
  moreover have "load_u32 d = kProtocolMagic" "load_u16 (drop 4 d) = kProtocolVersion"
    "load_u16 (drop 6 d) = FrameType_to_u16 (frame_type f)" "load_u32 (drop 8 d) = of_nat ?n"
    "load_u32 (drop 12 d) = crc32 (hdr @ frame_payload f)"
    using fields [of "store_u32 (crc32 (hdr @ frame_payload f)) @ frame_payload f @ rest"] sum
    by (simp_all only: d_def enc append_assoc)
  ultimately show ?thesis
    unfolding d_def [symmetric] decode_frame_def Let_def
    using n assms by (auto simp: frame_consts DecodeResult_default_def)
qed

lemma split_off: "k + n = j \<Longrightarrow> drop k d = take n (drop k d) @ drop j d"
  by (metis add.commute append_take_drop_id drop_drop)

lemma split_header:
  assumes "16 \<le> length d"
  shows "d = store_u32 (load_u32 d) @ store_u16 (load_u16 (drop 4 d)) @ store_u16 (load_u16 (drop 6 d)) @
     store_u32 (load_u32 (drop 8 d)) @ store_u32 (load_u32 (drop 12 d)) @ drop 16 d"
proof -
  have four: "store_u32 (load_u32 p) = take 4 p" if "4 \<le> length p" for p
    using store_load_u32 [of "take 4 p"] that by (simp add: load_take)
  have two: "store_u16 (load_u16 p) = take 2 p" if "2 \<le> length p" for p
    using store_load_u16 [of "take 2 p"] that by (simp add: load_take)
  have "d = take 4 d @ drop 4 d" by simp
  also have "drop 4 d = take 2 (drop 4 d) @ drop 6 d" by (rule split_off) simp
  also have "drop 6 d = take 2 (drop 6 d) @ drop 8 d" by (rule split_off) simp
  also have "drop 8 d = take 4 (drop 8 d) @ drop 12 d" by (rule split_off) simp
  also have "drop 12 d = take 4 (drop 12 d) @ drop 16 d" by (rule split_off) simp
  finally have "d = take 4 d @ take 2 (drop 4 d) @ take 2 (drop 6 d) @ take 4 (drop 8 d) @ take 4 (drop 12 d) @ drop 16 d" .
  with assms show ?thesis by (simp only: four two length_drop)
qed

lemma decode_accepts:
  assumes "dr_status (decode_frame d) = DecodeStatus.OK \<or> dr_status (decode_frame d) = DecodeStatus.TRAILING_GARBAGE"
  obtains f rest where "length (frame_payload f) \<le> kMaxPayloadBytes" and "d = encode_frame f kProtocolVersion @ rest"
proof -
  let ?n = "unat (load_u32 (drop 8 d))"
  let ?f = "\<lparr>frame_type = FrameType_of_u16 (load_u16 (drop 6 d)), frame_payload = take ?n (drop 16 d)\<rparr>"
  from assms have len: "16 \<le> length d" and "load_u32 d = kProtocolMagic" "load_u16 (drop 4 d) = kProtocolVersion"
    and vt: "valid_type (load_u16 (drop 6 d))" and max: "?n \<le> kMaxPayloadBytes" and fit: "16 + ?n \<le> length d"
    and crc: "load_u32 (drop 12 d) = crc32 (take 12 d @ take ?n (drop 16 d))"
    unfolding decode_frame_def decode_failed_def Let_def
    by (auto simp: frame_consts DecodeResult_default_def split: if_splits)
  note d = split_header [OF len, unfolded this(2,3)]
  have n: "length (frame_payload ?f) = ?n" using fit by simp
  have first: "take 12 d = store_u32 kProtocolMagic @ store_u16 kProtocolVersion @ store_u16 (load_u16 (drop 6 d)) @
      store_u32 (load_u32 (drop 8 d))"
    by (subst d) simp
  have "d = encode_frame ?f kProtocolVersion @ drop ?n (drop 16 d)"
    using n max crc vt first
    by (subst d) (simp add: encode_frame_def Let_def FrameType_to_of del: drop_drop)
  with n max show ?thesis by (intro that [of ?f]) simp_all
qed

section \<open>Corruption\<close>

lemma decode_OK_checksummed:
  assumes "dr_status (decode_frame d) = DecodeStatus.OK"
  shows "checksummed 12 d"
proof -
  let ?n = "unat (load_u32 (drop 8 d))"
  from assms have "load_u32 (drop 12 d) = crc32 (take 12 d @ take ?n (drop 16 d))" and "16 + ?n = length d"
    unfolding decode_frame_def decode_failed_def Let_def
    by (auto simp: frame_consts DecodeResult_default_def split: if_splits)
  then show ?thesis by (simp add: checksummed_def)
qed

lemma corrupted_not_OK:
  assumes "dr_status (decode_frame e) = DecodeStatus.OK" and "i < length e" and "b \<noteq> e ! i"
  shows "dr_status (decode_frame (e[i := b])) \<noteq> DecodeStatus.OK"
  using checksummed_update [OF decode_OK_checksummed [OF assms(1)] assms(2,3)] decode_OK_checksummed by blast

section \<open>Properties\<close>

text \<open>
  Every frame whose payload is within the limit survives the wire: decoding its encoding, with any bytes
  after it, yields the same type and payload and consumes exactly the encoding.
\<close>

theorem frame_roundtrip:
  assumes "length (frame_payload f) \<le> kMaxPayloadBytes"
  shows "dr_frame (decode_frame (encode_frame f kProtocolVersion @ rest)) = f \<and>
     dr_consumed (decode_frame (encode_frame f kProtocolVersion @ rest)) = length (encode_frame f kProtocolVersion) \<and>
     dr_status (decode_frame (encode_frame f kProtocolVersion @ rest)) =
       (if rest = [] then DecodeStatus.OK else DecodeStatus.TRAILING_GARBAGE)"
proof -
  have "length (encode_frame f kProtocolVersion) = kFrameHeaderSize + length (frame_payload f)"
    using assms by (simp add: encode_frame_def Let_def frame_consts)
  then show ?thesis by (simp add: decode_encoded [OF assms])
qed

theorem frame_roundtrip_witness:
  "dr_frame (decode_frame (encode_frame \<lparr>frame_type = FrameType.RESERVE, frame_payload = [1, 2, 3]\<rparr> kProtocolVersion @ [7])) =
     \<lparr>frame_type = FrameType.RESERVE, frame_payload = [1, 2, 3]\<rparr>"
  using frame_roundtrip [of "\<lparr>frame_type = FrameType.RESERVE, frame_payload = [1, 2, 3]\<rparr>" "[7]"]
  by (simp add: kMaxPayloadBytes_def)

text \<open>
  C25. The decoder accepts the encodings and nothing else: a buffer decodes to a frame with status OK exactly when it is, byte for
  byte, the encoding of this frame and the payload is within the limit.
\<close>

theorem decoder_accepts_exactly_encodings:
  "dr_status (decode_frame d) = DecodeStatus.OK \<and> dr_frame (decode_frame d) = f \<longleftrightarrow>
     length (frame_payload f) \<le> kMaxPayloadBytes \<and> d = encode_frame f kProtocolVersion"
proof
  assume ok: "dr_status (decode_frame d) = DecodeStatus.OK \<and> dr_frame (decode_frame d) = f"
  then have "dr_status (decode_frame d) = DecodeStatus.OK \<or> dr_status (decode_frame d) = DecodeStatus.TRAILING_GARBAGE"
    by simp
  then obtain g rest where "length (frame_payload g) \<le> kMaxPayloadBytes" "d = encode_frame g kProtocolVersion @ rest"
    by (rule decode_accepts)
  with ok decode_encoded [of g rest] show "length (frame_payload f) \<le> kMaxPayloadBytes \<and> d = encode_frame f kProtocolVersion"
    by (auto split: if_splits)
next
  assume "length (frame_payload f) \<le> kMaxPayloadBytes \<and> d = encode_frame f kProtocolVersion"
  with decode_encoded [of f "[]"] show "dr_status (decode_frame d) = DecodeStatus.OK \<and> dr_frame (decode_frame d) = f"
    by simp
qed

text \<open>
  C26. A single corrupted byte, anywhere in the header, the checksum or the payload of a frame on the wire, is
  always noticed: the decoder does not answer OK.
\<close>

theorem corrupted_frame_rejected:
  assumes "length (frame_payload f) \<le> kMaxPayloadBytes" and "i < length (encode_frame f kProtocolVersion)"
    and "b \<noteq> encode_frame f kProtocolVersion ! i"
  shows "dr_status (decode_frame ((encode_frame f kProtocolVersion)[i := b])) \<noteq> DecodeStatus.OK"
  using corrupted_not_OK [OF _ assms(2,3)] decode_encoded [OF assms(1), of "[]"] by simp

theorem corrupted_frame_rejected_witness:
  "dr_status (decode_frame ((encode_frame \<lparr>frame_type = FrameType.ACK, frame_payload = []\<rparr> kProtocolVersion)[0 := 0])) \<noteq> DecodeStatus.OK"
  using corrupted_frame_rejected [of "\<lparr>frame_type = FrameType.ACK, frame_payload = []\<rparr>" 0 0]
  by (simp add: kMaxPayloadBytes_def encode_frame_def Let_def store_u32_def kProtocolMagic_def drop_bit_eq_div)

end
