(* ===== verification/Net.thy ===== *)
theory Net
  imports Protocol
begin

text \<open>
  The byte-stream transport of \<^verbatim>\<open>include/cxl_fabric/control/net.hpp\<close>: the loops that send all bytes and receive
  exactly so many, and a frame on top of them. The operating system's \<^verbatim>\<open>send\<close> and \<^verbatim>\<open>recv\<close> are parameters over
  a socket state: \<open>rcv s n\<close> is the bytes one call delivers into a buffer of \<open>n\<close> bytes (none when the call
  returns zero or an error) and the state after it, \<open>xmit s xs\<close> the number of bytes one call accepts.
  The locale \<open>stream_socket\<close> states what a connected stream socket promises of them.
\<close>

section \<open>The loops\<close>

text \<open>
  \<^verbatim>\<open>recv_exact\<close>: every round but the last has progressed, so the number of bytes still missing is a
  measure. The result is the bytes received, or nothing when a call delivers no byte.
\<close>

function recv_exact :: "('s \<Rightarrow> nat \<Rightarrow> bytes \<times> 's) \<Rightarrow> 's \<Rightarrow> nat \<Rightarrow> bytes option \<times> 's" where
  "recv_exact rcv s len =
     (if len = 0 then (Some [], s)
      else case rcv s len of (xs, s') \<Rightarrow>
        if xs = [] then (None, s')
        else map_prod (map_option (\<lambda>ys. xs @ ys)) id (recv_exact rcv s' (len - length xs)))"
  by pat_completeness auto
termination
  by (relation "measure (\<lambda>(rcv, s, len). len)") auto

declare recv_exact.simps [simp del]

function send_all :: "('s \<Rightarrow> bytes \<Rightarrow> nat \<times> 's) \<Rightarrow> 's \<Rightarrow> bytes \<Rightarrow> bool \<times> 's" where
  "send_all xmit s data =
     (if data = [] then (True, s)
      else case xmit s data of (n, s') \<Rightarrow>
        if n = 0 then (False, s') else send_all xmit s' (drop n data))"
  by pat_completeness auto
termination
  by (relation "measure (\<lambda>(xmit, s, data). length data)") auto

declare send_all.simps [simp del]

section \<open>Frames\<close>

definition send_frame :: "('s \<Rightarrow> bytes \<Rightarrow> nat \<times> 's) \<Rightarrow> 's \<Rightarrow> Frame \<Rightarrow> bool \<times> 's" where
  "send_frame xmit s f = send_all xmit s (encode_frame f kProtocolVersion)"

definition recv_frame :: "('s \<Rightarrow> nat \<Rightarrow> bytes \<times> 's) \<Rightarrow> 's \<Rightarrow> DecodeResult \<times> 's" where
  "recv_frame rcv s =
     (case recv_exact rcv s kFrameHeaderSize of
        (None, s1) \<Rightarrow> (decode_failed DecodeStatus.TRUNCATED ''peer closed or header truncated'', s1)
      | (Some hdr, s1) \<Rightarrow>
          let len = load_u32 (drop 8 hdr) in
          if unat len > kMaxPayloadBytes then (decode_failed DecodeStatus.OVERSIZED ''oversized frame'', s1)
          else if 0 < unat len then
            (case recv_exact rcv s1 (unat len) of
               (None, s2) \<Rightarrow> (decode_failed DecodeStatus.TRUNCATED ''payload truncated'', s2)
             | (Some payload, s2) \<Rightarrow> (decode_frame (hdr @ payload), s2))
          else (decode_frame hdr, s1))"

text \<open>A receiver that reads frames one after the other, and a sender that writes them.\<close>

fun recv_frames :: "('s \<Rightarrow> nat \<Rightarrow> bytes \<times> 's) \<Rightarrow> 's \<Rightarrow> nat \<Rightarrow> DecodeResult list \<times> 's" where
  "recv_frames rcv s 0 = ([], s)"
| "recv_frames rcv s (Suc n) =
     (case recv_frame rcv s of (r, s1) \<Rightarrow> map_prod (\<lambda>rs. r # rs) id (recv_frames rcv s1 n))"

fun send_frames :: "('s \<Rightarrow> bytes \<Rightarrow> nat \<times> 's) \<Rightarrow> 's \<Rightarrow> Frame list \<Rightarrow> bool \<times> 's" where
  "send_frames xmit s [] = (True, s)"
| "send_frames xmit s (f # fs) =
     (case send_frame xmit s f of (True, s1) \<Rightarrow> send_frames xmit s1 fs | (False, s1) \<Rightarrow> (False, s1))"

section \<open>The length field\<close>

lemma encode_frame_length:
  "length (frame_payload f) \<le> kMaxPayloadBytes \<Longrightarrow>
     length (encode_frame f v) = kFrameHeaderSize + length (frame_payload f)"
  by (simp add: encode_frame_def Let_def frame_consts)

lemma encode_frame_len_field:
  assumes "length (frame_payload f) \<le> kMaxPayloadBytes"
  shows "unat (load_u32 (drop 8 (encode_frame f v @ rest))) = length (frame_payload f)"
proof -
  have "load_u32 (drop 8 (encode_frame f v @ rest)) = of_nat (length (frame_payload f))"
    using assms by (simp add: encode_frame_def Let_def load_store_u32)
  then show ?thesis
    using assms by (simp add: kMaxPayloadBytes_def unat_of_nat take_bit_nat_eq_self)
qed

lemma load_u32_take: "4 \<le> n \<Longrightarrow> load_u32 (take n p) = load_u32 p"
  by (simp add: load_u32_def)

section \<open>What a stream socket promises\<close>

text \<open>
  \<open>incoming\<close> is what the peer has sent and the program has not received, up to the end of the stream, and
  \<open>outgoing\<close> what the program has handed over. A receive delivers a prefix of what is incoming, not more than
  asked for, and at least one byte as long as there is one; a send accepts a prefix of what it is given.
\<close>

locale stream_socket =
  fixes rcv :: "'s \<Rightarrow> nat \<Rightarrow> bytes \<times> 's" and xmit :: "'s \<Rightarrow> bytes \<Rightarrow> nat \<times> 's"
    and incoming :: "'s \<Rightarrow> bytes" and outgoing :: "'s \<Rightarrow> bytes"
  assumes rcv_prefix: "rcv s n = (xs, s') \<Longrightarrow> incoming s = xs @ incoming s' \<and> outgoing s' = outgoing s"
    and rcv_bound: "rcv s n = (xs, s') \<Longrightarrow> length xs \<le> n"
    and rcv_progress: "rcv s n = (xs, s') \<Longrightarrow> 0 < n \<Longrightarrow> incoming s \<noteq> [] \<Longrightarrow> xs \<noteq> []"
    and xmit_prefix: "xmit s xs = (n, s') \<Longrightarrow> n \<le> length xs \<and> outgoing s' = outgoing s @ take n xs \<and> incoming s' = incoming s"
begin

lemma recv_exact_spec:
  "recv_exact rcv s len = (r, s') \<Longrightarrow>
     outgoing s' = outgoing s \<and>
     (if len \<le> length (incoming s) then r = Some (take len (incoming s)) \<and> incoming s' = drop len (incoming s)
      else r = None \<and> incoming s' = [])"
proof (induction len arbitrary: s r s' rule: less_induct)
  case (less len)
  show ?case
  proof (cases "len = 0")
    case True
    with less.prems show ?thesis by (simp add: recv_exact.simps)
  next
    case False
    obtain xs s1 where rc: "rcv s len = (xs, s1)" by fastforce
    note p = rcv_prefix [OF rc] and b = rcv_bound [OF rc] and q = rcv_progress [OF rc]
    show ?thesis
    proof (cases "xs = []")
      case True
      with rc False p q less.prems show ?thesis
        by (cases "incoming s = []") (auto simp: recv_exact.simps [of rcv s len])
    next
      case xs: False
      obtain r1 where r1: "recv_exact rcv s1 (len - length xs) = (r1, s')" and r: "r = map_option (\<lambda>ys. xs @ ys) r1"
        using less.prems rc False xs by (auto simp: recv_exact.simps [of rcv s len] map_prod_def split: prod.splits)
      have "len - length xs < len" using xs False by simp
      from less.IH [OF this r1] show ?thesis
        using p b r xs by (auto split: if_splits)
    qed
  qed
qed

lemma send_all_spec:
  "send_all xmit s data = (ok, s') \<Longrightarrow>
     incoming s' = incoming s \<and> (\<exists>n \<le> length data. outgoing s' = outgoing s @ take n data \<and> (ok \<longrightarrow> n = length data))"
proof (induction "length data" arbitrary: s data rule: less_induct)
  case less
  show ?case
  proof (cases "data = []")
    case True
    with less.prems show ?thesis by (simp add: send_all.simps)
  next
    case False
    obtain n s1 where x: "xmit s data = (n, s1)" by fastforce
    note p = xmit_prefix [OF x]
    show ?thesis
    proof (cases "n = 0")
      case True
      with x False p less.prems show ?thesis by (auto simp: send_all.simps [of xmit s data])
    next
      case n: False
      with x False less.prems have "send_all xmit s1 (drop n data) = (ok, s')"
        by (simp add: send_all.simps [of xmit s data])
      moreover have "length (drop n data) < length data" using n p False by simp
      ultimately obtain k where "incoming s' = incoming s1" "k \<le> length data - n"
        "outgoing s' = outgoing s1 @ take k (drop n data)" "ok \<longrightarrow> k = length data - n"
        using less.hyps by fastforce
      with p show ?thesis by (intro conjI exI [of _ "n + k"]) (auto simp: take_add)
    qed
  qed
qed

text \<open>
  A frame is cut off the stream by its length field, however the stream arrives: the three ways a receive can end.
\<close>

lemma recv_frame_spec:
  fixes s :: 's
  defines "n \<equiv> unat (load_u32 (drop 8 (incoming s)))"
  assumes rf: "recv_frame rcv s = (r, s')"
  shows "outgoing s' = outgoing s"
    and "kFrameHeaderSize + n \<le> length (incoming s) \<Longrightarrow> n \<le> kMaxPayloadBytes \<Longrightarrow>
      r = decode_frame (take (kFrameHeaderSize + n) (incoming s)) \<and> incoming s' = drop (kFrameHeaderSize + n) (incoming s)"
    and "kFrameHeaderSize \<le> length (incoming s) \<Longrightarrow> kMaxPayloadBytes < n \<Longrightarrow> dr_status r = DecodeStatus.OVERSIZED"
    and "length (incoming s) < kFrameHeaderSize \<Longrightarrow> dr_status r = DecodeStatus.TRUNCATED \<and> incoming s' = []"
    and "length (incoming s) < kFrameHeaderSize + n \<Longrightarrow> n \<le> kMaxPayloadBytes \<Longrightarrow>
      dr_status r = DecodeStatus.TRUNCATED \<and> incoming s' = []"
proof -
  obtain h s1 where h: "recv_exact rcv s kFrameHeaderSize = (h, s1)" by fastforce
  note h1 = recv_exact_spec [OF h]
  have len: "load_u32 (drop 8 (take kFrameHeaderSize (incoming s))) = load_u32 (drop 8 (incoming s))"
    by (simp add: drop_take kFrameHeaderSize_def load_u32_take)
  obtain q s2 where q: "recv_exact rcv s1 n = (q, s2)" by fastforce
  note q1 = recv_exact_spec [OF q]
  have failed: "dr_status (decode_failed st e) = st" for st e
    by (simp add: decode_failed_def)
  show "outgoing s' = outgoing s"
    using rf h h1 q q1 len n_def by (auto simp: recv_frame_def Let_def split: if_splits option.splits)
  show "r = decode_frame (take (kFrameHeaderSize + n) (incoming s)) \<and> incoming s' = drop (kFrameHeaderSize + n) (incoming s)"
    if "kFrameHeaderSize + n \<le> length (incoming s)" "n \<le> kMaxPayloadBytes"
    using rf h h1 q q1 len that n_def
    by (auto simp: recv_frame_def Let_def take_add drop_drop add.commute split: if_splits option.splits)
  show "dr_status r = DecodeStatus.OVERSIZED" if "kFrameHeaderSize \<le> length (incoming s)" "kMaxPayloadBytes < n"
    using rf h h1 len that n_def by (auto simp: recv_frame_def Let_def failed split: if_splits option.splits)
  show "dr_status r = DecodeStatus.TRUNCATED \<and> incoming s' = []" if "length (incoming s) < kFrameHeaderSize"
    using rf h h1 that by (auto simp: recv_frame_def Let_def failed split: if_splits option.splits)
  show "dr_status r = DecodeStatus.TRUNCATED \<and> incoming s' = []"
    if "length (incoming s) < kFrameHeaderSize + n" "n \<le> kMaxPayloadBytes"
    using rf h h1 q q1 len that n_def
    by (auto simp: recv_frame_def Let_def failed split: if_splits option.splits)
qed

lemma recv_frame_encoded:
  assumes inc: "incoming s = encode_frame f kProtocolVersion @ rest" and len: "length (frame_payload f) \<le> kMaxPayloadBytes"
    and rf: "recv_frame rcv s = (r, s')"
  shows "dr_status r = DecodeStatus.OK \<and> dr_frame r = f \<and> incoming s' = rest \<and> outgoing s' = outgoing s"
  using recv_frame_spec(1,2) [OF rf] encode_frame_len_field [OF len, of kProtocolVersion rest]
    encode_frame_length [OF len, of kProtocolVersion] decode_encoded [OF len, of "[]"] len
  by (simp add: inc)

lemma recv_frame_OK:
  assumes rf: "recv_frame rcv s = (r, s')" and ok: "dr_status r = DecodeStatus.OK"
  shows "length (frame_payload (dr_frame r)) \<le> kMaxPayloadBytes \<and>
     incoming s = encode_frame (dr_frame r) kProtocolVersion @ incoming s'"
proof -
  let ?n = "unat (load_u32 (drop 8 (incoming s)))"
  have fit: "kFrameHeaderSize + ?n \<le> length (incoming s)" and max: "?n \<le> kMaxPayloadBytes"
    using recv_frame_spec(3-5) [OF rf] ok by (force simp: not_le [symmetric])+
  note r = recv_frame_spec(2) [OF rf fit max]
  then obtain g rest where g: "length (frame_payload g) \<le> kMaxPayloadBytes"
    "take (kFrameHeaderSize + ?n) (incoming s) = encode_frame g kProtocolVersion @ rest"
    using decode_accepts ok by metis
  with decode_encoded [OF g(1), of rest] r ok have "rest = []" "dr_frame r = g"
    by (auto split: if_splits)
  with g r show ?thesis by (metis append_Nil2 append_take_drop_id)
qed

text \<open>A whole conversation: what one side sends, the other side receives, in order.\<close>

lemma recv_frames_encoded:
  assumes "\<forall>f \<in> set fs. length (frame_payload f) \<le> kMaxPayloadBytes"
    and "incoming s = concat (map (\<lambda>f. encode_frame f kProtocolVersion) fs) @ rest"
    and "recv_frames rcv s (length fs) = (rs, s')"
  shows "map dr_frame rs = fs \<and> (\<forall>r \<in> set rs. dr_status r = DecodeStatus.OK) \<and> incoming s' = rest"
  using assms
proof (induction fs arbitrary: s rs)
  case (Cons f fs)
  obtain r s1 where r: "recv_frame rcv s = (r, s1)" by fastforce
  obtain rs1 where rs1: "recv_frames rcv s1 (length fs) = (rs1, s')" "rs = r # rs1"
    using Cons.prems(3) r by (auto simp: map_prod_def split: prod.splits)
  from Cons.prems(1,2) r have "dr_status r = DecodeStatus.OK" "dr_frame r = f"
    "incoming s1 = concat (map (\<lambda>f. encode_frame f kProtocolVersion) fs) @ rest"
    using recv_frame_encoded [OF _ _ r, of f "concat (map (\<lambda>f. encode_frame f kProtocolVersion) fs) @ rest"] by simp_all
  with Cons.IH [OF _ _ rs1(1)] Cons.prems(1) rs1(2) show ?case by simp
qed simp

lemma send_frames_spec:
  "send_frames xmit s fs = (True, s') \<Longrightarrow>
     outgoing s' = outgoing s @ concat (map (\<lambda>f. encode_frame f kProtocolVersion) fs)"
proof (induction fs arbitrary: s)
  case (Cons f fs)
  then obtain s1 where s1: "send_frame xmit s f = (True, s1)" "send_frames xmit s1 fs = (True, s')"
    by (auto split: prod.splits bool.splits)
  with send_all_spec [of s "encode_frame f kProtocolVersion" True s1] Cons.IH show ?case
    by (auto simp: send_frame_def)
qed simp

end

section \<open>A socket whose data arrive in segments\<close>

text \<open>
  A concrete socket for evaluation: the incoming bytes lie in segments, a receive delivers from the first
  segment that is not empty, and a send accepts at most one segment's worth.
\<close>

type_synonym segments = "bytes list \<times> bytes"

definition seg_recv :: "segments \<Rightarrow> nat \<Rightarrow> bytes \<times> segments" where
  "seg_recv s n = (case dropWhile (\<lambda>x. x = []) (fst s) of [] \<Rightarrow> ([], ([], snd s))
     | x # rest \<Rightarrow> (take n x, (drop n x # rest, snd s)))"

definition seg_send :: "segments \<Rightarrow> bytes \<Rightarrow> nat \<times> segments" where
  "seg_send s xs = (min 1460 (length xs), (fst s, snd s @ take (min 1460 (length xs)) xs))"

lemma concat_dropWhile_Nil: "concat (dropWhile (\<lambda>x. x = []) xs) = concat xs"
  by (induction xs) auto

interpretation seg: stream_socket seg_recv seg_send "\<lambda>s. concat (fst s)" snd
proof
  fix s s' :: segments and n xs
  assume r: "seg_recv s n = (xs, s')"
  show "concat (fst s) = xs @ concat (fst s') \<and> snd s' = snd s"
    using r concat_dropWhile_Nil [of "fst s"] by (auto simp: seg_recv_def simp flip: append_assoc split: list.splits)
  show "length xs \<le> n" using r by (auto simp: seg_recv_def split: list.splits)
  assume n: "0 < n" and data: "concat (fst s) \<noteq> []"
  obtain x rest where x: "dropWhile (\<lambda>x. x = []) (fst s) = x # rest"
    using data concat_dropWhile_Nil [of "fst s"] by (cases "dropWhile (\<lambda>x. x = []) (fst s)") auto
  then have "x \<noteq> []" using hd_dropWhile [of "\<lambda>x. x = []" "fst s"] by simp
  with r n x show "xs \<noteq> []" by (auto simp: seg_recv_def)
next
  fix s s' :: segments and n xs
  assume "seg_send s xs = (n, s')"
  then show "n \<le> length xs \<and> snd s' = snd s @ take n xs \<and> concat (fst s') = concat (fst s)"
    by (auto simp: seg_send_def)
qed

lemma seg_send_all: "length data \<le> 1460 \<Longrightarrow> send_all seg_send s data = (True, (fst s, snd s @ data))"
  by (subst send_all.simps, subst send_all.simps) (simp add: seg_send_def)

section \<open>Properties\<close>

text \<open>
  C31. Frames survive the transport: when one side has sent a list of frames with payloads within the limit and
  the stream delivers its bytes in order, whatever the sizes of the pieces in which they are accepted and
  delivered, the other side receives exactly these frames, in order, each with status OK, and whatever
  follows them is left in the stream.
\<close>

theorem frames_survive_the_stream:
  assumes "stream_socket rcvA xmitA inA outA" and "stream_socket rcvB xmitB inB outB"
    and "\<forall>f \<in> set fs. length (frame_payload f) \<le> kMaxPayloadBytes"
    and "outA a = []" and "send_frames xmitA a fs = (True, a')"
    and "inB b = outA a' @ rest" and "recv_frames rcvB b (length fs) = (rs, b')"
  shows "map dr_frame rs = fs \<and> (\<forall>r \<in> set rs. dr_status r = DecodeStatus.OK) \<and> inB b' = rest"
  using stream_socket.recv_frames_encoded [OF assms(2,3) _ assms(7)] stream_socket.send_frames_spec [OF assms(1,5)] assms(4,6)
  by simp

theorem frames_survive_the_stream_witness:
  "\<exists>rs b'. recv_frames seg_recv ([take 3 (snd (snd (send_frames seg_send ([], []) [Frame_default]))), [],
        drop 3 (snd (snd (send_frames seg_send ([], []) [Frame_default])))], []) 1 = (rs, b') \<and> map dr_frame rs = [Frame_default]"
proof -
  obtain a' where a': "send_frames seg_send ([], []) [Frame_default] = (True, a')"
    by (simp add: send_frame_def seg_send_all encode_frame_length Frame_default_def frame_consts)
  obtain rs b' where rs: "recv_frames seg_recv ([take 3 (snd a'), [], drop 3 (snd a')], []) (length [Frame_default]) = (rs, b')"
    by (rule prod.exhaust)
  have "map dr_frame rs = [Frame_default]"
    using frames_survive_the_stream [OF seg.stream_socket_axioms seg.stream_socket_axioms _ _ a' _ rs, of "[]"]
    by (simp add: Frame_default_def)
  with a' rs show ?thesis by simp
qed

text \<open>
  C32. A receive reports a frame exactly when the stream starts with the encoding of a frame whose payload is
  within the limit; it reports that frame and takes exactly its bytes off the stream.
\<close>

theorem recv_frame_exact:
  assumes "stream_socket rcv xmit inc out" and "recv_frame rcv s = (r, s')"
  shows "(dr_status r = DecodeStatus.OK \<and> dr_frame r = f \<and> inc s' = rest) \<longleftrightarrow>
     length (frame_payload f) \<le> kMaxPayloadBytes \<and> inc s = encode_frame f kProtocolVersion @ rest"
  using stream_socket.recv_frame_OK [OF assms] stream_socket.recv_frame_encoded [OF assms(1) _ _ assms(2)] by blast

theorem recv_frame_exact_witness:
  "dr_status (fst (recv_frame seg_recv ([encode_frame Frame_default kProtocolVersion, [1, 2]], []))) = DecodeStatus.OK"
proof -
  obtain r s' where r: "recv_frame seg_recv ([encode_frame Frame_default kProtocolVersion, [1, 2]], []) = (r, s')"
    by (rule prod.exhaust)
  show ?thesis
    using recv_frame_exact [OF seg.stream_socket_axioms r, of Frame_default "[1, 2]"] r by (simp add: Frame_default_def)
qed
section \<open>The loops end\<close>

text \<open>A socket that counts the system calls made on it.\<close>

definition counted :: "('s \<Rightarrow> 'x \<Rightarrow> 'r \<times> 's) \<Rightarrow> 's \<times> nat \<Rightarrow> 'x \<Rightarrow> 'r \<times> 's \<times> nat" where
  "counted sys s x = (case sys (fst s) x of (r, s') \<Rightarrow> (r, s', Suc (snd s)))"

lemma recv_exact_counted:
  "\<exists>k'. recv_exact (counted rcv) (s, k) len = (fst (recv_exact rcv s len), snd (recv_exact rcv s len), k') \<and> k' \<le> k + len"
proof (induction len arbitrary: s k rule: less_induct)
  case (less len)
  obtain xs s' where r: "rcv s len = (xs, s')" by fastforce
  show ?case
  proof (cases "len = 0 \<or> xs = []")
    case True
    with r show ?thesis by (subst (1 2 3) recv_exact.simps) (auto simp: counted_def)
  next
    case False
    then have "len - length xs < len" by (cases xs) auto
    from less.IH [OF this, of s' "Suc k"] obtain k' where
      "recv_exact (counted rcv) (s', Suc k) (len - length xs) =
         (fst (recv_exact rcv s' (len - length xs)), snd (recv_exact rcv s' (len - length xs)), k')" and "k' \<le> Suc k + (len - length xs)"
      by blast
    moreover from this False have "k' \<le> k + len" by (cases xs) auto
    ultimately show ?thesis
      using r False by (subst (1 2 3) recv_exact.simps) (auto simp: counted_def)
  qed
qed

lemma send_all_counted:
  "\<exists>k'. send_all (counted xmit) (s, k) data = (fst (send_all xmit s data), snd (send_all xmit s data), k') \<and> k' \<le> k + length data"
proof (induction "length data" arbitrary: s k data rule: less_induct)
  case less
  obtain n s' where r: "xmit s data = (n, s')" by fastforce
  show ?case
  proof (cases "data = [] \<or> n = 0")
    case True
    with r show ?thesis by (subst (1 2 3) send_all.simps) (cases data, auto simp: counted_def)
  next
    case False
    then have d: "length (drop n data) < length data" by (cases data) auto
    from less [OF d, of s' "Suc k"] obtain k' where
      "send_all (counted xmit) (s', Suc k) (drop n data) =
         (fst (send_all xmit s' (drop n data)), snd (send_all xmit s' (drop n data)), k')" and "k' \<le> Suc k + length (drop n data)"
      by blast
    moreover from this d have "k' \<le> k + length data" by linarith
    ultimately show ?thesis
      using r False by (subst (1 2 3) send_all.simps) (auto simp: counted_def)
  qed
qed

text \<open>
  C39. Both transfer loops end whatever the operating system answers: receiving so many bytes makes at most as many system
  calls as there are bytes to receive, and sending makes at most as many as there are bytes to send. Counting the
  calls does not change the result.
\<close>

theorem transfers_terminate:
  "(\<exists>k. recv_exact (counted rcv) (s, 0) len = (fst (recv_exact rcv s len), snd (recv_exact rcv s len), k) \<and> k \<le> len) \<and>
   (\<exists>k. send_all (counted xmit) (t, 0) data = (fst (send_all xmit t data), snd (send_all xmit t data), k) \<and> k \<le> length data)"
  using recv_exact_counted [of rcv s 0 len] send_all_counted [of xmit t 0 data] by simp

end
