(* ===== verification/Cmdline.thy ===== *)
theory Cmdline
  imports Prelude
begin

text \<open>
  The numbers on a command line: \<^verbatim>\<open>std::stoul\<close> and \<^verbatim>\<open>std::stoull\<close> in base 10, as the three programs call them. They
  skip white space, take a sign, read the longest run of digits and ignore what follows; an exception of theirs is
  caught by none of the programs. The width of \<^verbatim>\<open>unsigned long\<close> depends on the platform and is an argument.
\<close>

datatype 'a parsed = Parsed 'a | Invalid_argument | Out_of_range

definition is_space :: "char \<Rightarrow> bool" where
  "is_space c \<longleftrightarrow> c = CHR '' '' \<or> (9 \<le> (of_char c :: nat) \<and> (of_char c :: nat) \<le> 13)"

definition is_digit :: "char \<Rightarrow> bool" where
  "is_digit c \<longleftrightarrow> 48 \<le> (of_char c :: nat) \<and> (of_char c :: nat) \<le> 57"

definition sign_of :: "string \<Rightarrow> bool \<times> string" where
  "sign_of s = (case s of [] \<Rightarrow> (False, s) | c # cs \<Rightarrow> if c = CHR ''-'' then (True, cs) else if c = CHR ''+'' then (False, cs) else (False, s))"

definition parse_unsigned :: "nat \<Rightarrow> string \<Rightarrow> nat parsed" where
  "parse_unsigned w s =
     (let (neg, s) = sign_of (dropWhile is_space s);
          ds = takeWhile is_digit s;
          n = read_digits ds in
      if ds = [] then Invalid_argument
      else if n \<ge> 2 ^ w then Out_of_range
      else Parsed (if neg then (2 ^ w - n) mod 2 ^ w else n))"

definition stoull :: "string \<Rightarrow> u64 parsed" where
  "stoull s = map_parsed of_nat (parse_unsigned 64 s)"

text \<open>A port number: \<^verbatim>\<open>std::uint16_t(std::stoul(...))\<close> keeps the low 16 bits.\<close>

definition port_of :: "nat \<Rightarrow> string \<Rightarrow> u16 parsed" where
  "port_of w s = map_parsed of_nat (parse_unsigned w s)"

section \<open>Printed numbers are read back\<close>

lemma is_digit_char: "(n :: nat) < 10 \<Longrightarrow> is_digit (char_of (48 + n))"
  by (simp add: is_digit_def of_char_of take_bit_nat_def)

lemma show_nat_digits: "c \<in> set (show_nat n) \<Longrightarrow> is_digit c"
  by (induction n rule: show_nat.induct) (subst (asm) (2) show_nat.simps, auto simp: is_digit_char split: if_splits)

lemma show_nat_not_Nil [simp]: "show_nat n \<noteq> []"
  by (subst show_nat.simps) simp

lemma digit_not_sign: "is_digit c \<Longrightarrow> \<not> is_space c \<and> c \<noteq> CHR ''-'' \<and> c \<noteq> CHR ''+''"
  by (auto simp: is_digit_def is_space_def)

lemma parse_show_nat: "n < 2 ^ w \<Longrightarrow> parse_unsigned w (show_nat n) = Parsed n"
proof -
  assume n: "n < 2 ^ w"
  obtain c cs where s: "show_nat n = c # cs" by (cases "show_nat n") simp_all
  then have c: "\<not> is_space c \<and> c \<noteq> CHR ''-'' \<and> c \<noteq> CHR ''+''"
    using show_nat_digits [of c n] digit_not_sign by simp
  have digits: "takeWhile is_digit (show_nat n) = show_nat n"
    using show_nat_digits by (simp add: takeWhile_eq_all_conv)
  have "sign_of (dropWhile is_space (show_nat n)) = (False, show_nat n)"
    using c by (simp add: s sign_of_def)
  then show ?thesis using n by (simp add: parse_unsigned_def Let_def digits read_show_nat del: read_digits.simps)
qed

lemma stoull_to_string: "stoull (to_string_u64 v) = Parsed v"
  using unat_u64_bound [of v] by (simp add: stoull_def to_string_u64_def parse_show_nat)

text \<open>Only the low 16 bits of a port count, so a port number past 65535 names another port.\<close>

lemma port_wraps: "n < 2 ^ w \<Longrightarrow> port_of w (show_nat n) = Parsed (of_nat (n mod 65536))"
  by (simp add: port_of_def parse_show_nat) (simp add: word_unat_eq_iff unsigned_of_nat take_bit_nat_def)

end
