(* ===== verification/Coordinator.thy ===== *)
theory Coordinator
  imports Accounts Persistence Net Cmdline
begin

text \<open>
  The coordinator process, \<^verbatim>\<open>src/multiprocess/coordinator_main.cpp\<close>: the connections of the workers, the
  dispatch of their frames to the engine, the fencing of a worker's devices when its connection ends, and
  the files it writes. The worker records are objects that a connection and the map \<^verbatim>\<open>workers_\<close> share, so
  they live in a store and the map holds their numbers. What the operating system does to a file write is
  an argument of the steps that write. A reader that runs past its buffer is undefined behaviour and has
  no result.

  One event is one frame on one connection. Between the engine calls of one frame the calls of other
  connections can run; the calls are listed by \<open>frame_calls\<close>, and the results about the engine's state
  hold for every interleaving of such calls.
\<close>

section \<open>State\<close>

record WorkerState =
  ws_boot :: WorkerBootId
  ws_devices :: "DeviceId list"
  ws_reservations :: "ReservationId list"
  ws_dead :: bool

definition WorkerState_default :: WorkerState where
  [record_defs]: "WorkerState_default = \<lparr>ws_boot = Ident_default, ws_devices = [], ws_reservations = [], ws_dead = False\<rparr>"

text \<open>Where the thread of a connection stands: before the first frame, in the loop under its key, at the end.\<close>

datatype phase = Booting | Serving string | Closed

record Coordinator =
  co_fabric :: Fabric
  co_persist :: string
  co_statefile :: string
  co_workers :: "(string, nat) omap"
  co_store :: "(nat, WorkerState) omap"
  co_phases :: "(nat, phase) omap"
  co_running :: bool
  co_accepting :: bool
  co_exited :: bool
  co_files :: files

record io_faults =
  io_write :: file_faults
  io_statefile_open_fails :: bool
  io_statefile_cut_at :: "nat option"

section \<open>Reports\<close>

definition state_line_device :: "DeviceId \<times> CxlDevice \<Rightarrow> string" where
  "state_line_device kv = ''device '' @ id_value (fst kv) @ '' state='' @ DeviceState_to_string (dev_state (snd kv)) @
     '' evidence_current='' @ (if dev_evidence_current (snd kv) then ''1'' else ''0'') @ [CHR 0x0A]"

definition state_line_reservation :: "ReservationId \<times> Reservation \<Rightarrow> string" where
  "state_line_reservation kv = ''reservation '' @ id_value (fst kv) @ '' state='' @
     ResumeState_to_string (res_state (snd kv)) @ [CHR 0x0A]"

definition fabric_state_text :: "Fabric \<Rightarrow> string" where
  "fabric_state_text f =
     (let snap = snapshot f in
      ''epoch='' @ to_string_u64 (gen_value (st_coordinator_epoch snap)) @ [CHR 0x0A] @
      ''devices='' @ show_nat (length (st_devices snap)) @ [CHR 0x0A] @
      ''reservations='' @ show_nat (length (st_reservations snap)) @ [CHR 0x0A] @
      concat (map state_line_device (st_devices snap)) @
      concat (map state_line_reservation (st_reservations snap)))"

text \<open>The state file is truncated when it opens; a write that fails leaves the part of the text that reached it.\<close>

definition write_statefile :: "io_faults \<Rightarrow> Coordinator \<Rightarrow> Coordinator" where
  "write_statefile io c =
     (if co_statefile c = [] \<or> io_statefile_open_fails io then c
      else
        let text = bytes_of (fabric_state_text (co_fabric c));
            kept = (case io_statefile_cut_at io of None \<Rightarrow> text | Some n \<Rightarrow> take n text) in
        c\<lparr>co_files := (co_files c)(co_statefile c \<mapsto> kept)\<rparr>)"

text \<open>An exception that leaves the thread of a connection, or \<^verbatim>\<open>main\<close>, ends the process.\<close>

definition persist_now :: "io_faults \<Rightarrow> Coordinator \<Rightarrow> Coordinator" where
  "persist_now io c =
     (case serialize_state (export_persisted (co_fabric c)) of
        Inl err \<Rightarrow> c
      | Inr payload \<Rightarrow>
          (case write_persisted (io_write io) (co_persist c) payload (co_files c) of
             (Rename_throws, fs) \<Rightarrow> c\<lparr>co_files := fs, co_exited := True\<rparr>
           | (_, fs) \<Rightarrow> c\<lparr>co_files := fs\<rparr>))"

definition maybe_persist :: "io_faults \<Rightarrow> Coordinator \<Rightarrow> Coordinator" where
  "maybe_persist io c =
     (let c = (if co_persist c \<noteq> [] then persist_now io c else c) in
      if co_statefile c \<noteq> [] \<and> \<not> co_exited c then write_statefile io c else c)"

section \<open>Start\<close>

text \<open>
  The constructor. \<open>None\<close> is undefined behaviour of the loader.
\<close>

definition Coordinator_new :: "io_faults \<Rightarrow> u64 \<Rightarrow> string \<Rightarrow> string \<Rightarrow> files \<Rightarrow> Coordinator option" where
  "Coordinator_new io e persist statefile fs =
     (let c = \<lparr>co_fabric = Fabric_new (Generation e) (Generation 1), co_persist = persist, co_statefile = statefile,
                co_workers = [], co_store = [], co_phases = [], co_running = True, co_accepting = True,
                co_exited = False, co_files = fs\<rparr> in
      if persist \<noteq> [] \<and> fs persist \<noteq> None then
        (case read_persisted persist fs of
           Inl err \<Rightarrow> Some (write_statefile io c)
         | Inr payload \<Rightarrow>
             (case deserialize_state payload of
                Loaded st pos \<Rightarrow> Some (write_statefile io (c\<lparr>co_fabric := import_persisted st (co_fabric c)\<rparr>))
              | Rejected err \<Rightarrow> Some (write_statefile io c)
              | Overrun \<Rightarrow> None))
      else Some (write_statefile io c))"

text \<open>
  \<^verbatim>\<open>main\<close>: the options, then the constructor and \<^verbatim>\<open>start\<close>. An exception of the number parser ends the process. Whether the
  port can be listened on is an argument.
\<close>

record CoordinatorOptions =
  co_opt_port :: u16
  co_opt_epoch :: u64
  co_opt_persist :: string
  co_opt_statefile :: string

definition CoordinatorOptions_default :: CoordinatorOptions where
  [record_defs]: "CoordinatorOptions_default = \<lparr>co_opt_port = 17777, co_opt_epoch = 1, co_opt_persist = [], co_opt_statefile = []\<rparr>"

fun coordinator_args :: "nat \<Rightarrow> string list \<Rightarrow> CoordinatorOptions \<Rightarrow> CoordinatorOptions option" where
  "coordinator_args w (a # v # rest) opts =
     (if a = ''--port'' then
        (case port_of w v of Parsed p \<Rightarrow> coordinator_args w rest (opts\<lparr>co_opt_port := p\<rparr>) | _ \<Rightarrow> None)
      else if a = ''--epoch'' then
        (case stoull v of Parsed e \<Rightarrow> coordinator_args w rest (opts\<lparr>co_opt_epoch := e\<rparr>) | _ \<Rightarrow> None)
      else if a = ''--persist'' then coordinator_args w rest (opts\<lparr>co_opt_persist := v\<rparr>)
      else if a = ''--statefile'' then coordinator_args w rest (opts\<lparr>co_opt_statefile := v\<rparr>)
      else coordinator_args w (v # rest) opts)"
| "coordinator_args w _ opts = Some opts"

datatype started = Aborted | Exited int | Undefined | Running Coordinator

definition coordinator_main :: "io_faults \<Rightarrow> nat \<Rightarrow> (u16 \<Rightarrow> bool) \<Rightarrow> string list \<Rightarrow> files \<Rightarrow> started" where
  "coordinator_main io w listens argv fs =
     (case coordinator_args w argv CoordinatorOptions_default of
        None \<Rightarrow> Aborted
      | Some opts \<Rightarrow>
          (case Coordinator_new io (co_opt_epoch opts) (co_opt_persist opts) (co_opt_statefile opts) fs of
             None \<Rightarrow> Undefined
           | Some c \<Rightarrow> if \<not> listens (co_opt_port opts) then Exited 2 else Running c))"

section \<open>Replies\<close>

definition ack_frame :: "DecisionReason \<Rightarrow> Frame" where
  "ack_frame r = \<lparr>frame_type = FrameType.ACK, frame_payload = put_u32 [] (DecisionReason_to_u32 r)\<rparr>"

definition error_frame :: "string \<Rightarrow> Frame" where
  "error_frame msg = \<lparr>frame_type = FrameType.ERROR_REPORT, frame_payload = bytes_of msg\<rparr>"

definition result_payload :: "ReserveOutcome \<Rightarrow> bytes" where
  "result_payload o1 = put_u32 (put_str [] (id_value (res_id (ro_reservation o1)))) (DecisionReason_to_u32 (ro_reason o1)) @
     [if ro_ok o1 then 1 else 0]"

definition reserve_frame :: "ReserveOutcome \<Rightarrow> Frame" where
  "reserve_frame o1 = \<lparr>frame_type = FrameType.RESERVE_RESULT, frame_payload = result_payload o1\<rparr>"

text \<open>Commit and release are answered with the same type of frame.\<close>

definition commit_frame :: "ReserveOutcome \<Rightarrow> Frame" where
  "commit_frame o1 = \<lparr>frame_type = FrameType.COMMIT_RESULT, frame_payload = result_payload o1\<rparr>"

section \<open>Dispatch\<close>

definition worker_ctx :: "WorkerBootId \<Rightarrow> Fabric \<Rightarrow> AuthorityContext" where
  "worker_ctx boot f = \<lparr>ctx_coordinator_epoch = epoch f, ctx_policy_generation = policy_generation f,
     ctx_worker_boot_id = boot, ctx_consumer_generation = Generation 1\<rparr>"

definition published_pool :: "PoolId \<Rightarrow> PoolGeneration \<Rightarrow> PoolMember list \<Rightarrow> CxlPool" where
  "published_pool pid g members = CxlPool_default\<lparr>pool_id := pid, pool_generation := g, pool_members := members,
     pool_admission_policy := ''default'', pool_state := PoolState.AVAILABLE, pool_health_summary := HealthState.HEALTHY,
     pool_provenance := Provenance.SYNTHETIC, pool_evidence_current := True, pool_evidence_generation := Generation 1\<rparr>"

definition store_of :: "Coordinator \<Rightarrow> nat \<Rightarrow> WorkerState" where
  "store_of c n = (case om_find (co_store c) n of None \<Rightarrow> WorkerState_default | Some ws \<Rightarrow> ws)"

definition update_worker :: "nat \<Rightarrow> WorkerState \<Rightarrow> Coordinator \<Rightarrow> Coordinator" where
  "update_worker n ws c = c\<lparr>co_store := om_assign n ws (co_store c)\<rparr>"

definition persisting :: "FrameType \<Rightarrow> bool" where
  "persisting t \<longleftrightarrow> t = FrameType.PUBLISH_DEVICE \<or> t = FrameType.RESERVE \<or> t = FrameType.COMMIT \<or> t = FrameType.RELEASE \<or>
     t = FrameType.REVALIDATE"

definition dispatch_device :: "nat \<Rightarrow> bytes \<Rightarrow> Coordinator \<Rightarrow> (Frame list \<times> Coordinator) option" where
  "dispatch_device n p c =
     (let ws = store_of c n; ctx = worker_ctx (ws_boot ws) (co_fabric c) in
      case decode_device p CxlDevice_default of
        OutOfBounds \<Rightarrow> None
      | Fail \<Rightarrow> Some ([error_frame ''decode_device''], c)
      | Rd d pos \<Rightarrow>
          let (dr, f) = register_device d ctx (co_fabric c);
              c1 = c\<lparr>co_fabric := f\<rparr>;
              c2 = (if dr = DecisionReason.OK then update_worker n (ws\<lparr>ws_devices := ws_devices ws @ [dev_id d]\<rparr>) c1 else c1) in
          Some ([ack_frame dr], c2))"

definition dispatch_reserve :: "nat \<Rightarrow> bytes \<Rightarrow> Coordinator \<Rightarrow> (Frame list \<times> Coordinator) option" where
  "dispatch_reserve n p c =
     (let ws = store_of c n; ctx = worker_ctx (ws_boot ws) (co_fabric c) in
      case decode_reserve p of
        OutOfBounds \<Rightarrow> None
      | Fail \<Rightarrow> Some ([error_frame ''decode_reserve''], c)
      | Rd v pos \<Rightarrow>
          let req = AdmissionRequest_default\<lparr>req_bytes := fst v, req_consumer := Ident (snd v)\<rparr>;
              (ro, f) = reserve req ctx (co_fabric c);
              c1 = c\<lparr>co_fabric := f\<rparr>;
              c2 = (if ro_ok ro
                    then update_worker n (ws\<lparr>ws_reservations := ws_reservations ws @ [res_id (ro_reservation ro)]\<rparr>) c1
                    else c1) in
          Some ([reserve_frame ro], c2))"

definition dispatch_pool :: "nat \<Rightarrow> bytes \<Rightarrow> Coordinator \<Rightarrow> (Frame list \<times> Coordinator) option" where
  "dispatch_pool n p c =
     (let ctx = worker_ctx (ws_boot (store_of c n)) (co_fabric c) in
      case decode_pool p of
        OutOfBounds \<Rightarrow> None
      | Fail \<Rightarrow> Some ([error_frame ''decode_pool''], c)
      | Rd (pid, g, members) pos \<Rightarrow>
          let pool = published_pool pid g members;
              (dr, f) = create_pool pool ctx (co_fabric c);
              (dr, f) = (if dr = DecisionReason.DUPLICATE_IDENTITY then revalidate_pool (pool_id pool) ctx f else (dr, f)) in
          Some ([ack_frame dr], c\<lparr>co_fabric := f\<rparr>))"

definition dispatch_region :: "nat \<Rightarrow> bytes \<Rightarrow> Coordinator \<Rightarrow> (Frame list \<times> Coordinator) option" where
  "dispatch_region n p c =
     (let ctx = worker_ctx (ws_boot (store_of c n)) (co_fabric c) in
      case decode_region p CxlRegion_default of
        OutOfBounds \<Rightarrow> None
      | Fail \<Rightarrow> Some ([error_frame ''decode_region''], c)
      | Rd reg pos \<Rightarrow>
          let (dr, f) = create_region reg ctx (co_fabric c);
              (dr, f) = (if dr = DecisionReason.DUPLICATE_IDENTITY then revalidate_region (reg_id reg) ctx f else (dr, f)) in
          Some ([ack_frame dr], c\<lparr>co_fabric := f\<rparr>))"

definition dispatch_frame :: "nat \<Rightarrow> Frame \<Rightarrow> Coordinator \<Rightarrow> (Frame list \<times> Coordinator) option" where
  "dispatch_frame n f c =
     (let p = frame_payload f; ctx = worker_ctx (ws_boot (store_of c n)) (co_fabric c) in
      case frame_type f of
        FrameType.PUBLISH_DEVICE \<Rightarrow> dispatch_device n p c
      | FrameType.RESERVE \<Rightarrow> dispatch_reserve n p c
      | FrameType.COMMIT \<Rightarrow>
          (let (ro, f') = commit (Ident (string_of p)) ctx (co_fabric c) in
           Some ([commit_frame ro], c\<lparr>co_fabric := f'\<rparr>))
      | FrameType.RELEASE \<Rightarrow>
          (let (ro, f') = release (Ident (string_of p)) ctx (co_fabric c) in
           Some ([commit_frame ro], c\<lparr>co_fabric := f'\<rparr>))
      | FrameType.QUERY_STATE \<Rightarrow>
          Some ([\<lparr>frame_type = FrameType.QUERY_STATE_RESULT, frame_payload = bytes_of (fabric_state_text (co_fabric c))\<rparr>], c)
      | FrameType.PUBLISH_POOL \<Rightarrow> dispatch_pool n p c
      | FrameType.PUBLISH_REGION \<Rightarrow> dispatch_region n p c
      | FrameType.SHUTDOWN \<Rightarrow> Some ([], c\<lparr>co_running := False\<rparr>)
      | _ \<Rightarrow> Some ([error_frame ''unsupported frame type''], c))"

definition dispatch :: "io_faults \<Rightarrow> nat \<Rightarrow> Frame \<Rightarrow> Coordinator \<Rightarrow> (Frame list \<times> Coordinator) option" where
  "dispatch io n f c =
     (case dispatch_frame n f c of
        None \<Rightarrow> None
      | Some (rs, c1) \<Rightarrow> Some (rs, if persisting (frame_type f) then maybe_persist io c1 else c1))"

section \<open>Death of a worker\<close>

definition fence_devices :: "DeviceId list \<Rightarrow> AuthorityContext \<Rightarrow> Fabric \<Rightarrow> Fabric" where
  "fence_devices ds ctx f = fold (\<lambda>d f. snd (mark_device_revalidation d ctx f)) ds f"

definition appl_worker_death :: "io_faults \<Rightarrow> string \<Rightarrow> Coordinator \<Rightarrow> Coordinator" where
  "appl_worker_death io sid c =
     (case om_find (co_workers c) sid of
        None \<Rightarrow> c
      | Some n \<Rightarrow>
          let ws = store_of c n in
          if ws_dead ws then c
          else
            let ctx = AuthorityContext_default\<lparr>ctx_coordinator_epoch := epoch (co_fabric c),
                        ctx_policy_generation := policy_generation (co_fabric c)\<rparr>;
                c1 = update_worker n (ws\<lparr>ws_dead := True\<rparr>) c;
                c2 = c1\<lparr>co_fabric := fence_devices (ws_devices ws) ctx (co_fabric c1)\<rparr> in
            if co_statefile c2 \<noteq> [] then write_statefile io c2 else c2)"

section \<open>Connections\<close>

definition erase_worker :: "string \<Rightarrow> Coordinator \<Rightarrow> Coordinator" where
  "erase_worker sid c = c\<lparr>co_workers := filter (\<lambda>e. fst e \<noteq> sid) (co_workers c)\<rparr>"

definition set_phase :: "nat \<Rightarrow> phase \<Rightarrow> Coordinator \<Rightarrow> Coordinator" where
  "set_phase n p c = c\<lparr>co_phases := om_assign n p (co_phases c)\<rparr>"

text \<open>The end of \<^verbatim>\<open>handle\<close>: close the socket and drop the entry of the key.\<close>

definition finish :: "nat \<Rightarrow> string \<Rightarrow> Coordinator \<Rightarrow> Coordinator" where
  "finish n sid c = set_phase n Closed (erase_worker sid c)"

text \<open>The test of the loop, after the first frame and after each frame that was dispatched.\<close>

definition next_round :: "nat \<Rightarrow> string \<Rightarrow> Coordinator \<Rightarrow> Coordinator" where
  "next_round n sid c = (if co_running c then set_phase n (Serving sid) c else finish n sid c)"

definition boot_worker :: "nat \<Rightarrow> string \<Rightarrow> Coordinator \<Rightarrow> Coordinator" where
  "boot_worker n bootid c =
     (let c1 = update_worker n ((store_of c n)\<lparr>ws_boot := Ident bootid\<rparr>) c;
          c2 = c1\<lparr>co_workers := om_assign bootid n (co_workers c1)\<rparr> in
      next_round n bootid c2)"

definition stop :: "io_faults \<Rightarrow> Coordinator \<Rightarrow> Coordinator" where
  "stop io c = (let c1 = (if co_persist c \<noteq> [] then persist_now io c else c) in c1\<lparr>co_accepting := False, co_exited := True\<rparr>)"

datatype event = Accepted nat | Received nat DecodeResult | Signalled | Stopping

text \<open>
  One event: a connection is accepted and gets a fresh worker record, the thread of a connection receives
  something (a frame or the failure to receive one), a signal arrives, or the main thread notices that the
  process is to end. The result is the frames that are sent back and the next state, or nothing for
  undefined behaviour. Nothing happens any more once the process has exited.
\<close>

fun on_event :: "io_faults \<Rightarrow> event \<Rightarrow> Coordinator \<Rightarrow> (Frame list \<times> Coordinator) option" where
  "on_event io (Accepted n) c =
     (if co_exited c \<or> \<not> co_accepting c \<or> om_count (co_store c) n then Some ([], c)
      else Some ([], set_phase n Booting (update_worker n WorkerState_default (c\<lparr>co_accepting := co_running c\<rparr>))))"
| "on_event io (Received n r) c =
     (if co_exited c then Some ([], c)
      else case om_find (co_phases c) n of
        Some Booting \<Rightarrow>
          if dr_status r \<noteq> DecodeStatus.OK \<or> frame_type (dr_frame r) \<noteq> FrameType.WORKER_BOOT
          then Some ([], set_phase n Closed c)
          else Some ([], boot_worker n (string_of (frame_payload (dr_frame r))) c)
      | Some (Serving sid) \<Rightarrow>
          if dr_status r \<noteq> DecodeStatus.OK then Some ([], finish n sid (appl_worker_death io sid c))
          else map_option (\<lambda>(rs, c'). (rs, next_round n sid c')) (dispatch io n (dr_frame r) c)
      | _ \<Rightarrow> Some ([], c))"
| "on_event io Signalled c = Some ([], c\<lparr>co_running := False\<rparr>)"
| "on_event io Stopping c = Some ([], if co_running c \<or> co_exited c then c else stop io c)"

section \<open>The engine calls of an event\<close>

definition death_calls :: "string \<Rightarrow> Coordinator \<Rightarrow> call list" where
  "death_calls sid c =
     (case om_find (co_workers c) sid of
        None \<Rightarrow> []
      | Some n \<Rightarrow>
          if ws_dead (store_of c n) then []
          else map (\<lambda>d. Mark_device_revalidation d (AuthorityContext_default\<lparr>ctx_coordinator_epoch := epoch (co_fabric c),
                 ctx_policy_generation := policy_generation (co_fabric c)\<rparr>)) (ws_devices (store_of c n)))"

definition frame_calls :: "nat \<Rightarrow> Frame \<Rightarrow> Coordinator \<Rightarrow> call list" where
  "frame_calls n f c =
     (let p = frame_payload f; ctx = worker_ctx (ws_boot (store_of c n)) (co_fabric c) in
      case frame_type f of
        FrameType.PUBLISH_DEVICE \<Rightarrow> (case decode_device p CxlDevice_default of Rd d pos \<Rightarrow> [Register_device d ctx] | _ \<Rightarrow> [])
      | FrameType.RESERVE \<Rightarrow>
          (case decode_reserve p of
             Rd v pos \<Rightarrow> [Reserve (AdmissionRequest_default\<lparr>req_bytes := fst v, req_consumer := Ident (snd v)\<rparr>) ctx] | _ \<Rightarrow> [])
      | FrameType.COMMIT \<Rightarrow> [Commit (Ident (string_of p)) ctx]
      | FrameType.RELEASE \<Rightarrow> [Release (Ident (string_of p)) ctx]
      | FrameType.PUBLISH_POOL \<Rightarrow>
          (case decode_pool p of
             Rd (pid, g, members) pos \<Rightarrow>
               Create_pool (published_pool pid g members) ctx #
               (if fst (create_pool (published_pool pid g members) ctx (co_fabric c)) = DecisionReason.DUPLICATE_IDENTITY
                then [Revalidate_pool pid ctx] else [])
           | _ \<Rightarrow> [])
      | FrameType.PUBLISH_REGION \<Rightarrow>
          (case decode_region p CxlRegion_default of
             Rd reg pos \<Rightarrow>
               Create_region reg ctx #
               (if fst (create_region reg ctx (co_fabric c)) = DecisionReason.DUPLICATE_IDENTITY
                then [Revalidate_region (reg_id reg) ctx] else [])
           | _ \<Rightarrow> [])
      | _ \<Rightarrow> [])"

fun event_calls :: "event \<Rightarrow> Coordinator \<Rightarrow> call list" where
  "event_calls (Received n r) c =
     (if co_exited c then []
      else case om_find (co_phases c) n of
        Some (Serving sid) \<Rightarrow> if dr_status r \<noteq> DecodeStatus.OK then death_calls sid c else frame_calls n (dr_frame r) c
      | _ \<Rightarrow> [])"
| "event_calls _ c = []"

text \<open>Reachable states, with the number of engine calls made so far.\<close>

inductive co_reachable :: "(event \<Rightarrow> Coordinator \<Rightarrow> bool) \<Rightarrow> Coordinator \<Rightarrow> nat \<Rightarrow> Coordinator \<Rightarrow> bool"
  for allowed :: "event \<Rightarrow> Coordinator \<Rightarrow> bool" and start :: Coordinator where
  start: "co_reachable allowed start 0 start"
| event: "co_reachable allowed start k c \<Longrightarrow> allowed e c \<Longrightarrow> on_event io e c = Some (rs, c') \<Longrightarrow>
    co_reachable allowed start (k + length (event_calls e c)) c'"

section \<open>Frames of the record updates\<close>

lemma update_worker_frame [simp]:
  "co_fabric (update_worker n ws c) = co_fabric c" "co_statefile (update_worker n ws c) = co_statefile c"
  "co_workers (update_worker n ws c) = co_workers c" "co_phases (update_worker n ws c) = co_phases c"
  "co_files (update_worker n ws c) = co_files c" "co_exited (update_worker n ws c) = co_exited c"
  by (simp_all add: update_worker_def)

lemma co_fabric_frame [simp]:
  "co_fabric (set_phase n p c) = co_fabric c" "co_fabric (erase_worker sid c) = co_fabric c"
  "co_fabric (write_statefile io c) = co_fabric c" "co_fabric (persist_now io c) = co_fabric c"
  "co_fabric (maybe_persist io c) = co_fabric c" "co_fabric (finish n sid c) = co_fabric c"
  "co_fabric (next_round n sid c) = co_fabric c" "co_fabric (boot_worker n sid c) = co_fabric c"
  "co_fabric (stop io c) = co_fabric c"
proof -
  show ps: "co_fabric (set_phase n p c) = co_fabric c" for n p c by (simp add: set_phase_def)
  show er: "co_fabric (erase_worker sid c) = co_fabric c" for sid c by (simp add: erase_worker_def)
  show ws: "co_fabric (write_statefile io c) = co_fabric c" for io c by (simp add: write_statefile_def Let_def)
  show pn: "co_fabric (persist_now io c) = co_fabric c" for io c
    by (simp add: persist_now_def split: sum.splits prod.splits write_result.splits)
  show "co_fabric (maybe_persist io c) = co_fabric c" by (simp add: maybe_persist_def Let_def ws pn)
  show fi: "co_fabric (finish n sid c) = co_fabric c" for n sid c by (simp add: finish_def ps er)
  show nr: "co_fabric (next_round n sid c) = co_fabric c" for n sid c by (simp add: next_round_def ps fi)
  show "co_fabric (boot_worker n sid c) = co_fabric c" by (simp add: boot_worker_def Let_def nr)
  show "co_fabric (stop io c) = co_fabric c" by (simp add: stop_def Let_def pn)
qed

lemma run_single: "run [call] f = exec call f"
  by simp

lemma fence_devices_run:
  "fence_devices ds ctx f = run (map (\<lambda>d. Mark_device_revalidation d ctx) ds) f"
  by (induction ds arbitrary: f) (simp_all add: fence_devices_def exec_def)

lemma death_run: "co_fabric (appl_worker_death io sid c) = run (death_calls sid c) (co_fabric c)"
  by (simp add: appl_worker_death_def death_calls_def Let_def fence_devices_run split: option.splits)

definition frame_ctx :: "nat \<Rightarrow> Coordinator \<Rightarrow> AuthorityContext" where
  "frame_ctx n c = worker_ctx (ws_boot (store_of c n)) (co_fabric c)"

lemma dispatch_device_run:
  "dispatch_device n p c = Some (rs, c') \<Longrightarrow>
     co_fabric c' = (case decode_device p CxlDevice_default of Rd d pos \<Rightarrow> exec (Register_device d (frame_ctx n c)) (co_fabric c)
       | _ \<Rightarrow> co_fabric c)"
  by (auto simp: dispatch_device_def Let_def exec_def frame_ctx_def split: rd.splits prod.splits if_splits)

lemma dispatch_reserve_run:
  "dispatch_reserve n p c = Some (rs, c') \<Longrightarrow>
     co_fabric c' = (case decode_reserve p of
         Rd v pos \<Rightarrow> exec (Reserve (AdmissionRequest_default\<lparr>req_bytes := fst v, req_consumer := Ident (snd v)\<rparr>) (frame_ctx n c)) (co_fabric c)
       | _ \<Rightarrow> co_fabric c)"
  by (auto simp: dispatch_reserve_def Let_def exec_def frame_ctx_def split: rd.splits prod.splits if_splits)

lemma dispatch_pool_run:
  assumes "dispatch_pool n p c = Some (rs, c')"
  shows "co_fabric c' = run (frame_calls n \<lparr>frame_type = FrameType.PUBLISH_POOL, frame_payload = p\<rparr> c) (co_fabric c)"
  using assms
  by (auto simp: dispatch_pool_def frame_calls_def Let_def exec_def published_pool_def split: rd.splits prod.splits if_splits)

lemma dispatch_region_run:
  assumes "dispatch_region n p c = Some (rs, c')"
  shows "co_fabric c' = run (frame_calls n \<lparr>frame_type = FrameType.PUBLISH_REGION, frame_payload = p\<rparr> c) (co_fabric c)"
  using assms
  by (auto simp: dispatch_region_def frame_calls_def Let_def exec_def split: rd.splits prod.splits if_splits)

lemma dispatch_frame_run:
  assumes "dispatch_frame n f c = Some (rs, c')"
  shows "co_fabric c' = run (frame_calls n f c) (co_fabric c)"
proof -
  have f: "frame_type f = t \<Longrightarrow> \<lparr>frame_type = t, frame_payload = frame_payload f\<rparr> = f" for t by simp
  show ?thesis
  proof (cases "frame_type f")
    case PUBLISH_DEVICE
    with assms show ?thesis
      using dispatch_device_run [of n "frame_payload f" c rs c']
      by (auto simp: dispatch_frame_def frame_calls_def frame_ctx_def Let_def split: rd.splits)
  next
    case RESERVE
    with assms show ?thesis
      using dispatch_reserve_run [of n "frame_payload f" c rs c']
      by (auto simp: dispatch_frame_def frame_calls_def frame_ctx_def Let_def split: rd.splits)
  next
    case PUBLISH_POOL
    with assms have "dispatch_pool n (frame_payload f) c = Some (rs, c')" by (simp add: dispatch_frame_def Let_def)
    from dispatch_pool_run [OF this] show ?thesis by (simp add: f [OF PUBLISH_POOL])
  next
    case PUBLISH_REGION
    with assms have "dispatch_region n (frame_payload f) c = Some (rs, c')" by (simp add: dispatch_frame_def Let_def)
    from dispatch_region_run [OF this] show ?thesis by (simp add: f [OF PUBLISH_REGION])
  qed (use assms in \<open>auto simp: dispatch_frame_def frame_calls_def Let_def exec_def split: prod.splits\<close>)
qed

lemma dispatch_run:
  "dispatch io n f c = Some (rs, c') \<Longrightarrow> co_fabric c' = run (frame_calls n f c) (co_fabric c)"
  using dispatch_frame_run by (auto simp: dispatch_def split: option.splits)

lemma event_run:
  assumes "on_event io e c = Some (rs, c')"
  shows "co_fabric c' = run (event_calls e c) (co_fabric c)"
proof (cases e)
  case (Received n r)
  with assms show ?thesis
    using death_run dispatch_run by (auto split: if_splits option.splits phase.splits)
qed (use assms in \<open>auto split: if_splits\<close>)
section \<open>The coordinator only makes sound calls\<close>

text \<open>
  The sizes that a published pool announces are not checked by the engine; they have to add up within 64 bits.
\<close>

fun fitting_event :: "event \<Rightarrow> Coordinator \<Rightarrow> bool" where
  "fitting_event (Received n r) c \<longleftrightarrow> frame_type (dr_frame r) = FrameType.PUBLISH_POOL \<longrightarrow>
     (case decode_pool (frame_payload (dr_frame r)) of Rd (pid, g, members) pos \<Rightarrow> nominal_fits members | _ \<Rightarrow> True)"
| "fitting_event _ c \<longleftrightarrow> True"

lemma reading_Rd: "reading g k d p = Rd v q \<longleftrightarrow> (\<exists>x p'. g d p = Rd x p' \<and> k x d p' = Rd v q)"
  by (auto simp: reading_def split: rd.splits)

lemma whole_Rd: "whole g d = Rd v q \<longleftrightarrow> g d 0 = Rd v q \<and> q = length d"
  by (auto simp: whole_def split: rd.splits)

lemma decode_region_idle:
  assumes "decode_region p CxlRegion_default = Rd r q"
  shows "reg_reserved_bytes r = 0 \<and> reg_committed_bytes r = 0"
proof -
  from assms obtain rid g pid ms bytes loc tier st where "r = decoded_region CxlRegion_default rid g pid ms bytes loc tier st"
    by (auto simp: decode_region_def whole_Rd reading_Rd rd_check_def rd_return_def split: if_splits)
  then show ?thesis by (simp add: decoded_region_def CxlRegion_default_def Let_def)
qed

lemma frame_calls_sound:
  assumes "fitting_event (Received n r) c" and "call \<in> set (frame_calls n (dr_frame r) c)"
  shows "sound_call call f"
  using assms
  by (cases "frame_type (dr_frame r)")
    (auto simp: frame_calls_def Let_def published_pool_def CxlPool_default_def split: rd.splits if_splits
      dest!: decode_region_idle [OF sym])

lemma event_calls_sound:
  assumes "fitting_event e c" and "call \<in> set (event_calls e c)"
  shows "sound_call call f"
proof (cases e)
  case (Received n r)
  have "sound_call call f" if "call \<in> set (death_calls sid c)" for sid
    using that by (auto simp: death_calls_def split: option.splits if_splits)
  with frame_calls_sound [of n r c call f] assms Received show ?thesis
    by (auto split: if_splits option.splits phase.splits)
qed (use assms in simp_all)

interpretation coordinator: engine_client "\<lambda>e c c'. \<exists>io rs. on_event io e c = Some (rs, c')" co_fabric event_calls fitting_event
  by unfold_locales (use event_run event_calls_sound in blast)+

lemma coordinator_refines:
  "co_reachable fitting_event start k c \<Longrightarrow> reachable sound_call (co_fabric start) k (co_fabric c)"
proof (induction rule: co_reachable.induct)
  case start
  show ?case by (rule reachable.initial)
next
  case (event k c e io rs c')
  then show ?case by (intro coordinator.step_reachable) auto
qed

text \<open>Without any restriction on the frames the structure of the engine's state is kept.\<close>

lemma event_calls_well_formed: "call \<in> set (event_calls e c) \<Longrightarrow> well_formed_call call f"
proof (cases e)
  case (Received n r)
  have "well_formed_call call f" if "call \<in> set (death_calls sid c)" for sid
    using that by (auto simp: death_calls_def split: option.splits if_splits)
  moreover have "well_formed_call call f" if "call \<in> set (frame_calls n (dr_frame r) c)"
    using that by (cases "frame_type (dr_frame r)") (auto simp: frame_calls_def Let_def split: rd.splits if_splits)
  moreover assume "call \<in> set (event_calls e c)"
  ultimately show ?thesis using Received by (auto split: if_splits option.splits phase.splits)
qed simp_all

lemma event_structure: "structure_ok (co_fabric c) \<Longrightarrow> on_event io e c = Some (rs, c') \<Longrightarrow> structure_ok (co_fabric c')"
  using structure_run [OF _ allowed_run_all [of "event_calls e c"]] event_calls_well_formed by (simp add: event_run)

lemma coordinator_structure: "co_reachable allowed start k c \<Longrightarrow> structure_ok (co_fabric start) \<Longrightarrow> structure_ok (co_fabric c)"
  by (induction rule: co_reachable.induct) (auto intro: event_structure)

section \<open>Fencing the devices of a dead worker\<close>

lemma mark_offline:
  assumes "wf_maps f" and "ctx_coordinator_epoch ctx = epoch f"
    and "find_device (snd (mark_device_revalidation d ctx f)) k = Some dev" and "dev_state dev = DeviceState.ONLINE"
  shows "k \<noteq> d \<and> find_device f k = Some dev"
  using assms
  by (auto simp: mark_device_revalidation_def valid_transition_device_def split: option.splits if_splits)

lemma mark_keeps:
  "wf_maps f \<Longrightarrow> wf_maps (snd (mark_device_revalidation d ctx f))"
  "epoch (snd (mark_device_revalidation d ctx f)) = epoch f"
  using mark_device_revalidation_shape [of d ctx f] by auto

lemma fence_devices_offline:
  assumes "wf_maps f" and "ctx_coordinator_epoch ctx = epoch f"
    and "find_device (fence_devices ds ctx f) k = Some dev" and "dev_state dev = DeviceState.ONLINE"
  shows "k \<notin> set ds \<and> find_device f k = Some dev"
  using assms
proof (induction ds arbitrary: f)
  case (Cons d ds)
  let ?g = "snd (mark_device_revalidation d ctx f)"
  have "k \<notin> set ds \<and> find_device ?g k = Some dev"
    using Cons.prems mark_keeps(1) [OF Cons.prems(1)] mark_keeps(2) by (intro Cons.IH) (simp_all add: fence_devices_def)
  with mark_offline [OF Cons.prems(1,2), of d k dev] Cons.prems(4) show ?case by simp
qed (simp add: fence_devices_def)

section \<open>The table of workers\<close>

text \<open>
  The entry of a key belongs to a connection that serves under this key and whose worker has not been declared dead.
\<close>

definition workers_ok :: "Coordinator \<Rightarrow> bool" where
  "workers_ok c \<longleftrightarrow> om_wf (co_workers c) \<and> om_wf (co_store c) \<and> om_wf (co_phases c) \<and>
     (\<forall>sid n. om_find (co_workers c) sid = Some n \<longrightarrow>
        om_find (co_phases c) n = Some (Serving sid) \<and> \<not> ws_dead (store_of c n) \<and> ws_boot (store_of c n) = Ident sid) \<and>
     (\<forall>n. om_find (co_phases c) n = Some Booting \<longrightarrow> \<not> ws_dead (store_of c n)) \<and>
     (\<forall>n. om_find (co_phases c) n \<noteq> None \<longrightarrow> om_find (co_store c) n \<noteq> None)"
lemma om_find_filter: "om_find (filter (\<lambda>e. fst e \<noteq> k) m) j = (if j = k then None else om_find m j)"
  by (induction m) (auto simp: om_find_def)

lemma om_wf_filter: "om_wf m \<Longrightarrow> om_wf (filter P m)"
  unfolding om_wf_def by (induction m) auto

lemma store_of_update: "om_wf (co_store c) \<Longrightarrow> store_of (update_worker n ws c) m = (if m = n then ws else store_of c m)"
  by (simp add: store_of_def update_worker_def om.find_assign)

text \<open>The table only depends on three components of the state.\<close>

lemma workers_ok_cong:
  "co_workers c' = co_workers c \<Longrightarrow> co_store c' = co_store c \<Longrightarrow> co_phases c' = co_phases c \<Longrightarrow> workers_ok c' = workers_ok c"
  by (simp add: workers_ok_def store_of_def)

lemma files_frame [simp]:
  "co_workers (write_statefile io c) = co_workers c" "co_store (write_statefile io c) = co_store c"
  "co_phases (write_statefile io c) = co_phases c" "co_workers (persist_now io c) = co_workers c"
  "co_store (persist_now io c) = co_store c" "co_phases (persist_now io c) = co_phases c"
  "co_workers (maybe_persist io c) = co_workers c" "co_store (maybe_persist io c) = co_store c"
  "co_phases (maybe_persist io c) = co_phases c"
proof -
  show w: "co_workers (write_statefile io c) = co_workers c" "co_store (write_statefile io c) = co_store c"
    "co_phases (write_statefile io c) = co_phases c" for io c
    by (simp_all add: write_statefile_def Let_def)
  show p: "co_workers (persist_now io c) = co_workers c" "co_store (persist_now io c) = co_store c"
    "co_phases (persist_now io c) = co_phases c" for io c
    by (simp_all add: persist_now_def split: sum.splits prod.splits write_result.splits)
  show "co_workers (maybe_persist io c) = co_workers c" "co_store (maybe_persist io c) = co_store c"
    "co_phases (maybe_persist io c) = co_phases c"
    by (simp_all add: maybe_persist_def Let_def w p)
qed

lemma workers_ok_update:
  assumes "workers_ok c" and "ws_boot ws = ws_boot (store_of c n)" and "ws_dead ws = ws_dead (store_of c n)"
  shows "workers_ok (update_worker n ws c)"
  using assms by (auto simp: workers_ok_def store_of_update update_worker_def om.find_assign om.wf_assign store_of_def
      split: if_splits option.splits)

lemma workers_ok_dispatch:
  assumes "workers_ok c" and "dispatch io n f c = Some (rs, c')"
  shows "workers_ok c' \<and> co_phases c' = co_phases c \<and> co_workers c' = co_workers c"
proof -
  obtain c1 where c1: "dispatch_frame n f c = Some (rs, c1)" and c': "c' = (if persisting (frame_type f) then maybe_persist io c1 else c1)"
    using assms(2) by (auto simp: dispatch_def split: option.splits)
  have fab: "workers_ok (c\<lparr>co_fabric := g\<rparr>)" "store_of (c\<lparr>co_fabric := g\<rparr>) m = store_of c m"
    "workers_ok (c\<lparr>co_running := b\<rparr>)" for g m b
    using assms(1) by (simp_all add: workers_ok_def store_of_def)
  have "workers_ok c1 \<and> co_phases c1 = co_phases c \<and> co_workers c1 = co_workers c"
    using c1 assms(1)
    by (cases "frame_type f")
      (auto simp: dispatch_frame_def dispatch_device_def dispatch_reserve_def dispatch_pool_def dispatch_region_def Let_def fab
        intro!: workers_ok_update split: rd.splits prod.splits if_splits)
  with c' workers_ok_cong [of "maybe_persist io c1" c1] show ?thesis by auto
qed

lemma workers_ok_finish:
  assumes "workers_ok c" and "om_find (co_phases c) n = Some (Serving sid)" and "workers_ok c'"
    and "co_workers c' = co_workers c" and "co_phases c' = co_phases c"
  shows "workers_ok (finish n sid c')"
  using assms
  by (auto simp: workers_ok_def finish_def set_phase_def erase_worker_def store_of_def om.find_assign om.wf_assign
      om_find_filter om_wf_filter split: if_splits option.splits)
lemma death_frame:
  assumes "workers_ok c"
  shows "co_workers (appl_worker_death io sid c) = co_workers c \<and> co_phases (appl_worker_death io sid c) = co_phases c \<and>
    om_wf (co_store (appl_worker_death io sid c)) \<and>
    (\<forall>m. om_find (co_store c) m \<noteq> None \<longrightarrow> om_find (co_store (appl_worker_death io sid c)) m \<noteq> None) \<and>
    (\<forall>m. om_find (co_workers c) sid \<noteq> Some m \<longrightarrow> store_of (appl_worker_death io sid c) m = store_of c m)"
proof -
  note wf = assms [unfolded workers_ok_def]
  have st: "store_of (write_statefile io a) m = store_of a m" "store_of (a\<lparr>co_fabric := g\<rparr>) m = store_of a m" for a g m
    by (simp_all add: store_of_def)
  show ?thesis
    using wf by (auto simp: appl_worker_death_def Let_def st store_of_update update_worker_def om.find_assign om.wf_assign
        store_of_def split: option.splits if_splits)
qed

lemma workers_ok_death:
  assumes "workers_ok c" and "om_find (co_phases c) n = Some (Serving sid)"
  shows "workers_ok (finish n sid (appl_worker_death io sid c))"
proof -
  let ?d = "appl_worker_death io sid c" and ?e = "finish n sid (appl_worker_death io sid c)"
  note d = death_frame [OF assms(1), of io sid] and ok = assms(1) [unfolded workers_ok_def]
  have st: "store_of ?e = store_of ?d" "co_store ?e = co_store ?d"
    by (simp_all add: fun_eq_iff store_of_def finish_def set_phase_def erase_worker_def)
  have wk: "om_find (co_workers ?e) s = (if s = sid then None else om_find (co_workers c) s)" for s
    using d by (simp add: finish_def set_phase_def erase_worker_def om_find_filter)
  have ph: "om_find (co_phases ?e) m = (if m = n then Some Closed else om_find (co_phases c) m)" for m
    using d ok by (simp add: finish_def set_phase_def erase_worker_def om.find_assign)
  have own: "om_find (co_workers c) s = Some m \<Longrightarrow> om_find (co_phases c) m = Some (Serving s)" for s m
    using ok by blast
  have "om_wf (co_workers ?e)" "om_wf (co_phases ?e)"
    using d ok by (simp_all add: finish_def set_phase_def erase_worker_def om_wf_filter om.wf_assign)
  moreover have "store_of ?d m = store_of c m" if "s \<noteq> sid" "om_find (co_workers c) s = Some m" for s m
    using own [OF that(2)] own [of sid m] that(1) d by auto
  moreover have "store_of ?d m = store_of c m" if "om_find (co_phases c) m = Some Booting" for m
    using own [of sid m] that d by auto
  ultimately show ?thesis
    unfolding workers_ok_def st wk ph using d ok own assms(2) by (auto split: if_splits)
qed

lemma om_assign_twice: "om_assign k v (om_assign k w m) = om_assign k v m"
  by (induction m) auto

lemma workers_ok_boot:
  assumes "workers_ok c" and "om_find (co_phases c) n = Some Booting"
  shows "workers_ok (boot_worker n sid c)"
proof -
  let ?c = "(update_worker n ((store_of c n)\<lparr>ws_boot := Ident sid\<rparr>) c)\<lparr>co_workers := om_assign sid n (co_workers c)\<rparr>"
  note ok = assms(1) [unfolded workers_ok_def]
  have st: "store_of (set_phase n p ?c) m = (if m = n then (store_of c n)\<lparr>ws_boot := Ident sid\<rparr> else store_of c m)" for p m
    using ok by (simp add: store_of_def set_phase_def update_worker_def om.find_assign)
  have other: "om_find (co_workers c) s = Some m \<Longrightarrow> m \<noteq> n" for s m
    using ok assms(2) by force
  have sv: "workers_ok (set_phase n (Serving sid) ?c)"
    unfolding workers_ok_def st using ok other assms(2)
    by (auto simp: set_phase_def update_worker_def om.find_assign om.wf_assign split: if_splits)
  have "finish n sid ?c = finish n sid (set_phase n (Serving sid) ?c)"
    by (simp add: finish_def set_phase_def erase_worker_def om_assign_twice)
  then show ?thesis
    using sv workers_ok_finish [OF sv _ sv] ok
    by (simp add: boot_worker_def Let_def next_round_def set_phase_def om.find_assign)
qed

lemma set_phase_same: "om_wf (co_phases c) \<Longrightarrow> om_find (co_phases c) n = Some p \<Longrightarrow> workers_ok (set_phase n p c) = workers_ok c"
  by (auto simp: workers_ok_def set_phase_def store_of_def om.find_assign om.wf_assign)

lemma workers_ok_close:
  assumes "workers_ok c" and "om_find (co_phases c) n = Some Booting"
  shows "workers_ok (set_phase n Closed c)"
  using assms by (auto simp: workers_ok_def set_phase_def store_of_def om.find_assign om.wf_assign split: if_splits)

lemma workers_ok_accept:
  assumes "workers_ok c" and "\<not> om_count (co_store c) n"
  shows "workers_ok (set_phase n Booting (update_worker n WorkerState_default c))"
proof -
  note ok = assms(1) [unfolded workers_ok_def]
  have st: "store_of (set_phase n Booting (update_worker n WorkerState_default c)) m =
      (if m = n then WorkerState_default else store_of c m)" for m
    using ok by (simp add: store_of_def set_phase_def update_worker_def om.find_assign)
  have "om_find (co_workers c) s \<noteq> Some n" for s
    using ok assms(2) by (force simp: om_count_def)
  with ok show ?thesis
    unfolding workers_ok_def st
    by (auto simp: set_phase_def update_worker_def om.find_assign om.wf_assign WorkerState_default_def split: if_splits)
qed

lemma workers_ok_event:
  assumes ok: "workers_ok c" and ev: "on_event io e c = Some (rs, c')"
  shows "workers_ok c'"
proof (cases e)
  case (Accepted n)
  have "workers_ok (c\<lparr>co_accepting := b\<rparr>)" for b using ok by (simp add: workers_ok_def store_of_def)
  from workers_ok_accept [OF this] show ?thesis using ev ok Accepted by (auto split: if_splits)
next
  case (Received n r)
  show ?thesis
  proof (cases "co_exited c")
    case False
    consider "om_find (co_phases c) n = None" | "om_find (co_phases c) n = Some Closed" | "om_find (co_phases c) n = Some Booting"
      | sid where "om_find (co_phases c) n = Some (Serving sid)"
      by (metis option.exhaust phase.exhaust)
    then show ?thesis
    proof cases
      case 3
      then show ?thesis
        using ev Received False workers_ok_close [OF ok 3] workers_ok_boot [OF ok 3] by (auto split: if_splits)
    next
      case (4 sid)
      show ?thesis
      proof (cases "dr_status r = DecodeStatus.OK")
        case True
        then obtain c1 where d: "dispatch io n (dr_frame r) c = Some (rs, c1)" and c': "c' = next_round n sid c1"
          using ev Received False 4 by auto
        note d1 = workers_ok_dispatch [OF ok d]
        then have "om_wf (co_phases c1)" "om_find (co_phases c1) n = Some (Serving sid)"
          using 4 ok by (auto simp: workers_ok_def)
        with d1 show ?thesis
          using workers_ok_finish [OF ok 4, of c1] by (simp add: c' next_round_def set_phase_same)
      next
        case False
        with ev Received \<open>\<not> co_exited c\<close> 4 workers_ok_death [OF ok 4, of io] show ?thesis by auto
      qed
    qed (use ev Received ok False in auto)
  qed (use ev Received ok in auto)
next
  case Signalled
  with ev ok show ?thesis by (auto simp: workers_ok_def store_of_def)
next
  case Stopping
  have "workers_ok (stop io c)"
    using ok workers_ok_cong [of "stop io c" c] by (simp add: stop_def Let_def)
  with ev ok Stopping show ?thesis by (auto split: if_splits)
qed

definition fresh :: "Coordinator \<Rightarrow> bool" where
  "fresh c \<longleftrightarrow> (\<exists>e p. co_fabric c = Fabric_new e p) \<and> co_workers c = [] \<and> co_store c = [] \<and> co_phases c = []"

lemma workers_ok_reachable: "co_reachable allowed start k c \<Longrightarrow> fresh start \<Longrightarrow> workers_ok c"
proof (induction rule: co_reachable.induct)
  case start
  then show ?case by (simp add: fresh_def workers_ok_def om_wf_def om_find_def)
next
  case (event k c e io rs c')
  then show ?case by (blast intro: workers_ok_event)
qed

lemma fresh_new:
  assumes "Coordinator_new io e persist statefile fs = Some c" and "persist = [] \<or> fs persist = None"
  shows "fresh c"
proof -
  have "co_fabric c = Fabric_new (Generation e) (Generation 1) \<and> co_workers c = [] \<and> co_store c = [] \<and> co_phases c = []"
    using assms by (auto simp: Coordinator_new_def Let_def split: if_splits)
  then show ?thesis by (auto simp: fresh_def)
qed

text \<open>
  The key of a worker is the boot identity it sends, and a second connection with the same one takes over the entry. When the
  first connection then ends, the devices of the second are fenced, those of the first are left as they are, and
  the entry is erased although the second connection is still served.
\<close>

lemma fence_devices_others:
  "wf_maps f \<Longrightarrow> d \<notin> set ds \<Longrightarrow> find_device (fence_devices ds ctx f) d = find_device f d"
proof (induction ds arbitrary: f)
  case (Cons e ds)
  have "find_device (snd (mark_device_revalidation e ctx f)) d = find_device f d"
    using Cons.prems by (auto simp: mark_device_revalidation_def split: option.splits)
  with Cons.IH [OF mark_keeps(1) [OF Cons.prems(1), of e ctx]] Cons.prems(2) show ?case by (simp add: fence_devices_def)
qed (simp add: fence_devices_def)

lemma replaced_worker_not_fenced:
  assumes "workers_ok c" and "wf_maps (co_fabric c)" and "\<not> co_exited c" and "om_find (co_phases c) n = Some (Serving sid)"
    and "om_find (co_workers c) sid = Some m" and "m \<noteq> n" and "dr_status r \<noteq> DecodeStatus.OK"
    and "on_event io (Received n r) c = Some (rs, c')" and "d \<notin> set (ws_devices (store_of c m))"
  shows "find_device (co_fabric c') d = find_device (co_fabric c) d \<and> om_find (co_workers c') sid = None \<and>
     om_find (co_phases c') m = Some (Serving sid)"
proof -
  have c': "c' = finish n sid (appl_worker_death io sid c)" using assms(3,4,7,8) by simp
  have ok: "\<not> ws_dead (store_of c m)" "om_find (co_phases c) m = Some (Serving sid)"
    using assms(1,5) by (auto simp: workers_ok_def)
  have "find_device (co_fabric c') d = find_device (co_fabric c) d"
    using assms(5,9) ok(1) fence_devices_others [OF assms(2,9)] by (simp add: c' appl_worker_death_def Let_def)
  moreover have "om_find (co_workers c') sid = None" "om_find (co_phases c') m = Some (Serving sid)"
    using death_frame [OF assms(1), of io sid] assms(1,6) ok(2)
    by (simp_all add: c' finish_def set_phase_def erase_worker_def om_find_filter om.find_assign workers_ok_def)
  ultimately show ?thesis by blast
qed

section \<open>Restart\<close>

definition no_faults :: "io_faults" where
  "no_faults = \<lparr>io_write = \<lparr>open_fails = False, flush_fails_at = None, rename_fails = False\<rparr>, io_statefile_open_fails = False, io_statefile_cut_at = None\<rparr>"

lemma persist_now_written:
  assumes "state_stored (export_persisted (co_fabric c))" and "serialize_state (export_persisted (co_fabric c)) = Inr payload"
    and "length payload \<le> kMaxPersistPayload"
  shows "read_persisted (co_persist c) (co_files (persist_now no_faults c)) = Inr payload"
proof -
  obtain fs where w: "write_persisted (io_write no_faults) (co_persist c) payload (co_files c) = (Written, fs)"
    using assms(3) by (simp add: write_persisted_eq no_faults_def Let_def)
  from write_read [OF w] show ?thesis by (simp add: persist_now_def assms(2) w)
qed

lemma restart_state:
  assumes "state_stored (export_persisted (co_fabric c))" and "serialize_state (export_persisted (co_fabric c)) = Inr payload"
    and "length payload \<le> kMaxPersistPayload" and "co_persist c \<noteq> []"
  shows "\<exists>c'. Coordinator_new io e (co_persist c) statefile (co_files (persist_now no_faults c)) = Some c' \<and>
     co_fabric c' = import_persisted (durable (export_persisted (co_fabric c))) (Fabric_new (Generation e) (Generation 1))"
proof -
  have rd: "read_persisted (co_persist c) (co_files (persist_now no_faults c)) = Inr payload"
    using persist_now_written [OF assms(1-3)] .
  then have "co_files (persist_now no_faults c) (co_persist c) \<noteq> None"
    by (auto simp: read_persisted_def split: option.splits)
  moreover have "deserialize_state payload = Loaded (durable (export_persisted (co_fabric c))) (length payload - 4)"
    using deserialize_serialized [OF assms(1)] assms(2) by simp
  ultimately show ?thesis
    using rd assms(4) by (simp add: Coordinator_new_def)
qed

section \<open>Properties\<close>


text \<open>
  C18. When the connection that a worker's boot identity is entered for ends, by a close, a truncated or a malformed frame, none of
  the devices published over that connection is on line afterwards, so none of them is selected for a placement until it is published
  or marked on line again; the worker's entry is gone and the connection is closed. A connection whose identity a later one has
  taken over is not covered: there \<open>replaced_worker_not_fenced\<close> shows that its devices stay as they are.
\<close>

theorem worker_death_fences:
  assumes "co_reachable allowed start k c" and "fresh start" and "\<not> co_exited c"
    and "om_find (co_workers c) sid = Some n" and "dr_status r \<noteq> DecodeStatus.OK"
    and "on_event io (Received n r) c = Some (rs, c')" and "d \<in> set (ws_devices (store_of c n))"
  shows "(\<forall>dev. find_device (co_fabric c') d = Some dev \<longrightarrow> dev_state dev \<noteq> DeviceState.ONLINE) \<and>
     (\<forall>req. so_ok (select req (co_fabric c')) \<longrightarrow> cand_device (so_chosen (select req (co_fabric c'))) \<noteq> d) \<and>
     om_find (co_workers c') sid = None \<and> om_find (co_phases c') n = Some Closed"
proof -
  note ok = workers_ok_reachable [OF assms(1,2)]
  then have ph: "om_find (co_phases c) n = Some (Serving sid)" and dead: "\<not> ws_dead (store_of c n)"
    using assms(4) by (auto simp: workers_ok_def)
  let ?d = "appl_worker_death io sid c"
  let ?ctx = "AuthorityContext_default\<lparr>ctx_coordinator_epoch := epoch (co_fabric c), ctx_policy_generation := policy_generation (co_fabric c)\<rparr>"
  have c': "c' = finish n sid ?d" using assms(3,5,6) ph by simp
  have fab: "co_fabric c' = fence_devices (ws_devices (store_of c n)) ?ctx (co_fabric c)"
    using assms(4) dead by (simp add: c' appl_worker_death_def Let_def)
  have str: "structure_ok (co_fabric c)"
    using coordinator_structure [OF assms(1)] assms(2) structure_new by (auto simp: fresh_def)
  have off: "dev_state dev \<noteq> DeviceState.ONLINE" if "find_device (co_fabric c') d = Some dev" for dev
    using fence_devices_offline [OF structure_wf [OF str], of ?ctx "ws_devices (store_of c n)" d dev] that assms(7)
    by (auto simp: fab)
  note str' = event_structure [OF str assms(6)]
  have "cand_device (so_chosen (select req (co_fabric c'))) \<noteq> d" if sel: "so_ok (select req (co_fabric c'))" for req
  proof -
    obtain pool region dev where "so_chosen (select req (co_fabric c')) = region_candidate pool region (dev_id dev) dev"
      and "find_device (co_fabric c') (dev_id dev) = Some dev" and "dev_state dev = DeviceState.ONLINE"
      using chosen_current [OF str' sel] by blast
    with off show ?thesis by (auto simp: region_candidate_def)
  qed
  moreover have "om_find (co_workers c') sid = None" "om_find (co_phases c') n = Some Closed"
    using death_frame [OF ok, of io sid] ok
    by (simp_all add: c' finish_def set_phase_def erase_worker_def om_find_filter om.find_assign workers_ok_def)
  ultimately show ?thesis using off by blast
qed

text \<open>
  C20. When a coordinator has written its state, within the bounds of the format, and another one is started on that file, the new one
  knows devices, regions and pools under the same identities and with the same generations, so a stale publication is still
  refused. They agree with the old ones in every field the format stores, and a pool in all but its state and evidence. All of
  them wait for revalidation and carry no current evidence. No reservation survives, but the bytes they held stay counted
  in their pools: the free bytes of a pool are what they were, although nothing is outstanding against it.
\<close>

theorem restart_recovers:
  assumes "state_stored (export_persisted (co_fabric c))" and "serialize_state (export_persisted (co_fabric c)) = Inr payload"
    and "length payload \<le> kMaxPersistPayload" and "co_persist c \<noteq> []"
  shows "\<exists>c'. Coordinator_new io e (co_persist c) statefile (co_files (persist_now no_faults c)) = Some c' \<and>
     epoch (co_fabric c') = Generation e \<and> policy_generation (co_fabric c') = policy_generation (co_fabric c) \<and>
     (\<forall>k. map_option dev_generation (find_device (co_fabric c') k) = map_option dev_generation (find_device (co_fabric c) k)) \<and>
     (\<forall>k. map_option reg_generation (find_region (co_fabric c') k) = map_option reg_generation (find_region (co_fabric c) k)) \<and>
     (\<forall>k. map_option pool_generation (find_pool (co_fabric c') k) = map_option pool_generation (find_pool (co_fabric c) k)) \<and>
     (\<forall>k. map_option durable_device (find_device (co_fabric c') k) = map_option durable_device (find_device (co_fabric c) k)) \<and>
     (\<forall>k. map_option durable_region (find_region (co_fabric c') k) = map_option durable_region (find_region (co_fabric c) k)) \<and>
     (\<forall>k. find_pool (co_fabric c') k = map_option fence_pool (find_pool (co_fabric c) k)) \<and>
     (\<forall>k d. find_device (co_fabric c') k = Some d \<longrightarrow> dev_state d = DeviceState.REVALIDATION_REQUIRED \<and> \<not> dev_evidence_current d) \<and>
     (\<forall>k r. find_region (co_fabric c') k = Some r \<longrightarrow> reg_state r = RegionState.REVALIDATION_REQUIRED \<and> \<not> reg_evidence_current r) \<and>
     (\<forall>k p. find_pool (co_fabric c') k = Some p \<longrightarrow> pool_state p = PoolState.REVALIDATION_REQUIRED \<and> \<not> pool_evidence_current p) \<and>
     (\<forall>k. find_reservation (co_fabric c') k = None) \<and>
     (\<forall>k. pool_held k (co_fabric c') = 0 \<and>
        map_option pool_free (find_pool (co_fabric c') k) = map_option pool_free (find_pool (co_fabric c) k))"
proof -
  obtain c' where new: "Coordinator_new io e (co_persist c) statefile (co_files (persist_now no_faults c)) = Some c'"
    and fab: "co_fabric c' = import_persisted (durable (export_persisted (co_fabric c))) (Fabric_new (Generation e) (Generation 1))"
    using restart_state [OF assms] by blast
  note facts = import_persisted_def durable_def export_persisted_def recompute_global_def option.map_comp comp_def find_defs
    fence_device_def fence_region_def fence_pool_def durable_device_def durable_region_def durable_pool_def
  have free: "pool_free (p\<lparr>pool_evidence_current := b, pool_state := s\<rparr>) = pool_free p" for p b s
    by (simp add: pool_free_def pool_used_def Let_def)
  have "epoch (co_fabric c') = Generation e" "policy_generation (co_fabric c') = policy_generation (co_fabric c)"
    by (simp_all add: fab epoch_def policy_generation_def Fabric_new_def facts)
  moreover have "map_option dev_generation (find_device (co_fabric c') k) = map_option dev_generation (find_device (co_fabric c) k)"
    "map_option reg_generation (find_region (co_fabric c') k1) = map_option reg_generation (find_region (co_fabric c) k1)"
    "map_option pool_generation (find_pool (co_fabric c') k2) = map_option pool_generation (find_pool (co_fabric c) k2)"
    "map_option pool_free (find_pool (co_fabric c') k2) = map_option pool_free (find_pool (co_fabric c) k2)" for k k1 k2
    by (simp_all add: fab facts free)
  moreover have "map_option durable_device (find_device (co_fabric c') k) = map_option durable_device (find_device (co_fabric c) k)"
    "map_option durable_region (find_region (co_fabric c') k1) = map_option durable_region (find_region (co_fabric c) k1)"
    "find_pool (co_fabric c') k2 = map_option fence_pool (find_pool (co_fabric c) k2)" for k k1 k2
    by (simp_all add: fab facts durable_economics_def CxlRegion_default_def option.map_comp comp_def fence_pool_def [abs_def]
        durable_device_def [abs_def] durable_region_def [abs_def])
  moreover have "dev_state d = DeviceState.REVALIDATION_REQUIRED \<and> \<not> dev_evidence_current d"
    if "find_device (co_fabric c') k = Some d" for k d
    using that by (auto simp: fab facts)
  moreover have "reg_state r = RegionState.REVALIDATION_REQUIRED \<and> \<not> reg_evidence_current r"
    if "find_region (co_fabric c') k = Some r" for k r
    using that by (auto simp: fab facts)
  moreover have "pool_state p = PoolState.REVALIDATION_REQUIRED \<and> \<not> pool_evidence_current p"
    if "find_pool (co_fabric c') k = Some p" for k p
    using that by (auto simp: fab facts)
  moreover have "find_reservation (co_fabric c') k = None" "pool_held k1 (co_fabric c') = 0" for k k1
    by (simp_all add: fab facts held_def held_defs)
  ultimately show ?thesis using new by blast
qed

end
