(* ===== verification/Lease.thy ===== *)
theory Lease
  imports Single Structure
begin

text \<open>
  The life of a reservation on a fabric with one pool: what \<^verbatim>\<open>reserve\<close>, \<^verbatim>\<open>commit\<close> and \<^verbatim>\<open>release\<close> return and leave behind, step by
  step, when nothing comes between them. The programs of the repository go through these steps.
\<close>

section \<open>A reservation with its records\<close>

definition lease :: "CxlDevice \<Rightarrow> Reservation \<Rightarrow> CxlPool \<Rightarrow> CxlRegion \<Rightarrow> Fabric \<Rightarrow> bool" where
  "lease dev v p r f \<longleftrightarrow> wf_maps f \<and> find_reservation f (res_id v) = Some v \<and> find_device f (res_device v) = Some dev \<and>
     st_pools (fab_state f) = [(res_pool v, p)] \<and> find_region f (res_region v) = Some r \<and>
     pool_generation p = res_pool_generation v \<and> reg_generation r = res_region_generation v \<and> dev_generation dev = res_device_generation v"

lemma lease_pool: "lease dev v p r f \<Longrightarrow> find_pool f (res_pool v) = Some p"
  by (simp add: lease_def find_defs)

lemma put_pool_only: "st_pools (fab_state f) = [(k, p)] \<Longrightarrow> st_pools (fab_state (put_pool k q f)) = [(k, q)]"
  by (simp add: put_defs)

lemma put_others_pools [simp]:
  "st_pools (fab_state (put_region kr r f)) = st_pools (fab_state f)" "st_pools (fab_state (put_reservation kv v f)) = st_pools (fab_state f)"
  "st_pools (fab_state (put_device kd d f)) = st_pools (fab_state f)" "st_pools (fab_state (recompute_global f)) = st_pools (fab_state f)"
  by (simp_all add: put_defs)

lemma put_epoch [simp]:
  "epoch (put_region kr r f) = epoch f" "epoch (put_reservation kv v f) = epoch f" "epoch (put_pool kp p f) = epoch f"
  "epoch (recompute_global f) = epoch f"
  by (simp_all add: put_defs epoch_def)

section \<open>The three steps\<close>

definition first_lease :: "AdmissionRequest \<Rightarrow> AuthorityContext \<Rightarrow> CxlDevice \<Rightarrow> CxlPool \<Rightarrow> CxlRegion \<Rightarrow> CoordinatorEpoch \<Rightarrow> Reservation" where
  "first_lease req ctx dev pool reg e = new_reservation 1 req ctx (region_candidate pool reg (dev_id dev) dev) dev e"

definition committed :: "CoordinatorEpoch \<Rightarrow> Reservation \<Rightarrow> Reservation" where
  "committed e v = v\<lparr>res_state := ResumeState.COMMITTED, res_commit_epoch := e\<rparr>"

definition released :: "Reservation \<Rightarrow> Reservation" where
  "released v = v\<lparr>res_state := ResumeState.RELEASED\<rparr>"

lemma first_lease_simps [simp]:
  "res_id (first_lease req ctx dev pool reg e) = reservation_id 1" "res_state (first_lease req ctx dev pool reg e) = ResumeState.RESERVED"
  "res_bytes (first_lease req ctx dev pool reg e) = req_bytes req" "res_created_epoch (first_lease req ctx dev pool reg e) = e"
  "res_worker_boot_id (first_lease req ctx dev pool reg e) = ctx_worker_boot_id ctx" "res_consumer (first_lease req ctx dev pool reg e) = req_consumer req"
  "res_pool (first_lease req ctx dev pool reg e) = pool_id pool" "res_region (first_lease req ctx dev pool reg e) = reg_id reg"
  "res_device (first_lease req ctx dev pool reg e) = dev_id dev" "res_pool_generation (first_lease req ctx dev pool reg e) = pool_generation pool"
  "res_region_generation (first_lease req ctx dev pool reg e) = reg_generation reg"
  "res_device_generation (first_lease req ctx dev pool reg e) = dev_generation dev"
  by (simp_all add: first_lease_def new_reservation_def region_candidate_def)

lemma committed_simps [simp]:
  "res_id (committed e v) = res_id v" "res_state (committed e v) = ResumeState.COMMITTED" "res_bytes (committed e v) = res_bytes v"
  "res_pool (committed e v) = res_pool v" "res_region (committed e v) = res_region v" "res_commit_epoch (committed e v) = e"
  by (simp_all add: committed_def)

lemma released_simps [simp]:
  "res_id (released v) = res_id v" "res_state (released v) = ResumeState.RELEASED" "res_bytes (released v) = res_bytes v"
  "res_commit_epoch (released v) = res_commit_epoch v"
  by (simp_all add: released_def)

lemma reserve_lease:
  assumes "single dev pool reg f" and "in_service dev reg pool (pool_evidence_current pool)" and "request_fits req dev reg pool"
    and "req_bytes req \<le> region_free reg" and "req_bytes req \<le> pool_free pool" and "req_bytes req \<noteq> 0"
    and "ctx_coordinator_epoch ctx = epoch f"
  obtains f' where "reserve req ctx f = (grant (first_lease req ctx dev pool reg (epoch f)), f')" "epoch f' = epoch f"
    "lease dev (first_lease req ctx dev pool reg (epoch f)) (pool_reserve (req_bytes req) pool) (region_reserve (req_bytes req) reg) f'"
proof -
  let ?v = "first_lease req ctx dev pool reg (epoch f)" and ?b = "req_bytes req"
  let ?f = "put_reservation (reservation_id 1) ?v (recompute_global (put_region (reg_id reg) (region_reserve ?b reg)
      (put_pool (pool_id pool) (pool_reserve ?b pool) f)))"
  have seq: "fab_sequence f = 0" "find_reservation f k = None" "st_pools (fab_state f) = [(pool_id pool, pool)]"
    "find_device f (dev_id dev) = Some dev" for k
    using assms(1) by (simp_all add: single_def find_defs)
  have wf: "wf_maps f" using assms(1) by (simp add: single_def wf_maps_def om_wf_Cons)
  have "reserve req ctx f = (grant ?v, ?f\<lparr>fab_sequence := 1\<rparr>)"
    using single_reserve [OF assms] seq(1,2)
    by (intro prod_eqI) (simp_all add: snd_book Let_def first_lease_def region_candidate_def)
  moreover have "epoch (?f\<lparr>fab_sequence := 1\<rparr>) = epoch f" by (simp add: epoch_def put_defs)
  moreover have "lease dev ?v (pool_reserve ?b pool) (region_reserve ?b reg) (?f\<lparr>fab_sequence := 1\<rparr>)"
    using wf seq put_pool_only [OF seq(3)] by (simp add: lease_def pool_reserve_def region_reserve_def)
  ultimately show thesis by (rule that)
qed

lemma commit_lease:
  assumes "lease dev v p r f" and "res_state v = ResumeState.RESERVED" and "res_created_epoch v = epoch f"
    and "ctx_coordinator_epoch ctx = epoch f" and "id_empty (ctx_worker_boot_id ctx) \<or> ctx_worker_boot_id ctx = res_worker_boot_id v"
    and "res_bytes v \<le> pool_reserved_bytes p"
  obtains f' where "commit (res_id v) ctx f = (grant (committed (epoch f) v), f')" "epoch f' = epoch f"
    "lease dev (committed (epoch f) v) (pool_commit (res_bytes v) p) (region_commit (res_bytes v) r) f'"
proof -
  let ?f = "recompute_global (put_reservation (res_id v) (committed (epoch f) v)
      (put_region (res_region v) (region_commit (res_bytes v) r) (put_pool (res_pool v) (pool_commit (res_bytes v) p) f)))"
  have "commit (res_id v) ctx f = (grant (committed (epoch f) v), ?f)"
    using assms lease_pool [OF assms(1)] by (auto simp: commit_def lease_def committed_def Let_def)
  moreover have "lease dev (committed (epoch f) v) (pool_commit (res_bytes v) p) (region_commit (res_bytes v) r) ?f"
    using assms(1) put_pool_only [of f "res_pool v" p] by (simp add: lease_def committed_def pool_commit_def region_commit_def)
  ultimately show thesis by (intro that) simp_all
qed

lemma release_lease:
  assumes "lease dev v p r f" and "res_state v = ResumeState.RESERVED \<or> res_state v = ResumeState.COMMITTED"
    and "ctx_coordinator_epoch ctx = epoch f" and "pool_release (res_bytes v) p = (0, p')" and "region_release (res_bytes v) r = (m, r')"
  obtains f' where "release (res_id v) ctx f = (grant (released v), f')" "epoch f' = epoch f" "lease dev (released v) p' r' f'"
proof -
  let ?f = "recompute_global (put_reservation (res_id v) (released v) (put_region (res_region v) r' (put_pool (res_pool v) p' f)))"
  have "release (res_id v) ctx f = (grant (released v), ?f)"
    using assms lease_pool [OF assms(1)]
    by (auto simp: release_def release_from_pool_def release_from_region_def lease_def released_def Let_def)
  moreover have "pool_generation p' = pool_generation p" "reg_generation r' = reg_generation r"
    using assms(4,5) by (auto simp: pool_release_def region_release_def split: prod.splits)
  then have "lease dev (released v) p' r' ?f"
    using assms(1) put_pool_only [of f "res_pool v" p] by (simp add: lease_def released_def)
  ultimately show thesis by (intro that) simp_all
qed

text \<open>What was reserved, committed and released again leaves the counters as they were.\<close>

lemma counters_return:
  "pool_committed_bytes p = 0 \<Longrightarrow> pool_release b (pool_commit b (pool_reserve b p)) = (0, p)"
  "reg_committed_bytes r = 0 \<Longrightarrow> region_release b (region_commit b (region_reserve b r)) = (0, r)"
  by (auto simp: pool_release_def pool_commit_def pool_reserve_def region_release_def region_commit_def region_reserve_def
      release_bytes_def take_committed_def word_gt_0)

end
