(* ===== verification/Worker.thy ===== *)
theory Worker
  imports Coordinator Synthetic Lease
begin

text \<open>
  The worker process, \<^verbatim>\<open>src/multiprocess/worker_main.cpp\<close>, as a program that asks its environment to send a frame, to
  receive one or to print, and goes on with the answer; and a session, in which such a program talks to the
  coordinator over one connection, every frame passing through the encoder and the decoder of the wire format.
\<close>

section \<open>Options\<close>

record WorkerOptions =
  wo_host :: string
  wo_port :: u16
  wo_boot :: string
  wo_publish :: bool
  wo_reserve_bytes :: u64
  wo_consumer :: string
  wo_stay :: bool
  wo_query :: bool
  wo_commit_rid :: string
  wo_release_rid :: string
  wo_reserve_commit :: bool
  wo_out_path :: string

definition WorkerOptions_default :: WorkerOptions where
  [record_defs]: "WorkerOptions_default = \<lparr>wo_host = ''127.0.0.1'', wo_port = 17777, wo_boot = ''worker-boot'', wo_publish = False,
     wo_reserve_bytes = 0, wo_consumer = ''c0'', wo_stay = False, wo_query = False, wo_commit_rid = [], wo_release_rid = [],
     wo_reserve_commit = False, wo_out_path = []\<rparr>"

text \<open>The options without a value; any other argument is skipped.\<close>

definition worker_flag :: "string \<Rightarrow> WorkerOptions \<Rightarrow> WorkerOptions" where
  "worker_flag a opts =
     (if a = ''--publish'' then opts\<lparr>wo_publish := True\<rparr>
      else if a = ''--stay'' then opts\<lparr>wo_stay := True\<rparr>
      else if a = ''--query'' then opts\<lparr>wo_query := True\<rparr>
      else if a = ''--reserve-commit'' then opts\<lparr>wo_reserve_commit := True\<rparr>
      else opts)"

fun worker_args :: "nat \<Rightarrow> string list \<Rightarrow> WorkerOptions \<Rightarrow> WorkerOptions option" where
  "worker_args w [] opts = Some opts"
| "worker_args w [a] opts = Some (worker_flag a opts)"
| "worker_args w (a # v # rest) opts =
     (if a = ''--host'' then worker_args w rest (opts\<lparr>wo_host := v\<rparr>)
      else if a = ''--port'' then
        (case port_of w v of Parsed p \<Rightarrow> worker_args w rest (opts\<lparr>wo_port := p\<rparr>) | _ \<Rightarrow> None)
      else if a = ''--boot'' then worker_args w rest (opts\<lparr>wo_boot := v\<rparr>)
      else if a = ''--reserve-bytes'' then
        (case stoull v of Parsed n \<Rightarrow> worker_args w rest (opts\<lparr>wo_reserve_bytes := n\<rparr>) | _ \<Rightarrow> None)
      else if a = ''--consumer'' then worker_args w rest (opts\<lparr>wo_consumer := v\<rparr>)
      else if a = ''--commit'' then worker_args w rest (opts\<lparr>wo_commit_rid := v\<rparr>)
      else if a = ''--release'' then worker_args w rest (opts\<lparr>wo_release_rid := v\<rparr>)
      else if a = ''--out'' then worker_args w rest (opts\<lparr>wo_out_path := v\<rparr>)
      else worker_args w (v # rest) (worker_flag a opts))"

section \<open>The program\<close>

datatype worker =
    Connect string u16 "bool \<Rightarrow> worker"
  | Send Frame "bool \<Rightarrow> worker"
  | Recv "DecodeResult \<Rightarrow> worker"
  | Emit string worker
  | Close worker
  | Exit int
  | Stay
  | Overruns

definition send_and_await :: "Frame \<Rightarrow> FrameType \<Rightarrow> (bool \<Rightarrow> worker) \<Rightarrow> worker" where
  "send_and_await f expect k =
     Send f (\<lambda>sent. if \<not> sent then k False
       else Recv (\<lambda>dr. if dr_status dr \<noteq> DecodeStatus.OK then k False else k (frame_type (dr_frame dr) = expect)))"

text \<open>A request whose sending is not checked, and the reply.\<close>

definition request :: "FrameType \<Rightarrow> bytes \<Rightarrow> (DecodeResult \<Rightarrow> worker) \<Rightarrow> worker" where
  "request t p k = Send \<lparr>frame_type = t, frame_payload = p\<rparr> (\<lambda>_. Recv k)"

definition base_device :: "string \<Rightarrow> CxlDevice" where
  "base_device boot = make_device (Ident ''dev-1'') (Generation 1) (Ident (boot @ ''-boot-1'')) (Ident ''host-control'')
     (16 * 1024 * 1024 * 1024) VolatilityKind.VOLATILE SharingMode.DEDICATED LocalityClass.SAME_HOST 180 32000 1 ''fd-root-a''"

definition base_member :: "CxlDevice \<Rightarrow> PoolMember" where
  "base_member base = \<lparr>pm_device = dev_id base, pm_device_generation = dev_generation base,
     pm_nominal_bytes = dev_total_physical_bytes base, pm_online = True, pm_health_ok = True,
     pm_failure_domain = ''fd-control'', pm_locality = econ_locality (dev_economics base)\<rparr>"

definition publish :: "CxlDevice \<Rightarrow> worker \<Rightarrow> worker" where
  "publish base k =
     send_and_await \<lparr>frame_type = FrameType.PUBLISH_DEVICE, frame_payload = encode_device base\<rparr> FrameType.ACK (\<lambda>ok.
       if \<not> ok then Close (Exit 1)
       else request FrameType.PUBLISH_POOL (encode_pool (Ident ''p-1'') (Generation 1) [base_member base]) (\<lambda>_.
            request FrameType.PUBLISH_REGION (encode_region (Ident ''r-1'') (Generation 1) (Ident ''p-1'') [dev_id base]
              (dev_total_physical_bytes base) (econ_locality (dev_economics base)) TierClass.CXL_NEAR RegionState.ONLINE) (\<lambda>_. k)))"

text \<open>\<^verbatim>\<open>std::to_string\<close> of a signed integer.\<close>

definition show_int :: "int \<Rightarrow> string" where
  "show_int i = (if i < 0 then CHR ''-'' # show_nat (nat (- i)) else show_nat (nat i))"

definition result_fields :: "(string \<times> u32 \<times> u8) reader" where
  "result_fields = reading get_str (\<lambda>rid. reading get_u32 (\<lambda>reason d pos.
     if pos < length d then Rd (rid, reason, d ! pos) pos else Fail))"

definition result_line :: "string \<Rightarrow> string \<times> u32 \<times> u8 \<Rightarrow> string" where
  "result_line tag v = (case v of (rid, reason, ok) \<Rightarrow>
     tag @ '' '' @ rid @ '' reason='' @ show_int (sint reason) @ '' ok='' @ show_nat (unat ok) @ [CHR 0x0A])"

definition report :: "string \<Rightarrow> bytes \<Rightarrow> worker \<Rightarrow> worker" where
  "report tag payload k =
     (case result_fields payload 0 of
        Rd v pos \<Rightarrow> Emit (result_line tag v) k
      | Fail \<Rightarrow> k
      | OutOfBounds \<Rightarrow> Overruns)"

definition do_reserve :: "u64 \<Rightarrow> string \<Rightarrow> worker \<Rightarrow> worker" where
  "do_reserve n consumer k =
     request FrameType.RESERVE (encode_reserve n consumer) (\<lambda>dr.
       if dr_status dr \<noteq> DecodeStatus.OK then Close (Exit 1)
       else if frame_type (dr_frame dr) = FrameType.RESERVE_RESULT then report ''RESERVED'' (frame_payload (dr_frame dr)) k
       else k)"

definition do_named :: "FrameType \<Rightarrow> string \<Rightarrow> string \<Rightarrow> worker \<Rightarrow> worker" where
  "do_named t tag rid k =
     request t (bytes_of rid) (\<lambda>dr.
       if dr_status dr = DecodeStatus.OK \<and> frame_type (dr_frame dr) = FrameType.COMMIT_RESULT
       then report tag (frame_payload (dr_frame dr)) k
       else k)"

definition do_query :: "worker \<Rightarrow> worker" where
  "do_query k =
     request FrameType.QUERY_STATE [] (\<lambda>dr.
       if dr_status dr = DecodeStatus.OK \<and> frame_type (dr_frame dr) = FrameType.QUERY_STATE_RESULT
       then Emit (string_of (frame_payload (dr_frame dr))) k
       else k)"

definition requests :: "WorkerOptions \<Rightarrow> worker" where
  "requests opts =
     (let ending = (if wo_stay opts then Stay else Close (Exit 0));
          query = (if wo_query opts then do_query ending else ending);
          rel = (if wo_release_rid opts \<noteq> [] then do_named FrameType.RELEASE ''RELEASE_RESULT'' (wo_release_rid opts) query else query);
          com = (if wo_commit_rid opts \<noteq> [] then do_named FrameType.COMMIT ''COMMIT_RESULT'' (wo_commit_rid opts) rel else rel);
          res = (if wo_reserve_bytes opts > 0 \<or> wo_reserve_commit opts
                 then do_reserve (wo_reserve_bytes opts) (wo_consumer opts) com else com) in
      if wo_publish opts \<or> wo_reserve_bytes opts > 0 \<or> wo_reserve_commit opts
      then publish (base_device (wo_boot opts)) res else res)"

definition worker_main :: "WorkerOptions \<Rightarrow> worker" where
  "worker_main opts =
     Connect (wo_host opts) (wo_port opts) (\<lambda>connected.
       if \<not> connected then Exit 1
       else Send \<lparr>frame_type = FrameType.WORKER_BOOT, frame_payload = bytes_of (wo_boot opts)\<rparr> (\<lambda>sent.
         if \<not> sent then Close (Exit 1) else requests opts))"

section \<open>A session with the coordinator\<close>

text \<open>
  One worker on connection \<open>n\<close>, its frames handled in the order they are sent. \<open>inbox\<close> holds the replies it has not read.
  \<open>env\<close> says what happens around it, one turn for each of its system calls: the events of other connections, signals and the main
  thread that come before the call, and whether the connection breaks in the call. Nothing happens once \<open>env\<close> is used up. A
  connection attempt is refused when it breaks or the process is gone. A send fails when the connection breaks, and the coordinator
  then finds the end of the stream; a partly transferred frame is the same to it. A worker that waits for a reply while its connection is open and
  nothing is under way is stuck; it finds the end of the stream when its connection breaks, is closed, was never taken
  up, or the process is gone. When the program ends or closes its socket, the coordinator finds the end of the
  stream. \<^verbatim>\<open>SIGPIPE\<close> is taken to be ignored.
\<close>

datatype ending = Exits int | Stays | Stuck | Undefined_behaviour

definition wire :: "Frame \<Rightarrow> DecodeResult" where
  "wire f = decode_frame (encode_frame f kProtocolVersion)"

definition end_of_stream :: DecodeResult where
  "end_of_stream = decode_failed DecodeStatus.TRUNCATED ''peer closed or header truncated''"

definition hang_up :: "io_faults \<Rightarrow> nat \<Rightarrow> Coordinator \<Rightarrow> Coordinator" where
  "hang_up io n c = (case on_event io (Received n end_of_stream) c of None \<Rightarrow> c | Some (rs, c') \<Rightarrow> c')"

definition attended :: "nat \<Rightarrow> Coordinator \<Rightarrow> bool" where
  "attended n c \<longleftrightarrow> \<not> co_exited c \<and> (case om_find (co_phases c) n of Some Booting \<Rightarrow> True | Some (Serving sid) \<Rightarrow> True | _ \<Rightarrow> False)"

fun events :: "io_faults \<Rightarrow> event list \<Rightarrow> Coordinator \<Rightarrow> Coordinator option" where
  "events io [] c = Some c"
| "events io (e # es) c = (case on_event io e c of None \<Rightarrow> None | Some (rs, c') \<Rightarrow> events io es c')"

type_synonym turn = "event list \<times> bool"

definition meanwhile :: "io_faults \<Rightarrow> turn list \<Rightarrow> Coordinator \<Rightarrow> Coordinator option" where
  "meanwhile io env c = (case env of [] \<Rightarrow> Some c | t # rest \<Rightarrow> events io (fst t) c)"

definition breaks :: "turn list \<Rightarrow> bool" where
  "breaks env \<longleftrightarrow> (case env of [] \<Rightarrow> False | t # rest \<Rightarrow> snd t)"

primrec run_worker :: "io_faults \<Rightarrow> nat \<Rightarrow> worker \<Rightarrow> turn list \<Rightarrow> Frame list \<Rightarrow> string \<Rightarrow> Coordinator \<Rightarrow> ending \<times> string \<times> Coordinator" where
  "run_worker io n (Connect h p k) env inbox out c =
     (case meanwhile io env c of
        None \<Rightarrow> (Undefined_behaviour, out, c)
      | Some c0 \<Rightarrow>
          if breaks env \<or> co_exited c0 then run_worker io n (k False) (tl env) inbox out c0
          else (case on_event io (Accepted n) c0 of
                  None \<Rightarrow> (Undefined_behaviour, out, c0)
                | Some (rs, c') \<Rightarrow> run_worker io n (k True) (tl env) inbox out c'))"
| "run_worker io n (Send f k) env inbox out c =
     (case meanwhile io env c of
        None \<Rightarrow> (Undefined_behaviour, out, c)
      | Some c0 \<Rightarrow>
          if breaks env then run_worker io n (k False) (tl env) inbox out (hang_up io n c0)
          else (case on_event io (Received n (wire f)) c0 of
                  None \<Rightarrow> (Undefined_behaviour, out, c0)
                | Some (rs, c') \<Rightarrow> run_worker io n (k True) (tl env) (inbox @ rs) out c'))"
| "run_worker io n (Recv k) env inbox out c =
     (case meanwhile io env c of
        None \<Rightarrow> (Undefined_behaviour, out, c)
      | Some c0 \<Rightarrow>
          if breaks env then run_worker io n (k end_of_stream) (tl env) [] out (hang_up io n c0)
          else (case inbox of
                  r # rs \<Rightarrow> run_worker io n (k (wire r)) (tl env) rs out c0
                | [] \<Rightarrow> if attended n c0 then (Stuck, out, c0) else run_worker io n (k end_of_stream) (tl env) [] out c0))"
| "run_worker io n (Emit s k) env inbox out c = run_worker io n k env inbox (out @ s) c"
| "run_worker io n (Close k) env inbox out c = run_worker io n k env inbox out (hang_up io n c)"
| "run_worker io n (Exit code) env inbox out c = (Exits code, out, hang_up io n c)"
| "run_worker io n Stay env inbox out c = (Stays, out, c)"
| "run_worker io n Overruns env inbox out c = (Undefined_behaviour, out, c)"

text \<open>A session in which nothing else happens.\<close>

definition session :: "io_faults \<Rightarrow> nat \<Rightarrow> worker \<Rightarrow> Frame list \<Rightarrow> string \<Rightarrow> Coordinator \<Rightarrow> ending \<times> string \<times> Coordinator" where
  "session io n w inbox out c = run_worker io n w [] inbox out c"

lemma session_simps [simp]:
  "\<not> co_exited c \<Longrightarrow> on_event io (Accepted n) c = Some (rs, c') \<Longrightarrow> session io n (Connect h p k) inbox out c = session io n (k True) inbox out c'"
  "on_event io (Received n (wire f)) c = Some (rs, c') \<Longrightarrow> session io n (Send f k) inbox out c = session io n (k True) (inbox @ rs) out c'"
  "session io n (Recv j) (r # rs) out c = session io n (j (wire r)) rs out c"
  "session io n (Emit s w) inbox out c = session io n w inbox (out @ s) c"
  "session io n (Close w) inbox out c = session io n w inbox out (hang_up io n c)"
  "session io n (Exit code) inbox out c = (Exits code, out, hang_up io n c)"
  by (simp_all add: session_def meanwhile_def breaks_def)

section \<open>One step of a session\<close>

lemma wire_fits:
  assumes "length (frame_payload f) \<le> kMaxPayloadBytes"
  shows "dr_status (wire f) = DecodeStatus.OK" "dr_frame (wire f) = f"
  using decode_encoded [OF assms, of "[]"] by (simp_all add: wire_def)

text \<open>The connection is in its loop under the key, with its worker entered and these devices published.\<close>

definition serving :: "nat \<Rightarrow> string \<Rightarrow> DeviceId list \<Rightarrow> Coordinator \<Rightarrow> bool" where
  "serving n sid ds c \<longleftrightarrow> \<not> co_exited c \<and> co_running c \<and> co_persist c = [] \<and> co_statefile c = [] \<and>
     om_wf (co_phases c) \<and> om_wf (co_store c) \<and> om_find (co_phases c) n = Some (Serving sid) \<and>
     om_find (co_workers c) sid = Some n \<and> ws_boot (store_of c n) = Ident sid \<and> ws_devices (store_of c n) = ds \<and>
     \<not> ws_dead (store_of c n)"

lemma serving_fabric: "serving n sid ds c \<Longrightarrow> serving n sid ds (c\<lparr>co_fabric := g\<rparr>)"
  by (simp add: serving_def store_of_def)

lemma serving_update:
  "serving n sid ds c \<Longrightarrow> ws_boot ws = Ident sid \<Longrightarrow> \<not> ws_dead ws \<Longrightarrow> serving n sid (ws_devices ws) (update_worker n ws c)"
  by (simp add: serving_def store_of_def update_worker_def om.find_assign om.wf_assign)

lemma serving_step:
  assumes "serving n sid ds c" and "length (frame_payload f) \<le> kMaxPayloadBytes"
    and "dispatch_frame n f c = Some (rs, c1)" and "serving n sid ds' c1"
  shows "\<exists>c'. on_event io (Received n (wire f)) c = Some (rs, c') \<and> serving n sid ds' c' \<and> co_fabric c' = co_fabric c1"
proof -
  have "maybe_persist io c1 = c1" using assms(4) by (simp add: maybe_persist_def serving_def)
  then have "on_event io (Received n (wire f)) c = Some (rs, set_phase n (Serving sid) c1)"
    using assms by (simp add: serving_def wire_fits dispatch_def next_round_def)
  moreover have "serving n sid ds' (set_phase n (Serving sid) c1)"
    using assms(4) by (simp add: serving_def set_phase_def store_of_def om.find_assign om.wf_assign)
  ultimately show ?thesis by simp
qed

declare on_event.simps(2) [simp del]

lemma worker_ctx_simps [simp]:
  "ctx_coordinator_epoch (worker_ctx b f) = epoch f" "ctx_worker_boot_id (worker_ctx b f) = b"
  by (simp_all add: worker_ctx_def)

section \<open>What the worker publishes\<close>

definition wired_device :: CxlDevice where
  "wired_device = device_view CxlDevice_default (base_device [])"

definition wired_pool :: CxlPool where
  "wired_pool = published_pool (Ident ''p-1'') (Generation 1) [base_member (base_device [])]"

definition governed_pool :: CxlPool where
  "governed_pool = (recompute_pool wired_pool)\<lparr>pool_state := PoolState.AVAILABLE, pool_evidence_current := True\<rparr>"

definition wired_region :: CxlRegion where
  "wired_region = region_view CxlRegion_default (Ident ''r-1'') (Generation 1) (Ident ''p-1'') [Ident ''dev-1'']
     (16 * 1024 * 1024 * 1024) LocalityClass.SAME_HOST TierClass.CXL_NEAR RegionState.ONLINE"

text \<open>The boot identity of the device is not on the wire, so what arrives does not depend on it.\<close>

lemma base_device_simps [simp]:
  "dev_id (base_device b) = Ident ''dev-1''" "dev_generation (base_device b) = Generation 1"
  "dev_total_physical_bytes (base_device b) = 16 * 1024 * 1024 * 1024"
  "econ_locality (dev_economics (base_device b)) = LocalityClass.SAME_HOST"
  by (simp_all add: base_device_def make_device_def Let_def)

lemma published_device:
  "decode_device (encode_device (base_device b)) CxlDevice_default = Rd wired_device (length (encode_device (base_device b)))"
proof -
  have "device_wired (base_device b)" for b
    by (simp add: device_wired_def base_device_def make_device_def Let_def wire_string_def)
  moreover have "device_view CxlDevice_default (base_device b) = wired_device"
    by (simp add: wired_device_def device_view_def base_device_def make_device_def Let_def)
  ultimately show ?thesis by (simp add: decode_encode_device)
qed
lemma published_members:
  "decode_pool (encode_pool (Ident ''p-1'') (Generation 1) [base_member (base_device b)]) =
     Rd (Ident ''p-1'', Generation 1, [base_member (base_device [])])
       (length (encode_pool (Ident ''p-1'') (Generation 1) [base_member (base_device b)]))"
proof -
  have "base_member (base_device b) = base_member (base_device [])" by (simp add: base_member_def)
  moreover have "member_wired (base_member (base_device b))"
    by (simp add: member_wired_def base_member_def wire_string_def)
  ultimately show ?thesis using decode_encode_pool [of "Ident ''p-1''" "[base_member (base_device b)]"]
    by (simp add: wire_string_def)
qed

lemma published_region:
  "\<exists>pos. decode_region (encode_region (Ident ''r-1'') (Generation 1) (Ident ''p-1'') [Ident ''dev-1'']
     (16 * 1024 * 1024 * 1024) LocalityClass.SAME_HOST TierClass.CXL_NEAR RegionState.ONLINE) CxlRegion_default = Rd wired_region pos"
  unfolding wired_region_def
  by (rule exI, rule decode_encode_region) (simp_all add: wire_string_def CxlRegion_default_def)

lemma payloads_fit:
  "length (encode_device (base_device b)) \<le> kMaxPayloadBytes"
  "length (encode_pool (Ident ''p-1'') (Generation 1) [base_member (base_device b)]) \<le> kMaxPayloadBytes"
  "length (encode_region (Ident ''r-1'') (Generation 1) (Ident ''p-1'') [Ident ''dev-1'']
     (16 * 1024 * 1024 * 1024) LocalityClass.SAME_HOST TierClass.CXL_NEAR RegionState.ONLINE) \<le> kMaxPayloadBytes"
  by (simp_all add: encode_device_def encode_pool_def encode_region_def put_pool_member_def base_member_def Let_def put_append
      str_bytes_def kMaxPayloadBytes_def base_device_def make_device_def)

lemma wired_simps [simp]:
  "dev_id wired_device = Ident ''dev-1''" "dev_generation wired_device = Generation 1"
  "dev_boot_id wired_device = Ident ''dev-1-boot''" "dev_state wired_device = DeviceState.ONLINE" "dev_evidence_current wired_device"
  "reg_id wired_region = Ident ''r-1''" "reg_generation wired_region = Generation 1" "reg_pool wired_region = Ident ''p-1''"
  "reg_member_devices wired_region = [Ident ''dev-1'']"
  "pool_id wired_pool = Ident ''p-1''" "pool_generation wired_pool = Generation 1"
  "pool_members wired_pool = [base_member (base_device [])]"
  by (simp_all add: wired_device_def wired_region_def wired_pool_def device_view_def region_view_def published_pool_def
      base_device_def make_device_def Let_def)

lemma governed_pool_eq:
  "governed_pool = wired_pool\<lparr>pool_total_governed_bytes := 16 * 1024 * 1024 * 1024, pool_failure_domains := [''fd-control'']\<rparr>"
  by (simp add: governed_pool_def recompute_pool_def add_member_def add_checked_def base_member_def wired_pool_def published_pool_def
      CxlPool_default_def)

lemma governed_simps [simp]:
  "pool_id governed_pool = Ident ''p-1''" "pool_members governed_pool = [base_member (base_device [])]"
  "pool_evidence_current governed_pool" "pool_state governed_pool = PoolState.AVAILABLE"
  by (simp_all add: governed_pool_eq wired_pool_def published_pool_def)

lemma wired_room: "unat (pool_free governed_pool) = 2 ^ 34" "unat (region_free wired_region) = 2 ^ 34"
  by (simp_all add: pool_free_def pool_used_def region_free_def governed_pool_eq wired_pool_def published_pool_def
      wired_region_def region_view_def CxlPool_default_def CxlRegion_default_def)

definition wired_request :: "u64 \<Rightarrow> string \<Rightarrow> AdmissionRequest" where
  "wired_request b consumer = AdmissionRequest_default\<lparr>req_bytes := b, req_consumer := Ident consumer\<rparr>"

lemma wired_fits:
  "in_service wired_device wired_region governed_pool (pool_evidence_current governed_pool)"
  "request_fits (wired_request b consumer) wired_device wired_region governed_pool"
  by (simp_all add: in_service_def request_fits_def acceptable_health_def wired_request_def AdmissionRequest_default_def
      wired_device_def wired_region_def governed_pool_eq wired_pool_def published_pool_def device_view_def region_view_def
      base_device_def make_device_def Let_def)
section \<open>The frames of a publishing worker\<close>

lemma nonempty_literals [simp]: "\<not> id_empty (Ident (x # xs))" "\<not> gen_empty (Generation 1)"
  by (simp_all add: id_empty_def gen_empty_def)

lemma device_step:
  assumes "serving n sid ds c" and "empty_fabric (co_fabric c)"
  shows "\<exists>c'. on_event io (Received n (wire \<lparr>frame_type = FrameType.PUBLISH_DEVICE, frame_payload = encode_device (base_device b)\<rparr>)) c =
       Some ([ack_frame DecisionReason.OK], c') \<and>
     serving n sid (ds @ [Ident ''dev-1'']) c' \<and> has_device wired_device (co_fabric c') \<and> epoch (co_fabric c') = epoch (co_fabric c)"
proof -
  let ?f = "\<lparr>frame_type = FrameType.PUBLISH_DEVICE, frame_payload = encode_device (base_device b)\<rparr>"
  let ?ctx = "worker_ctx (ws_boot (store_of c n)) (co_fabric c)" and ?ws = "store_of c n"
  obtain g where reg: "register_device wired_device ?ctx (co_fabric c) = (DecisionReason.OK, g)"
    and g: "has_device wired_device g" "epoch g = epoch (co_fabric c)"
    using register_first [OF assms(2), of ?ctx wired_device] by auto
  have d: "dispatch_frame n ?f c = Some ([ack_frame DecisionReason.OK],
      update_worker n (?ws\<lparr>ws_devices := ws_devices ?ws @ [Ident ''dev-1'']\<rparr>) (c\<lparr>co_fabric := g\<rparr>))" (is "_ = Some (_, ?c1)")
    by (simp add: dispatch_frame_def dispatch_device_def published_device reg Let_def)
  have s: "serving n sid (ds @ [Ident ''dev-1'']) ?c1"
    using serving_update [OF serving_fabric [OF assms(1)], of "?ws\<lparr>ws_devices := ws_devices ?ws @ [Ident ''dev-1'']\<rparr>" g] assms(1)
    by (simp add: serving_def)
  show ?thesis using serving_step [OF assms(1) _ d s, of io] payloads_fit(1) g by auto
qed

lemma pool_step:
  assumes "serving n sid ds c" and "has_device wired_device (co_fabric c)"
  shows "\<exists>c'. on_event io (Received n (wire \<lparr>frame_type = FrameType.PUBLISH_POOL,
       frame_payload = encode_pool (Ident ''p-1'') (Generation 1) [base_member (base_device b)]\<rparr>)) c =
       Some ([ack_frame DecisionReason.OK], c') \<and>
     serving n sid ds c' \<and> has_pool wired_device governed_pool (co_fabric c') \<and> epoch (co_fabric c') = epoch (co_fabric c)"
proof -
  let ?f = "\<lparr>frame_type = FrameType.PUBLISH_POOL, frame_payload = encode_pool (Ident ''p-1'') (Generation 1) [base_member (base_device b)]\<rparr>"
  let ?ctx = "worker_ctx (ws_boot (store_of c n)) (co_fabric c)"
  have "pool_id (recompute_pool wired_pool) = Ident ''p-1''"
    using governed_simps(1) by (simp add: governed_pool_def)
  then obtain g where cre: "create_pool wired_pool ?ctx (co_fabric c) = (DecisionReason.OK, g)"
    and g: "has_pool wired_device governed_pool g" "epoch g = epoch (co_fabric c)"
    using create_first_pool [OF assms(2), of ?ctx wired_pool] by (auto simp: governed_pool_def base_member_def)
  have d: "dispatch_frame n ?f c = Some ([ack_frame DecisionReason.OK], c\<lparr>co_fabric := g\<rparr>)"
    by (simp add: dispatch_frame_def dispatch_pool_def published_members cre Let_def wired_pool_def [symmetric])
  show ?thesis using serving_step [OF assms(1) _ d serving_fabric [OF assms(1)], of io] payloads_fit(2) g by auto
qed

lemma region_step:
  assumes "serving n sid ds c" and "has_pool wired_device governed_pool (co_fabric c)"
  shows "\<exists>c'. on_event io (Received n (wire \<lparr>frame_type = FrameType.PUBLISH_REGION,
       frame_payload = encode_region (Ident ''r-1'') (Generation 1) (Ident ''p-1'') [Ident ''dev-1'']
         (16 * 1024 * 1024 * 1024) LocalityClass.SAME_HOST TierClass.CXL_NEAR RegionState.ONLINE\<rparr>)) c =
       Some ([ack_frame DecisionReason.OK], c') \<and>
     serving n sid ds c' \<and> single wired_device governed_pool wired_region (co_fabric c') \<and> epoch (co_fabric c') = epoch (co_fabric c)"
proof -
  let ?f = "\<lparr>frame_type = FrameType.PUBLISH_REGION, frame_payload = encode_region (Ident ''r-1'') (Generation 1) (Ident ''p-1'') [Ident ''dev-1'']
         (16 * 1024 * 1024 * 1024) LocalityClass.SAME_HOST TierClass.CXL_NEAR RegionState.ONLINE\<rparr>"
  let ?ctx = "worker_ctx (ws_boot (store_of c n)) (co_fabric c)"
  obtain pos where dec: "decode_region (frame_payload ?f) CxlRegion_default = Rd wired_region pos"
    using published_region by auto
  obtain g where cre: "create_region wired_region ?ctx (co_fabric c) = (DecisionReason.OK, g)"
    and g: "single wired_device governed_pool wired_region g" "epoch g = epoch (co_fabric c)"
    using create_first_region [OF assms(2), of ?ctx wired_region] by (auto simp: has_member_def base_member_def)
  have d: "dispatch_frame n ?f c = Some ([ack_frame DecisionReason.OK], c\<lparr>co_fabric := g\<rparr>)"
    using dec by (simp add: dispatch_frame_def dispatch_region_def cre Let_def)
  show ?thesis using serving_step [OF assms(1) _ d serving_fabric [OF assms(1)], of io] payloads_fit(3) g by auto
qed
section \<open>Replies read back\<close>

lemma result_fields_of_reply:
  assumes "wire_string (id_value (res_id (ro_reservation out)))"
  shows "result_fields (result_payload out) 0 =
     Rd (id_value (res_id (ro_reservation out)), DecisionReason_to_u32 (ro_reason out), if ro_ok out then 1 else 0)
       (length (result_payload out) - 1)"
proof -
  let ?rid = "id_value (res_id (ro_reservation out))" and ?b = "if ro_ok out then 1 else 0 :: u8"
  let ?r = "store_u32 (DecisionReason_to_u32 (ro_reason out))"
  have s: "get_str (str_bytes ?rid @ ?r @ [?b]) 0 = Rd ?rid (length (str_bytes ?rid))"
    using parses_str [OF assms] unfolding parses_def by (metis append_Nil list.size(3) plus_nat.add_0)
  have r: "get_u32 (str_bytes ?rid @ ?r @ [?b]) (length (str_bytes ?rid)) =
      Rd (DecisionReason_to_u32 (ro_reason out)) (length (str_bytes ?rid) + 4)"
    by simp
  have p: "result_payload out = str_bytes ?rid @ ?r @ [?b]"
    by (simp add: result_payload_def put_append)
  show ?thesis
    unfolding p result_fields_def reading_def s using r by (simp add: nth_append)
qed

lemma report_reply:
  assumes "wire_string (id_value (res_id (ro_reservation out)))"
  shows "report tag (result_payload out) k =
     Emit (result_line tag (id_value (res_id (ro_reservation out)), DecisionReason_to_u32 (ro_reason out), if ro_ok out then 1 else 0)) k"
  by (simp add: report_def result_fields_of_reply [OF assms])

section \<open>The reservation\<close>

definition granted :: "u64 \<Rightarrow> string \<Rightarrow> string \<Rightarrow> CoordinatorEpoch \<Rightarrow> PolicyGeneration \<Rightarrow> Reservation" where
  "granted b consumer boot e pg = first_lease (wired_request b consumer)
     \<lparr>ctx_coordinator_epoch = e, ctx_policy_generation = pg, ctx_worker_boot_id = Ident boot, ctx_consumer_generation = Generation 1\<rparr>
     wired_device governed_pool wired_region e"

lemma decode_reserve_request: "wire_string s \<Longrightarrow> decode_reserve (encode_reserve b s) = Rd (b, s) (length (encode_reserve b s))"
  unfolding decode_reserve_def encode_reserve_append
  by (intro parses_whole parses_intros parses_last [OF parses_str]) (simp_all add: parses_return)

lemma reserve_step:
  assumes "serving n boot ds c" and "single wired_device governed_pool wired_region (co_fabric c)"
    and "b \<noteq> 0" and "unat b \<le> 2 ^ 34" and "length consumer \<le> 65524"
  shows "\<exists>c' v. on_event io (Received n (wire \<lparr>frame_type = FrameType.RESERVE, frame_payload = encode_reserve b consumer\<rparr>)) c =
       Some ([reserve_frame (grant v)], c') \<and> serving n boot ds c' \<and>
     v = granted b consumer boot (epoch (co_fabric c)) (policy_generation (co_fabric c)) \<and>
     lease wired_device v (pool_reserve b governed_pool) (region_reserve b wired_region) (co_fabric c') \<and> epoch (co_fabric c') = epoch (co_fabric c)"
proof -
  let ?f = "\<lparr>frame_type = FrameType.RESERVE, frame_payload = encode_reserve b consumer\<rparr>"
  let ?g = "co_fabric c" and ?ws = "store_of c n" and ?req = "wired_request b consumer"
  define ctx where "ctx = worker_ctx (ws_boot ?ws) ?g"
  define v where "v = granted b consumer boot (epoch ?g) (policy_generation ?g)"
  have req: "req_bytes ?req = b" "AdmissionRequest_default\<lparr>req_bytes := b, req_consumer := Ident consumer\<rparr> = ?req"
    by (simp_all add: wired_request_def)
  have v: "v = first_lease ?req ctx wired_device governed_pool wired_region (epoch ?g)"
    using assms(1) by (simp add: v_def granted_def ctx_def worker_ctx_def serving_def)
  have room: "b \<le> region_free wired_region" "b \<le> pool_free governed_pool" using assms(4) wired_room by (simp_all add: word_le_nat)
  obtain g' where book: "reserve ?req ctx ?g = (grant v, g')" and e': "epoch g' = epoch ?g"
    and g': "lease wired_device v (pool_reserve b governed_pool) (region_reserve b wired_region) g'"
    by (rule reserve_lease [OF assms(2) wired_fits(1) wired_fits(2) [of b consumer], of ctx]) (use assms(3) room in \<open>auto simp: req(1) ctx_def v\<close>)
  have d: "dispatch_frame n ?f c = Some ([reserve_frame (grant v)],
      update_worker n (?ws\<lparr>ws_reservations := ws_reservations ?ws @ [res_id v]\<rparr>) (c\<lparr>co_fabric := g'\<rparr>))" (is "_ = Some (_, ?c1)")
    using assms(5) book by (simp add: dispatch_frame_def dispatch_reserve_def decode_reserve_request wire_string_def req Let_def ctx_def
        grant_def)
  have s: "serving n boot ds ?c1"
    using serving_update [OF serving_fabric [OF assms(1)], of "?ws\<lparr>ws_reservations := ws_reservations ?ws @ [res_id v]\<rparr>" g'] assms(1)
    by (simp add: serving_def)
  have "length (frame_payload ?f) \<le> kMaxPayloadBytes"
    using assms(5) by (simp add: encode_reserve_append str_bytes_def kMaxPayloadBytes_def)
  from serving_step [OF assms(1) this d s, of io] g' e' show ?thesis unfolding v_def [symmetric] by auto
qed
section \<open>The whole session\<close>

lemma connect_step:
  assumes "Coordinator_new io e [] [] fs = Some c" and "length boot \<le> 65536"
  shows "\<exists>c1 c2. on_event io (Accepted n) c = Some ([], c1) \<and>
     on_event io (Received n (wire \<lparr>frame_type = FrameType.WORKER_BOOT, frame_payload = bytes_of boot\<rparr>)) c1 = Some ([], c2) \<and>
     serving n boot [] c2 \<and> co_fabric c2 = Fabric_new (Generation e) (Generation 1) \<and> \<not> co_exited c"
proof -
  let ?boot = "\<lparr>frame_type = FrameType.WORKER_BOOT, frame_payload = bytes_of boot\<rparr>"
  have w: "dr_status (wire ?boot) = DecodeStatus.OK" "dr_frame (wire ?boot) = ?boot"
    using assms(2) by (simp_all add: wire_fits kMaxPayloadBytes_def)
  have c: "c = \<lparr>co_fabric = Fabric_new (Generation e) (Generation 1), co_persist = [], co_statefile = [], co_workers = [], co_store = [],
      co_phases = [], co_running = True, co_accepting = True, co_exited = False, co_files = fs\<rparr>"
    using assms(1) by (simp add: Coordinator_new_def Let_def write_statefile_def)
  show ?thesis
    unfolding c
    by (simp add: on_event.simps om_count_def set_phase_def update_worker_def w boot_worker_def next_round_def Let_def
        serving_def store_of_def om_wf_def WorkerState_default_def)
qed

lemma hang_up_step:
  assumes "serving n sid ds c"
  shows "hang_up io n c = finish n sid (appl_worker_death io sid c)"
    and "co_fabric (hang_up io n c) = fence_devices ds (AuthorityContext_default\<lparr>ctx_coordinator_epoch := epoch (co_fabric c),
      ctx_policy_generation := policy_generation (co_fabric c)\<rparr>) (co_fabric c)"
    and "om_find (co_workers (hang_up io n c)) sid = None" and "om_find (co_phases (hang_up io n c)) n = Some Closed"
    and "hang_up io n (hang_up io n c) = hang_up io n c"
proof -
  have eof: "dr_status end_of_stream \<noteq> DecodeStatus.OK" by (simp add: end_of_stream_def decode_failed_def)
  show h: "hang_up io n c = finish n sid (appl_worker_death io sid c)"
    using assms eof by (simp add: hang_up_def on_event.simps serving_def)
  show "co_fabric (hang_up io n c) = fence_devices ds (AuthorityContext_default\<lparr>ctx_coordinator_epoch := epoch (co_fabric c),
      ctx_policy_generation := policy_generation (co_fabric c)\<rparr>) (co_fabric c)"
    unfolding h using assms by (simp add: appl_worker_death_def Let_def serving_def)
  show "om_find (co_workers (hang_up io n c)) sid = None"
    unfolding h by (simp add: finish_def set_phase_def erase_worker_def om_find_filter)
  have "om_wf (co_phases (appl_worker_death io sid c))"
    using assms by (simp add: appl_worker_death_def Let_def serving_def)
  then show closed: "om_find (co_phases (hang_up io n c)) n = Some Closed"
    unfolding h by (simp add: finish_def set_phase_def erase_worker_def om.find_assign)
  show "hang_up io n (hang_up io n c) = hang_up io n c"
    unfolding hang_up_def [of io n "hang_up io n c"] by (simp add: on_event.simps closed)
qed

lemma mark_wired:
  assumes "wf_maps f" and "ctx_coordinator_epoch ctx = epoch f" and "find_device f d = Some dev" and "dev_state dev = DeviceState.ONLINE"
  shows "find_device (fence_devices [d] ctx f) d = Some (dev\<lparr>dev_state := DeviceState.REVALIDATION_REQUIRED, dev_evidence_current := False\<rparr>)"
    "find_reservation (fence_devices [d] ctx f) = find_reservation f" "find_pool (fence_devices [d] ctx f) = find_pool f"
    "find_region (fence_devices [d] ctx f) = find_region f"
  using assms by (auto simp: fence_devices_def mark_device_revalidation_def valid_transition_device_def)
lemma wire_replies [simp]:
  "wire (ack_frame r) = \<lparr>dr_status = DecodeStatus.OK, dr_frame = ack_frame r, dr_consumed = 20, dr_error = []\<rparr>"
  "frame_type (ack_frame r) = FrameType.ACK"
  using decode_encoded [of "ack_frame r" "[]"]
  by (simp_all add: wire_def ack_frame_def put_append frame_consts)

lemma wire_reserve_reply:
  assumes "length (id_value (res_id v)) \<le> 100"
  shows "dr_status (wire (reserve_frame (grant v))) = DecodeStatus.OK" "dr_frame (wire (reserve_frame (grant v))) = reserve_frame (grant v)"
  using assms wire_fits [of "reserve_frame (grant v)"]
  by (simp_all add: reserve_frame_def grant_def result_payload_def put_append str_bytes_def kMaxPayloadBytes_def)

lemma granted_simps:
  "res_id (granted b consumer boot e pg) = Ident ''res-1''" "res_bytes (granted b consumer boot e pg) = b"
  "res_state (granted b consumer boot e pg) = ResumeState.RESERVED" "res_consumer (granted b consumer boot e pg) = Ident consumer"
  "res_worker_boot_id (granted b consumer boot e pg) = Ident boot" "reservation_id 1 = Ident ''res-1''"
  by (simp_all add: granted_def new_reservation_def wired_request_def reservation_id_def to_string_u64_def show_small)

definition placed :: "Reservation \<Rightarrow> bool" where
  "placed v \<longleftrightarrow> res_id v = Ident ''res-1'' \<and> res_pool v = Ident ''p-1'' \<and> res_region v = Ident ''r-1'' \<and> res_device v = Ident ''dev-1''"

lemma placed_granted: "placed (granted b consumer boot e pg)"
  using granted_simps(6) by (simp add: placed_def granted_def)

lemma placed_finds:
  assumes "placed v" and "lease wired_device v p r f"
  shows "wf_maps f" "find_reservation f (Ident ''res-1'') = Some v" "find_device f (Ident ''dev-1'') = Some wired_device"
    "find_pool f (Ident ''p-1'') = Some p" "find_region f (Ident ''r-1'') = Some r"
  using assms lease_pool [OF assms(2)] by (simp_all add: placed_def lease_def)

lemma reserved_line: "result_line ''RESERVED'' (''res-1'', DecisionReason_to_u32 DecisionReason.OK, 1) = ''RESERVED res-1 reason=0 ok=1'' @ [CHR 0x0A]"
  by (simp add: result_line_def show_int_def show_small)

text \<open>What a publishing worker has brought about when it goes on with its own requests.\<close>

definition device_frame :: "string \<Rightarrow> Frame" where
  "device_frame boot = \<lparr>frame_type = FrameType.PUBLISH_DEVICE, frame_payload = encode_device (base_device boot)\<rparr>"

definition pool_frame :: "string \<Rightarrow> Frame" where
  "pool_frame boot = \<lparr>frame_type = FrameType.PUBLISH_POOL,
     frame_payload = encode_pool (Ident ''p-1'') (Generation 1) [base_member (base_device boot)]\<rparr>"

definition region_frame :: Frame where
  "region_frame = \<lparr>frame_type = FrameType.PUBLISH_REGION,
     frame_payload = encode_region (Ident ''r-1'') (Generation 1) (Ident ''p-1'') [Ident ''dev-1'']
       (16 * 1024 * 1024 * 1024) LocalityClass.SAME_HOST TierClass.CXL_NEAR RegionState.ONLINE\<rparr>"

lemmas published_frames = device_frame_def pool_frame_def region_frame_def

lemma publish_steps:
  assumes "serving n sid [] c" and "empty_fabric (co_fabric c)"
  obtains c1 c2 c3 where
    "on_event io (Received n (wire (device_frame b))) c = Some ([ack_frame DecisionReason.OK], c1)"
    "on_event io (Received n (wire (pool_frame b))) c1 = Some ([ack_frame DecisionReason.OK], c2)"
    "on_event io (Received n (wire region_frame)) c2 = Some ([ack_frame DecisionReason.OK], c3)"
    "serving n sid [Ident ''dev-1''] c3" "single wired_device governed_pool wired_region (co_fabric c3)"
    "epoch (co_fabric c3) = epoch (co_fabric c)"
proof -
  obtain c1 where 1: "on_event io (Received n (wire (device_frame b))) c = Some ([ack_frame DecisionReason.OK], c1)"
    and c1: "serving n sid [Ident ''dev-1''] c1" "has_device wired_device (co_fabric c1)" "epoch (co_fabric c1) = epoch (co_fabric c)"
    using device_step [OF assms, of io b] by (auto simp: published_frames)
  obtain c2 where 2: "on_event io (Received n (wire (pool_frame b))) c1 = Some ([ack_frame DecisionReason.OK], c2)"
    and c2: "serving n sid [Ident ''dev-1''] c2" "has_pool wired_device governed_pool (co_fabric c2)" "epoch (co_fabric c2) = epoch (co_fabric c1)"
    using pool_step [OF c1(1,2), of io b] by (auto simp: published_frames)
  obtain c3 where 3: "on_event io (Received n (wire region_frame)) c2 = Some ([ack_frame DecisionReason.OK], c3)"
    and c3: "serving n sid [Ident ''dev-1''] c3" "single wired_device governed_pool wired_region (co_fabric c3)"
      "epoch (co_fabric c3) = epoch (co_fabric c2)"
    using region_step [OF c2(1,2), of io] by (auto simp: published_frames)
  from that [OF 1 2 3 c3(1,2)] c1 c2 c3 show thesis by simp
qed

lemma publish_session:
  assumes "serving n sid [] c" and "empty_fabric (co_fabric c)"
  shows "\<exists>c'. session io n (publish (base_device b) k) [] out c = session io n k [] out c' \<and> serving n sid [Ident ''dev-1''] c' \<and>
     single wired_device governed_pool wired_region (co_fabric c') \<and> epoch (co_fabric c') = epoch (co_fabric c)"
proof (rule publish_steps [OF assms, of io b])
  fix c1 c2 c3
  assume 1: "on_event io (Received n (wire (device_frame b))) c = Some ([ack_frame DecisionReason.OK], c1)"
    "on_event io (Received n (wire (pool_frame b))) c1 = Some ([ack_frame DecisionReason.OK], c2)"
    "on_event io (Received n (wire region_frame)) c2 = Some ([ack_frame DecisionReason.OK], c3)"
    and 2: "serving n sid [Ident ''dev-1''] c3" "single wired_device governed_pool wired_region (co_fabric c3)" "epoch (co_fabric c3) = epoch (co_fabric c)"
  have "session io n (publish (base_device b) k) [] out c = session io n k [] out c3"
    using 1 by (simp add: publish_def send_and_await_def request_def published_frames)
  with 2 show ?thesis by blast
qed

lemma reserve_session:
  assumes "serving n boot ds c" and "single wired_device governed_pool wired_region (co_fabric c)"
    and "b \<noteq> 0" and "unat b \<le> 2 ^ 34" and "length consumer \<le> 65524"
  shows "\<exists>c' v. session io n (do_reserve b consumer k) [] out c = session io n k [] (out @ ''RESERVED res-1 reason=0 ok=1'' @ [CHR 0x0A]) c' \<and>
     serving n boot ds c' \<and> v = granted b consumer boot (epoch (co_fabric c)) (policy_generation (co_fabric c)) \<and>
     lease wired_device v (pool_reserve b governed_pool) (region_reserve b wired_region) (co_fabric c') \<and> epoch (co_fabric c') = epoch (co_fabric c)"
proof -
  obtain c' v where 1: "on_event io (Received n (wire \<lparr>frame_type = FrameType.RESERVE, frame_payload = encode_reserve b consumer\<rparr>)) c =
       Some ([reserve_frame (grant v)], c')"
    and v: "v = granted b consumer boot (epoch (co_fabric c)) (policy_generation (co_fabric c))"
    and c': "serving n boot ds c'" "lease wired_device v (pool_reserve b governed_pool) (region_reserve b wired_region) (co_fabric c')"
      "epoch (co_fabric c') = epoch (co_fabric c)"
    using reserve_step [OF assms, of io] by auto
  have rid: "id_value (res_id v) = ''res-1''" by (simp add: v granted_simps)
  have ok: "dr_status (wire (reserve_frame (grant v))) = DecodeStatus.OK" "dr_frame (wire (reserve_frame (grant v))) = reserve_frame (grant v)"
    using wire_reserve_reply [of v] rid by simp_all
  have rep: "report ''RESERVED'' (result_payload (grant v)) k = Emit (''RESERVED res-1 reason=0 ok=1'' @ [CHR 0x0A]) k"
    using report_reply [of "grant v" "''RESERVED''" k] rid reserved_line by (simp add: wire_string_def grant_def)
  have "session io n (do_reserve b consumer k) [] out c = session io n k [] (out @ ''RESERVED res-1 reason=0 ok=1'' @ [CHR 0x0A]) c'"
    using 1 ok rep by (simp add: do_reserve_def request_def reserve_frame_def)
  with c' v show ?thesis by blast
qed
section \<open>Properties\<close>

text \<open>
  C17. End to end: a worker that connects to a fresh coordinator and asks for some bytes, at most the 16 GiB it publishes,
  runs to its normal end and prints that it holds reservation \<^verbatim>\<open>res-1\<close>; its device, pool and region have gone through
  the encoders, the wire format, the decoders and the engine. After it has closed its connection the reservation is
  outstanding under its boot identity and its bytes are taken from the pool, the device waits for revalidation
  without current evidence, and the worker's entry is gone.
\<close>

theorem worker_session_reserves:
  assumes "Coordinator_new io e [] [] fs = Some c" and "b \<noteq> 0" and "unat b \<le> 2 ^ 34" and "length boot \<le> 65536" and "length consumer \<le> 65524"
  shows "\<exists>c' v p. session io n (worker_main (WorkerOptions_default\<lparr>wo_boot := boot, wo_reserve_bytes := b, wo_consumer := consumer\<rparr>)) [] [] c =
       (Exits 0, ''RESERVED res-1 reason=0 ok=1'' @ [CHR 0x0A], c') \<and>
     find_reservation (co_fabric c') (Ident ''res-1'') = Some v \<and> res_state v = ResumeState.RESERVED \<and> res_bytes v = b \<and>
     res_consumer v = Ident consumer \<and> res_worker_boot_id v = Ident boot \<and>
     find_pool (co_fabric c') (Ident ''p-1'') = Some p \<and> unat (pool_free p) + unat b = 2 ^ 34 \<and>
     find_device (co_fabric c') (Ident ''dev-1'') =
       Some (wired_device\<lparr>dev_state := DeviceState.REVALIDATION_REQUIRED, dev_evidence_current := False\<rparr>) \<and>
     om_find (co_workers c') boot = None \<and> om_find (co_phases c') n = Some Closed"
proof -
  obtain c1 c2 where 1: "on_event io (Accepted n) c = Some ([], c1)"
    "on_event io (Received n (wire \<lparr>frame_type = FrameType.WORKER_BOOT, frame_payload = bytes_of boot\<rparr>)) c1 = Some ([], c2)"
    and c2: "serving n boot [] c2" "co_fabric c2 = Fabric_new (Generation e) (Generation 1)" and up: "\<not> co_exited c"
    using connect_step [OF assms(1,4), of n] by blast
  let ?k = "do_reserve b consumer (Close (Exit 0))"
  obtain c3 where 2: "session io n (publish (base_device boot) ?k) [] [] c2 = session io n ?k [] [] c3"
    and c3: "serving n boot [Ident ''dev-1''] c3" "single wired_device governed_pool wired_region (co_fabric c3)"
    using publish_session [OF c2(1), of io boot ?k "[]"] empty_Fabric_new by (auto simp: c2(2))
  obtain c4 v where 3: "session io n ?k [] [] c3 = session io n (Close (Exit 0)) [] (''RESERVED res-1 reason=0 ok=1'' @ [CHR 0x0A]) c4"
    and v: "v = granted b consumer boot (epoch (co_fabric c3)) (policy_generation (co_fabric c3))"
    and c4: "serving n boot [Ident ''dev-1''] c4" "find_reservation (co_fabric c4) (Ident ''res-1'') = Some v" "wf_maps (co_fabric c4)"
      "find_device (co_fabric c4) (Ident ''dev-1'') = Some wired_device"
      "find_pool (co_fabric c4) (Ident ''p-1'') = Some (pool_reserve b governed_pool)"
    using reserve_session [OF c3 assms(2,3,5), of io "Close (Exit 0)" "[]"] placed_finds [OF placed_granted] by auto
  note h = hang_up_step [OF c4(1), of io]
  have run: "session io n (worker_main (WorkerOptions_default\<lparr>wo_boot := boot, wo_reserve_bytes := b, wo_consumer := consumer\<rparr>)) [] [] c =
      (Exits 0, ''RESERVED res-1 reason=0 ok=1'' @ [CHR 0x0A], hang_up io n c4)"
    using 1 2 3 up assms(2) by (simp add: worker_main_def requests_def WorkerOptions_default_def word_neq_0_conv h(5))
  have free: "unat (pool_free (pool_reserve b governed_pool)) + unat b = 2 ^ 34"
  proof -
    have "pool_ok governed_pool"
      by (simp add: pool_ok_def pool_sum_def governed_pool_eq wired_pool_def published_pool_def CxlPool_default_def)
    then show ?thesis using pool_reserve_law [of governed_pool b] wired_room(1) assms(3) by simp
  qed
  show ?thesis
    unfolding run using h c4 v free mark_wired [OF c4(3), of _ "Ident ''dev-1''" wired_device]
    by (intro exI [of _ "hang_up io n c4"] exI [of _ v] exI [of _ "pool_reserve b governed_pool"]) (simp add: granted_simps)
qed

theorem worker_session_reserves_witness:
  "\<exists>c c'. Coordinator_new no_faults 7 [] [] Map.empty = Some c \<and>
     session no_faults 0 (worker_main (WorkerOptions_default\<lparr>wo_boot := ''w'', wo_reserve_bytes := 4096, wo_consumer := ''svc''\<rparr>)) [] [] c =
       (Exits 0, ''RESERVED res-1 reason=0 ok=1'' @ [CHR 0x0A], c')"
proof -
  obtain c where "Coordinator_new no_faults 7 [] [] Map.empty = Some c" by (simp add: Coordinator_new_def Let_def)
  with worker_session_reserves [OF this, of 4096 "''w''" "''svc''" 0] show ?thesis by auto
qed
section \<open>A coordinator that has been driven\<close>

lemma frame_calls_short: "length (frame_calls n f c) \<le> 2"
  by (cases "frame_type f") (auto simp: frame_calls_def Let_def split: rd.splits)

lemma event_calls_wire:
  "length (frame_payload f) \<le> kMaxPayloadBytes \<Longrightarrow> length (event_calls (Received n (wire f)) c) \<le> 2"
  using frame_calls_short [of n f c] by (auto simp: wire_fits split: option.splits phase.splits)

lemma frames_fit:
  "length (frame_payload (device_frame b)) \<le> kMaxPayloadBytes" "length (frame_payload (pool_frame b)) \<le> kMaxPayloadBytes"
  "length (frame_payload region_frame) \<le> kMaxPayloadBytes"
  using payloads_fit by (simp_all add: published_frames)

lemma published_fitting:
  "fitting_event (Received n (wire (device_frame b))) c" "fitting_event (Received n (wire (pool_frame b))) c"
  "fitting_event (Received n (wire region_frame)) c"
  using published_members [of b]
  by (simp_all add: wire_fits [OF frames_fit(1)] wire_fits [OF frames_fit(2)] wire_fits [OF frames_fit(3)])
    (simp_all add: published_frames base_member_def nominal_fits_def)

lemma driven:
  assumes "Coordinator_new io e [] [] fs = Some c" and "length boot \<le> 65536"
  shows "\<exists>k c'. co_reachable fitting_event c k c' \<and> k < 2 ^ 64 \<and> fresh c \<and> serving n boot [Ident ''dev-1''] c' \<and>
     single wired_device governed_pool wired_region (co_fabric c')"
proof -
  obtain c1 c2 where 1: "on_event io (Accepted n) c = Some ([], c1)"
    "on_event io (Received n (wire \<lparr>frame_type = FrameType.WORKER_BOOT, frame_payload = bytes_of boot\<rparr>)) c1 = Some ([], c2)"
    and c2: "serving n boot [] c2" "empty_fabric (co_fabric c2)"
    using connect_step [OF assms, of n] empty_Fabric_new by metis
  let ?boot = "\<lparr>frame_type = FrameType.WORKER_BOOT, frame_payload = bytes_of boot\<rparr>"
  have boot: "length (frame_payload ?boot) \<le> kMaxPayloadBytes" using assms(2) by (simp add: kMaxPayloadBytes_def)
  obtain c3 c4 c5 where 2: "on_event io (Received n (wire (device_frame boot))) c2 = Some ([ack_frame DecisionReason.OK], c3)"
    "on_event io (Received n (wire (pool_frame boot))) c3 = Some ([ack_frame DecisionReason.OK], c4)"
    "on_event io (Received n (wire region_frame)) c4 = Some ([ack_frame DecisionReason.OK], c5)"
    and c5: "serving n boot [Ident ''dev-1''] c5" "single wired_device governed_pool wired_region (co_fabric c5)"
    by (rule publish_steps [OF c2, of io boot])
  have fit: "fitting_event (Received n (wire ?boot)) c1" by (simp add: wire_fits [OF boot])
  have "co_reachable fitting_event c 0 c" by (rule co_reachable.start)
  from co_reachable.event [OF co_reachable.event [OF co_reachable.event [OF co_reachable.event [OF co_reachable.event [OF
    this _ 1(1)] fit 1(2)] published_fitting(1) 2(1)] published_fitting(2) 2(2)] published_fitting(3) 2(3)]
  obtain k where k: "co_reachable fitting_event c k c5" and "k \<le> 0 + 2 + 2 + 2 + 2"
    using event_calls_wire [OF boot, of n c1] event_calls_wire [OF frames_fit(1) [of boot], of n c2]
      event_calls_wire [OF frames_fit(2) [of boot], of n c3] event_calls_wire [OF frames_fit(3), of n c4]
    by (metis (no_types, lifting) add_mono event_calls.simps(2) fitting_event.simps(2) list.size(3) add_0 le_refl)
  then show ?thesis using c5 fresh_new [OF assms(1)] by (intro exI [of _ k] exI [of _ c5]) auto
qed
section \<open>Witnesses for the coordinator\<close>


theorem worker_death_fences_witness:
  "\<exists>c c'. on_event no_faults (Received 0 end_of_stream) c = Some ([], c') \<and> find_device (co_fabric c) (Ident ''dev-1'') = Some wired_device \<and>
     dev_state wired_device = DeviceState.ONLINE \<and>
     (\<forall>req. so_ok (select req (co_fabric c')) \<longrightarrow> cand_device (so_chosen (select req (co_fabric c'))) \<noteq> Ident ''dev-1'')"
proof -
  obtain c0 where "Coordinator_new no_faults 7 [] [] Map.empty = Some c0" by (simp add: Coordinator_new_def Let_def)
  from driven [OF this, of "''w''" 0] obtain k c where r: "co_reachable fitting_event c0 k c" "fresh c0"
    and sv: "serving 0 ''w'' [Ident ''dev-1''] c" and s: "single wired_device governed_pool wired_region (co_fabric c)" by auto
  have eof: "dr_status end_of_stream \<noteq> DecodeStatus.OK" by (simp add: end_of_stream_def decode_failed_def)
  obtain c' where ev: "on_event no_faults (Received 0 end_of_stream) c = Some ([], c')"
    using sv eof by (simp add: on_event.simps serving_def)
  have "find_device (co_fabric c) (Ident ''dev-1'') = Some wired_device" using s by (simp add: single_def find_defs)
  with worker_death_fences [OF r, of "''w''" 0 end_of_stream no_faults "[]" c' "Ident ''dev-1''"] sv ev eof show ?thesis
    by (auto simp: serving_def)
qed
text \<open>The state of the worker's session fits the file.\<close>

lemma wired_stored: "device_stored wired_device" "region_stored wired_region" "pool_stored (pool_reserve b governed_pool)"
  by (simp_all add: device_stored_def region_stored_def pool_stored_def wired_device_def wired_region_def governed_pool_eq wired_pool_def
      device_view_def region_view_def published_pool_def pool_reserve_def base_member_def member_wired_def stored_strings_def
      base_device_def make_device_def Let_def wire_string_def economics_stored_def record_defs om_wf_def)
lemma stored_sizes:
  "length (w_device [] wired_device) \<le> 1000" "length (w_region [] wired_region) \<le> 1000"
  "length (w_pool [] (pool_reserve b governed_pool)) \<le> 1000"
  by (simp_all add: w_device_def w_region_def w_pool_def w_member_def w_economics_def w_append w_vec_append Let_def
      str_bytes_def wired_device_def wired_region_def governed_pool_eq wired_pool_def device_view_def region_view_def
      published_pool_def pool_reserve_def base_member_def base_device_def make_device_def record_defs)
lemma single_stored:
  assumes "single wired_device governed_pool wired_region f"
  shows "state_stored (export_persisted f)"
    and "\<exists>payload. serialize_state (export_persisted f) = Inr payload \<and> length payload \<le> kMaxPersistPayload"
proof -
  have p: "pool_reserve 0 governed_pool = governed_pool" by (simp add: pool_reserve_def)
  have maps: "ps_devices (export_persisted f) = [(Ident ''dev-1'', wired_device)]" "ps_regions (export_persisted f) = [(Ident ''r-1'', wired_region)]"
    "ps_pools (export_persisted f) = [(Ident ''p-1'', governed_pool)]"
    using assms by (simp_all add: single_def export_persisted_def)
  show "state_stored (export_persisted f)"
    using wired_stored(1,2) wired_stored(3) [of 0] by (simp add: state_stored_def maps om_wf_def p)
  have "length (w_body (export_persisted f)) \<le> 3020"
    using stored_sizes(1,2) stored_sizes(3) [of 0] by (simp add: w_body_eq maps p)
  then show "\<exists>payload. serialize_state (export_persisted f) = Inr payload \<and> length payload \<le> kMaxPersistPayload"
    by (simp add: serialize_state_def maps w_append kMaxPersistPayload_def Let_def)
qed

theorem restart_recovers_witness:
  "\<exists>c c'. find_device (co_fabric c) (Ident ''dev-1'') = Some wired_device \<and> co_persist c = ''state'' \<and>
     Coordinator_new no_faults 8 ''state'' [] (co_files (persist_now no_faults c)) = Some c' \<and>
     epoch (co_fabric c') = Generation 8 \<and>
     (\<exists>d. find_device (co_fabric c') (Ident ''dev-1'') = Some d \<and> dev_generation d = Generation 1 \<and> dev_state d = DeviceState.REVALIDATION_REQUIRED)"
proof -
  obtain c0 where "Coordinator_new no_faults 7 [] [] Map.empty = Some c0" by (simp add: Coordinator_new_def Let_def)
  from driven [OF this, of "''w''" 0] obtain k c1 where "co_reachable fitting_event c0 k c1"
    and s: "single wired_device governed_pool wired_region (co_fabric c1)" by auto
  define c where "c = c1\<lparr>co_persist := ''state''\<rparr>"
  have s: "single wired_device governed_pool wired_region (co_fabric c)" and p: "co_persist c = ''state''"
    using s by (simp_all add: c_def)
  then have d: "find_device (co_fabric c) (Ident ''dev-1'') = Some wired_device" by (simp add: single_def find_defs)
  obtain payload where pay: "serialize_state (export_persisted (co_fabric c)) = Inr payload" "length payload \<le> kMaxPersistPayload"
    using single_stored(2) [OF s] by blast
  from restart_recovers [OF single_stored(1) [OF s] pay, of no_faults 8 "[]"] p obtain c' where
    c': "Coordinator_new no_faults 8 ''state'' [] (co_files (persist_now no_faults c)) = Some c'" "epoch (co_fabric c') = Generation 8"
    and g: "map_option dev_generation (find_device (co_fabric c') (Ident ''dev-1'')) = map_option dev_generation (find_device (co_fabric c) (Ident ''dev-1''))"
    and st: "\<forall>k d. find_device (co_fabric c') k = Some d \<longrightarrow> dev_state d = DeviceState.REVALIDATION_REQUIRED \<and> \<not> dev_evidence_current d"
    by auto
  from g d have "\<exists>d. find_device (co_fabric c') (Ident ''dev-1'') = Some d \<and> dev_generation d = Generation 1" by auto
  with st c' d p show ?thesis by blast
qed

end
