(* ===== verification/Tenancy.thy ===== *)
theory Tenancy
  imports Worker
begin

text \<open>
  The whole life of a reservation between one worker and the coordinator: the worker publishes its device, reserves, commits
  and releases over one connection, and at the end the pool and the region are as it published them.
\<close>

section \<open>The frames\<close>

lemma named_step:
  assumes "serving n sid ds c" and "t = FrameType.COMMIT \<and> out = commit (reservation_id 1) (worker_ctx (Ident sid) (co_fabric c)) (co_fabric c) \<or>
      t = FrameType.RELEASE \<and> out = release (reservation_id 1) (worker_ctx (Ident sid) (co_fabric c)) (co_fabric c)"
  shows "\<exists>c'. on_event io (Received n (wire \<lparr>frame_type = t, frame_payload = bytes_of ''res-1''\<rparr>)) c = Some ([commit_frame (fst out)], c') \<and>
     serving n sid ds c' \<and> co_fabric c' = snd out"
proof -
  let ?f = "\<lparr>frame_type = t, frame_payload = bytes_of ''res-1''\<rparr>"
  have "Ident ''res-1'' = reservation_id 1" "string_of (bytes_of ''res-1'') = ''res-1''" "ws_boot (store_of c n) = Ident sid"
    using assms(1) by (simp_all add: granted_simps serving_def)
  then have d: "dispatch_frame n ?f c = Some ([commit_frame (fst out)], c\<lparr>co_fabric := snd out\<rparr>)"
    using assms(2) by (auto simp: dispatch_frame_def Let_def split: prod.splits)
  have fits: "length (frame_payload ?f) \<le> kMaxPayloadBytes" by (simp add: kMaxPayloadBytes_def)
  from serving_step [OF assms(1) fits d serving_fabric [OF assms(1)], of io] show ?thesis by auto
qed

lemma named_session:
  assumes "serving n sid ds c" and "t = FrameType.COMMIT \<and> out = commit (reservation_id 1) (worker_ctx (Ident sid) (co_fabric c)) (co_fabric c) \<or>
      t = FrameType.RELEASE \<and> out = release (reservation_id 1) (worker_ctx (Ident sid) (co_fabric c)) (co_fabric c)"
    and "fst out = grant v" and "res_id v = reservation_id 1"
  shows "\<exists>c'. session io n (do_named t tag ''res-1'' k) [] txt c = session io n k [] (txt @ tag @ '' res-1 reason=0 ok=1'' @ [CHR 0x0A]) c' \<and>
     serving n sid ds c' \<and> co_fabric c' = snd out"
proof -
  obtain c' where 1: "on_event io (Received n (wire \<lparr>frame_type = t, frame_payload = bytes_of ''res-1''\<rparr>)) c = Some ([commit_frame (grant v)], c')"
    and c': "serving n sid ds c'" "co_fabric c' = snd out"
    using named_step [OF assms(1,2), of io] assms(3) by auto
  have rid: "id_value (res_id v) = ''res-1''" using assms(4) by (simp add: granted_simps)
  then have "length (frame_payload (commit_frame (grant v))) \<le> kMaxPayloadBytes"
    by (simp add: commit_frame_def result_payload_def put_append str_bytes_def kMaxPayloadBytes_def)
  note w = wire_fits [OF this]
  have rep: "report tag (result_payload (grant v)) k = Emit (tag @ '' res-1 reason=0 ok=1'' @ [CHR 0x0A]) k"
    using report_reply [of "grant v" tag k] rid by (simp add: wire_string_def result_line_def show_int_def show_small)
  have "session io n (do_named t tag ''res-1'' k) [] txt c = session io n k [] (txt @ tag @ '' res-1 reason=0 ok=1'' @ [CHR 0x0A]) c'"
    using 1 w rep by (simp add: do_named_def request_def commit_frame_def)
  with c' show ?thesis by blast
qed

section \<open>The session\<close>

lemma commit_release_session:
  assumes "serving n boot ds c" and "v = granted b consumer boot (epoch (co_fabric c)) pg"
    and "lease wired_device v (pool_reserve b governed_pool) (region_reserve b wired_region) (co_fabric c)"
  shows "\<exists>c'. session io n (do_named FrameType.COMMIT ''COMMIT_RESULT'' ''res-1'' (do_named FrameType.RELEASE ''RELEASE_RESULT'' ''res-1'' k)) [] txt c =
       session io n k [] (txt @ ''COMMIT_RESULT res-1 reason=0 ok=1'' @ [CHR 0x0A] @ ''RELEASE_RESULT res-1 reason=0 ok=1'' @ [CHR 0x0A]) c' \<and>
     serving n boot ds c' \<and> lease wired_device (released (committed (epoch (co_fabric c)) v)) governed_pool wired_region (co_fabric c')"
proof -
  let ?e = "epoch (co_fabric c)" and ?p = "pool_reserve b governed_pool" and ?r = "region_reserve b wired_region"
  let ?w = "committed (epoch (co_fabric c)) v"
  have v: "placed v" "res_state v = ResumeState.RESERVED" "res_created_epoch v = ?e" "res_worker_boot_id v = Ident boot" "res_bytes v = b"
    using placed_granted by (simp_all add: assms(2) granted_simps) (simp add: granted_def)
  then have rid: "res_id v = reservation_id 1" by (simp add: placed_def granted_simps)
  obtain f1 where 1: "commit (reservation_id 1) (worker_ctx (Ident boot) (co_fabric c)) (co_fabric c) = (grant ?w, f1)"
    and f1: "epoch f1 = ?e" "lease wired_device ?w (pool_commit b ?p) (region_commit b ?r) f1"
    by (rule commit_lease [OF assms(3) v(2,3), of "worker_ctx (Ident boot) (co_fabric c)"])
      (auto simp: v rid pool_reserve_def governed_pool_eq published_pool_def CxlPool_default_def wired_pool_def)
  obtain c1 where s1: "session io n (do_named FrameType.COMMIT ''COMMIT_RESULT'' ''res-1'' (do_named FrameType.RELEASE ''RELEASE_RESULT'' ''res-1'' k)) [] txt c =
      session io n (do_named FrameType.RELEASE ''RELEASE_RESULT'' ''res-1'' k) [] (txt @ ''COMMIT_RESULT'' @ '' res-1 reason=0 ok=1'' @ [CHR 0x0A]) c1"
    and c1: "serving n boot ds c1" "co_fabric c1 = f1"
    using named_session [OF assms(1) disjI1 [OF conjI [OF refl refl]], of ?w io "''COMMIT_RESULT''"] 1 rid by auto
  have clear: "pool_committed_bytes governed_pool = 0" "reg_committed_bytes wired_region = 0"
    by (simp_all add: governed_pool_eq wired_pool_def published_pool_def CxlPool_default_def wired_region_def region_view_def CxlRegion_default_def)
  obtain f2 where 2: "release (reservation_id 1) (worker_ctx (Ident boot) f1) f1 = (grant (released ?w), f2)"
    and f2: "lease wired_device (released ?w) governed_pool wired_region f2"
    by (rule release_lease [OF f1(2), of "worker_ctx (Ident boot) f1" governed_pool 0 wired_region])
      (auto simp: v rid counters_return clear)
  obtain c2 where s2: "session io n (do_named FrameType.RELEASE ''RELEASE_RESULT'' ''res-1'' k) [] (txt @ ''COMMIT_RESULT'' @ '' res-1 reason=0 ok=1'' @ [CHR 0x0A]) c1 =
      session io n k [] ((txt @ ''COMMIT_RESULT'' @ '' res-1 reason=0 ok=1'' @ [CHR 0x0A]) @ ''RELEASE_RESULT'' @ '' res-1 reason=0 ok=1'' @ [CHR 0x0A]) c2"
    and c2: "serving n boot ds c2" "co_fabric c2 = f2"
    using named_session [OF c1(1) disjI2 [OF conjI [OF refl refl]], of "released ?w" io "''RELEASE_RESULT''" k
        "txt @ ''COMMIT_RESULT'' @ '' res-1 reason=0 ok=1'' @ [CHR 0x0A]"] 2 rid c1(2) by auto
  show ?thesis using s1 s2 c2 f2 by (intro exI [of _ c2]) simp
qed

section \<open>Properties\<close>

text \<open>
  C16. The life of a reservation, end to end, on a coordinator that has just been started without files and serves nobody else: the first
  worker, with a boot identity and a consumer name short enough for their frames, that publishes, reserves between one byte and the
  16 GiB it publishes, commits \<^verbatim>\<open>res-1\<close>, which is the name the first reservation gets, and releases it prints the three
  results, all successes, and exits with 0. Afterwards the
  reservation is on record as released under the epoch in which it was committed, and the pool and the region hold
  exactly what they held when they were published: every byte is free again.
\<close>

theorem worker_session_lifecycle:
  assumes "Coordinator_new io e [] [] fs = Some c" and "b \<noteq> 0" and "unat b \<le> 2 ^ 34" and "length boot \<le> 65536" and "length consumer \<le> 65524"
  shows "\<exists>c' v. session io n (worker_main (WorkerOptions_default\<lparr>wo_boot := boot, wo_reserve_bytes := b, wo_consumer := consumer,
       wo_commit_rid := ''res-1'', wo_release_rid := ''res-1''\<rparr>)) [] [] c =
       (Exits 0, ''RESERVED res-1 reason=0 ok=1'' @ [CHR 0x0A] @ ''COMMIT_RESULT res-1 reason=0 ok=1'' @ [CHR 0x0A] @
          ''RELEASE_RESULT res-1 reason=0 ok=1'' @ [CHR 0x0A], c') \<and>
     find_reservation (co_fabric c') (Ident ''res-1'') = Some v \<and> res_state v = ResumeState.RELEASED \<and> res_bytes v = b \<and>
     res_commit_epoch v = Generation e \<and>
     find_pool (co_fabric c') (Ident ''p-1'') = Some governed_pool \<and> unat (pool_free governed_pool) = 2 ^ 34 \<and>
     find_region (co_fabric c') (Ident ''r-1'') = Some wired_region \<and> om_find (co_workers c') boot = None"
proof -
  obtain c1 c2 where 1: "on_event io (Accepted n) c = Some ([], c1)"
    "on_event io (Received n (wire \<lparr>frame_type = FrameType.WORKER_BOOT, frame_payload = bytes_of boot\<rparr>)) c1 = Some ([], c2)"
    and c2: "serving n boot [] c2" "co_fabric c2 = Fabric_new (Generation e) (Generation 1)" and up: "\<not> co_exited c"
    using connect_step [OF assms(1,4), of n] by blast
  let ?com = "do_named FrameType.COMMIT ''COMMIT_RESULT'' ''res-1'' (do_named FrameType.RELEASE ''RELEASE_RESULT'' ''res-1'' (Close (Exit 0)))"
  let ?k = "do_reserve b consumer ?com"
  obtain c3 where 2: "session io n (publish (base_device boot) ?k) [] [] c2 = session io n ?k [] [] c3"
    and c3: "serving n boot [Ident ''dev-1''] c3" "single wired_device governed_pool wired_region (co_fabric c3)" "epoch (co_fabric c3) = Generation e"
    using publish_session [OF c2(1), of io boot ?k "[]"] empty_Fabric_new by (auto simp: c2(2) epoch_def Fabric_new_def)
  obtain c4 v where 3: "session io n ?k [] [] c3 = session io n ?com [] (''RESERVED res-1 reason=0 ok=1'' @ [CHR 0x0A]) c4"
    and v: "v = granted b consumer boot (epoch (co_fabric c4)) (policy_generation (co_fabric c3))"
    and c4: "serving n boot [Ident ''dev-1''] c4" "lease wired_device v (pool_reserve b governed_pool) (region_reserve b wired_region) (co_fabric c4)"
      "epoch (co_fabric c4) = Generation e"
    using reserve_session [OF c3(1,2) assms(2,3,5), of io ?com "[]"] c3(3) by auto
  let ?w = "released (committed (epoch (co_fabric c4)) v)"
  obtain c5 where 4: "session io n ?com [] (''RESERVED res-1 reason=0 ok=1'' @ [CHR 0x0A]) c4 =
      session io n (Close (Exit 0)) [] ((''RESERVED res-1 reason=0 ok=1'' @ [CHR 0x0A]) @ ''COMMIT_RESULT res-1 reason=0 ok=1'' @ [CHR 0x0A] @
        ''RELEASE_RESULT res-1 reason=0 ok=1'' @ [CHR 0x0A]) c5"
    and c5: "serving n boot [Ident ''dev-1''] c5" "lease wired_device ?w governed_pool wired_region (co_fabric c5)"
    using commit_release_session [OF c4(1) v c4(2), of io "Close (Exit 0)" "''RESERVED res-1 reason=0 ok=1'' @ [CHR 0x0A]"] by blast
  note h = hang_up_step [OF c5(1), of io]
  have run: "session io n (worker_main (WorkerOptions_default\<lparr>wo_boot := boot, wo_reserve_bytes := b, wo_consumer := consumer,
       wo_commit_rid := ''res-1'', wo_release_rid := ''res-1''\<rparr>)) [] [] c =
      (Exits 0, ''RESERVED res-1 reason=0 ok=1'' @ [CHR 0x0A] @ ''COMMIT_RESULT res-1 reason=0 ok=1'' @ [CHR 0x0A] @
        ''RELEASE_RESULT res-1 reason=0 ok=1'' @ [CHR 0x0A], hang_up io n c5)"
    using 1 2 3 4 up assms(2) by (simp add: worker_main_def requests_def WorkerOptions_default_def word_neq_0_conv h(5))
  have "placed ?w" using placed_granted by (simp add: v placed_def released_def committed_def)
  note t = placed_finds [OF this c5(2)]
  have w: "res_bytes ?w = b" "res_commit_epoch ?w = Generation e" by (simp_all add: v granted_simps c4(3))
  show ?thesis
    unfolding run using h t w wired_room(1) mark_wired [OF t(1) _ t(3)]
    by (intro exI [of _ "hang_up io n c5"] exI [of _ ?w]) simp
qed

theorem worker_session_lifecycle_witness:
  "\<exists>c c'. Coordinator_new no_faults 7 [] [] Map.empty = Some c \<and>
     session no_faults 0 (worker_main (WorkerOptions_default\<lparr>wo_boot := ''w'', wo_reserve_bytes := 4096, wo_consumer := ''svc'',
       wo_commit_rid := ''res-1'', wo_release_rid := ''res-1''\<rparr>)) [] [] c =
       (Exits 0, ''RESERVED res-1 reason=0 ok=1'' @ [CHR 0x0A] @ ''COMMIT_RESULT res-1 reason=0 ok=1'' @ [CHR 0x0A] @
          ''RELEASE_RESULT res-1 reason=0 ok=1'' @ [CHR 0x0A], c') \<and>
     find_pool (co_fabric c') (Ident ''p-1'') = Some governed_pool"
proof -
  obtain c where "Coordinator_new no_faults 7 [] [] Map.empty = Some c" by (simp add: Coordinator_new_def Let_def)
  with worker_session_lifecycle [OF this, of 4096 "''w''" "''svc''" 0] show ?thesis by auto
qed

end
