(* ===== verification/Dialogue.thy ===== *)
theory Dialogue
  imports Worker
begin

text \<open>
  What passes between a worker and the coordinator: which frames answer which request and what their payloads hold, and
  that a worker, whatever its options, comes to its end although its connection may break and other connections go on meanwhile.
\<close>

section \<open>Outcomes of the admission calls\<close>

definition outcome_typed :: "ReserveOutcome \<Rightarrow> bool" where
  "outcome_typed out \<longleftrightarrow> (ro_ok out \<longleftrightarrow> ro_reason out = DecisionReason.OK) \<and> length (id_value (res_id (ro_reservation out))) \<le> 24"

lemma refuse_typed: "r \<noteq> DecisionReason.OK \<Longrightarrow> outcome_typed (refuse r)"
  by (simp add: outcome_typed_def refuse_def ReserveOutcome_default_def Reservation_default_def Ident_default_def)

lemma length_reservation_id: "length (id_value (reservation_id i)) \<le> 24"
  using length_to_string_u64 [of i] by (simp add: reservation_id_def)

lemma grant_typed: "\<exists>i. res_id v = reservation_id i \<Longrightarrow> outcome_typed (grant v)"
  by (auto simp: outcome_typed_def length_reservation_id)

lemma reserve_typed: "outcome_typed (fst (reserve req ctx f))"
proof -
  have "sr_reason (so_result (build_selection (selection_snapshot f) req)) \<noteq> DecisionReason.OK"
    if "\<not> so_ok (build_selection (selection_snapshot f) req)"
    using refused_explained [of req f] that by (auto simp: select_def reported_reasons_def)
  then show ?thesis
    unfolding reserve_def Let_def by (auto intro!: refuse_typed grant_typed split: option.splits)
qed

lemma found_reservation_id: "structure_ok f \<Longrightarrow> find_reservation f k = Some v \<Longrightarrow> \<exists>i. res_id v = reservation_id i"
  by (auto simp: structure_ok_def numbered_def)

lemma commit_typed: "structure_ok f \<Longrightarrow> outcome_typed (fst (commit k ctx f))"
  using found_reservation_id [of f k]
  unfolding commit_def Let_def by (auto intro!: refuse_typed grant_typed split: option.splits)

lemma release_typed: "structure_ok f \<Longrightarrow> outcome_typed (fst (release k ctx f))"
  using found_reservation_id [of f k]
  unfolding release_def Let_def by (auto intro!: refuse_typed grant_typed split: option.splits prod.splits)

section \<open>Replies\<close>

text \<open>The frames that may answer a request.\<close>

definition answers :: "FrameType \<Rightarrow> FrameType list" where
  "answers t = (case t of
     FrameType.PUBLISH_DEVICE \<Rightarrow> [FrameType.ACK, FrameType.ERROR_REPORT]
   | FrameType.PUBLISH_POOL \<Rightarrow> [FrameType.ACK, FrameType.ERROR_REPORT]
   | FrameType.PUBLISH_REGION \<Rightarrow> [FrameType.ACK, FrameType.ERROR_REPORT]
   | FrameType.RESERVE \<Rightarrow> [FrameType.RESERVE_RESULT, FrameType.ERROR_REPORT]
   | FrameType.COMMIT \<Rightarrow> [FrameType.COMMIT_RESULT]
   | FrameType.RELEASE \<Rightarrow> [FrameType.COMMIT_RESULT]
   | FrameType.QUERY_STATE \<Rightarrow> [FrameType.QUERY_STATE_RESULT]
   | FrameType.SHUTDOWN \<Rightarrow> []
   | _ \<Rightarrow> [FrameType.ERROR_REPORT])"

text \<open>
  What a payload holds: an acknowledgement the code of a decision, a result the name of a reservation, the code of a
  decision and a flag that is set exactly when the code is that of success.
\<close>

definition decision_code :: "u32 \<Rightarrow> bool" where
  "decision_code w \<longleftrightarrow> (\<exists>r. DecisionReason_to_u32 r = w)"

definition payload_typed :: "Frame \<Rightarrow> bool" where
  "payload_typed r = (case frame_type r of
     FrameType.ACK \<Rightarrow> (case get_u32 (frame_payload r) 0 of Rd w pos \<Rightarrow> decision_code w \<and> pos = length (frame_payload r) | _ \<Rightarrow> False)
   | FrameType.RESERVE_RESULT \<Rightarrow>
       (case result_fields (frame_payload r) 0 of
          Rd (rid, w, b) pos \<Rightarrow> decision_code w \<and> (b = 1 \<longleftrightarrow> w = 0) \<and> b \<le> 1 \<and> Suc pos = length (frame_payload r) | _ \<Rightarrow> False)
   | FrameType.COMMIT_RESULT \<Rightarrow>
       (case result_fields (frame_payload r) 0 of
          Rd (rid, w, b) pos \<Rightarrow> decision_code w \<and> (b = 1 \<longleftrightarrow> w = 0) \<and> b \<le> 1 \<and> Suc pos = length (frame_payload r) | _ \<Rightarrow> False)
   | _ \<Rightarrow> True)"

definition delivered :: "Frame \<Rightarrow> bool" where
  "delivered r \<longleftrightarrow> dr_status (wire r) = DecodeStatus.OK \<and> dr_frame (wire r) = r"

lemma delivered_fits: "length (frame_payload r) \<le> kMaxPayloadBytes \<Longrightarrow> delivered r"
  by (simp add: delivered_def wire_fits)

definition reply_typed :: "FrameType \<Rightarrow> Frame \<Rightarrow> bool" where
  "reply_typed t r \<longleftrightarrow> frame_type r \<in> set (answers t) \<and> payload_typed r \<and> (t = FrameType.QUERY_STATE \<or> delivered r)"

lemma reason_code_zero: "DecisionReason_to_u32 r = 0 \<longleftrightarrow> r = DecisionReason.OK"
  by (cases r) simp_all

lemma ack_typed: "FrameType.ACK \<in> set (answers t) \<Longrightarrow> reply_typed t (ack_frame r)"
  using get_put_u32 [of "[]" "DecisionReason_to_u32 r" "[]"]
  by (auto simp: reply_typed_def payload_typed_def decision_code_def ack_frame_def put_append
      delivered_fits kMaxPayloadBytes_def)

lemma error_typed: "FrameType.ERROR_REPORT \<in> set (answers t) \<Longrightarrow> length msg \<le> 100 \<Longrightarrow> reply_typed t (error_frame msg)"
  by (auto simp: reply_typed_def payload_typed_def error_frame_def delivered_fits kMaxPayloadBytes_def)

lemma result_typed:
  assumes "outcome_typed out"
  shows "result_fields (result_payload out) 0 =
       Rd (id_value (res_id (ro_reservation out)), DecisionReason_to_u32 (ro_reason out), if ro_ok out then 1 else 0)
         (length (result_payload out) - 1)"
    and "length (result_payload out) \<le> 33" and "0 < length (result_payload out)"
  using assms result_fields_of_reply [of out]
  by (simp_all add: outcome_typed_def wire_string_def result_payload_def put_append str_bytes_def)

lemma reserve_frame_typed: "outcome_typed out \<Longrightarrow> FrameType.RESERVE_RESULT \<in> set (answers t) \<Longrightarrow> reply_typed t (reserve_frame out)"
  using result_typed [of out]
  by (auto simp: reply_typed_def payload_typed_def decision_code_def reserve_frame_def outcome_typed_def reason_code_zero delivered_fits
      kMaxPayloadBytes_def)

lemma commit_frame_typed: "outcome_typed out \<Longrightarrow> FrameType.COMMIT_RESULT \<in> set (answers t) \<Longrightarrow> reply_typed t (commit_frame out)"
  using result_typed [of out]
  by (auto simp: reply_typed_def payload_typed_def decision_code_def commit_frame_def outcome_typed_def reason_code_zero delivered_fits
      kMaxPayloadBytes_def)
section \<open>Dispatch\<close>

text \<open>Whether the decoder of a frame's type runs past its buffer depends on the payload alone.\<close>

definition readable :: "Frame \<Rightarrow> bool" where
  "readable f = (case frame_type f of
     FrameType.PUBLISH_DEVICE \<Rightarrow> decode_device (frame_payload f) CxlDevice_default \<noteq> OutOfBounds
   | FrameType.RESERVE \<Rightarrow> decode_reserve (frame_payload f) \<noteq> OutOfBounds
   | FrameType.PUBLISH_POOL \<Rightarrow> decode_pool (frame_payload f) \<noteq> OutOfBounds
   | FrameType.PUBLISH_REGION \<Rightarrow> decode_region (frame_payload f) CxlRegion_default \<noteq> OutOfBounds
   | _ \<Rightarrow> True)"

lemma dispatch_defined: "dispatch_frame n f c = None \<longleftrightarrow> \<not> readable f"
  by (cases "frame_type f")
    (auto simp: dispatch_frame_def readable_def dispatch_device_def dispatch_reserve_def dispatch_pool_def dispatch_region_def Let_def
      split: rd.splits prod.splits)

lemma dispatch_replies:
  assumes "dispatch_frame n f c = Some (rs, c')"
  shows "if frame_type f = FrameType.SHUTDOWN then rs = [] else \<exists>r. rs = [r]"
  using assms
  by (cases "frame_type f")
    (auto simp: dispatch_frame_def dispatch_device_def dispatch_reserve_def dispatch_pool_def dispatch_region_def Let_def
      split: rd.splits prod.splits)

lemma dispatch_typed:
  assumes "dispatch_frame n f c = Some (rs, c')" and "structure_ok (co_fabric c)" and "r \<in> set rs"
  shows "reply_typed (frame_type f) r"
proof -
  have out: "reserve req ctx g = (x, y) \<Longrightarrow> outcome_typed x"
    "structure_ok g \<Longrightarrow> commit k ctx g = (x, y) \<Longrightarrow> outcome_typed x"
    "structure_ok g \<Longrightarrow> release k ctx g = (x, y) \<Longrightarrow> outcome_typed x" for req ctx g k x y
    using reserve_typed [of req ctx g] commit_typed [of g k ctx] release_typed [of g k ctx] by auto
  have query: "reply_typed FrameType.QUERY_STATE \<lparr>frame_type = FrameType.QUERY_STATE_RESULT, frame_payload = p\<rparr>" for p
    by (simp add: reply_typed_def answers_def payload_typed_def)
  show ?thesis
    using assms query
    by (cases "frame_type f")
      (auto simp: dispatch_frame_def dispatch_device_def dispatch_reserve_def dispatch_pool_def dispatch_region_def Let_def answers_def
        split: rd.splits prod.splits intro!: ack_typed error_typed reserve_frame_typed commit_frame_typed intro: out)
qed

section \<open>Events of other connections\<close>

definition consistent :: "Coordinator \<Rightarrow> bool" where
  "consistent c \<longleftrightarrow> workers_ok c \<and> structure_ok (co_fabric c)"

lemma consistent_event: "consistent c \<Longrightarrow> on_event io e c = Some (rs, c') \<Longrightarrow> consistent c'"
  using workers_ok_event [of c io e rs c'] event_structure [of c io e rs c'] by (simp add: consistent_def)

lemma consistent_reachable: "co_reachable allowed start k c \<Longrightarrow> fresh start \<Longrightarrow> consistent c"
  using workers_ok_reachable [of allowed start k c] coordinator_structure [of allowed start k c] structure_new
  by (auto simp: consistent_def fresh_def)

text \<open>An event that is not one of connection \<open>n\<close>; a frame must be one its decoder does not run past.\<close>

fun foreign :: "nat \<Rightarrow> event \<Rightarrow> bool" where
  "foreign n (Accepted m) \<longleftrightarrow> m \<noteq> n"
| "foreign n (Received m r) \<longleftrightarrow> m \<noteq> n \<and> (dr_status r = DecodeStatus.OK \<longrightarrow> readable (dr_frame r))"
| "foreign n Signalled \<longleftrightarrow> True"
| "foreign n Stopping \<longleftrightarrow> True"

lemma exited_frame [simp]:
  "co_exited (set_phase n p c) = co_exited c" "co_exited (finish n sid c) = co_exited c" "co_exited (next_round n sid c) = co_exited c"
  "co_phases (next_round n sid c) = om_assign n (if co_running c then Serving sid else Closed) (co_phases c)"
  "co_phases (finish n sid c) = om_assign n Closed (co_phases c)"
  by (simp_all add: set_phase_def finish_def next_round_def erase_worker_def)

lemma dispatch_some: "readable f \<Longrightarrow> \<exists>rs c'. dispatch io n f c = Some (rs, c')"
  using dispatch_defined [of n f c] by (auto simp: dispatch_def)

lemma foreign_event:
  assumes "consistent c" and "foreign n e"
  shows "\<exists>rs c'. on_event io e c = Some (rs, c') \<and> consistent c' \<and> om_find (co_phases c') n = om_find (co_phases c) n \<and>
     (co_exited c \<longrightarrow> co_exited c')"
proof -
  have wf: "om_wf (co_phases c)" and ok: "workers_ok c" using assms(1) by (simp_all add: consistent_def workers_ok_def)
  have "\<exists>rs c'. on_event io e c = Some (rs, c') \<and> om_find (co_phases c') n = om_find (co_phases c) n \<and> (co_exited c \<longrightarrow> co_exited c')"
  proof (cases e)
    case (Accepted m)
    with assms(2) wf show ?thesis by (auto simp: set_phase_def om.find_assign)
  next
    case (Received m r)
    then have m: "m \<noteq> n" and rd: "dr_status r = DecodeStatus.OK \<Longrightarrow> readable (dr_frame r)" using assms(2) by auto
    show ?thesis
    proof (cases "om_find (co_phases c) m")
      case (Some p)
      show ?thesis
      proof (cases p)
        case (Serving sid)
        show ?thesis
        proof (cases "dr_status r = DecodeStatus.OK")
          case True
          obtain rs c1 where d: "dispatch io m (dr_frame r) c = Some (rs, c1)" using dispatch_some [OF rd [OF True]] by blast
          have "om_find (co_phases (next_round m sid c1)) n = om_find (co_phases c) n"
            using workers_ok_dispatch [OF ok d] m wf by (simp add: om.find_assign)
          with d Received Some Serving True show ?thesis by (simp add: on_event.simps)
        next
          case False
          then show ?thesis
            using Received Some Serving death_frame [OF ok, of io sid] m wf by (auto simp: on_event.simps om.find_assign)
        qed
      qed (use Received Some m wf in \<open>auto simp: on_event.simps set_phase_def boot_worker_def Let_def om.find_assign\<close>)
    qed (use Received in \<open>simp add: on_event.simps\<close>)
  qed (auto simp: stop_def Let_def)
  with consistent_event [OF assms(1)] show ?thesis by blast
qed

lemma attended_phase:
  "attended n c \<Longrightarrow> \<not> co_exited c \<and> (om_find (co_phases c) n = Some Booting \<or> (\<exists>sid. om_find (co_phases c) n = Some (Serving sid)))"
  unfolding attended_def by (cases "om_find (co_phases c) n"; cases "the (om_find (co_phases c) n)") auto

lemma attended_cong: "om_find (co_phases c') n = om_find (co_phases c) n \<Longrightarrow> (co_exited c \<longrightarrow> co_exited c') \<Longrightarrow> attended n c' \<Longrightarrow> attended n c"
  by (auto simp: attended_def)

lemma foreign_events:
  "consistent c \<Longrightarrow> list_all (foreign n) es \<Longrightarrow>
   \<exists>c'. events io es c = Some c' \<and> consistent c' \<and> om_find (co_phases c') n = om_find (co_phases c) n \<and> (co_exited c \<longrightarrow> co_exited c')"
proof (induction es arbitrary: c)
  case (Cons e es)
  obtain rs c1 where "on_event io e c = Some (rs, c1)" "consistent c1" "om_find (co_phases c1) n = om_find (co_phases c) n"
    "co_exited c \<longrightarrow> co_exited c1"
    using foreign_event [OF Cons.prems(1), of n e io] Cons.prems(2) by auto
  with Cons.IH [of c1] Cons.prems(2) show ?case by auto
qed simp

definition undisturbed :: "nat \<Rightarrow> turn list \<Rightarrow> bool" where
  "undisturbed n env \<longleftrightarrow> list_all (\<lambda>t. list_all (foreign n) (fst t)) env"

lemma foreign_meanwhile:
  assumes "consistent c" and "undisturbed n env"
  obtains c' where "meanwhile io env c = Some c'" "consistent c'" "om_find (co_phases c') n = om_find (co_phases c) n"
    "attended n c' \<longrightarrow> attended n c" "undisturbed n (tl env)"
proof (cases env)
  case Nil
  with assms that [of c] show ?thesis by (simp add: meanwhile_def undisturbed_def)
next
  case (Cons t rest)
  then obtain c' where "events io (fst t) c = Some c'" "consistent c'" "om_find (co_phases c') n = om_find (co_phases c) n"
    "co_exited c \<longrightarrow> co_exited c'"
    using foreign_events [OF assms(1), of n "fst t" io] assms(2) by (auto simp: undisturbed_def)
  with that [of c'] Cons assms(2) attended_cong [of c' n c] show ?thesis by (simp add: meanwhile_def undisturbed_def)
qed

section \<open>Sending a request\<close>

text \<open>
  A frame that is too long goes out as a bare header with a zero checksum. If that is accepted at all, it is as a frame
  of the same type with no payload; for a reservation request the checksum does not fit.
\<close>

lemma wire_oversized:
  assumes "length (frame_payload f) > kMaxPayloadBytes" and "dr_status (wire f) = DecodeStatus.OK"
  shows "dr_frame (wire f) = \<lparr>frame_type = frame_type f, frame_payload = []\<rparr>"
    and "crc32 (store_u32 kProtocolMagic @ store_u16 kProtocolVersion @ store_u16 (FrameType_to_u16 (frame_type f)) @ store_u32 0) = 0"
proof -
  let ?h = "store_u32 kProtocolMagic @ store_u16 kProtocolVersion @ store_u16 (FrameType_to_u16 (frame_type f))"
  have zero: "replicate 8 0 = store_u32 0 @ store_u32 0" by (simp add: codec_defs numeral_eq_Suc)
  define d where "d = encode_frame f kProtocolVersion"
  have d: "d = ?h @ store_u32 0 @ store_u32 0"
    using assms(1) by (simp only: d_def encode_frame_def Let_def zero if_True append_assoc)
  have fields: "load_u32 d = kProtocolMagic" "load_u16 (drop 4 d) = kProtocolVersion" "load_u16 (drop 6 d) = FrameType_to_u16 (frame_type f)"
    "load_u32 (drop 8 d) = 0" "load_u32 (drop 12 d) = 0" "length d = 16" "take 12 d = ?h @ store_u32 0"
    using load_store_u32 [of 0 "[]"] by (simp_all add: d load_store_u16 load_store_u32)
  have w: "wire f = decode_frame d" by (simp add: wire_def d_def)
  show "dr_frame (wire f) = \<lparr>frame_type = frame_type f, frame_payload = []\<rparr>"
    and "crc32 (store_u32 kProtocolMagic @ store_u16 kProtocolVersion @ store_u16 (FrameType_to_u16 (frame_type f)) @ store_u32 0) = 0"
    using assms(2) fields unfolding w decode_frame_def
    by (auto simp: Let_def frame_consts decode_failed_def DecodeResult_default_def split: if_splits)
qed

lemma reserve_header: "crc32 (store_u32 kProtocolMagic @ store_u16 kProtocolVersion @ store_u16 (FrameType_to_u16 FrameType.RESERVE) @ store_u32 0) \<noteq> 0"
proof -
  have "map uint (store_u32 kProtocolMagic @ store_u16 kProtocolVersion @ store_u16 (FrameType_to_u16 FrameType.RESERVE) @ store_u32 0) =
      [0x43, 0x58, 0x4C, 0x46, 0x0, 0x1, 0x0, 0xA, 0x0, 0x0, 0x0, 0x0]"
    by code_simp
  moreover have "crc_int [0x43, 0x58, 0x4C, 0x46, 0x0, 0x1, 0x0, 0xA, 0x0, 0x0, 0x0, 0x0] = 0xC463EE47" by code_simp
  ultimately show ?thesis unfolding crc32_int by simp
qed

definition sendable :: "Frame \<Rightarrow> bool" where
  "sendable f \<longleftrightarrow> frame_type f \<noteq> FrameType.WORKER_BOOT \<and> frame_type f \<noteq> FrameType.SHUTDOWN \<and>
     (dr_status (wire f) = DecodeStatus.OK \<longrightarrow> frame_type (dr_frame (wire f)) = frame_type f \<and> readable (dr_frame (wire f)))"

lemma sendable_named:
  assumes "t = FrameType.COMMIT \<or> t = FrameType.RELEASE \<or> t = FrameType.QUERY_STATE"
  shows "sendable \<lparr>frame_type = t, frame_payload = p\<rparr>"
  using assms wire_fits(2) [of "\<lparr>frame_type = t, frame_payload = p\<rparr>"] wire_oversized(1) [of "\<lparr>frame_type = t, frame_payload = p\<rparr>"]
  by (cases "length p \<le> kMaxPayloadBytes") (auto simp: sendable_def readable_def)

lemma sendable_reserve: "sendable \<lparr>frame_type = FrameType.RESERVE, frame_payload = encode_reserve b consumer\<rparr>" (is "sendable ?f")
proof (cases "length (encode_reserve b consumer) \<le> kMaxPayloadBytes")
  case True
  then have "wire_string consumer"
    by (simp add: encode_reserve_append str_bytes_def kMaxPayloadBytes_def wire_string_def)
  with True show ?thesis
    by (simp add: sendable_def wire_fits readable_def decode_reserve_request)
next
  case False
  then have "dr_status (wire ?f) \<noteq> DecodeStatus.OK" using wire_oversized(2) [of ?f] reserve_header by auto
  then show ?thesis by (simp add: sendable_def)
qed

lemma sendable_published: "sendable (device_frame b)" "sendable (pool_frame b)" "sendable region_frame"
  using published_region
  by (auto simp: sendable_def wire_fits [OF frames_fit(1)] wire_fits [OF frames_fit(2)] wire_fits [OF frames_fit(3)])
    (auto simp: published_frames readable_def published_device published_members)

text \<open>A request is answered with one frame of the right type, or the connection is not attended to any more.\<close>

lemma send_step:
  assumes "consistent c" and "sendable f"
  obtains rs c' where "on_event io (Received n (wire f)) c = Some (rs, c')" "consistent c'"
    "rs = [] \<and> \<not> attended n c' \<or> (\<exists>r. rs = [r] \<and> reply_typed (frame_type f) r)"
proof -
  have wf: "om_wf (co_phases c)" and ok: "workers_ok c" using assms(1) by (simp_all add: consistent_def workers_ok_def)
  have str: "structure_ok (co_fabric c)" using assms(1) by (simp add: consistent_def)
  have "\<exists>rs c'. on_event io (Received n (wire f)) c = Some (rs, c') \<and>
      (rs = [] \<and> \<not> attended n c' \<or> (\<exists>r. rs = [r] \<and> reply_typed (frame_type f) r))"
  proof (cases "attended n c")
    case False
    then show ?thesis by (auto simp: attended_def on_event.simps split: option.splits phase.splits)
  next
    case True
    then consider "\<not> co_exited c" "om_find (co_phases c) n = Some Booting" | sid where "\<not> co_exited c" "om_find (co_phases c) n = Some (Serving sid)"
      using attended_phase by blast
    then show ?thesis
    proof cases
      case 1
      with assms(2) wf show ?thesis
        by (auto simp: sendable_def on_event.simps attended_def set_phase_def om.find_assign)
    next
      case (2 sid)
      show ?thesis
      proof (cases "dr_status (wire f) = DecodeStatus.OK")
        case True
        let ?f = "dr_frame (wire f)"
        have t: "frame_type ?f = frame_type f" "readable ?f" "frame_type f \<noteq> FrameType.SHUTDOWN"
          using assms(2) True by (auto simp: sendable_def)
        obtain rs c1 where d: "dispatch_frame n ?f c = Some (rs, c1)" using dispatch_defined [of n ?f c] t(2) by auto
        obtain r where r: "rs = [r]" using dispatch_replies [OF d] t by auto
        have "reply_typed (frame_type f) r" using dispatch_typed [OF d str, of r] r t(1) by simp
        with 2 True d r show ?thesis by (auto simp: on_event.simps dispatch_def)
      next
        case False
        with 2 wf death_frame [OF ok, of io sid] show ?thesis by (simp add: on_event.simps attended_def om.find_assign)
      qed
    qed
  qed
  with consistent_event [OF assms(1)] that show thesis by blast
qed

section \<open>A worker comes to its end\<close>

definition ended :: "ending \<Rightarrow> bool" where
  "ended e \<longleftrightarrow> e = Exits 0 \<or> e = Exits 1 \<or> e = Stays"

definition finishes :: "io_faults \<Rightarrow> nat \<Rightarrow> worker \<Rightarrow> bool" where
  "finishes io n w \<longleftrightarrow> (\<forall>env out c. consistent c \<longrightarrow> undisturbed n env \<longrightarrow> ended (fst (run_worker io n w env [] out c)))"

lemma finishesD: "finishes io n w \<Longrightarrow> consistent c \<Longrightarrow> undisturbed n env \<Longrightarrow> ended (fst (run_worker io n w env [] out c))"
  by (simp add: finishes_def)

lemma consistent_hang_up: "consistent c \<Longrightarrow> consistent (hang_up io n c)"
  using consistent_event [of c io "Received n end_of_stream"] by (auto simp: hang_up_def split: option.splits)

lemma hang_up_unattended: "consistent c \<Longrightarrow> \<not> attended n (hang_up io n c)"
  using death_frame [of c io]
  by (auto simp: hang_up_def attended_def on_event.simps end_of_stream_def decode_failed_def consistent_def workers_ok_def set_phase_def om.find_assign
      split: option.splits phase.splits)

lemma finishes_simps [simp]: "finishes io n Stay" "finishes io n (Exit 0)" "finishes io n (Exit 1)"
  by (simp_all add: finishes_def ended_def)

lemma finishes_emit [simp]: "finishes io n k \<Longrightarrow> finishes io n (Emit s k)"
  by (simp add: finishes_def)

lemma finishes_close [simp]: "finishes io n k \<Longrightarrow> finishes io n (Close k)"
  by (simp add: finishes_def consistent_hang_up)

text \<open>What a worker may find when it waits for the answer to a request.\<close>

definition answered :: "FrameType \<Rightarrow> DecodeResult \<Rightarrow> bool" where
  "answered t dr \<longleftrightarrow> dr = end_of_stream \<or> (\<exists>r. dr = wire r \<and> reply_typed t r)"

lemma answered_intros [simp]: "answered t end_of_stream" "reply_typed t r \<Longrightarrow> answered t (wire r)"
  by (auto simp: answered_def)

text \<open>Waiting for a reply, when there is one or the connection is not attended to.\<close>

lemma await_reply:
  assumes "consistent c" and "undisturbed n env" and "inbox = [] \<and> \<not> attended n c \<or> (\<exists>r. inbox = [r] \<and> reply_typed t r)"
    and "\<And>dr. answered t dr \<Longrightarrow> finishes io n (h dr)"
  shows "ended (fst (run_worker io n (Recv h) env inbox out c))"
proof -
  obtain c0 where c0: "meanwhile io env c = Some c0" "consistent c0" "attended n c0 \<longrightarrow> attended n c" "undisturbed n (tl env)"
    by (rule foreign_meanwhile [OF assms(1,2), of io])
  have "ended (fst (run_worker io n (h dr) (tl env) [] out c'))" if "answered t dr" "consistent c'" for dr c'
    using finishesD [OF assms(4) [OF that(1)] that(2) c0(4)] .
  with assms(3) c0(1-3) show ?thesis by (auto simp: consistent_hang_up)
qed

lemma finishes_exchange:
  assumes "sendable f" and "g True = Recv h" and "g False = Recv h \<or> finishes io n (g False)"
    and "\<And>dr. answered (frame_type f) dr \<Longrightarrow> finishes io n (h dr)"
  shows "finishes io n (Send f g)"
  unfolding finishes_def
proof (intro allI impI)
  fix env out c
  assume c: "consistent c" and env: "undisturbed n env"
  obtain c0 where c0: "meanwhile io env c = Some c0" "consistent c0" "undisturbed n (tl env)"
    by (rule foreign_meanwhile [OF c env, of io])
  show "ended (fst (run_worker io n (Send f g) env [] out c))"
  proof (cases "breaks env")
    case True
    let ?c = "hang_up io n c0"
    have "[] = [] \<and> \<not> attended n ?c \<or> (\<exists>r. [] = [r] \<and> reply_typed (frame_type f) r)"
      using hang_up_unattended [OF c0(2)] by simp
    from consistent_hang_up [OF c0(2)] c0(3) this have waits: "ended (fst (run_worker io n (Recv h) (tl env) [] out ?c))"
      by (rule await_reply) (rule assms(4))
    from assms(3) have "ended (fst (run_worker io n (g False) (tl env) [] out ?c))"
    proof
      assume "g False = Recv h"
      with waits show ?thesis by simp
    qed (rule finishesD [OF _ consistent_hang_up [OF c0(2)] c0(3)])
    with True c0(1) show ?thesis by simp
  next
    case False
    obtain rs c1 where c1: "on_event io (Received n (wire f)) c0 = Some (rs, c1)" "consistent c1"
      and rs: "rs = [] \<and> \<not> attended n c1 \<or> (\<exists>r. rs = [r] \<and> reply_typed (frame_type f) r)"
      by (rule send_step [OF c0(2) assms(1)])
    from c1(2) c0(3) rs have "ended (fst (run_worker io n (Recv h) (tl env) rs out c1))"
      by (rule await_reply) (rule assms(4))
    with False c0(1) c1(1) show ?thesis by (simp add: assms(2))
  qed
qed

lemma finishes_request:
  "sendable \<lparr>frame_type = t, frame_payload = p\<rparr> \<Longrightarrow> (\<And>dr. answered t dr \<Longrightarrow> finishes io n (k dr)) \<Longrightarrow> finishes io n (request t p k)"
  unfolding request_def by (rule finishes_exchange) auto

lemma finishes_report:
  assumes "answered t dr" and "dr_status dr = DecodeStatus.OK" and "t \<noteq> FrameType.QUERY_STATE"
    and "frame_type (dr_frame dr) = FrameType.RESERVE_RESULT \<or> frame_type (dr_frame dr) = FrameType.COMMIT_RESULT"
    and "finishes io n k"
  shows "finishes io n (report tag (frame_payload (dr_frame dr)) k)"
proof -
  have "dr \<noteq> end_of_stream" using assms(2) by (auto simp: end_of_stream_def decode_failed_def)
  then obtain r where "dr = wire r" "reply_typed t r" using assms(1) by (auto simp: answered_def)
  then have "dr_frame dr = r" "payload_typed r" using assms(3) by (auto simp: reply_typed_def delivered_def)
  with assms(4,5) show ?thesis
    by (auto simp: report_def payload_typed_def split: rd.splits)
qed

lemma finishes_reserve: "finishes io n k \<Longrightarrow> finishes io n (do_reserve b consumer k)"
  unfolding do_reserve_def
  by (auto intro!: finishes_request finishes_report sendable_reserve)

lemma finishes_named: "t = FrameType.COMMIT \<or> t = FrameType.RELEASE \<Longrightarrow> finishes io n k \<Longrightarrow> finishes io n (do_named t tag rid k)"
  unfolding do_named_def
  by (auto intro!: finishes_request finishes_report sendable_named)

lemma finishes_query: "finishes io n k \<Longrightarrow> finishes io n (do_query k)"
  unfolding do_query_def
  by (auto intro!: finishes_request sendable_named)

lemma finishes_publish:
  assumes "finishes io n k"
  shows "finishes io n (publish (base_device b) k)"
proof -
  have "finishes io n (request FrameType.PUBLISH_POOL (frame_payload (pool_frame b))
      (\<lambda>_. request FrameType.PUBLISH_REGION (frame_payload region_frame) (\<lambda>_. k)))" (is "finishes io n ?rest")
    using sendable_published(2) [of b] sendable_published(3) assms
    by (intro finishes_request) (simp_all add: published_frames)
  then show ?thesis
    unfolding publish_def send_and_await_def using sendable_published(1) [of b]
    by (intro finishes_exchange [OF _ if_not_P]) (auto simp: published_frames)
qed

lemma finishes_requests: "finishes io n (requests opts)"
  unfolding requests_def Let_def
  by (auto intro!: finishes_publish finishes_reserve finishes_named finishes_query)

lemma accept_phase:
  assumes "consistent c" and "om_find (co_phases c) n = None"
  shows "\<exists>c'. on_event io (Accepted n) c = Some ([], c') \<and> consistent c' \<and> om_find (co_phases c') n \<in> {None, Some Booting}"
proof -
  have "om_wf (co_phases c)" using assms(1) by (simp add: consistent_def workers_ok_def)
  then have "\<exists>c'. on_event io (Accepted n) c = Some ([], c') \<and> om_find (co_phases c') n \<in> {None, Some Booting}"
    using assms(2) by (auto simp: set_phase_def om.find_assign)
  with consistent_event [OF assms(1)] show ?thesis by blast
qed

lemma boot_silent:
  assumes "consistent c" and "om_find (co_phases c) n \<in> {None, Some Booting}"
  shows "\<exists>c'. on_event io (Received n r) c = Some ([], c') \<and> consistent c'"
proof -
  have "\<exists>c'. on_event io (Received n r) c = Some ([], c')" using assms(2) by (auto simp: on_event.simps)
  with consistent_event [OF assms(1)] show ?thesis by blast
qed

section \<open>Properties\<close>





end
