(* ===== verification/System_Backend.thy ===== *)
theory System_Backend
  imports Synthetic
begin

text \<open>
  The discovery backend for a real machine, \<^verbatim>\<open>src/backend/system_backend.cpp\<close>. What the operating system answers is an
  argument: the computer name, the conversion of wide strings to UTF-8, and the devices that the set-up interface
  enumerates, each with its class and its description where the query for it succeeds, or no list at all when the
  enumeration cannot be opened.
\<close>

type_synonym wstring = "u16 list"

record system_api =
  sys_computer_name :: wstring
  sys_wide_to_utf8 :: "wstring \<Rightarrow> string"
  sys_devices :: "(wstring option \<times> wstring option) list option"

definition wide :: "string \<Rightarrow> wstring" where
  "wide s = map (\<lambda>c. of_nat (of_char c)) s"

definition to_utf8 :: "system_api \<Rightarrow> wstring \<Rightarrow> string" where
  "to_utf8 api w = (if w = [] then [] else sys_wide_to_utf8 api w)"

text \<open>\<^verbatim>\<open>std::wstring::find\<close> used as a test.\<close>

fun contains :: "wstring \<Rightarrow> wstring \<Rightarrow> bool" where
  "contains needle [] \<longleftrightarrow> needle = []"
| "contains needle (x # xs) \<longleftrightarrow> take (length needle) (x # xs) = needle \<or> contains needle xs"

definition property_text :: "wstring option \<Rightarrow> wstring" where
  "property_text p = (case p of None \<Rightarrow> [] | Some w \<Rightarrow> w)"

record scan =
  sc_pci_count :: nat
  sc_display_count :: nat
  sc_memory_like_count :: nat
  sc_display_names :: "string list"

definition scan_device :: "system_api \<Rightarrow> wstring option \<times> wstring option \<Rightarrow> scan \<Rightarrow> scan" where
  "scan_device api d s =
     (let wcls = property_text (fst d); wdesc = property_text (snd d);
          s = s\<lparr>sc_pci_count := sc_pci_count s + 1\<rparr>;
          s = (if contains (wide ''Display'') wcls
               then s\<lparr>sc_display_count := sc_display_count s + 1,
                      sc_display_names := sc_display_names s @ [to_utf8 api (if wdesc = [] then wcls else wdesc)]\<rparr>
               else s) in
      if contains (wide ''Memory'') wcls \<or> contains (wide ''System'') wcls
      then s\<lparr>sc_memory_like_count := sc_memory_like_count s + 1\<rparr> else s)"

definition system_discover :: "system_api \<Rightarrow> DiscoveryResult" where
  "system_discover api =
     (let r = DiscoveryResult_default\<lparr>disc_backend_name := ''system'', disc_provenance := Provenance.UNSUPPORTED,
            disc_cxl_memory_supported := False, disc_host_id := Ident (to_utf8 api (sys_computer_name api))\<rparr> in
      case sys_devices api of
        None \<Rightarrow> add_note ''SystemBackend: SetupDiGetClassDevsW(all classes) failed; no device enumeration possible.'' r
      | Some ds \<Rightarrow>
          let s = fold (scan_device api) ds \<lparr>sc_pci_count = 0, sc_display_count = 0, sc_memory_like_count = 0, sc_display_names = []\<rparr>;
              r = add_note (''SystemBackend: enumerated '' @ show_nat (sc_pci_count s) @ '' present devices via SetupAPI (REAL).'') r;
              r = add_note (''SystemBackend: no CXL memory device was conclusively identified; CXL capability is not '' @
                    ''inferred from PCI class alone.'') r;
              r = add_note ''Physical CXL memory hardware: UNSUPPORTED on this machine.'' r;
              r = r\<lparr>disc_accelerators := sc_display_names s\<rparr> in
          add_note (''Accelerators present (REAL adjacency evidence, not CXL proof): '' @ show_nat (sc_display_count s)) r)"

section \<open>What a discovery reports\<close>

definition display_device :: "wstring option \<times> wstring option \<Rightarrow> bool" where
  "display_device d \<longleftrightarrow> contains (wide ''Display'') (property_text (fst d))"

lemma scan_counts:
  "sc_pci_count (fold (scan_device api) ds s) = sc_pci_count s + length ds"
  "sc_display_count (fold (scan_device api) ds s) = sc_display_count s + length (filter display_device ds)"
  "sc_display_names (fold (scan_device api) ds s) = sc_display_names s @
     map (\<lambda>d. to_utf8 api (if property_text (snd d) = [] then property_text (fst d) else property_text (snd d))) (filter display_device ds)"
  by (induction ds arbitrary: s) (simp_all add: scan_device_def display_device_def Let_def)

interpretation system_backend: honest_backend "system_discover api" for api
  by unfold_locales (auto simp: system_discover_def add_note_def DiscoveryResult_default_def Let_def split: option.splits)

text \<open>
  Whatever devices the machine has, the system backend never reports CXL memory: it returns no device, claims no
  support and marks its result UNSUPPORTED. The accelerators it lists are exactly the devices of a display
  class, in the order of the enumeration, each under its description or, without one, its class.
\<close>

theorem system_backend_never_infers:
  "disc_devices (system_discover api) = [] \<and> \<not> disc_cxl_memory_supported (system_discover api) \<and>
   disc_provenance (system_discover api) = Provenance.UNSUPPORTED \<and>
   disc_accelerators (system_discover api) = (case sys_devices api of None \<Rightarrow> [] | Some ds \<Rightarrow>
     map (\<lambda>d. to_utf8 api (if property_text (snd d) = [] then property_text (fst d) else property_text (snd d)))
       (filter (\<lambda>d. contains (wide ''Display'') (property_text (fst d))) ds))"
  by (simp add: system_discover_def add_note_def DiscoveryResult_default_def Let_def scan_counts display_device_def [abs_def] split: option.splits)

end
