(* ===== verification/Cli.thy ===== *)
theory Cli
  imports System_Backend Cmdline Accounts Enum_Strings
begin

text \<open>
  The command-line tool, \<^verbatim>\<open>src/cli/cxl_fabric_cli.cpp\<close>: a fabric with the synthetic baseline topology, and the commands that
  print it, audit it, explain a selection on it and reserve from it. A run of the tool returns what it prints
  and its exit code, or nothing when an exception of the number parser ends it.
\<close>

section \<open>The baseline fabric\<close>

definition cli_ctx :: "Fabric \<Rightarrow> AuthorityContext" where
  "cli_ctx f = AuthorityContext_default\<lparr>ctx_coordinator_epoch := epoch f, ctx_policy_generation := policy_generation f,
     ctx_consumer_generation := Generation 1\<rparr>"

definition mk_member :: "string \<Rightarrow> u64 \<Rightarrow> string \<Rightarrow> PoolMember" where
  "mk_member i bytes fd = \<lparr>pm_device = Ident i, pm_device_generation = Generation 1, pm_nominal_bytes = bytes, pm_online = True,
     pm_health_ok = True, pm_failure_domain = fd, pm_locality = LocalityClass.SAME_HOST\<rparr>"

definition synth_pool :: CxlPool where
  "synth_pool = make_pool (Ident ''p-1'') (Generation 1)
     [mk_member ''dev-1'' (16 * 1024 * 1024 * 1024) ''fd-root-a'', mk_member ''dev-2'' (64 * 1024 * 1024 * 1024) ''fd-root-b'',
      mk_member ''dev-3'' (8 * 1024 * 1024 * 1024) ''fd-root-a'']"

definition synth_region_1 :: CxlRegion where
  "synth_region_1 = make_region (Ident ''reg-1'') (Generation 1) (Ident ''p-1'') [Ident ''dev-1''] (16 * 1024 * 1024 * 1024)
     LocalityClass.SAME_HOST TierClass.CXL_NEAR RegionState.ONLINE"

definition synth_region_2 :: CxlRegion where
  "synth_region_2 = make_region (Ident ''reg-2'') (Generation 1) (Ident ''p-1'') [Ident ''dev-2''] (64 * 1024 * 1024 * 1024)
     LocalityClass.REMOTE_NUMA_DOMAIN TierClass.CXL_REMOTE RegionState.ONLINE"

definition synth_region_3 :: CxlRegion where
  "synth_region_3 = make_region (Ident ''reg-3'') (Generation 1) (Ident ''p-1'') [Ident ''dev-3''] (8 * 1024 * 1024 * 1024)
     LocalityClass.SAME_CXL_ROOT TierClass.CXL_PERSISTENT RegionState.ONLINE"

definition setup_synthetic :: "Fabric \<Rightarrow> Fabric" where
  "setup_synthetic f =
     (let ctx = cli_ctx f;
          f = fold (\<lambda>d f. snd (register_device d ctx f)) (baseline_devices (Ident ''host-synth'')) f;
          f = snd (create_pool synth_pool ctx f);
          f = snd (create_region synth_region_1 ctx f);
          f = snd (create_region synth_region_2 ctx f) in
      snd (create_region synth_region_3 ctx f))"

section \<open>Commands\<close>

definition nl :: string where
  "nl = [CHR 0x0A]"

definition bool_text :: "bool \<Rightarrow> string" where
  "bool_text b = (if b then ''true'' else ''false'')"

definition gbytes :: "u64 \<Rightarrow> string" where
  "gbytes b = to_string_u64 (b div (1024 * 1024 * 1024)) @ ''GiB''"

fun backend_arg :: "string list \<Rightarrow> string \<Rightarrow> string" where
  "backend_arg (a # v # rest) b = (if a = ''--backend'' then backend_arg rest v else backend_arg (v # rest) b)"
| "backend_arg _ b = b"

definition discover_device_line :: "CxlDevice \<Rightarrow> string" where
  "discover_device_line d = ''  device '' @ id_value (dev_id d) @ '' gen='' @ to_string_u64 (gen_value (dev_generation d)) @
     '' vol='' @ VolatilityKind_to_string (dev_volatility d) @ '' state='' @ DeviceState_to_string (dev_state d) @
     '' provenance='' @ Provenance_to_string (dev_provenance d) @ '' total='' @ gbytes (dev_total_physical_bytes d) @ nl"

definition cmd_discover :: "system_api \<Rightarrow> string list \<Rightarrow> string \<times> int" where
  "cmd_discover api args =
     (let backend = backend_arg args ''synthetic'';
          r = (if backend = ''system'' then system_discover api
               else if backend = ''unsupported'' then unsupported_discover
               else synthetic_discover) in
      (''backend='' @ disc_backend_name r @ '' host='' @ id_value (disc_host_id r) @ nl @
       ''cxl_memory_supported='' @ bool_text (disc_cxl_memory_supported r) @ '' provenance='' @ Provenance_to_string (disc_provenance r) @
       '' devices='' @ show_nat (length (disc_devices r)) @ nl @
       concat (map discover_device_line (disc_devices r)) @
       concat (map (\<lambda>n. ''  note: '' @ n @ nl) (disc_notes r)) @
       concat (map (\<lambda>a. ''  accelerator: '' @ a @ nl) (disc_accelerators r)), 0))"

definition device_line :: "CxlDevice \<Rightarrow> string" where
  "device_line d = ''device '' @ id_value (dev_id d) @ '' gen='' @ to_string_u64 (gen_value (dev_generation d)) @
     '' state='' @ DeviceState_to_string (dev_state d) @ '' prov='' @ Provenance_to_string (dev_provenance d) @
     '' vol='' @ VolatilityKind_to_string (dev_volatility d) @ '' host='' @ id_value (dev_host d) @
     '' evidence_current='' @ bool_text (dev_evidence_current d) @ nl"

definition region_line :: "CxlRegion \<Rightarrow> string" where
  "region_line r = ''region '' @ id_value (reg_id r) @ '' gen='' @ to_string_u64 (gen_value (reg_generation r)) @
     '' pool='' @ id_value (reg_pool r) @ '' state='' @ RegionState_to_string (reg_state r) @
     '' tier='' @ TierClass_to_string (reg_tier r) @ '' cap='' @ gbytes (reg_region_capacity_bytes r) @ nl"

definition pool_line :: "CxlPool \<Rightarrow> string" where
  "pool_line p = ''pool '' @ id_value (pool_id p) @ '' gen='' @ to_string_u64 (gen_value (pool_generation p)) @
     '' state='' @ PoolState_to_string (pool_state p) @ '' total='' @ gbytes (pool_total_governed_bytes p) @
     '' committed='' @ gbytes (pool_committed_bytes p) @ '' reserved='' @ gbytes (pool_reserved_bytes p) @
     '' free='' @ gbytes (pool_free p) @ nl"

definition cmd_capacity :: "Fabric \<Rightarrow> string \<times> int" where
  "cmd_capacity f =
     (let ar = audit f; g = audit_global_ledger ar in
      (''governed_total='' @ gbytes (cl_total g) @ '' online='' @ gbytes (cl_online g) @ '' unavailable='' @ gbytes (cl_unavailable g) @
       '' reserved='' @ gbytes (cl_reserved g) @ '' committed='' @ gbytes (cl_committed g) @ '' free='' @ gbytes (cl_free g) @ nl @
       ''audit_ok='' @ bool_text (audit_ok ar) @ nl @
       concat (map (\<lambda>e. ''  error: '' @ e @ nl) (audit_errors ar)), 0))"

definition cmd_validate_state :: "Fabric \<Rightarrow> string \<times> int" where
  "cmd_validate_state f =
     (let ar = audit f in
      (''validate-state '' @ (if audit_ok ar then ''OK'' else ''FAIL'') @ nl @ concat (map (\<lambda>e. ''  '' @ e @ nl) (audit_errors ar)),
       if audit_ok ar then 0 else 1))"

fun explain_args :: "string list \<Rightarrow> AdmissionRequest \<Rightarrow> AdmissionRequest option" where
  "explain_args [] req = Some req"
| "explain_args [a] req = Some (if a = ''--persistent'' then req\<lparr>req_require_persistence := True\<rparr> else req)"
| "explain_args (a # v # rest) req =
     (if a = ''--bytes'' then (case stoull v of Parsed n \<Rightarrow> explain_args rest (req\<lparr>req_bytes := n\<rparr>) | _ \<Rightarrow> None)
      else if a = ''--consumer'' then explain_args rest (req\<lparr>req_consumer := Ident v\<rparr>)
      else if a = ''--persistent'' then explain_args (v # rest) (req\<lparr>req_require_persistence := True\<rparr>)
      else if a = ''--locality'' then
        explain_args rest (case LocalityClass_from_string v of Some l \<Rightarrow> req\<lparr>req_minimum_locality := Some l\<rparr> | None \<Rightarrow> req)
      else explain_args (v # rest) req)"

definition factor_line :: "SelectionFactor \<Rightarrow> string" where
  "factor_line fac = ''    '' @ sf_name fac @ ''='' @ (if sf_pass fac then ''pass'' else ''fail'') @ '' '' @ sf_detail fac @ nl"

definition candidate_line :: "SelectionResult \<Rightarrow> string" where
  "candidate_line c = ''candidate pool='' @ sr_pool c @ '' region='' @ sr_region c @ '' selected='' @ (if sr_selected c then ''yes'' else ''no'') @
     (if sr_selected c then [] else '' reason='' @ DecisionReason_to_string (sr_reason c)) @ nl @ concat (map factor_line (sr_factors c))"

definition outcome_line :: "SelectionOutcome \<Rightarrow> string" where
  "outcome_line so = ''outcome ok='' @ bool_text (so_ok so) @
     (if so_ok so then '' chosen_pool='' @ id_value (cand_pool (so_chosen so)) @ '' chosen_region='' @ id_value (cand_region (so_chosen so)) else []) @ nl"

definition explain_request :: AdmissionRequest where
  "explain_request = AdmissionRequest_default\<lparr>req_bytes := 4 * 1024 * 1024 * 1024, req_consumer := Ident ''gpu0''\<rparr>"

definition cmd_explain :: "Fabric \<Rightarrow> string list \<Rightarrow> (string \<times> int) option" where
  "cmd_explain f args =
     (case explain_args args explain_request of
        None \<Rightarrow> None
      | Some req \<Rightarrow> let so = select req f in Some (concat (map candidate_line (so_candidates so)) @ outcome_line so, 0))"

definition demo_request :: AdmissionRequest where
  "demo_request = AdmissionRequest_default\<lparr>req_bytes := 2 ^ 30, req_consumer := Ident ''svc''\<rparr>"

definition cmd_synthetic_demo :: "Fabric \<Rightarrow> string \<times> int" where
  "cmd_synthetic_demo f =
     (let so = select AdmissionRequest_default f;
          (ro, f') = reserve demo_request (cli_ctx f) f;
          ar = audit f' in
      (''synthetic-demo: baseline synthetic CXL topology (SYNTHETIC provenance)'' @ nl @
       ''admission 0 bytes candidates='' @ show_nat (length (so_candidates so)) @ nl @
       ''reserve 1GiB ok='' @ bool_text (ro_ok ro) @ (if ro_ok ro then '' id='' @ id_value (res_id (ro_reservation ro)) else []) @ nl @
       ''audit_ok='' @ bool_text (audit_ok ar) @ nl, 0))"

definition usage :: string where
  "usage = ''usage: cxl-fabric <discover|devices|regions|pools|capacity|explain|validate-state|synthetic-demo> [args]'' @ nl"

definition cli_fabric :: Fabric where
  "cli_fabric = setup_synthetic (Fabric_new (Generation 1) (Generation 1))"

definition cli_main :: "system_api \<Rightarrow> string list \<Rightarrow> (string \<times> int) option" where
  "cli_main api argv =
     (case argv of
        [] \<Rightarrow> Some (usage, 1)
      | cmd # args \<Rightarrow>
          if cmd = ''discover'' then Some (cmd_discover api args)
          else if cmd = ''devices'' then Some (concat (map (\<lambda>kv. device_line (snd kv)) (st_devices (snapshot cli_fabric))), 0)
          else if cmd = ''regions'' then Some (concat (map (\<lambda>kv. region_line (snd kv)) (st_regions (snapshot cli_fabric))), 0)
          else if cmd = ''pools'' then Some (concat (map (\<lambda>kv. pool_line (snd kv)) (st_pools (snapshot cli_fabric))), 0)
          else if cmd = ''capacity'' then Some (cmd_capacity cli_fabric)
          else if cmd = ''validate-state'' then Some (cmd_validate_state cli_fabric)
          else if cmd = ''explain'' then cmd_explain cli_fabric args
          else if cmd = ''synthetic-demo'' then Some (cmd_synthetic_demo cli_fabric)
          else Some (''unknown command: '' @ cmd @ nl, 1))"
section \<open>The baseline as a run of the engine\<close>

definition cli_calls :: "call list" where
  "cli_calls = (let ctx = cli_ctx (Fabric_new (Generation 1) (Generation 1)) in
     map (\<lambda>d. Register_device d ctx) (baseline_devices (Ident ''host-synth'')) @
     [Create_pool synth_pool ctx, Create_region synth_region_1 ctx, Create_region synth_region_2 ctx, Create_region synth_region_3 ctx])"

lemma run_append: "run (xs @ ys) f = run ys (run xs f)"
  by (induction xs arbitrary: f) simp_all

lemma run_map: "run (map c xs) f = fold (\<lambda>x. exec (c x)) xs f"
  by (induction xs arbitrary: f) simp_all

lemma cli_fabric_run: "cli_fabric = run cli_calls (Fabric_new (Generation 1) (Generation 1))"
  by (simp add: cli_fabric_def setup_synthetic_def cli_calls_def run_append run_map exec_def [abs_def] Let_def)

lemma cli_calls_sound: "allowed_run sound_call cli_calls f"
proof (rule allowed_run_all)
  have "nominal_fits (pool_members synth_pool)"
    by (simp add: nominal_fits_def synth_pool_def mk_member_def make_pool_def)
  then show "call \<in> set cli_calls \<Longrightarrow> sound_call call g" for call g
    by (auto simp: cli_calls_def Let_def synth_pool_def synth_region_1_def synth_region_2_def synth_region_3_def make_pool_def make_region_def
        CxlPool_default_def CxlRegion_default_def)
qed

lemma cli_reachable: "reachable sound_call (Fabric_new (Generation 1) (Generation 1)) 7 cli_fabric"
proof -
  have "length cli_calls = 7" by (simp add: cli_calls_def Let_def baseline_devices_def)
  with reachable_run [OF reachable.initial cli_calls_sound] show ?thesis by (simp add: cli_fabric_run)
qed

section \<open>Its contents\<close>

definition synth_device :: "nat \<Rightarrow> CxlDevice" where
  "synth_device i = baseline_devices (Ident ''host-synth'') ! i"

lemma baseline_list: "baseline_devices (Ident ''host-synth'') = [synth_device 0, synth_device 1, synth_device 2]"
  by (simp add: synth_device_def baseline_devices_def)

lemma synth_device_simps [simp]:
  "dev_id (synth_device 0) = Ident ''dev-1''" "dev_id (synth_device (Suc 0)) = Ident ''dev-2''" "dev_id (synth_device 2) = Ident ''dev-3''"
  by (simp_all add: synth_device_def baseline_devices_def)

definition governed :: CxlPool where
  "governed = synth_pool\<lparr>pool_total_governed_bytes := 88 * 1024 * 1024 * 1024, pool_failure_domains := [''fd-root-a'', ''fd-root-b'']\<rparr>"

lemma recompute_synth_pool:
  "(recompute_pool synth_pool)\<lparr>pool_state := PoolState.AVAILABLE, pool_evidence_current := True\<rparr> = governed"
  by (simp add: recompute_pool_def add_member_def add_checked_def governed_def synth_pool_def make_pool_def mk_member_def CxlPool_default_def)
lemma id_order: "(Ident ''dev-1'' :: DeviceId) < Ident ''dev-2''" "(Ident ''dev-2'' :: DeviceId) < Ident ''dev-3''"
  "(Ident ''dev-1'' :: DeviceId) < Ident ''dev-3''" "(Ident ''reg-1'' :: RegionId) < Ident ''reg-2''"
  "(Ident ''reg-2'' :: RegionId) < Ident ''reg-3''" "(Ident ''reg-1'' :: RegionId) < Ident ''reg-3''"
  by (simp_all add: ident_less_iff less_char_def)

lemma cli_nonempty [simp]: "\<not> id_empty (Ident (x # xs))" "\<not> gen_empty (Generation 1)"
  by (simp_all add: id_empty_def gen_empty_def)

lemma synth_device_ids [simp]: "dev_generation (synth_device 0) = Generation 1" "dev_generation (synth_device (Suc 0)) = Generation 1"
  "dev_generation (synth_device 2) = Generation 1" "dev_boot_id (synth_device 0) = Ident ''boot-1''"
  "dev_boot_id (synth_device (Suc 0)) = Ident ''boot-2''" "dev_boot_id (synth_device 2) = Ident ''boot-3''"
  by (simp_all add: synth_device_def baseline_devices_def)

definition with_devices :: Fabric where
  "with_devices = put_device (Ident ''dev-3'') (synth_device 2) (put_device (Ident ''dev-2'') (synth_device 1)
     (put_device (Ident ''dev-1'') (synth_device 0) (Fabric_new (Generation 1) (Generation 1))))"

lemma cli_ctx_epoch [simp]: "ctx_coordinator_epoch (cli_ctx f) = epoch f"
  by (simp add: cli_ctx_def)

lemma with_devices_maps [simp]:
  "st_devices (fab_state with_devices) = [(Ident ''dev-1'', synth_device 0), (Ident ''dev-2'', synth_device 1), (Ident ''dev-3'', synth_device 2)]"
  "st_pools (fab_state with_devices) = []" "st_regions (fab_state with_devices) = []" "st_reservations (fab_state with_devices) = []"
  "fab_sequence with_devices = 0" "epoch with_devices = Generation 1"
  using id_order
  by (simp_all add: with_devices_def put_defs epoch_def Fabric_new_def Fabric_default_def StateSnapshot_default_def)
lemma registered:
  "fold (\<lambda>d f. snd (register_device d (cli_ctx (Fabric_new (Generation 1) (Generation 1))) f)) (baseline_devices (Ident ''host-synth''))
     (Fabric_new (Generation 1) (Generation 1)) = with_devices"
  by (simp add: baseline_list register_device_def find_defs with_devices_def put_defs epoch_def Fabric_new_def Fabric_default_def
      StateSnapshot_default_def)

definition with_pool :: Fabric where
  "with_pool = recompute_global (put_pool (Ident ''p-1'') governed with_devices)"

lemma synth_simps [simp]:
  "pool_id synth_pool = Ident ''p-1''" "pool_generation synth_pool = Generation 1" "pool_id governed = Ident ''p-1''"
  "map pm_device (pool_members synth_pool) = [Ident ''dev-1'', Ident ''dev-2'', Ident ''dev-3'']"
  "pool_members governed = pool_members synth_pool" "pool_evidence_current governed" "pool_state governed = PoolState.AVAILABLE"
  "reg_id synth_region_1 = Ident ''reg-1''" "reg_id synth_region_2 = Ident ''reg-2''" "reg_id synth_region_3 = Ident ''reg-3''"
  "reg_generation synth_region_1 = Generation 1" "reg_generation synth_region_2 = Generation 1" "reg_generation synth_region_3 = Generation 1"
  "reg_pool synth_region_1 = Ident ''p-1''" "reg_pool synth_region_2 = Ident ''p-1''" "reg_pool synth_region_3 = Ident ''p-1''"
  "reg_member_devices synth_region_1 = [Ident ''dev-1'']" "reg_member_devices synth_region_2 = [Ident ''dev-2'']"
  "reg_member_devices synth_region_3 = [Ident ''dev-3'']"
  by (simp_all add: synth_pool_def governed_def make_pool_def mk_member_def synth_region_1_def synth_region_2_def synth_region_3_def make_region_def)

lemma pool_created: "snd (create_pool synth_pool (cli_ctx (Fabric_new (Generation 1) (Generation 1))) with_devices) = with_pool"
proof -
  have e: "epoch (Fabric_new (Generation 1) (Generation 1)) = Generation 1" by (simp add: epoch_def Fabric_new_def)
  have "check_pool_members with_devices [] (pool_members synth_pool) = None"
    by (simp add: synth_pool_def make_pool_def mk_member_def om_count_def)
  then show ?thesis
    using recompute_synth_pool by (simp add: create_pool_def om_count_def with_pool_def Let_def e)
qed

lemma with_pool_maps [simp]:
  "st_devices (fab_state with_pool) = st_devices (fab_state with_devices)" "st_pools (fab_state with_pool) = [(Ident ''p-1'', governed)]"
  "st_regions (fab_state with_pool) = []" "st_reservations (fab_state with_pool) = []" "fab_sequence with_pool = 0" "epoch with_pool = Generation 1"
  using with_devices_maps by (simp_all add: with_pool_def put_defs epoch_def)

lemma region_created:
  assumes "st_pools (fab_state f) = [(Ident ''p-1'', governed)]" and "st_devices (fab_state f) = st_devices (fab_state with_devices)"
    and "epoch f = Generation 1" and "reg_id r \<noteq> Ident []" and "reg_generation r = Generation 1" and "reg_pool r = Ident ''p-1''"
    and "\<not> om_count (st_regions (fab_state f)) (reg_id r)" and "reg_member_devices r = [d]"
    and "d \<in> {Ident ''dev-1'', Ident ''dev-2'', Ident ''dev-3''}"
  shows "snd (create_region r (cli_ctx (Fabric_new (Generation 1) (Generation 1))) f) = put_region (reg_id r) r f"
proof -
  have e: "epoch (Fabric_new (Generation 1) (Generation 1)) = Generation 1" by (simp add: epoch_def Fabric_new_def)
  have "has_member governed d"
    using assms(9) by (auto simp: has_member_def synth_pool_def make_pool_def mk_member_def)
  moreover have "\<not> id_empty (reg_id r)" using assms(4) by (cases "reg_id r") (simp add: id_empty_def)
  ultimately show ?thesis
    using assms by (auto simp: create_region_def e find_defs om_count_def)
qed

lemma put_region_maps:
  "st_devices (fab_state (put_region k r f)) = st_devices (fab_state f)" "st_pools (fab_state (put_region k r f)) = st_pools (fab_state f)"
  "st_regions (fab_state (put_region k r f)) = om_assign k r (st_regions (fab_state f))"
  by (simp_all add: put_region_def)

lemma cli_fabric_eq:
  "cli_fabric = put_region (Ident ''reg-3'') synth_region_3 (put_region (Ident ''reg-2'') synth_region_2
     (put_region (Ident ''reg-1'') synth_region_1 with_pool))"
proof -
  let ?f1 = "put_region (Ident ''reg-1'') synth_region_1 with_pool" and ?ctx = "cli_ctx (Fabric_new (Generation 1) (Generation 1))"
  let ?f2 = "put_region (Ident ''reg-2'') synth_region_2 ?f1"
  have r1: "snd (create_region synth_region_1 ?ctx with_pool) = ?f1"
    using region_created [of with_pool synth_region_1 "Ident ''dev-1''"] by (simp add: om_count_def)
  have r2: "snd (create_region synth_region_2 ?ctx ?f1) = ?f2"
    using region_created [of ?f1 synth_region_2 "Ident ''dev-2''"] by (simp add: om_count_def put_region_maps)
  have r3: "snd (create_region synth_region_3 ?ctx ?f2) = put_region (Ident ''reg-3'') synth_region_3 ?f2"
    using region_created [of ?f2 synth_region_3 "Ident ''dev-3''"] by (simp add: om_count_def put_region_maps id_order)
  show ?thesis
    by (simp add: cli_fabric_def setup_synthetic_def Let_def registered pool_created r1 r2 r3)
qed

lemma cli_maps [simp]:
  "st_devices (fab_state cli_fabric) = [(Ident ''dev-1'', synth_device 0), (Ident ''dev-2'', synth_device 1), (Ident ''dev-3'', synth_device 2)]"
  "st_pools (fab_state cli_fabric) = [(Ident ''p-1'', governed)]"
  "st_regions (fab_state cli_fabric) = [(Ident ''reg-1'', synth_region_1), (Ident ''reg-2'', synth_region_2), (Ident ''reg-3'', synth_region_3)]"
  "st_reservations (fab_state cli_fabric) = []" "fab_sequence cli_fabric = 0" "epoch cli_fabric = Generation 1"
  using id_order with_pool_maps by (simp_all add: cli_fabric_eq put_defs epoch_def)
section \<open>Selection on the baseline\<close>

definition synth_candidate_1 :: Candidate where
  "synth_candidate_1 = region_candidate governed synth_region_1 (Ident ''dev-1'') (synth_device 0)"

definition synth_candidate_2 :: Candidate where
  "synth_candidate_2 = region_candidate governed synth_region_2 (Ident ''dev-2'') (synth_device 1)"

definition synth_candidate_3 :: Candidate where
  "synth_candidate_3 = region_candidate governed synth_region_3 (Ident ''dev-3'') (synth_device 2)"

lemmas synth_candidate_defs = synth_candidate_1_def synth_candidate_2_def synth_candidate_3_def
lemmas synth_region_defs = synth_region_1_def synth_region_2_def synth_region_3_def

lemma synth_up [simp]:
  "dev_evidence_current (synth_device 0)" "dev_evidence_current (synth_device (Suc 0))" "dev_evidence_current (synth_device 2)"
  "dev_state (synth_device 0) = DeviceState.ONLINE" "dev_state (synth_device (Suc 0)) = DeviceState.ONLINE" "dev_state (synth_device 2) = DeviceState.ONLINE"
  "reg_evidence_current synth_region_1" "reg_evidence_current synth_region_2" "reg_evidence_current synth_region_3"
  "reg_state synth_region_1 = RegionState.ONLINE" "reg_state synth_region_2 = RegionState.ONLINE" "reg_state synth_region_3 = RegionState.ONLINE"
  by (simp_all add: synth_device_def baseline_devices_def synth_region_defs make_region_def)

lemma cli_candidates: "snapshot_candidates (selection_snapshot cli_fabric) = [synth_candidate_1, synth_candidate_2, synth_candidate_3]"
  by (simp add: snapshot_candidates_def region_candidates_def device_candidates_def Let_def synth_candidate_defs)

definition plain_request :: "u64 \<Rightarrow> ConsumerId \<Rightarrow> AdmissionRequest" where
  "plain_request n k = AdmissionRequest_default\<lparr>req_bytes := n, req_consumer := k\<rparr>"

lemma synth_fits:
  "in_service (synth_device 0) synth_region_1 governed True" "in_service (synth_device (Suc 0)) synth_region_2 governed True"
  "in_service (synth_device 2) synth_region_3 governed True"
  "request_fits (plain_request n k) (synth_device 0) synth_region_1 governed"
  "request_fits (plain_request n k) (synth_device (Suc 0)) synth_region_2 governed"
  "request_fits (plain_request n k) (synth_device 2) synth_region_3 governed"
  by (simp_all add: in_service_def request_fits_def acceptable_health_def plain_request_def AdmissionRequest_default_def
      synth_device_def baseline_devices_def make_device_def make_region_def synth_region_defs governed_def synth_pool_def make_pool_def Let_def)

lemma synth_room:
  "unat (region_free synth_region_1) = 16 * 2 ^ 30" "unat (region_free synth_region_2) = 64 * 2 ^ 30" "unat (region_free synth_region_3) = 8 * 2 ^ 30"
  "unat (pool_free governed) = 88 * 2 ^ 30"
  by (simp_all add: region_free_def pool_free_def pool_used_def synth_region_defs governed_def synth_pool_def make_region_def make_pool_def
      CxlRegion_default_def CxlPool_default_def)

lemma synth_selected:
  "sr_selected (evaluated (plain_request n k) synth_candidate_1) \<longleftrightarrow> unat n \<le> 16 * 2 ^ 30"
  "sr_selected (evaluated (plain_request n k) synth_candidate_2) \<longleftrightarrow> unat n \<le> 64 * 2 ^ 30"
  "sr_selected (evaluated (plain_request n k) synth_candidate_3) \<longleftrightarrow> unat n \<le> 8 * 2 ^ 30"
  unfolding synth_candidate_defs
  using synth_fits by (simp_all add: evaluated_region_candidate word_le_nat synth_room) (simp_all add: plain_request_def)

lemma synth_ranking:
  "candidate_less synth_candidate_1 synth_candidate_2" "candidate_less synth_candidate_1 synth_candidate_3"
  "\<not> candidate_less synth_candidate_2 synth_candidate_1" "\<not> candidate_less synth_candidate_3 synth_candidate_1"
  by (simp_all add: candidate_less_def record_economics_def synth_candidate_defs region_candidate_def synth_device_def baseline_devices_def
      make_device_def Let_def)
lemma cli_select:
  "so_ok (select (plain_request n k) cli_fabric) \<longleftrightarrow> unat n \<le> 64 * 2 ^ 30"
  "unat n \<le> 64 * 2 ^ 30 \<Longrightarrow> so_chosen (select (plain_request n k) cli_fabric) =
     (if unat n \<le> 16 * 2 ^ 30 then synth_candidate_1 else synth_candidate_2)"
proof -
  have adm: "admissible (plain_request n k) (selection_snapshot cli_fabric) =
      filter (\<lambda>c. sr_selected (evaluated (plain_request n k) c)) [synth_candidate_1, synth_candidate_2, synth_candidate_3]"
    by (simp only: admissible_def cli_candidates)
  show ok: "so_ok (select (plain_request n k) cli_fabric) \<longleftrightarrow> unat n \<le> 64 * 2 ^ 30"
    by (auto simp: select_def build_selection_ok adm synth_selected)
  assume "unat n \<le> 64 * 2 ^ 30"
  with ok build_selection_chosen [of "selection_snapshot cli_fabric" "plain_request n k"]
  show "so_chosen (select (plain_request n k) cli_fabric) = (if unat n \<le> 16 * 2 ^ 30 then synth_candidate_1 else synth_candidate_2)"
    unfolding select_def adm by (simp add: synth_selected synth_ranking)
qed

lemma synth_candidate_simps [simp]:
  "cand_pool synth_candidate_1 = Ident ''p-1''" "cand_region synth_candidate_1 = Ident ''reg-1''" "cand_device synth_candidate_1 = Ident ''dev-1''"
  "cand_pool synth_candidate_2 = Ident ''p-1''" "cand_region synth_candidate_2 = Ident ''reg-2''"
  by (simp_all add: synth_candidate_defs region_candidate_def)

lemma cli_reserve:
  assumes "n \<noteq> 0" and "unat n \<le> 16 * 2 ^ 30"
  shows "\<exists>f'. reserve (plain_request n k) (cli_ctx cli_fabric) cli_fabric =
     (grant (new_reservation 1 (plain_request n k) (cli_ctx cli_fabric) synth_candidate_1 (synth_device 0) (Generation 1)), f') \<and>
     f' = exec (Reserve (plain_request n k) (cli_ctx cli_fabric)) cli_fabric \<and>
     st_pools (fab_state f') = [(Ident ''p-1'', pool_reserve n governed)]"
proof -
  let ?req = "plain_request n k" and ?ctx = "cli_ctx cli_fabric"
  have sel: "so_ok (build_selection (selection_snapshot cli_fabric) ?req)" "so_chosen (build_selection (selection_snapshot cli_fabric) ?req) = synth_candidate_1"
    using cli_select [of n k] assms(2) by (simp_all add: select_def)
  have n: "req_bytes ?req = n" "\<not> pool_free governed < n" "\<not> region_free synth_region_1 < n"
    using assms(2) by (simp_all add: plain_request_def word_less_nat synth_room)
  have "reserve ?req ?ctx cli_fabric = book ?req ?ctx synth_candidate_1 governed synth_region_1 (synth_device 0) cli_fabric"
    using sel n assms(1) by (simp add: reserve_def Let_def find_defs)
      (simp add: synth_candidate_1_def region_candidate_def)
  then show ?thesis by (simp add: book_def exec_def Let_def put_defs n(1))
qed

lemma cli_audit: "audit_ok (audit cli_fabric)" "audit_errors (audit cli_fabric) = []"
  using audit_sound [OF cli_reachable] by (simp_all add: governed_def synth_pool_def make_pool_def)

lemma cli_reserve_audit:
  assumes "st_pools (fab_state (exec (Reserve req ctx) cli_fabric)) = [(Ident ''p-1'', pool_reserve n governed)]"
  shows "audit_ok (audit (exec (Reserve req ctx) cli_fabric))"
proof -
  have "reachable sound_call (Fabric_new (Generation 1) (Generation 1)) (Suc 7) (exec (Reserve req ctx) cli_fabric)"
    using reachable.step [OF cli_reachable, of "Reserve req ctx"] by simp
  from audit_sound(1) [OF this] assms show ?thesis by (simp add: governed_def synth_pool_def make_pool_def pool_reserve_def)
qed

lemma build_selection_candidates: "length (so_candidates (build_selection snap req)) = length (snapshot_candidates snap)"
  by (auto simp: build_selection_def Let_def SelectionOutcome_default_def split: list.splits dest: arg_cong [where f = length])

section \<open>Properties\<close>

lemma stoull_args: "explain_args [''--bytes'', to_string_u64 n] explain_request = Some (plain_request n (Ident ''gpu0''))"
  by (simp add: stoull_to_string explain_request_def plain_request_def)

text \<open>
  C40. What the tool reports on its baseline topology. For every size, \<^verbatim>\<open>explain --bytes\<close> ends with the outcome that the nearest
  region with room is chosen: the region on the local device up to 16 GiB, the remote one up to 64 GiB, none beyond. The
  state validates, and the demonstration reserves its gibibyte as \<^verbatim>\<open>res-1\<close> from three candidates with a clean audit.
\<close>

theorem cli_baseline:
  "(\<exists>candidates. cli_main api [''explain'', ''--bytes'', to_string_u64 n] = Some (candidates @ ''outcome ok='' @
      (if unat n \<le> 16 * 2 ^ 30 then ''true chosen_pool=p-1 chosen_region=reg-1''
       else if unat n \<le> 64 * 2 ^ 30 then ''true chosen_pool=p-1 chosen_region=reg-2''
       else ''false'') @ nl, 0)) \<and>
   cli_main api [''validate-state''] = Some (''validate-state OK'' @ nl, 0) \<and>
   cli_main api [''synthetic-demo''] = Some (''synthetic-demo: baseline synthetic CXL topology (SYNTHETIC provenance)'' @ nl @
     ''admission 0 bytes candidates=3'' @ nl @ ''reserve 1GiB ok=true id=res-1'' @ nl @ ''audit_ok=true'' @ nl, 0)"
proof (intro conjI)
  have "outcome_line (select (plain_request n (Ident ''gpu0'')) cli_fabric) = ''outcome ok='' @
      (if unat n \<le> 16 * 2 ^ 30 then ''true chosen_pool=p-1 chosen_region=reg-1''
       else if unat n \<le> 64 * 2 ^ 30 then ''true chosen_pool=p-1 chosen_region=reg-2''
       else ''false'') @ nl"
    using cli_select [of n "Ident ''gpu0''"] by (auto simp: outcome_line_def bool_text_def)
  then show "\<exists>candidates. cli_main api [''explain'', ''--bytes'', to_string_u64 n] = Some (candidates @ ''outcome ok='' @
      (if unat n \<le> 16 * 2 ^ 30 then ''true chosen_pool=p-1 chosen_region=reg-1''
       else if unat n \<le> 64 * 2 ^ 30 then ''true chosen_pool=p-1 chosen_region=reg-2''
       else ''false'') @ nl, 0)"
    using stoull_args [of n] by (simp add: cli_main_def cmd_explain_def Let_def del: explain_args.simps)
  show "cli_main api [''validate-state''] = Some (''validate-state OK'' @ nl, 0)"
    by (simp add: cli_main_def cmd_validate_state_def Let_def cli_audit)
  have req: "demo_request = plain_request (2 ^ 30) (Ident ''svc'')" by (simp add: demo_request_def plain_request_def)
  obtain f' where res: "reserve demo_request (cli_ctx cli_fabric) cli_fabric =
      (grant (new_reservation 1 demo_request (cli_ctx cli_fabric) synth_candidate_1 (synth_device 0) (Generation 1)), f')"
    and f': "f' = exec (Reserve demo_request (cli_ctx cli_fabric)) cli_fabric" "st_pools (fab_state f') = [(Ident ''p-1'', pool_reserve (2 ^ 30) governed)]"
    using cli_reserve [of "2 ^ 30" "Ident ''svc''"] by (auto simp: req)
  have aud: "audit_ok (audit f')" using cli_reserve_audit f' by simp
  have cands: "length (so_candidates (select AdmissionRequest_default cli_fabric)) = 3"
    by (simp add: select_def build_selection_candidates cli_candidates)
  have rid: "id_value (reservation_id 1) = ''res-1''"
    by (simp add: reservation_id_def to_string_u64_def show_small)
  show "cli_main api [''synthetic-demo''] = Some (''synthetic-demo: baseline synthetic CXL topology (SYNTHETIC provenance)'' @ nl @
     ''admission 0 bytes candidates=3'' @ nl @ ''reserve 1GiB ok=true id=res-1'' @ nl @ ''audit_ok=true'' @ nl, 0)"
    by (simp add: cli_main_def cmd_synthetic_demo_def res aud cands grant_def rid bool_text_def show_small)
qed

end
