(* ===== verification/Examples.thy ===== *)
theory Examples
  imports Cli Lease Persistence
begin

text \<open>
  The programs of \<^verbatim>\<open>examples\<close>: each builds a small fabric, checks what the library promises on it and says whether the
  checks hold. A program is modelled as what it prints and its exit code; the one that reads a persisted state back returns
  nothing when the loader runs past its buffer, the one that looks a pool up with \<^verbatim>\<open>at\<close> nothing when the pool is missing.
\<close>

section \<open>Shared\<close>

type_synonym program = "string \<times> int"

definition fails :: "string \<Rightarrow> string \<Rightarrow> program" where
  "fails out msg = (out @ ''FAIL: '' @ msg @ nl, 1)"

definition passes :: "string \<Rightarrow> string \<Rightarrow> program" where
  "passes out name = (out @ ''PASS: '' @ name @ nl, 0)"

definition example_fabric :: Fabric where
  "example_fabric = Fabric_new (Generation 1) (Generation 1)"

definition example_ctx :: AuthorityContext where
  "example_ctx = AuthorityContext_default\<lparr>ctx_coordinator_epoch := epoch example_fabric,
     ctx_policy_generation := policy_generation example_fabric, ctx_consumer_generation := Generation 1\<rparr>"

definition gib :: "u64 \<Rightarrow> u64" where
  "gib n = n * 1024 * 1024 * 1024"

definition example_device :: "string \<Rightarrow> string \<Rightarrow> string \<Rightarrow> u64 \<Rightarrow> LocalityClass \<Rightarrow> u64 \<Rightarrow> u64 \<Rightarrow> u32 \<Rightarrow> string \<Rightarrow> CxlDevice" where
  "example_device i boot host bytes loc latency bw hops fd =
     make_device (Ident i) (Generation 1) (Ident boot) (Ident host) bytes VolatilityKind.VOLATILE SharingMode.DEDICATED loc latency bw hops fd"

definition example_member :: "string \<Rightarrow> u64 \<Rightarrow> string \<Rightarrow> LocalityClass \<Rightarrow> PoolMember" where
  "example_member i bytes fd loc = \<lparr>pm_device = Ident i, pm_device_generation = Generation 1, pm_nominal_bytes = bytes,
     pm_online = True, pm_health_ok = True, pm_failure_domain = fd, pm_locality = loc\<rparr>"

definition example_pool :: "PoolMember list \<Rightarrow> CxlPool" where
  "example_pool ms = make_pool (Ident ''p-1'') (Generation 1) ms"

definition example_region :: "string \<Rightarrow> string \<Rightarrow> u64 \<Rightarrow> LocalityClass \<Rightarrow> TierClass \<Rightarrow> CxlRegion" where
  "example_region i d bytes loc tier = make_region (Ident i) (Generation 1) (Ident ''p-1'') [Ident d] bytes loc tier RegionState.ONLINE"

definition example_request :: "u64 \<Rightarrow> AdmissionRequest" where
  "example_request n = AdmissionRequest_default\<lparr>req_bytes := n, req_consumer := Ident ''svc''\<rparr>"

section \<open>The programs\<close>

definition basic_discovery :: "system_api \<Rightarrow> program" where
  "basic_discovery api =
     (let sr = system_discover api; yr = synthetic_discover;
          out = ''system backend: cxl_memory_supported='' @ bool_text (disc_cxl_memory_supported sr) @ '' host='' @ id_value (disc_host_id sr) @ nl @
            concat (map (\<lambda>n. ''  '' @ n @ nl) (disc_notes sr)) @
            ''synthetic backend: devices='' @ show_nat (length (disc_devices yr)) @ '' provenance='' @ Provenance_to_string (disc_provenance yr) @ nl in
      if disc_devices yr = [] then fails out ''synthetic backend produced no devices'' else passes out ''basic_discovery'')"

definition capacity_accounting :: program where
  "capacity_accounting =
     (let line = CapacityLine_default\<lparr>cl_total := 2 ^ 40, cl_online := 2 ^ 40\<rparr> in
      case cl_audit line of
        Some err \<Rightarrow> fails [] (''audit '' @ err)
      | None \<Rightarrow>
          let (r1, line) = cl_reserve (2 ^ 30 * 4) line;
              (r2, line) = cl_reserve (2 ^ 30 * 2) line;
              (r3, line) = cl_commit (2 ^ 30 * 4) line;
              (r4, line) = cl_release (2 ^ 30 * 2) line;
              (over, line) = cl_reserve (2 ^ 50) line;
              out = ''free='' @ to_string_u64 (cl_free line) @ '' reserved='' @ to_string_u64 (cl_reserved line) @ '' committed='' @
                to_string_u64 (cl_committed line) @ nl in
          if \<not> (r1 \<and> r2 \<and> r3 \<and> r4) \<or> over then fails out ''accounting ops''
          else case cl_audit line of Some err \<Rightarrow> fails out (''audit '' @ err) | None \<Rightarrow> passes out ''capacity_accounting'')"

text \<open>Two devices, the pool of them and a region on each, in the order in which two of the programs publish them.\<close>

definition two_devices :: "CxlDevice \<Rightarrow> CxlDevice \<Rightarrow> CxlPool \<Rightarrow> CxlRegion \<Rightarrow> CxlRegion \<Rightarrow> Fabric" where
  "two_devices d e pool r s =
     (let f = snd (register_device d example_ctx example_fabric);
          f = snd (register_device e example_ctx f);
          f = snd (create_pool pool example_ctx f);
          f = snd (create_region r example_ctx f) in
      snd (create_region s example_ctx f))"

definition failover_fabric :: Fabric where
  "failover_fabric = two_devices
     (example_device ''d1'' ''b1'' ''host-fs'' (gib 16) LocalityClass.SAME_HOST 200 16000 1 ''fd-a'')
     (example_device ''d2'' ''b2'' ''host-fs'' (gib 24) LocalityClass.SAME_CXL_ROOT 300 20000 2 ''fd-b'')
     (example_pool [example_member ''d1'' (gib 16) ''fd-a'' LocalityClass.SAME_HOST, example_member ''d2'' (gib 24) ''fd-b'' LocalityClass.SAME_CXL_ROOT])
     (example_region ''r1'' ''d1'' (gib 16) LocalityClass.SAME_HOST TierClass.CXL_NEAR)
     (example_region ''r2'' ''d2'' (gib 24) LocalityClass.SAME_CXL_ROOT TierClass.CXL_CAPACITY)"

definition failover_selection :: program where
  "failover_selection =
     (let f = snd (mark_device_revalidation (Ident ''d1'') example_ctx failover_fabric);
          fp = plan_failover (Ident ''p-1'') (Ident ''d1'') (example_request (2 ^ 30)) example_ctx f;
          out = ''outcome='' @ FailoverOutcome_to_string (fp_outcome fp) @ '' note='' @ fp_note fp @ nl in
      if fp_outcome fp \<noteq> FailoverOutcome.FAILOVER \<and> fp_outcome fp \<noteq> FailoverOutcome.REJECT then fails out ''unexpected failover''
      else passes out ''failover_selection'')"

text \<open>A device, the pool of it and a region on it, as several of the programs set them up.\<close>

definition one_device :: "CxlDevice \<Rightarrow> string \<Rightarrow> LocalityClass \<Rightarrow> Fabric" where
  "one_device d fd loc =
     snd (create_pool (example_pool [example_member ''d1'' (gib 16) fd loc]) example_ctx (snd (register_device d example_ctx example_fabric)))"

definition one_region :: "CxlDevice \<Rightarrow> string \<Rightarrow> LocalityClass \<Rightarrow> TierClass \<Rightarrow> Fabric" where
  "one_region d fd loc tier = snd (create_region (example_region ''r1'' ''d1'' (gib 16) loc tier) example_ctx (one_device d fd loc))"

definition locality_device :: CxlDevice where
  "locality_device = example_device ''d1'' ''b1'' ''host-loc'' (gib 16) LocalityClass.REMOTE_NUMA_DOMAIN 350 20000 2 ''fd-x''"

definition locality_policy :: program where
  "locality_policy =
     (let f = one_region locality_device ''fd-x'' LocalityClass.REMOTE_NUMA_DOMAIN TierClass.CXL_CAPACITY;
          req = (example_request (gib 4))\<lparr>req_minimum_locality := Some LocalityClass.SAME_NUMA_DOMAIN\<rparr> in
      if so_ok (select req f) then fails [] ''REMOTE_NUMA satisfied SAME_NUMA requirement''
      else let req = req\<lparr>req_minimum_locality := Some LocalityClass.REMOTE_NUMA_DOMAIN\<rparr> in
        if \<not> so_ok (select req f) then fails [] ''REMOTE_NUMA should satisfy itself''
        else passes [] ''locality_policy'')"

definition persistence_device :: CxlDevice where
  "persistence_device = example_device ''d1'' ''b1'' ''host-pr'' (gib 16) LocalityClass.SAME_HOST 200 16000 1 ''fd''"

definition persistence_recovery :: "program option" where
  "persistence_recovery =
     (case serialize_state (export_persisted (one_device persistence_device ''fd'' LocalityClass.SAME_HOST)) of
        Inl err \<Rightarrow> Some (fails [] (''serialize '' @ err))
      | Inr payload \<Rightarrow>
          (case deserialize_state payload of
             Overrun \<Rightarrow> None
           | Rejected err \<Rightarrow> Some (fails [] (''deserialize '' @ err))
           | Loaded st2 pos \<Rightarrow>
               if length (ps_pools st2) \<noteq> 1 \<or> length (ps_devices st2) \<noteq> 1 then Some (fails [] ''round-trip counts'')
               else
                 let i = length payload div 2; bad = payload[i := payload ! i XOR 0xFF] in
                 (case deserialize_state bad of
                    Overrun \<Rightarrow> None
                  | Loaded st3 pos \<Rightarrow> Some (fails [] ''corrupted payload accepted'')
                  | Rejected err \<Rightarrow> Some (passes [] ''persistence_recovery''))))"

definition selection_fabric :: Fabric where
  "selection_fabric = two_devices
     (example_device ''near'' ''b-near'' ''host-se'' (gib 8) LocalityClass.SAME_HOST 180 32000 1 ''fd-a'')
     (example_device ''far'' ''b-far'' ''host-se'' (gib 64) LocalityClass.SWITCH_REMOTE 500 12000 4 ''fd-b'')
     (example_pool [example_member ''near'' (gib 8) ''fd-a'' LocalityClass.SAME_HOST, example_member ''far'' (gib 64) ''fd-b'' LocalityClass.SWITCH_REMOTE])
     (example_region ''r-near'' ''near'' (gib 8) LocalityClass.SAME_HOST TierClass.CXL_NEAR)
     (example_region ''r-far'' ''far'' (gib 64) LocalityClass.SWITCH_REMOTE TierClass.CXL_CAPACITY)"

definition pool_selection :: program where
  "pool_selection =
     (let so = select (example_request (gib 4)) selection_fabric in
      if \<not> so_ok so then fails [] ''no selection''
      else
        let out = ''selected '' @ id_value (cand_region (so_chosen so)) @ '' (locality '' @
              LocalityClass_to_string (econ_locality (record_economics (so_chosen so))) @ '')'' @ nl in
        if cand_region (so_chosen so) \<noteq> Ident ''r-near'' then fails out ''expected nearest region r-near''
        else
          let so2 = select (example_request (gib 24)) selection_fabric in
          if \<not> so_ok so2 then fails out ''no selection for large''
          else if cand_region (so_chosen so2) \<noteq> Ident ''r-far'' then fails out ''expected far region for large request''
          else passes out ''pool_selection'')"

definition lifecycle_device :: CxlDevice where
  "lifecycle_device = example_device ''d1'' ''b1'' ''host-r'' (gib 16) LocalityClass.SAME_HOST 200 16000 1 ''fd''"

definition reservation_lifecycle :: program where
  "reservation_lifecycle =
     (let f = one_region lifecycle_device ''fd'' LocalityClass.SAME_HOST TierClass.CXL_NEAR;
          (ro, f) = reserve (example_request (gib 4)) example_ctx f in
      if \<not> ro_ok ro then fails [] ''reserve''
      else if res_state (ro_reservation ro) \<noteq> ResumeState.RESERVED then fails [] ''not reserved''
      else let (co, f) = commit (res_id (ro_reservation ro)) example_ctx f in
        if \<not> ro_ok co then fails [] ''commit''
        else if res_state (ro_reservation co) \<noteq> ResumeState.COMMITTED then fails [] ''not committed''
        else let (rr, f) = release (res_id (ro_reservation ro)) example_ctx f in
          if \<not> ro_ok rr then fails [] ''release''
          else if res_state (ro_reservation rr) \<noteq> ResumeState.RELEASED then fails [] ''not released''
          else let ar = audit f;
                   out = ''audit_ok='' @ bool_text (audit_ok ar) @ '' free='' @ to_string_u64 (cl_free (audit_global_ledger ar)) @ nl in
            if \<not> audit_ok ar then (out @ concat (map (\<lambda>e. ''  '' @ e @ nl) (audit_errors ar)), 1)
            else passes out ''reservation_lifecycle'')"

definition stale_device :: CxlDevice where
  "stale_device = example_device ''d1'' ''b1'' ''host-sg'' (gib 16) LocalityClass.SAME_HOST 200 16000 1 ''fd''"

definition stale_member :: PoolMember where
  "stale_member = PoolMember_default\<lparr>pm_device := Ident ''d2'', pm_device_generation := Generation 1, pm_nominal_bytes := gib 8,
     pm_online := True, pm_health_ok := True, pm_failure_domain := ''fd2''\<rparr>"

definition stale_generation :: program where
  "stale_generation =
     (let f = one_region stale_device ''fd'' LocalityClass.SAME_HOST TierClass.CXL_NEAR;
          (ro, f) = reserve (example_request (gib 4)) example_ctx f in
      if \<not> ro_ok ro then fails [] ''reserve''
      else
        let f = snd (register_device (example_device ''d2'' ''b2'' ''host-sg'' (gib 8) LocalityClass.SAME_HOST 210 15000 1 ''fd2'') example_ctx f);
            f = snd (add_pool_member (Ident ''p-1'') stale_member example_ctx f);
            (co, f) = commit (res_id (ro_reservation ro)) example_ctx f in
        if ro_ok co then fails [] ''stale pool-generation commit succeeded''
        else if ro_reason co \<noteq> DecisionReason.POOL_GENERATION_STALE
        then fails [] (''wrong reason '' @ DecisionReason_to_string (ro_reason co))
        else passes [] ''stale_generation'')"

definition scp_pool :: CxlPool where
  "scp_pool = example_pool [example_member ''dev-1'' (gib 16) ''fd-a'' LocalityClass.SAME_HOST,
     example_member ''dev-2'' (gib 64) ''fd-b'' LocalityClass.SAME_HOST, example_member ''dev-3'' (gib 8) ''fd-a'' LocalityClass.SAME_HOST]"

definition synthetic_cxl_pool :: "program option" where
  "synthetic_cxl_pool =
     (let f = fold (\<lambda>d f. snd (register_device d example_ctx f)) (baseline_devices (Ident ''host-scp'')) example_fabric;
          f = snd (create_pool scp_pool example_ctx f) in
      case om_find (st_pools (snapshot f)) (Ident ''p-1'') of
        None \<Rightarrow> None
      | Some got \<Rightarrow>
          let expect = (16 + 64 + 8) * 1024 * 1024 * 1024;
              out = ''pool_total='' @ to_string_u64 (pool_total_governed_bytes got) @ '' expected='' @ to_string_u64 expect @ nl in
          if pool_total_governed_bytes got \<noteq> expect then Some (fails out ''pool capacity mismatch'')
          else let ar = audit f in
            if \<not> audit_ok ar then Some (out @ concat (map (\<lambda>e. ''  '' @ e @ nl) (audit_errors ar)), 1)
            else Some (passes out ''synthetic_cxl_pool''))"

section \<open>The set-up with one device\<close>

lemma example_start [simp]:
  "empty_fabric example_fabric" "epoch example_fabric = Generation 1" "ctx_coordinator_epoch example_ctx = Generation 1"
  "id_empty (ctx_worker_boot_id example_ctx)"
  using empty_Fabric_new
  by (simp_all add: example_fabric_def example_ctx_def Fabric_new_def Fabric_default_def epoch_def AuthorityContext_default_def)

definition stored_pool :: "string \<Rightarrow> LocalityClass \<Rightarrow> CxlPool" where
  "stored_pool fd loc = (example_pool [example_member ''d1'' (gib 16) fd loc])\<lparr>pool_total_governed_bytes := gib 16, pool_failure_domains := [fd]\<rparr>"

lemma recompute_example_pool:
  "fd \<noteq> [] \<Longrightarrow> (recompute_pool (example_pool [example_member ''d1'' (gib 16) fd loc]))\<lparr>pool_state := PoolState.AVAILABLE, pool_evidence_current := True\<rparr> =
     stored_pool fd loc"
  by (simp add: recompute_pool_def add_member_def add_checked_def example_member_def stored_pool_def example_pool_def make_pool_def gib_def
      CxlPool_default_def)

lemma example_region_simps [simp]:
  "reg_id (example_region i d b loc tier) = Ident i" "reg_generation (example_region i d b loc tier) = Generation 1"
  "reg_pool (example_region i d b loc tier) = Ident ''p-1''" "reg_member_devices (example_region i d b loc tier) = [Ident d]"
  by (simp_all add: example_region_def make_region_def)

lemma example_pool_simps [simp]:
  "pool_id (example_pool ms) = Ident ''p-1''" "pool_generation (example_pool ms) = Generation 1" "pool_members (example_pool ms) = ms"
  "pm_device (example_member i b fd loc) = Ident i"
  by (simp_all add: example_pool_def make_pool_def example_member_def)

lemma stored_pool_simps [simp]:
  "pool_id (stored_pool fd loc) = Ident ''p-1''" "pool_evidence_current (stored_pool fd loc)"
  "pool_committed_bytes (stored_pool fd loc) = 0" "pool_reserved_bytes (stored_pool fd loc) = 0"
  "pool_members (stored_pool fd loc) = [example_member ''d1'' (gib 16) fd loc]"
  by (simp_all add: stored_pool_def) (simp_all add: example_pool_def make_pool_def CxlPool_default_def)

lemma one_device_stored:
  assumes "dev_id d = Ident ''d1''" and "dev_generation d = Generation 1" and "\<not> id_empty (dev_boot_id d)" and "fd \<noteq> []"
  shows "has_pool d (stored_pool fd loc) (one_device d fd loc) \<and> epoch (one_device d fd loc) = Generation 1"
proof -
  obtain f1 where 1: "register_device d example_ctx example_fabric = (DecisionReason.OK, f1)" "has_device d f1" "epoch f1 = Generation 1"
    using register_first [of example_fabric example_ctx d] assms by auto
  have "pool_id (recompute_pool (example_pool [example_member ''d1'' (gib 16) fd loc])) = Ident ''p-1''"
    using arg_cong [OF recompute_example_pool [OF assms(4), of loc], of pool_id] by simp
  with create_first_pool [OF 1(2), of example_ctx "example_pool [example_member ''d1'' (gib 16) fd loc]"] 1 assms
  show ?thesis by (auto simp: one_device_def recompute_example_pool)
qed

lemma one_region_single:
  assumes "dev_id d = Ident ''d1''" and "dev_generation d = Generation 1" and "\<not> id_empty (dev_boot_id d)" and "fd \<noteq> []"
  shows "single d (stored_pool fd loc) (example_region ''r1'' ''d1'' (gib 16) loc tier) (one_region d fd loc tier) \<and>
     epoch (one_region d fd loc tier) = Generation 1"
  using one_device_stored [OF assms, of loc] assms
    create_first_region [of d "stored_pool fd loc" "one_device d fd loc" example_ctx "example_region ''r1'' ''d1'' (gib 16) loc tier"]
  by (auto simp: one_region_def has_member_def)

section \<open>The set-up with two devices\<close>

lemma example_device_simps [simp]:
  "dev_id (example_device i boot host b loc lat bw hops fd) = Ident i" "dev_generation (example_device i boot host b loc lat bw hops fd) = Generation 1"
  "dev_boot_id (example_device i boot host b loc lat bw hops fd) = Ident boot" "dev_state (example_device i boot host b loc lat bw hops fd) = DeviceState.ONLINE"
  "dev_evidence_current (example_device i boot host b loc lat bw hops fd)"
  by (simp_all add: example_device_def)

definition stored_pair :: "PoolMember \<Rightarrow> PoolMember \<Rightarrow> CxlPool" where
  "stored_pair m1 m2 = (example_pool [m1, m2])\<lparr>pool_total_governed_bytes := pm_nominal_bytes m1 + pm_nominal_bytes m2,
     pool_failure_domains := [pm_failure_domain m1, pm_failure_domain m2]\<rparr>"

definition fresh_pair :: "CxlDevice \<Rightarrow> CxlDevice \<Rightarrow> PoolMember \<Rightarrow> PoolMember \<Rightarrow> CxlRegion \<Rightarrow> CxlRegion \<Rightarrow> bool" where
  "fresh_pair d e m1 m2 r s \<longleftrightarrow>
     (\<forall>x\<in>{d, e}. \<not> id_empty (dev_id x) \<and> dev_generation x = Generation 1 \<and> \<not> id_empty (dev_boot_id x)) \<and> dev_id d \<noteq> dev_id e \<and>
     (\<forall>x\<in>{m1, m2}. pm_online x \<and> pm_health_ok x \<and> pm_failure_domain x \<noteq> []) \<and> pm_failure_domain m1 \<noteq> pm_failure_domain m2 \<and>
     pm_device m1 = dev_id d \<and> pm_device m2 = dev_id e \<and> unat (pm_nominal_bytes m1) + unat (pm_nominal_bytes m2) < 2 ^ 64 \<and>
     (\<forall>x\<in>{r, s}. \<not> id_empty (reg_id x) \<and> reg_generation x = Generation 1 \<and> reg_pool x = Ident ''p-1'') \<and> reg_id r \<noteq> reg_id s \<and>
     reg_member_devices r = [dev_id d] \<and> reg_member_devices s = [dev_id e]"

lemma recompute_pair:
  assumes "fresh_pair d e m1 m2 r s"
  shows "(recompute_pool (example_pool [m1, m2]))\<lparr>pool_state := PoolState.AVAILABLE, pool_evidence_current := True\<rparr> = stored_pair m1 m2"
  using assms add_checked_fits [of "pm_nominal_bytes m1" "pm_nominal_bytes m2"] add_checked_fits [of 0 "pm_nominal_bytes m1"]
    unat_u64_bound [of "pm_nominal_bytes m1"]
  by (auto simp: recompute_pool_def add_member_def stored_pair_def example_pool_def make_pool_def CxlPool_default_def fresh_pair_def)

lemma stored_pair_simps [simp]:
  "pool_id (stored_pair m1 m2) = Ident ''p-1''" "pool_members (stored_pair m1 m2) = [m1, m2]" "pool_evidence_current (stored_pair m1 m2)"
  by (simp_all add: stored_pair_def) (simp add: example_pool_def make_pool_def)

lemma register_second:
  assumes "has_device d f" and "epoch f = Generation 1" and "\<not> id_empty (dev_id e)" and "dev_generation e = Generation 1"
    and "\<not> id_empty (dev_boot_id e)" and "dev_id d \<noteq> dev_id e"
  shows "snd (register_device e example_ctx f) = put_device (dev_id e) e f"
  using assms by (auto simp: register_device_def find_defs has_device_def)

lemma two_devices_maps:
  assumes ok: "fresh_pair d e m1 m2 r s"
  shows "st_devices (fab_state (two_devices d e (example_pool [m1, m2]) r s)) = om_assign (dev_id e) e [(dev_id d, d)]"
    "st_pools (fab_state (two_devices d e (example_pool [m1, m2]) r s)) = [(Ident ''p-1'', stored_pair m1 m2)]"
    "st_regions (fab_state (two_devices d e (example_pool [m1, m2]) r s)) = om_assign (reg_id s) s [(reg_id r, r)]"
    "epoch (two_devices d e (example_pool [m1, m2]) r s) = Generation 1"
proof -
  note ok' = ok [unfolded fresh_pair_def]
  obtain f1 where 1: "register_device d example_ctx example_fabric = (DecisionReason.OK, f1)" "has_device d f1" "epoch f1 = Generation 1"
    using register_first [of example_fabric example_ctx d] ok' by auto
  define f2 where "f2 = put_device (dev_id e) e f1"
  have 2: "snd (register_device e example_ctx f1) = f2"
    unfolding f2_def using register_second [OF 1(2,3)] ok' by blast
  have f2: "st_devices (fab_state f2) = om_assign (dev_id e) e [(dev_id d, d)]" "st_pools (fab_state f2) = []" "st_regions (fab_state f2) = []"
    "epoch f2 = Generation 1"
    using 1(2,3) by (simp_all add: f2_def put_device_def has_device_def epoch_def)
  define f3 where "f3 = recompute_global (put_pool (Ident ''p-1'') (stored_pair m1 m2) f2)"
  have 3: "snd (create_pool (example_pool [m1, m2]) example_ctx f2) = f3"
    using ok' recompute_pair [OF ok] f2 by (auto simp: create_pool_def om_count_def om.find_assign om_wf_Cons f3_def Let_def)
  have f3: "st_devices (fab_state f3) = om_assign (dev_id e) e [(dev_id d, d)]" "st_pools (fab_state f3) = [(Ident ''p-1'', stored_pair m1 m2)]"
    "st_regions (fab_state f3) = []" "epoch f3 = Generation 1"
    using f2 by (simp_all add: f3_def put_defs epoch_def)
  define f4 where "f4 = put_region (reg_id r) r f3"
  have 4: "snd (create_region r example_ctx f3) = f4"
    using ok' f3 by (auto simp: create_region_def om_count_def find_defs has_member_def om.find_assign om_wf_Cons f4_def)
  have f4: "st_devices (fab_state f4) = om_assign (dev_id e) e [(dev_id d, d)]" "st_pools (fab_state f4) = [(Ident ''p-1'', stored_pair m1 m2)]"
    "st_regions (fab_state f4) = [(reg_id r, r)]" "epoch f4 = Generation 1"
    using f3 by (simp_all add: f4_def put_defs epoch_def)
  have 5: "snd (create_region s example_ctx f4) = put_region (reg_id s) s f4"
    using ok' f4 by (auto simp: create_region_def om_count_def find_defs has_member_def om.find_assign om_wf_Cons)
  have F: "two_devices d e (example_pool [m1, m2]) r s = put_region (reg_id s) s f4"
    by (simp add: two_devices_def 1(1) 2 3 4 5)
  show "st_devices (fab_state (two_devices d e (example_pool [m1, m2]) r s)) = om_assign (dev_id e) e [(dev_id d, d)]"
    "st_pools (fab_state (two_devices d e (example_pool [m1, m2]) r s)) = [(Ident ''p-1'', stored_pair m1 m2)]"
    "st_regions (fab_state (two_devices d e (example_pool [m1, m2]) r s)) = om_assign (reg_id s) s [(reg_id r, r)]"
    "epoch (two_devices d e (example_pool [m1, m2]) r s) = Generation 1"
    using f4 by (simp_all add: F put_defs epoch_def)
qed

section \<open>What the programs do\<close>

lemma digits:
  "show_nat 1095216660480 = ''1095216660480''" "show_nat 2147483648 = ''2147483648''" "show_nat 17179869184 = ''17179869184''"
  "show_nat 94489280512 = ''94489280512''"
  by (simp_all add: show_nat.simps) (code_simp+)

lemma basic_discovery_passes: "\<exists>out. basic_discovery api = passes (''system backend: cxl_memory_supported=false host='' @ out) ''basic_discovery''"
proof -
  have "disc_devices synthetic_discover \<noteq> []" by (simp add: synthetic_discover_def baseline_devices_def Let_def)
  moreover have "\<not> disc_cxl_memory_supported (system_discover api)" using system_backend_never_infers by blast
  ultimately show ?thesis unfolding basic_discovery_def Let_def by (auto simp: bool_text_def)
qed

lemma capacity_accounting_passes:
  "capacity_accounting = passes (''free=1095216660480 reserved=2147483648 committed=2147483648'' @ nl) ''capacity_accounting''"
  by (simp add: capacity_accounting_def cl_audit_def cl_reserve_def CapacityLine_default_def cl_free_def cl_used_def cl_commit_def add_checked_def
      cl_release_def take_committed_def to_string_u64_def digits Let_def)

text \<open>A request with a locality bound on a fabric with one placement.\<close>

lemma single_select_iff:
  assumes "single dev pool reg f"
  shows "so_ok (select req f) \<longleftrightarrow> in_service dev reg pool (pool_evidence_current pool) \<and> request_fits req dev reg pool \<and> req_bytes req \<le> region_free reg"
proof
  assume "so_ok (select req f)"
  then obtain c where "c \<in> set (admissible req (selection_snapshot f))" using chosen_admissible by (auto simp: select_def)
  with single_placement [OF assms]
  show "in_service dev reg pool (pool_evidence_current pool) \<and> request_fits req dev reg pool \<and> req_bytes req \<le> region_free reg"
    by (auto simp: admissible_iff fit_placement_def)
qed (use single_select [OF assms] in blast)

lemma locality_policy_passes: "locality_policy = passes [] ''locality_policy''"
proof -
  let ?reg = "example_region ''r1'' ''d1'' (gib 16) LocalityClass.REMOTE_NUMA_DOMAIN TierClass.CXL_CAPACITY"
    and ?pool = "stored_pool ''fd-x'' LocalityClass.REMOTE_NUMA_DOMAIN"
  have s: "single locality_device ?pool ?reg (one_region locality_device ''fd-x'' LocalityClass.REMOTE_NUMA_DOMAIN TierClass.CXL_CAPACITY)"
    using one_region_single [of locality_device "''fd-x''"] by (simp add: locality_device_def)
  have up: "in_service locality_device ?reg ?pool True" and room: "gib 4 \<le> region_free ?reg"
    by (simp_all add: in_service_def acceptable_health_def locality_device_def example_device_def make_device_def Let_def example_region_def
        make_region_def stored_pool_def example_pool_def make_pool_def region_free_def CxlRegion_default_def gib_def)
  have "request_fits ((example_request (gib 4))\<lparr>req_minimum_locality := Some l\<rparr>) locality_device ?reg ?pool \<longleftrightarrow>
      locality_ordinal LocalityClass.REMOTE_NUMA_DOMAIN \<le> locality_ordinal l" for l
    by (simp add: request_fits_def example_request_def AdmissionRequest_default_def locality_device_def example_device_def make_device_def Let_def)
  then have "so_ok (select ((example_request (gib 4))\<lparr>req_minimum_locality := Some l\<rparr>)
        (one_region locality_device ''fd-x'' LocalityClass.REMOTE_NUMA_DOMAIN TierClass.CXL_CAPACITY)) \<longleftrightarrow>
      locality_ordinal LocalityClass.REMOTE_NUMA_DOMAIN \<le> locality_ordinal l" for l
    using up room by (simp add: single_select_iff [OF s]) (simp add: example_request_def)
  then show ?thesis by (simp add: locality_policy_def Let_def)
qed

text \<open>The two programs that reserve.\<close>

lemma plain_fits:
  assumes "d = example_device ''d1'' boot host (gib 16) LocalityClass.SAME_HOST lat bw hops fd"
  shows "in_service d (example_region ''r1'' ''d1'' (gib 16) loc tier) (stored_pool fd' loc') True"
    "request_fits (example_request n) d (example_region ''r1'' ''d1'' (gib 16) loc tier) (stored_pool fd' loc')"
    "unat (region_free (example_region ''r1'' ''d1'' (gib 16) loc tier)) = 2 ^ 34" "unat (pool_free (stored_pool fd' loc')) = 2 ^ 34"
  unfolding assms
  by (simp_all add: in_service_def acceptable_health_def request_fits_def example_device_def make_device_def Let_def example_region_def
      make_region_def stored_pool_def example_pool_def make_pool_def region_free_def pool_free_def pool_used_def CxlRegion_default_def
      CxlPool_default_def gib_def example_request_def AdmissionRequest_default_def)

lemma example_lease:
  assumes "d = example_device ''d1'' boot host (gib 16) LocalityClass.SAME_HOST lat bw hops fd" and "boot \<noteq> []" and "fd \<noteq> []"
  obtains v f1 where "reserve (example_request (gib 4)) example_ctx (one_region d fd LocalityClass.SAME_HOST TierClass.CXL_NEAR) = (grant v, f1)"
    "epoch f1 = Generation 1" "res_id v = reservation_id 1" "res_state v = ResumeState.RESERVED" "res_bytes v = gib 4"
    "res_created_epoch v = Generation 1" "res_pool v = Ident ''p-1''" "res_pool_generation v = Generation 1"
    "lease d v (pool_reserve (gib 4) (stored_pool fd LocalityClass.SAME_HOST))
       (region_reserve (gib 4) (example_region ''r1'' ''d1'' (gib 16) LocalityClass.SAME_HOST TierClass.CXL_NEAR)) f1"
proof -
  let ?f = "one_region d fd LocalityClass.SAME_HOST TierClass.CXL_NEAR" and ?pool = "stored_pool fd LocalityClass.SAME_HOST"
    and ?reg = "example_region ''r1'' ''d1'' (gib 16) LocalityClass.SAME_HOST TierClass.CXL_NEAR"
  let ?v = "first_lease (example_request (gib 4)) example_ctx d ?pool ?reg (epoch ?f)"
  have s: "single d ?pool ?reg ?f" "epoch ?f = Generation 1"
    using one_region_single [of d fd LocalityClass.SAME_HOST TierClass.CXL_NEAR] assms by (simp_all add: id_empty_def)
  have n: "req_bytes (example_request (gib 4)) = gib 4" "unat (gib 4) = 2 ^ 32" "gib 4 \<noteq> 0" by (simp_all add: example_request_def gib_def)
  obtain f1 where "reserve (example_request (gib 4)) example_ctx ?f = (grant ?v, f1)" "epoch f1 = epoch ?f"
    "lease d ?v (pool_reserve (gib 4) ?pool) (region_reserve (gib 4) ?reg) f1"
    by (rule reserve_lease [OF s(1) _ plain_fits(2) [OF assms(1), where n = "gib 4"], where ctx = example_ctx])
      (use plain_fits [OF assms(1)] s(2) n in \<open>auto simp: word_le_nat\<close>)
  with that [of ?v f1] s(2) n(1) show thesis by (simp add: stored_pool_def)
qed

lemma reservation_lifecycle_passes: "reservation_lifecycle = passes (''audit_ok=true free=17179869184'' @ nl) ''reservation_lifecycle''"
proof -
  let ?pool = "stored_pool ''fd'' LocalityClass.SAME_HOST"
    and ?reg = "example_region ''r1'' ''d1'' (gib 16) LocalityClass.SAME_HOST TierClass.CXL_NEAR"
  obtain v f1 where 1: "reserve (example_request (gib 4)) example_ctx (one_region lifecycle_device ''fd'' LocalityClass.SAME_HOST TierClass.CXL_NEAR) = (grant v, f1)"
    and e1: "epoch f1 = Generation 1" and v: "res_state v = ResumeState.RESERVED" "res_created_epoch v = Generation 1" "res_bytes v = gib 4"
      "res_pool v = Ident ''p-1''"
    and l1: "lease lifecycle_device v (pool_reserve (gib 4) ?pool) (region_reserve (gib 4) ?reg) f1"
    by (rule example_lease [OF lifecycle_device_def]) auto
  obtain f2 where 2: "commit (res_id v) example_ctx f1 = (grant (committed (epoch f1) v), f2)" and e2: "epoch f2 = epoch f1"
    and l2: "lease lifecycle_device (committed (epoch f1) v) (pool_commit (gib 4) (pool_reserve (gib 4) ?pool)) (region_commit (gib 4) (region_reserve (gib 4) ?reg)) f2"
    by (rule commit_lease [OF l1 v(1), of example_ctx]) (use e1 v in \<open>auto simp: pool_reserve_def\<close>)
  have clear: "reg_committed_bytes ?reg = 0" by (simp add: example_region_def make_region_def CxlRegion_default_def)
  obtain f3 where 3: "release (res_id v) example_ctx f2 = (grant (released (committed (epoch f1) v)), f3)"
    and l3: "lease lifecycle_device (released (committed (epoch f1) v)) ?pool ?reg f3"
    by (rule release_lease [OF l2, of example_ctx ?pool 0 ?reg]) (use e1 e2 v clear in \<open>auto simp: counters_return\<close>)
  have "st_pools (fab_state f3) = [(Ident ''p-1'', ?pool)]" using l3 v(4) by (simp add: lease_def released_def)
  then have "audit_ok (audit f3)" "cl_free (audit_global_ledger (audit f3)) = 17179869184"
    by (simp_all add: audit_def Let_def audit_pool_line_def audit_pool_errors_def keep_checked_def add_checked_def cl_audit_def cl_free_def cl_used_def
        CapacityLine_default_def stored_pool_def example_pool_def make_pool_def CxlPool_default_def gib_def pool_used_def)
  then show ?thesis
    by (simp add: reservation_lifecycle_def 1 2 3 v bool_text_def to_string_u64_def digits Let_def)
qed

lemma reserve_devices: "st_devices (fab_state (snd (reserve req ctx f))) = st_devices (fab_state f)"
  using reserve_shape [of req ctx f] by (auto simp: snd_book Let_def put_defs)

lemma stale_commit:
  assumes "find_reservation f (res_id v) = Some v" and "res_state v = ResumeState.RESERVED" and "res_created_epoch v = epoch f"
    and "ctx_coordinator_epoch ctx = epoch f" and "id_empty (ctx_worker_boot_id ctx)" and "find_pool f (res_pool v) = Some p"
    and "pool_generation p \<noteq> res_pool_generation v"
  shows "commit (res_id v) ctx f = (refuse DecisionReason.POOL_GENERATION_STALE, f)"
  using assms by (auto simp: commit_def split: option.splits)

lemma stale_generation_passes: "stale_generation = passes [] ''stale_generation''"
proof -
  let ?f = "one_region stale_device ''fd'' LocalityClass.SAME_HOST TierClass.CXL_NEAR"
    and ?d2 = "example_device ''d2'' ''b2'' ''host-sg'' (gib 8) LocalityClass.SAME_HOST 210 15000 1 ''fd2''"
    and ?pool = "pool_reserve (gib 4) (stored_pool ''fd'' LocalityClass.SAME_HOST)"
  obtain v f1 r where 1: "reserve (example_request (gib 4)) example_ctx ?f = (grant v, f1)" and e1: "epoch f1 = Generation 1"
    and v: "res_state v = ResumeState.RESERVED" "res_created_epoch v = Generation 1" "res_pool v = Ident ''p-1''" "res_pool_generation v = Generation 1"
    and l1: "lease stale_device v ?pool r f1"
    by (rule example_lease [OF stale_device_def]) auto
  have wf: "wf_maps f1" and res: "find_reservation f1 (res_id v) = Some v" and pools: "st_pools (fab_state f1) = [(Ident ''p-1'', ?pool)]"
    using l1 v(3) by (simp_all add: lease_def)
  have "single stale_device (stored_pool ''fd'' LocalityClass.SAME_HOST) (example_region ''r1'' ''d1'' (gib 16) LocalityClass.SAME_HOST TierClass.CXL_NEAR) ?f"
    using one_region_single [of stale_device "''fd''" LocalityClass.SAME_HOST TierClass.CXL_NEAR] by (simp add: stale_device_def)
  then have "st_devices (fab_state f1) = [(Ident ''d1'', stale_device)]"
    using reserve_devices [of "example_request (gib 4)" example_ctx ?f] 1 by (simp add: single_def stale_device_def)
  then have 2: "snd (register_device ?d2 example_ctx f1) = put_device (Ident ''d2'') ?d2 f1"
    using e1 by (simp add: register_device_def find_defs)
  define f2 where "f2 = put_device (Ident ''d2'') ?d2 f1"
  let ?adv = "advance_pool (?pool\<lparr>pool_members := pool_members ?pool @ [stale_member]\<rparr>)"
  have f2: "wf_maps f2" "epoch f2 = Generation 1" "st_pools (fab_state f2) = [(Ident ''p-1'', ?pool)]" "find_reservation f2 (res_id v) = Some v"
    "find_device f2 (Ident ''d2'') = Some ?d2"
    using wf e1 pools res by (simp_all add: f2_def epoch_def put_device_def) (simp_all add: put_device_def [symmetric] wf)
  have 3: "snd (add_pool_member (Ident ''p-1'') stale_member example_ctx f2) = recompute_global (put_pool (Ident ''p-1'') ?adv f2)"
    using f2 by (simp add: add_pool_member_def find_defs om_count_def has_member_def stale_member_def pool_reserve_def stored_pool_def)
  have gen: "pool_generation ?adv = Generation 2"
    by (simp add: advance_pool_def Let_def recompute_pool_def gen_next_def gen_empty_def gen_max_def pool_reserve_def stored_pool_def split: prod.splits)
  have "commit (res_id v) example_ctx (recompute_global (put_pool (Ident ''p-1'') ?adv f2)) =
      (refuse DecisionReason.POOL_GENERATION_STALE, recompute_global (put_pool (Ident ''p-1'') ?adv f2))"
    by (rule stale_commit [where p = ?adv]) (use f2 v gen in \<open>simp_all\<close>)
  then show ?thesis
    by (simp add: stale_generation_def 1 2 f2_def [symmetric] 3 Let_def)
qed

text \<open>The program that reads a persisted state back, and a damaged copy of it.\<close>

lemma flipped: "x XOR 0xFF \<noteq> (x :: u8)"
proof
  assume "x XOR 0xFF = x"
  moreover have "x XOR (x XOR 0xFF) = 0xFF" by (simp add: xor.assoc [symmetric])
  ultimately show False by simp
qed

lemma damaged_rejected: "\<not> checksummed (length p - 4) p \<Longrightarrow> \<exists>msg. deserialize_state p = Rejected msg"
  by (auto simp: deserialize_state_def checksummed_def Let_def)

lemma persistence_stored: "state_stored (export_persisted (one_device persistence_device ''fd'' LocalityClass.SAME_HOST))"
proof -
  have "has_pool persistence_device (stored_pool ''fd'' LocalityClass.SAME_HOST) (one_device persistence_device ''fd'' LocalityClass.SAME_HOST)"
    using one_device_stored [of persistence_device "''fd''"] by (simp add: persistence_device_def)
  moreover have "device_stored persistence_device"
    by (simp add: device_stored_def persistence_device_def example_device_def make_device_def Let_def wire_string_def economics_stored_def addcap_def
        caps_set_def cap_key_def capability_stored_def om_wf_def record_defs)
  moreover have "pool_stored (stored_pool ''fd'' LocalityClass.SAME_HOST)"
    by (simp add: pool_stored_def stored_pool_def example_pool_def make_pool_def wire_string_def stored_strings_def member_wired_def
        example_member_def record_defs)
  ultimately show ?thesis
    by (simp add: state_stored_def export_persisted_def has_pool_def om_wf_def persistence_device_def)
qed

lemma persistence_recovery_passes: "persistence_recovery = Some (passes [] ''persistence_recovery'')"
proof -
  let ?st = "export_persisted (one_device persistence_device ''fd'' LocalityClass.SAME_HOST)"
  obtain payload where p: "serialize_state ?st = Inr payload" "deserialize_state payload = Loaded (durable ?st) (length payload - 4)"
    using deserialize_serialized [OF persistence_stored] by blast
  have "has_pool persistence_device (stored_pool ''fd'' LocalityClass.SAME_HOST) (one_device persistence_device ''fd'' LocalityClass.SAME_HOST)"
    using one_device_stored [of persistence_device "''fd''"] by (simp add: persistence_device_def)
  then have n: "length (ps_pools (durable ?st)) = 1" "length (ps_devices (durable ?st)) = 1"
    by (simp_all add: durable_def export_persisted_def has_pool_def om_map_def)
  let ?i = "length payload div 2"
  note ck = deserialize_checksummed [OF p(2)]
  then have "?i < length payload" by (auto simp: checksummed_def)
  moreover have "payload ! ?i XOR 0xFF \<noteq> payload ! ?i" by (rule flipped)
  ultimately have "\<not> checksummed (length payload - 4) (payload[?i := payload ! ?i XOR 0xFF])"
    using checksummed_update [OF ck] by blast
  with damaged_rejected [of "payload[?i := payload ! ?i XOR 0xFF]"] obtain msg where
    "deserialize_state (payload[?i := payload ! ?i XOR 0xFF]) = Rejected msg" by auto
  with p n show ?thesis by (simp add: persistence_recovery_def Let_def)
qed

text \<open>The programs with two devices.\<close>

lemma selection_names: "Ident ''far'' < (Ident ''near'' :: DeviceId)" "Ident ''r-far'' < (Ident ''r-near'' :: RegionId)"
  "Ident ''d1'' < (Ident ''d2'' :: DeviceId)" "Ident ''r1'' < (Ident ''r2'' :: RegionId)"
  by (simp_all add: ident_less_iff less_char_def)

definition near_device :: CxlDevice where
  "near_device = example_device ''near'' ''b-near'' ''host-se'' (gib 8) LocalityClass.SAME_HOST 180 32000 1 ''fd-a''"

definition far_device :: CxlDevice where
  "far_device = example_device ''far'' ''b-far'' ''host-se'' (gib 64) LocalityClass.SWITCH_REMOTE 500 12000 4 ''fd-b''"

definition near_region :: CxlRegion where
  "near_region = example_region ''r-near'' ''near'' (gib 8) LocalityClass.SAME_HOST TierClass.CXL_NEAR"

definition far_region :: CxlRegion where
  "far_region = example_region ''r-far'' ''far'' (gib 64) LocalityClass.SWITCH_REMOTE TierClass.CXL_CAPACITY"

definition selection_pool :: CxlPool where
  "selection_pool = stored_pair (example_member ''near'' (gib 8) ''fd-a'' LocalityClass.SAME_HOST) (example_member ''far'' (gib 64) ''fd-b'' LocalityClass.SWITCH_REMOTE)"

lemmas selection_defs = near_device_def far_device_def near_region_def far_region_def selection_pool_def

lemma selection_maps:
  "st_devices (fab_state selection_fabric) = [(Ident ''far'', far_device), (Ident ''near'', near_device)]"
  "st_pools (fab_state selection_fabric) = [(Ident ''p-1'', selection_pool)]"
  "st_regions (fab_state selection_fabric) = [(Ident ''r-far'', far_region), (Ident ''r-near'', near_region)]"
proof -
  have "fresh_pair near_device far_device (example_member ''near'' (gib 8) ''fd-a'' LocalityClass.SAME_HOST)
      (example_member ''far'' (gib 64) ''fd-b'' LocalityClass.SWITCH_REMOTE) near_region far_region"
    by (simp add: fresh_pair_def selection_defs) (simp add: example_member_def gib_def)
  from two_devices_maps [OF this]
  show "st_devices (fab_state selection_fabric) = [(Ident ''far'', far_device), (Ident ''near'', near_device)]"
    "st_pools (fab_state selection_fabric) = [(Ident ''p-1'', selection_pool)]"
    "st_regions (fab_state selection_fabric) = [(Ident ''r-far'', far_region), (Ident ''r-near'', near_region)]"
    using selection_names(1,2) by (simp_all add: selection_fabric_def selection_defs order.strict_implies_not_eq)
qed

definition near_candidate :: Candidate where
  "near_candidate = region_candidate selection_pool near_region (Ident ''near'') near_device"

definition far_candidate :: Candidate where
  "far_candidate = region_candidate selection_pool far_region (Ident ''far'') far_device"

lemma selection_candidates: "snapshot_candidates (selection_snapshot selection_fabric) = [far_candidate, near_candidate]"
proof -
  have up: "reg_evidence_current near_region" "reg_evidence_current far_region" "reg_state near_region = RegionState.ONLINE" "reg_state far_region = RegionState.ONLINE"
    "dev_evidence_current near_device" "dev_evidence_current far_device" "dev_state near_device = DeviceState.ONLINE" "dev_state far_device = DeviceState.ONLINE"
    "pool_state selection_pool = PoolState.AVAILABLE" "pool_evidence_current selection_pool" "pool_id selection_pool = Ident ''p-1''"
    "reg_pool near_region = Ident ''p-1''" "reg_pool far_region = Ident ''p-1''" "reg_member_devices near_region = [Ident ''near'']"
    "reg_member_devices far_region = [Ident ''far'']" "dev_id near_device = Ident ''near''" "dev_id far_device = Ident ''far''"
    by (simp_all add: selection_defs) (simp_all add: example_region_def make_region_def stored_pair_def example_pool_def make_pool_def)
  then show ?thesis
    by (simp add: snapshot_candidates_def region_candidates_def device_candidates_def Let_def selection_maps near_candidate_def far_candidate_def)
qed

lemma selection_selected:
  "sr_selected (evaluated (example_request n) near_candidate) \<longleftrightarrow> unat n \<le> 8 * 2 ^ 30"
  "sr_selected (evaluated (example_request n) far_candidate) \<longleftrightarrow> unat n \<le> 64 * 2 ^ 30"
proof -
  have "in_service near_device near_region selection_pool True" "in_service far_device far_region selection_pool True"
    "request_fits (example_request n) near_device near_region selection_pool" "request_fits (example_request n) far_device far_region selection_pool"
    "unat (region_free near_region) = 8 * 2 ^ 30" "unat (region_free far_region) = 64 * 2 ^ 30" "pool_evidence_current selection_pool"
    "req_bytes (example_request n) = n" "dev_id near_device = Ident ''near''" "dev_id far_device = Ident ''far''"
    by (simp_all add: in_service_def request_fits_def acceptable_health_def example_request_def AdmissionRequest_default_def selection_defs
        example_device_def make_device_def Let_def example_region_def make_region_def stored_pair_def example_pool_def make_pool_def
        region_free_def CxlRegion_default_def gib_def)
  then show "sr_selected (evaluated (example_request n) near_candidate) \<longleftrightarrow> unat n \<le> 8 * 2 ^ 30"
    "sr_selected (evaluated (example_request n) far_candidate) \<longleftrightarrow> unat n \<le> 64 * 2 ^ 30"
    unfolding near_candidate_def far_candidate_def by (simp_all add: evaluated_region_candidate word_le_nat)
qed

lemma near_first: "candidate_less near_candidate far_candidate" "\<not> candidate_less far_candidate near_candidate"
  by (simp_all add: candidate_less_def record_economics_def near_candidate_def far_candidate_def region_candidate_def selection_defs
      example_device_def make_device_def Let_def)

lemma example_select:
  "so_ok (select (example_request n) selection_fabric) \<longleftrightarrow> unat n \<le> 64 * 2 ^ 30"
  "unat n \<le> 64 * 2 ^ 30 \<Longrightarrow> so_chosen (select (example_request n) selection_fabric) = (if unat n \<le> 8 * 2 ^ 30 then near_candidate else far_candidate)"
proof -
  have adm: "admissible (example_request n) (selection_snapshot selection_fabric) =
      filter (\<lambda>c. sr_selected (evaluated (example_request n) c)) [far_candidate, near_candidate]"
    by (simp only: admissible_def selection_candidates)
  show ok: "so_ok (select (example_request n) selection_fabric) \<longleftrightarrow> unat n \<le> 64 * 2 ^ 30"
    by (auto simp: select_def build_selection_ok adm selection_selected)
  assume "unat n \<le> 64 * 2 ^ 30"
  with ok build_selection_chosen [of "selection_snapshot selection_fabric" "example_request n"]
  show "so_chosen (select (example_request n) selection_fabric) = (if unat n \<le> 8 * 2 ^ 30 then near_candidate else far_candidate)"
    unfolding select_def adm by (simp add: selection_selected near_first)
qed

lemma pool_selection_passes: "pool_selection = passes (''selected r-near (locality SAME_HOST)'' @ nl) ''pool_selection''"
proof -
  have "unat (gib 4) = 4 * 2 ^ 30" "unat (gib 24) = 24 * 2 ^ 30" by (simp_all add: gib_def)
  then have "so_ok (select (example_request (gib 4)) selection_fabric)" "so_chosen (select (example_request (gib 4)) selection_fabric) = near_candidate"
    "so_ok (select (example_request (gib 24)) selection_fabric)" "so_chosen (select (example_request (gib 24)) selection_fabric) = far_candidate"
    by (simp_all add: example_select)
  moreover have "cand_region near_candidate = Ident ''r-near''" "cand_region far_candidate = Ident ''r-far''"
    "econ_locality (record_economics near_candidate) = LocalityClass.SAME_HOST"
    by (simp_all add: near_candidate_def far_candidate_def region_candidate_def selection_defs record_economics_def)
      (simp add: example_device_def make_device_def Let_def)
  ultimately show ?thesis by (simp add: pool_selection_def Let_def)
qed

definition device_a :: CxlDevice where
  "device_a = example_device ''d1'' ''b1'' ''host-fs'' (gib 16) LocalityClass.SAME_HOST 200 16000 1 ''fd-a''"

definition device_b :: CxlDevice where
  "device_b = example_device ''d2'' ''b2'' ''host-fs'' (gib 24) LocalityClass.SAME_CXL_ROOT 300 20000 2 ''fd-b''"

definition region_a :: CxlRegion where
  "region_a = example_region ''r1'' ''d1'' (gib 16) LocalityClass.SAME_HOST TierClass.CXL_NEAR"

definition region_b :: CxlRegion where
  "region_b = example_region ''r2'' ''d2'' (gib 24) LocalityClass.SAME_CXL_ROOT TierClass.CXL_CAPACITY"

definition failover_pool :: CxlPool where
  "failover_pool = stored_pair (example_member ''d1'' (gib 16) ''fd-a'' LocalityClass.SAME_HOST) (example_member ''d2'' (gib 24) ''fd-b'' LocalityClass.SAME_CXL_ROOT)"

lemmas failover_defs = device_a_def device_b_def region_a_def region_b_def failover_pool_def

lemma failover_maps:
  "st_devices (fab_state failover_fabric) = [(Ident ''d1'', device_a), (Ident ''d2'', device_b)]"
  "st_pools (fab_state failover_fabric) = [(Ident ''p-1'', failover_pool)]"
  "st_regions (fab_state failover_fabric) = [(Ident ''r1'', region_a), (Ident ''r2'', region_b)]" "epoch failover_fabric = Generation 1"
proof -
  have "fresh_pair device_a device_b (example_member ''d1'' (gib 16) ''fd-a'' LocalityClass.SAME_HOST)
      (example_member ''d2'' (gib 24) ''fd-b'' LocalityClass.SAME_CXL_ROOT) region_a region_b"
    by (simp add: fresh_pair_def failover_defs) (simp add: example_member_def gib_def)
  from two_devices_maps [OF this]
  show "st_devices (fab_state failover_fabric) = [(Ident ''d1'', device_a), (Ident ''d2'', device_b)]"
    "st_pools (fab_state failover_fabric) = [(Ident ''p-1'', failover_pool)]"
    "st_regions (fab_state failover_fabric) = [(Ident ''r1'', region_a), (Ident ''r2'', region_b)]" "epoch failover_fabric = Generation 1"
    using selection_names(3,4) by (simp_all add: failover_fabric_def failover_defs order.strict_implies_not_eq)
qed

lemma failover_fits:
  "in_service device_b region_b failover_pool True" "request_fits (example_request (2 ^ 30)) device_b region_b failover_pool"
  "req_bytes (example_request (2 ^ 30)) \<le> region_free region_b" "pool_evidence_current failover_pool" "dev_id device_b = Ident ''d2''"
  by (simp_all add: in_service_def request_fits_def acceptable_health_def example_request_def AdmissionRequest_default_def failover_defs
      example_device_def make_device_def Let_def example_region_def make_region_def stored_pair_def example_pool_def make_pool_def
      region_free_def CxlRegion_default_def gib_def)

lemma failover_domains:
  "st_pools (fab_state f) = [(Ident ''p-1'', failover_pool)] \<Longrightarrow> recorded_domain (fab_state f) (Ident ''d1'') = ''fd-a''"
  "st_pools (fab_state f) = [(Ident ''p-1'', failover_pool)] \<Longrightarrow> recorded_domain (fab_state f) (Ident ''d2'') = ''fd-b''"
  "econ_notes (dev_economics device_a) = ''fd-a''" "econ_notes (dev_economics device_b) = ''fd-b''"
  by (simp_all add: failed_domain_def) (simp_all add: failover_defs example_member_def example_device_def make_device_def Let_def)

lemma failover_selection_passes: "failover_selection = passes (''outcome=FAILOVER note=cross-domain replacement found'' @ nl) ''failover_selection''"
proof -
  let ?a = "device_a\<lparr>dev_state := DeviceState.REVALIDATION_REQUIRED, dev_evidence_current := False\<rparr>"
  define f where "f = put_device (Ident ''d1'') ?a failover_fabric"
  let ?c = "region_candidate failover_pool region_b (Ident ''d2'') device_b"
  have marked: "snd (mark_device_revalidation (Ident ''d1'') example_ctx failover_fabric) = f"
    by (simp add: mark_device_revalidation_def failover_maps find_defs f_def) (simp add: device_a_def valid_transition_device_def)
  have f: "st_devices (fab_state f) = [(Ident ''d1'', ?a), (Ident ''d2'', device_b)]" "st_pools (fab_state f) = [(Ident ''p-1'', failover_pool)]"
    "st_regions (fab_state f) = [(Ident ''r1'', region_a), (Ident ''r2'', region_b)]"
    using failover_maps by (simp_all add: f_def put_device_def)
  note fits = failover_fits
  from fits have sel: "sr_selected (evaluated (example_request (2 ^ 30)) ?c)"
    by (simp add: evaluated_region_candidate)
  have ids: "reg_pool region_a = Ident ''p-1''" "reg_pool region_b = Ident ''p-1''" "reg_member_devices region_a = [Ident ''d1'']"
    "reg_member_devices region_b = [Ident ''d2'']" "pool_id failover_pool = Ident ''p-1''" "dev_id device_b = Ident ''d2''"
    by (simp_all add: failover_defs)
  have cands: "failover_candidates (fab_state f) (Ident ''p-1'') (Ident ''d1'') = [?c]"
    using fits ids by (simp add: failover_candidates_def failover_devices_def f in_service_def)
  have "failed_domain (fab_state f) (Ident ''d1'') = ''fd-a''" "\<not> same_domain ''fd-a'' ?c"
    using failover_domains(1) [OF f(2)] failover_domains(4) by (simp_all add: same_domain_def record_economics_def region_candidate_def)
  then have "plan_failover (Ident ''p-1'') (Ident ''d1'') (example_request (2 ^ 30)) example_ctx f =
      \<lparr>fp_outcome = FailoverOutcome.FAILOVER, fp_replacement = Some ?c, fp_note = ''cross-domain replacement found''\<rparr>"
    using sel by (simp add: plan_failover_def cands Let_def)
  then show ?thesis by (simp add: failover_selection_def marked Let_def)
qed


text \<open>The program with the baseline devices.\<close>

definition scp_devices :: Fabric where
  "scp_devices = fold (\<lambda>d f. snd (register_device d example_ctx f)) (baseline_devices (Ident ''host-scp'')) example_fabric"

lemma scp_devices_facts:
  "st_pools (fab_state scp_devices) = []" "epoch scp_devices = Generation 1"
  "map fst (st_devices (fab_state scp_devices)) = [Ident ''dev-1'', Ident ''dev-2'', Ident ''dev-3'']"
  using id_order
  by (simp_all add: scp_devices_def baseline_devices_def register_device_def find_defs put_device_def epoch_def example_ctx_def example_fabric_def
      Fabric_new_def Fabric_default_def StateSnapshot_default_def)

definition scp_stored :: CxlPool where
  "scp_stored = scp_pool\<lparr>pool_total_governed_bytes := 94489280512, pool_failure_domains := [''fd-a'', ''fd-b'']\<rparr>"

lemma recompute_scp_pool: "(recompute_pool scp_pool)\<lparr>pool_state := PoolState.AVAILABLE, pool_evidence_current := True\<rparr> = scp_stored"
  by (simp add: recompute_pool_def add_member_def add_checked_def scp_stored_def scp_pool_def example_pool_def make_pool_def example_member_def gib_def
      CxlPool_default_def)

lemma scp_created: "snd (create_pool scp_pool example_ctx scp_devices) = recompute_global (put_pool (Ident ''p-1'') scp_stored scp_devices)"
proof -
  have "om_count (st_devices (fab_state scp_devices)) i \<longleftrightarrow> i \<in> {Ident ''dev-1'', Ident ''dev-2'', Ident ''dev-3''}" for i
    using arg_cong [OF scp_devices_facts(3), of set] by (auto simp: om_count_def om_find_None_iff)
  then have "check_pool_members scp_devices [] (pool_members scp_pool) = None"
    by (simp add: scp_pool_def scp_devices_facts example_member_def)
  moreover have "pool_id scp_pool = Ident ''p-1''" "pool_generation scp_pool = Generation 1" "pool_id scp_stored = Ident ''p-1''"
    by (simp_all add: scp_stored_def scp_pool_def)
  ultimately show ?thesis
    using recompute_scp_pool scp_devices_facts by (simp add: create_pool_def om_count_def Let_def)
qed

lemma synthetic_cxl_pool_passes:
  "synthetic_cxl_pool = Some (passes (''pool_total=94489280512 expected=94489280512'' @ nl) ''synthetic_cxl_pool'')"
proof -
  let ?f = "snd (create_pool scp_pool example_ctx scp_devices)"
  have pools: "st_pools (fab_state ?f) = [(Ident ''p-1'', scp_stored)]"
    by (simp add: scp_created put_pool_def scp_devices_facts)
  then have "audit_ok (audit ?f)"
    by (simp add: audit_def Let_def audit_pool_line_def audit_pool_errors_def keep_checked_def add_checked_def cl_audit_def cl_free_def cl_used_def
        CapacityLine_default_def scp_stored_def scp_pool_def example_pool_def make_pool_def CxlPool_default_def pool_used_def)
  with pools show ?thesis
    by (simp add: synthetic_cxl_pool_def scp_devices_def [symmetric] snapshot_def Let_def)
      (simp add: scp_stored_def to_string_u64_def digits)
qed

section \<open>All programs\<close>

text \<open>
  Every example program passes: it prints PASS with its name and exits with 0, after the lines that report the free bytes,
  the chosen region, the failover and the audit. In particular a reservation that is reserved, committed and released
  leaves all 16 GiB free and a clean audit, a commit is refused as stale after the pool has got another member, a
  placement never goes below the asked locality, the nearest region wins unless it is too small, a failed device is
  replaced across failure domains, a state survives a round trip and is refused when one byte is flipped, and
  discovery on the host claims no CXL memory.
\<close>

theorem examples_pass:
  "(\<exists>out. basic_discovery api = (''system backend: cxl_memory_supported=false host='' @ out @ ''PASS: basic_discovery'' @ nl, 0)) \<and>
   capacity_accounting = (''free=1095216660480 reserved=2147483648 committed=2147483648'' @ nl @ ''PASS: capacity_accounting'' @ nl, 0) \<and>
   failover_selection = (''outcome=FAILOVER note=cross-domain replacement found'' @ nl @ ''PASS: failover_selection'' @ nl, 0) \<and>
   locality_policy = (''PASS: locality_policy'' @ nl, 0) \<and>
   persistence_recovery = Some (''PASS: persistence_recovery'' @ nl, 0) \<and>
   pool_selection = (''selected r-near (locality SAME_HOST)'' @ nl @ ''PASS: pool_selection'' @ nl, 0) \<and>
   reservation_lifecycle = (''audit_ok=true free=17179869184'' @ nl @ ''PASS: reservation_lifecycle'' @ nl, 0) \<and>
   stale_generation = (''PASS: stale_generation'' @ nl, 0) \<and>
   synthetic_cxl_pool = Some (''pool_total=94489280512 expected=94489280512'' @ nl @ ''PASS: synthetic_cxl_pool'' @ nl, 0)"
  using basic_discovery_passes [of api]
  by (simp add: passes_def capacity_accounting_passes failover_selection_passes locality_policy_passes persistence_recovery_passes
      pool_selection_passes reservation_lifecycle_passes stale_generation_passes synthetic_cxl_pool_passes)

end
