(* ===== verification/Sockets.thy ===== *)
theory Sockets
  imports Prelude
begin

text \<open>
  How \<^verbatim>\<open>include/cxl_fabric/control/net.hpp\<close> opens and closes sockets, on its POSIX branch. The system calls are a record of
  functions over the state of the operating system; a socket is a descriptor, -1 standing for none. The locale
  \<open>descriptors\<close> states what the calls do to the set of open descriptors, and the results say that none is leaked.
\<close>

record 'k net_os =
  os_socket :: "'k \<Rightarrow> int \<times> 'k"
  os_reuseaddr :: "int \<Rightarrow> 'k \<Rightarrow> 'k"
  os_bind :: "int \<Rightarrow> u32 \<Rightarrow> u16 \<Rightarrow> 'k \<Rightarrow> int \<times> 'k"
  os_listen :: "int \<Rightarrow> nat \<Rightarrow> 'k \<Rightarrow> int \<times> 'k"
  os_accept :: "int \<Rightarrow> 'k \<Rightarrow> int \<times> 'k"
  os_connect :: "int \<Rightarrow> u32 \<Rightarrow> u16 \<Rightarrow> 'k \<Rightarrow> int \<times> 'k"
  os_close :: "int \<Rightarrow> 'k \<Rightarrow> 'k"
  os_inet_pton :: "string \<Rightarrow> u32 option"

definition INADDR_LOOPBACK :: u32 where
  "INADDR_LOOPBACK = 0x7F000001"

definition Socket_none :: int where
  "Socket_none = -1"

definition Socket_valid :: "int \<Rightarrow> bool" where
  "Socket_valid s \<longleftrightarrow> s \<ge> 0"

definition Socket_close :: "'k net_os \<Rightarrow> int \<Rightarrow> 'k \<Rightarrow> int \<times> 'k" where
  "Socket_close sys s k = (if Socket_valid s then (-1, os_close sys s k) else (s, k))"

text \<open>The result, what the output argument holds afterwards, and the state; the address is given in host byte order.\<close>

definition listen_on :: "'k net_os \<Rightarrow> u16 \<Rightarrow> int \<Rightarrow> 'k \<Rightarrow> bool \<times> int \<times> 'k" where
  "listen_on sys port out k =
     (let (ls, k) = os_socket sys k in
      if ls < 0 then (False, out, k)
      else
        let k = os_reuseaddr sys ls k;
            (b, k) = os_bind sys ls INADDR_LOOPBACK port k in
        if b < 0 then (False, out, os_close sys ls k)
        else
          let (l, k) = os_listen sys ls 16 k in
          if l < 0 then (False, out, os_close sys ls k) else (True, ls, k))"

definition accept_socket :: "'k net_os \<Rightarrow> int \<Rightarrow> int \<Rightarrow> 'k \<Rightarrow> bool \<times> int \<times> 'k" where
  "accept_socket sys listener out k =
     (let (a, k) = os_accept sys listener k in if a < 0 then (False, out, k) else (True, a, k))"

text \<open>The result of \<^verbatim>\<open>inet_pton\<close> is not looked at: a host that is no dotted address leaves the address zero.\<close>

definition connect_to :: "'k net_os \<Rightarrow> string \<Rightarrow> u16 \<Rightarrow> int \<Rightarrow> 'k \<Rightarrow> bool \<times> int \<times> 'k" where
  "connect_to sys host port out k =
     (let (s, k) = os_socket sys k in
      if s < 0 then (False, out, k)
      else
        let addr = (case os_inet_pton sys host of None \<Rightarrow> 0 | Some a \<Rightarrow> a);
            (c, k) = os_connect sys s addr port k in
        if c < 0 then (False, out, os_close sys s k) else (True, s, k))"

section \<open>Descriptors are not leaked\<close>

locale descriptors =
  fixes sys :: "'k net_os" and opened :: "'k \<Rightarrow> int set"
  assumes socket: "os_socket sys k = (s, k') \<Longrightarrow> if s < 0 then opened k' = opened k else s \<notin> opened k \<and> opened k' = insert s (opened k)"
    and accept: "os_accept sys l k = (s, k') \<Longrightarrow> if s < 0 then opened k' = opened k else s \<notin> opened k \<and> opened k' = insert s (opened k)"
    and reuseaddr: "opened (os_reuseaddr sys s k) = opened k"
    and bind: "os_bind sys s a p k = (r, k') \<Longrightarrow> opened k' = opened k"
    and listen: "os_listen sys s n k = (r, k') \<Longrightarrow> opened k' = opened k"
    and connect: "os_connect sys s a p k = (r, k') \<Longrightarrow> opened k' = opened k"
    and close: "opened (os_close sys s k) = opened k - {s}"
begin

lemma listen_on_opens:
  "listen_on sys port out k = (ok, s, k') \<Longrightarrow>
     if ok then s \<ge> 0 \<and> s \<notin> opened k \<and> opened k' = insert s (opened k) else s = out \<and> opened k' = opened k"
  using socket [of k] by (auto simp: listen_on_def Let_def close reuseaddr dest!: bind listen split: prod.splits if_splits)

lemma accept_socket_opens:
  "accept_socket sys l out k = (ok, s, k') \<Longrightarrow>
     if ok then s \<ge> 0 \<and> s \<notin> opened k \<and> opened k' = insert s (opened k) else s = out \<and> opened k' = opened k"
  using accept [of l k] by (auto simp: accept_socket_def Let_def split: prod.splits if_splits)

lemma connect_to_opens:
  "connect_to sys host port out k = (ok, s, k') \<Longrightarrow>
     if ok then s \<ge> 0 \<and> s \<notin> opened k \<and> opened k' = insert s (opened k) else s = out \<and> opened k' = opened k"
  using socket [of k] by (auto simp: connect_to_def Let_def close dest!: connect split: prod.splits if_splits)

text \<open>A socket that has been opened and closed leaves the descriptors as they were, and closing it again does nothing.\<close>

lemma connect_close:
  assumes "connect_to sys host port out k = (True, s, k1)" and "Socket_close sys s k1 = (s2, k2)"
  shows "opened k2 = opened k \<and> Socket_close sys s2 k2 = (s2, k2)"
  using connect_to_opens [OF assms(1)] assms(2) by (auto simp: Socket_close_def Socket_valid_def close split: if_splits)

end

text \<open>An operating system that hands out the smallest free descriptor and never refuses.\<close>

type_synonym fd_table = "int list"

definition fresh_fd :: "fd_table \<Rightarrow> int" where
  "fresh_fd ds = fold max ds (-1) + 1"

definition simple_os :: "fd_table net_os" where
  "simple_os = \<lparr>os_socket = (\<lambda>ds. (fresh_fd ds, fresh_fd ds # ds)), os_reuseaddr = (\<lambda>s ds. ds), os_bind = (\<lambda>s a p ds. (0, ds)),
     os_listen = (\<lambda>s n ds. (0, ds)), os_accept = (\<lambda>l ds. (fresh_fd ds, fresh_fd ds # ds)), os_connect = (\<lambda>s a p ds. (0, ds)),
     os_close = (\<lambda>s ds. removeAll s ds), os_inet_pton = (\<lambda>h. Some INADDR_LOOPBACK)\<rparr>"

lemma fold_max_bound: "d \<le> fold max ds (a :: int) \<longleftrightarrow> (d \<le> a \<or> (\<exists>x \<in> set ds. d \<le> x))"
  by (induction ds arbitrary: a) auto

lemma fresh_fd: "fresh_fd ds \<ge> 0" "fresh_fd ds \<notin> set ds"
proof -
  show "fresh_fd ds \<ge> 0" using fold_max_bound [of "-1" ds "-1"] by (simp add: fresh_fd_def)
  have "d < fresh_fd ds" if "d \<in> set ds" for d
    using fold_max_bound [of d ds "-1"] that by (auto simp: fresh_fd_def)
  then show "fresh_fd ds \<notin> set ds" by blast
qed

interpretation simple: descriptors simple_os set
proof
  have "\<not> fresh_fd k < 0" for k using fresh_fd(1) [of k] by simp
  then show "os_socket simple_os k = (s, k') \<Longrightarrow> if s < 0 then set k' = set k else s \<notin> set k \<and> set k' = insert s (set k)"
    "os_accept simple_os l k = (s, k') \<Longrightarrow> if s < 0 then set k' = set k else s \<notin> set k \<and> set k' = insert s (set k)" for k s k' l
    using fresh_fd(2) by (auto simp: simple_os_def)
qed (simp_all add: simple_os_def)

end
