(* ===== verification/Winsock.thy ===== *)
theory Winsock
  imports Sockets Net Persistence
begin

text \<open>
  The Windows branches of \<^verbatim>\<open>include/cxl_fabric/control/net.hpp\<close> and of \<^verbatim>\<open>write_persisted\<close>. A socket is an unsigned 64-bit handle
  with one value for none, errors are one value instead of every negative one, and the library is started on first use.
  \<open>posix_of\<close> reads a Windows system as a POSIX one; on it the POSIX branch does what the Windows branch does, so
  that what \<open>Sockets\<close> and \<open>Persistence\<close> show holds on both.
\<close>

record 'k wsa_os =
  wsa_startup :: "u16 \<Rightarrow> 'k \<Rightarrow> int \<times> 'k"
  wsa_cleanup :: "'k \<Rightarrow> 'k"
  wsa_socket :: "'k \<Rightarrow> u64 \<times> 'k"
  wsa_reuseaddr :: "u64 \<Rightarrow> 'k \<Rightarrow> 'k"
  wsa_bind :: "u64 \<Rightarrow> u32 \<Rightarrow> u16 \<Rightarrow> 'k \<Rightarrow> int \<times> 'k"
  wsa_listen :: "u64 \<Rightarrow> nat \<Rightarrow> 'k \<Rightarrow> int \<times> 'k"
  wsa_accept :: "u64 \<Rightarrow> 'k \<Rightarrow> u64 \<times> 'k"
  wsa_connect :: "u64 \<Rightarrow> u32 \<Rightarrow> u16 \<Rightarrow> 'k \<Rightarrow> int \<times> 'k"
  wsa_closesocket :: "u64 \<Rightarrow> 'k \<Rightarrow> 'k"
  wsa_inet_pton :: "string \<Rightarrow> u32 option"

text \<open>The two values of the Windows headers, and the state of the process: whether the library was started, and the system.\<close>

definition INVALID_SOCKET :: u64 where
  "INVALID_SOCKET = - 1"

definition SOCKET_ERROR :: int where
  "SOCKET_ERROR = - 1"

type_synonym 'k process = "bool \<times> 'k"

definition wsa_valid :: "u64 \<Rightarrow> bool" where
  "wsa_valid s \<longleftrightarrow> s \<noteq> INVALID_SOCKET"

definition wsa_close :: "'k wsa_os \<Rightarrow> u64 \<Rightarrow> 'k \<Rightarrow> u64 \<times> 'k" where
  "wsa_close sys s k = (if wsa_valid s then (INVALID_SOCKET, wsa_closesocket sys s k) else (s, k))"

text \<open>The result of \<^verbatim>\<open>WSAStartup\<close> is not looked at, and the flag is set either way.\<close>

definition wsa_init :: "'k wsa_os \<Rightarrow> 'k process \<Rightarrow> bool \<times> 'k process" where
  "wsa_init sys = (\<lambda>(once, k). (True, if once then (once, k) else (True, snd (wsa_startup sys 0x0202 k))))"

definition wsa_fini :: "'k wsa_os \<Rightarrow> 'k process \<Rightarrow> 'k process" where
  "wsa_fini sys = (\<lambda>(once, k). (once, wsa_cleanup sys k))"

definition wsa_listen_on :: "'k wsa_os \<Rightarrow> u16 \<Rightarrow> u64 \<Rightarrow> 'k process \<Rightarrow> bool \<times> u64 \<times> 'k process" where
  "wsa_listen_on sys port out p =
     (let (_, once, k) = wsa_init sys p;
          (ls, k) = wsa_socket sys k in
      if ls = INVALID_SOCKET then (False, out, once, k)
      else
        let k = wsa_reuseaddr sys ls k;
            (b, k) = wsa_bind sys ls INADDR_LOOPBACK port k in
        if b = SOCKET_ERROR then (False, out, once, wsa_closesocket sys ls k)
        else
          let (l, k) = wsa_listen sys ls 16 k in
          if l = SOCKET_ERROR then (False, out, once, wsa_closesocket sys ls k) else (True, ls, once, k))"

definition wsa_accept_socket :: "'k wsa_os \<Rightarrow> u64 \<Rightarrow> u64 \<Rightarrow> 'k process \<Rightarrow> bool \<times> u64 \<times> 'k process" where
  "wsa_accept_socket sys listener out p =
     (let (once, k) = p;
          (a, k) = wsa_accept sys listener k in
      if a = INVALID_SOCKET then (False, out, once, k) else (True, a, once, k))"

definition wsa_connect_to :: "'k wsa_os \<Rightarrow> string \<Rightarrow> u16 \<Rightarrow> u64 \<Rightarrow> 'k process \<Rightarrow> bool \<times> u64 \<times> 'k process" where
  "wsa_connect_to sys host port out p =
     (let (_, once, k) = wsa_init sys p;
          (s, k) = wsa_socket sys k in
      if s = INVALID_SOCKET then (False, out, once, k)
      else
        let addr = (case wsa_inet_pton sys host of None \<Rightarrow> 0 | Some a \<Rightarrow> a);
            (c, k) = wsa_connect sys s addr port k in
        if c = SOCKET_ERROR then (False, out, once, wsa_closesocket sys s k) else (True, s, once, k))"

text \<open>
  The transfer loops pass the number of missing bytes as a 32-bit signed integer. A call gets the buffer and that count.
\<close>

definition wsa_count :: "nat \<Rightarrow> int" where
  "wsa_count n = sint (of_nat n :: u32)"

definition wsa_send_all :: "('s \<Rightarrow> bytes \<Rightarrow> int \<Rightarrow> nat \<times> 's) \<Rightarrow> 's \<Rightarrow> bytes \<Rightarrow> bool \<times> 's" where
  "wsa_send_all xmit = send_all (\<lambda>s data. xmit s data (wsa_count (length data)))"

definition wsa_recv_exact :: "('s \<Rightarrow> int \<Rightarrow> bytes \<times> 's) \<Rightarrow> 's \<Rightarrow> nat \<Rightarrow> bytes option \<times> 's" where
  "wsa_recv_exact rcv = recv_exact (\<lambda>s n. rcv s (wsa_count n))"

text \<open>A rename that fails is reported instead of thrown.\<close>

definition wsa_write_program :: "file_faults \<Rightarrow> string \<Rightarrow> bytes \<Rightarrow> write_result \<times> file_op list" where
  "wsa_write_program flt path payload =
     (if length payload > kMaxPersistPayload then (Write_failed ''payload too large'', [])
      else if open_fails flt then (Write_failed ''cannot open temp'', [])
      else case flush_fails_at flt of
          Some n \<Rightarrow> (Write_failed ''flush failed'', [Create_file (tmp_path path), Append_file (tmp_path path) (take n (envelope payload))])
        | None \<Rightarrow>
            let written = [Create_file (tmp_path path), Append_file (tmp_path path) (envelope payload)] in
            if rename_fails flt then (Write_failed ''rename failed'', written)
            else (Written, written @ [Rename_file (tmp_path path) path]))"

definition wsa_write_persisted :: "file_faults \<Rightarrow> string \<Rightarrow> bytes \<Rightarrow> files \<Rightarrow> write_result \<times> files" where
  "wsa_write_persisted flt path payload fs = map_prod id (\<lambda>ops. last (ops_states ops fs)) (wsa_write_program flt path payload)"

section \<open>The library is started once\<close>

lemma wsa_init_again: "wsa_init sys (snd (wsa_init sys p)) = (True, snd (wsa_init sys p))"
  by (simp add: wsa_init_def split: prod.splits)

text \<open>After \<^verbatim>\<open>fini\<close> nothing starts the library again: the flag stays set.\<close>

lemma wsa_fini_is_final: "wsa_init sys (wsa_fini sys (snd (wsa_init sys p))) = (True, wsa_fini sys (snd (wsa_init sys p)))"
  by (simp add: wsa_init_def wsa_fini_def split: prod.splits)

section \<open>The Windows branch as the POSIX branch\<close>

text \<open>A handle as a descriptor. The value that stands for none becomes -1, every other handle keeps its number.\<close>

definition fd_of :: "u64 \<Rightarrow> int" where
  "fd_of s = (if s = INVALID_SOCKET then - 1 else uint s)"

definition status_of :: "int \<Rightarrow> int" where
  "status_of r = (if r = SOCKET_ERROR then - 1 else 0)"

definition posix_of :: "'k wsa_os \<Rightarrow> 'k net_os" where
  "posix_of sys =
     \<lparr>os_socket = (\<lambda>k. map_prod fd_of id (wsa_socket sys k)),
      os_reuseaddr = (\<lambda>s. wsa_reuseaddr sys (of_int s)),
      os_bind = (\<lambda>s a p k. map_prod status_of id (wsa_bind sys (of_int s) a p k)),
      os_listen = (\<lambda>s n k. map_prod status_of id (wsa_listen sys (of_int s) n k)),
      os_accept = (\<lambda>s k. map_prod fd_of id (wsa_accept sys (of_int s) k)),
      os_connect = (\<lambda>s a p k. map_prod status_of id (wsa_connect sys (of_int s) a p k)),
      os_close = (\<lambda>s k. if fd_of (of_int s) = s then wsa_closesocket sys (of_int s) k else k),
      os_inet_pton = wsa_inet_pton sys\<rparr>"

definition posix_result :: "bool \<times> u64 \<times> 'k process \<Rightarrow> bool \<times> int \<times> 'k" where
  "posix_result = (\<lambda>(ok, s, once, k). (ok, fd_of s, k))"

lemma of_fd [simp]: "of_int (fd_of s) = s"
  by (simp add: fd_of_def INVALID_SOCKET_def)

lemma fd_of_neg [simp]: "fd_of s < 0 \<longleftrightarrow> s = INVALID_SOCKET"
  by (simp add: fd_of_def not_less)

lemma fd_of_inject [simp]: "fd_of s = fd_of t \<longleftrightarrow> s = t"
  by (metis of_fd)

lemma status_of_neg [simp]: "status_of r < 0 \<longleftrightarrow> r = SOCKET_ERROR"
  by (simp add: status_of_def)

lemma posix_valid: "Socket_valid (fd_of s) \<longleftrightarrow> wsa_valid s"
  using fd_of_neg [of s] by (simp add: Socket_valid_def wsa_valid_def not_less [symmetric])

lemma posix_close: "Socket_close (posix_of sys) (fd_of s) k = map_prod fd_of id (wsa_close sys s k)"
  by (simp add: Socket_close_def posix_valid wsa_close_def posix_of_def fd_of_def [of INVALID_SOCKET])

theorem posix_listen_on:
  "posix_result (wsa_listen_on sys port out p) = listen_on (posix_of sys) port (fd_of out) (snd (snd (wsa_init sys p)))"
  by (simp add: wsa_listen_on_def listen_on_def posix_result_def posix_of_def Let_def case_prod_beta)

theorem posix_accept_socket:
  "posix_result (wsa_accept_socket sys l out p) = accept_socket (posix_of sys) (fd_of l) (fd_of out) (snd p)"
  by (cases "wsa_accept sys l (snd p)") (simp add: wsa_accept_socket_def accept_socket_def posix_result_def posix_of_def case_prod_beta)

theorem posix_connect_to:
  "posix_result (wsa_connect_to sys host port out p) = connect_to (posix_of sys) host port (fd_of out) (snd (snd (wsa_init sys p)))"
  by (simp add: wsa_connect_to_def connect_to_def posix_result_def posix_of_def Let_def case_prod_beta)

text \<open>The two ways to write a file differ only in how they report a failed rename.\<close>

theorem posix_write_persisted:
  "wsa_write_persisted flt path payload fs =
     map_prod (\<lambda>r. if r = Rename_throws then Write_failed ''rename failed'' else r) id (write_persisted flt path payload fs)"
  by (simp add: wsa_write_persisted_def wsa_write_program_def write_persisted_def write_program_def Let_def split: option.split)

corollary wsa_write_read: "wsa_write_persisted flt path payload fs = (Written, fs') \<Longrightarrow> read_persisted path fs' = Inr payload"
  by (auto simp: posix_write_persisted map_prod_def split: prod.splits if_splits intro: write_read)

section \<open>The counts of the transfer loops\<close>

text \<open>
  Below 2 GiB the count is the length and the loops are those of \<open>Net\<close>; an encoded frame stays far below. At 2 GiB the count
  is negative, and every call fails.
\<close>

lemma wsa_count_exact: "n < 2 ^ 31 \<Longrightarrow> wsa_count n = int n"
  by (simp add: wsa_count_def sint_uint signed_take_bit_int_eq_self unsigned_of_nat take_bit_nat_eq_self)

lemma wsa_count_negative:
  assumes "2 ^ 31 \<le> n" and "n < 2 ^ 32"
  shows "wsa_count n = int n - 2 ^ 32"
proof -
  have "(int n + 2 ^ 31) mod 2 ^ 32 = int n - 2 ^ 31"
    using assms mod_add_self2 [of "int n - 2 ^ 31" "2 ^ 32"] by (simp add: ac_simps)
  with assms show ?thesis
    by (simp add: wsa_count_def sint_uint unsigned_of_nat take_bit_nat_eq_self signed_take_bit_eq_take_bit_shift take_bit_eq_mod)
qed

lemma recv_exact_cong: "(\<And>s n. n \<le> len \<Longrightarrow> rcv s n = rcv' s n) \<Longrightarrow> recv_exact rcv s len = recv_exact rcv' s len"
  by (induction rcv s len rule: recv_exact.induct)
    (subst (1 2) recv_exact.simps, auto split: prod.splits)

lemma send_all_cong:
  "(\<And>s xs. length xs \<le> length data \<Longrightarrow> xmit s xs = xmit' s xs) \<Longrightarrow> send_all xmit s data = send_all xmit' s data"
  by (induction xmit s data rule: send_all.induct)
    (subst (1 2) send_all.simps, auto split: prod.splits)

lemma wsa_recv_exact_eq:
  "len < 2 ^ 31 \<Longrightarrow> wsa_recv_exact rcv s len = recv_exact (\<lambda>s n. rcv s (int n)) s len"
  unfolding wsa_recv_exact_def by (rule recv_exact_cong) (simp add: wsa_count_exact)

lemma wsa_send_all_eq:
  "length data < 2 ^ 31 \<Longrightarrow> wsa_send_all xmit s data = send_all (\<lambda>s xs. xmit s xs (int (length xs))) s data"
  unfolding wsa_send_all_def by (rule send_all_cong) (simp add: wsa_count_exact)

corollary wsa_send_frame:
  "length (frame_payload f) \<le> kMaxPayloadBytes \<Longrightarrow>
     wsa_send_all xmit s (encode_frame f kProtocolVersion) = send_frame (\<lambda>s xs. xmit s xs (int (length xs))) s f"
  by (simp add: send_frame_def wsa_send_all_eq encode_frame_length kFrameHeaderSize_def kMaxPayloadBytes_def)

section \<open>Handles are not leaked\<close>

text \<open>What the Windows calls do to the set of open handles; read as descriptors it is the POSIX contract.\<close>

locale handles =
  fixes sys :: "'k wsa_os" and live :: "'k \<Rightarrow> u64 set"
  assumes live_valid: "INVALID_SOCKET \<notin> live k"
    and socket: "wsa_socket sys k = (s, k') \<Longrightarrow> if s = INVALID_SOCKET then live k' = live k else s \<notin> live k \<and> live k' = insert s (live k)"
    and accept: "wsa_accept sys l k = (s, k') \<Longrightarrow> if s = INVALID_SOCKET then live k' = live k else s \<notin> live k \<and> live k' = insert s (live k)"
    and startup: "wsa_startup sys v k = (r, k') \<Longrightarrow> live k' = live k"
    and reuseaddr: "live (wsa_reuseaddr sys s k) = live k"
    and bind: "wsa_bind sys s a p k = (r, k') \<Longrightarrow> live k' = live k"
    and listen: "wsa_listen sys s n k = (r, k') \<Longrightarrow> live k' = live k"
    and connect: "wsa_connect sys s a p k = (r, k') \<Longrightarrow> live k' = live k"
    and close: "live (wsa_closesocket sys s k) = live k - {s}"
begin

lemma init_keeps: "live (snd (snd (wsa_init sys p))) = live (snd p)"
  using startup [OF prod.collapse [symmetric]] by (simp add: wsa_init_def case_prod_beta)

lemma close_descriptor: "fd_of ` live (os_close (posix_of sys) s k) = fd_of ` live k - {s}"
proof (cases "fd_of (of_int s) = s")
  case True
  then have "fd_of ` (live k - {of_int s}) = fd_of ` live k - {s}" by force
  with True show ?thesis by (simp add: posix_of_def close)
next
  case False
  then have "s \<notin> fd_of ` live k" by auto
  with False show ?thesis by (simp add: posix_of_def)
qed

end

sublocale handles \<subseteq> posix: descriptors "posix_of sys" "\<lambda>k. fd_of ` live k"
proof
  fix k s k' l
  show "os_socket (posix_of sys) k = (s, k') \<Longrightarrow>
      if s < 0 then fd_of ` live k' = fd_of ` live k else s \<notin> fd_of ` live k \<and> fd_of ` live k' = insert s (fd_of ` live k)"
    using socket [of k] by (auto simp: posix_of_def map_prod_def split: prod.splits if_splits)
  show "os_accept (posix_of sys) l k = (s, k') \<Longrightarrow>
      if s < 0 then fd_of ` live k' = fd_of ` live k else s \<notin> fd_of ` live k \<and> fd_of ` live k' = insert s (fd_of ` live k)"
    using accept [of "of_int l" k] by (auto simp: posix_of_def map_prod_def split: prod.splits if_splits)
  show "fd_of ` live (os_close (posix_of sys) s k) = fd_of ` live k - {s}" by (rule close_descriptor)
qed (auto simp: reuseaddr posix_of_def map_prod_def split: prod.splits dest: bind listen connect)

context handles
begin

text \<open>What \<open>descriptors\<close> says of a result, for the handle it stands for.\<close>

lemma handle_opens:
  assumes "\<And>ok s k'. posix_result r = (ok, s, k') \<Longrightarrow>
     if ok then s \<ge> 0 \<and> s \<notin> fd_of ` live k \<and> fd_of ` live k' = insert s (fd_of ` live k)
     else s = fd_of out \<and> fd_of ` live k' = fd_of ` live k" and "r = (ok, s, p')"
  shows "if ok then wsa_valid s \<and> s \<notin> live k \<and> live (snd p') = insert s (live k) else s = out \<and> live (snd p') = live k"
proof -
  have inj: "fd_of ` A = fd_of ` B \<longleftrightarrow> A = B" for A B by (rule inj_image_eq_iff) (simp add: inj_def)
  have "posix_result r = (ok, fd_of s, snd p')" using assms(2) by (simp add: posix_result_def split: prod.splits)
  from assms(1) [OF this] show ?thesis
    using posix_valid [of s] inj [of "live (snd p')" "live k"] inj [of "live (snd p')" "insert s (live k)"]
    by (simp add: Socket_valid_def image_iff split: if_splits)
qed

text \<open>A successful call opens one handle that was not open, a failing one opens none and leaves its output argument alone.\<close>

lemma wsa_listen_on_opens:
  "wsa_listen_on sys port out p = (ok, s, p') \<Longrightarrow>
     if ok then wsa_valid s \<and> s \<notin> live (snd p) \<and> live (snd p') = insert s (live (snd p)) else s = out \<and> live (snd p') = live (snd p)"
  using handle_opens [of "wsa_listen_on sys port out p" "snd (snd (wsa_init sys p))" out, unfolded posix_listen_on, OF posix.listen_on_opens] unfolding init_keeps .

lemma wsa_accept_socket_opens:
  "wsa_accept_socket sys l out p = (ok, s, p') \<Longrightarrow>
     if ok then wsa_valid s \<and> s \<notin> live (snd p) \<and> live (snd p') = insert s (live (snd p)) else s = out \<and> live (snd p') = live (snd p)"
  using handle_opens [of "wsa_accept_socket sys l out p" "snd p" out, unfolded posix_accept_socket, OF posix.accept_socket_opens] .

lemma wsa_connect_to_opens:
  "wsa_connect_to sys host port out p = (ok, s, p') \<Longrightarrow>
     if ok then wsa_valid s \<and> s \<notin> live (snd p) \<and> live (snd p') = insert s (live (snd p)) else s = out \<and> live (snd p') = live (snd p)"
  using handle_opens [of "wsa_connect_to sys host port out p" "snd (snd (wsa_init sys p))" out, unfolded posix_connect_to, OF posix.connect_to_opens] unfolding init_keeps .

end

text \<open>A system that hands out the number after the greatest open handle, and refuses when there is none left.\<close>

type_synonym handle_table = "u64 list"

definition fresh_handle :: "handle_table \<Rightarrow> u64" where
  "fresh_handle hs = (let h = fresh_fd (map uint hs) in if h < uint INVALID_SOCKET then of_int h else INVALID_SOCKET)"

definition take_handle :: "handle_table \<Rightarrow> u64 \<times> handle_table" where
  "take_handle hs = (let h = fresh_handle hs in (h, if h = INVALID_SOCKET then hs else h # hs))"

definition simple_wsa :: "handle_table wsa_os" where
  "simple_wsa = \<lparr>wsa_startup = (\<lambda>v hs. (0, hs)), wsa_cleanup = id, wsa_socket = take_handle, wsa_reuseaddr = (\<lambda>s hs. hs),
     wsa_bind = (\<lambda>s a p hs. (0, hs)), wsa_listen = (\<lambda>s n hs. (0, hs)), wsa_accept = (\<lambda>l. take_handle),
     wsa_connect = (\<lambda>s a p hs. (0, hs)), wsa_closesocket = (\<lambda>s hs. removeAll s hs), wsa_inet_pton = (\<lambda>h. Some INADDR_LOOPBACK)\<rparr>"

lemma fresh_handle: "fresh_handle hs = INVALID_SOCKET \<or> fresh_handle hs \<notin> set hs"
proof (cases "fresh_fd (map uint hs) < uint INVALID_SOCKET")
  case True
  have "uint (fresh_handle hs) = fresh_fd (map uint hs)"
    using True fresh_fd(1) [of "map uint hs"] uint_bounded [of INVALID_SOCKET]
    by (simp add: fresh_handle_def uint_word_of_int_eq take_bit_int_eq_self)
  with fresh_fd(2) [of "map uint hs"] show ?thesis by (metis image_eqI list.set_map)
qed (simp add: fresh_handle_def)

lemma take_handle:
  "take_handle hs = (s, hs') \<Longrightarrow> if s = INVALID_SOCKET then set hs' - {INVALID_SOCKET} = set hs - {INVALID_SOCKET}
     else s \<notin> set hs - {INVALID_SOCKET} \<and> set hs' - {INVALID_SOCKET} = insert s (set hs - {INVALID_SOCKET})"
  using fresh_handle [of hs] by (auto simp: take_handle_def Let_def split: if_splits)

interpretation simple_win: handles simple_wsa "\<lambda>hs. set hs - {INVALID_SOCKET}"
  by unfold_locales (auto simp: simple_wsa_def dest!: take_handle split: if_splits)

end
