(* ===== verification/Spec2Isabelle.thy ===== *)
theory Spec2Isabelle
  imports Scenario Fencing Tenancy Dialogue Examples Winsock
begin

text \<open>
  CXL Fabric: a verification development of the governance engine for pooled CXL memory, its control plane and its
  programs. The sources are the C++ files under \<^verbatim>\<open>src/\<close> and \<^verbatim>\<open>include/cxl_fabric/\<close> of the repository.

  \<^bold>\<open>The program.\<close> A \<^verbatim>\<open>Fabric\<close> (\<^verbatim>\<open>core/fabric.cpp\<close>) keeps registries of devices, regions and pools and a table of
  reservations under one lock. Every record has an identity, a generation that grows with its incarnations, and
  evidence that may be current or not. A request for bytes is placed on a region of a pool by hard constraints and a
  ranking, reserved, committed and released; authority is checked against the coordinator's epoch, the generations captured
  by the reservation and the worker's incarnation. Around the engine are a persisted form of its structural state, a framed
  binary protocol with payload codecs over TCP, a coordinator process that owns a fabric and serves workers, a worker
  process, discovery backends, a command-line tool, and example programs.

  \<^bold>\<open>Theories, from the bottom.\<close> Each opens with a text that says which source it models.
  \<^item> \<open>Prelude\<close> (machine integers, decimal printing), \<open>Ordered_Map\<close> (\<^verbatim>\<open>std::map\<close> as sorted association lists, with the locale of its
    laws), \<open>Stable_Sort\<close> (\<^verbatim>\<open>std::stable_sort\<close>; the locales say what a comparison has to satisfy and that the result is unique).
  \<^item> \<open>Identity\<close>, \<open>Enums\<close>, \<open>Enum_Strings\<close>, \<open>Lifecycle\<close>, \<open>Accounting\<close>, \<open>Records\<close>: \<^verbatim>\<open>identity.hpp\<close>, \<^verbatim>\<open>enums.hpp\<close>, \<^verbatim>\<open>enum_strings.hpp\<close>,
    \<^verbatim>\<open>lifecycle.hpp\<close>, \<^verbatim>\<open>accounting.hpp\<close> and the record headers (device, region, pool, reservation, capability, economics).
    A class with fields is a record with the source's default values; an enumeration that can be built by a
    cast from an unchecked number has an extra constructor for the values without a name.
  \<^item> \<open>Selection\<close> (\<^verbatim>\<open>selection.hpp\<close>, \<^verbatim>\<open>authority.hpp\<close>), \<open>Fabric_State\<close> (the state, recomputation of totals, audit), \<open>Placement\<close>
    (\<^verbatim>\<open>build_selection\<close>, \<^verbatim>\<open>plan_failover\<close>), \<open>Registry\<close> (devices, regions, pools, export and import), \<open>Admission\<close> (\<^verbatim>\<open>reserve\<close>,
    \<^verbatim>\<open>commit\<close>, \<^verbatim>\<open>release\<close>). A method that changes the fabric is a function to its result and the new state. The locale
    \<open>ledger\<close> is the contract of reserving, committing and releasing bytes; pools and regions interpret it.
  \<^item> \<open>Engine\<close> collects the mutating methods in one type of calls, with runs and reachable states; \<open>Structure\<close> and \<open>Accounts\<close> prove the
    structural and the accounting invariant by rule induction over it, and \<open>Fencing\<close> what reservations stay pinned to and whose
    authority is current. \<open>Single\<close>, \<open>Lease\<close> and \<open>Scenario\<close> follow concrete fabrics and the life of a reservation on them.
  \<^item> \<open>Bytes\<close>, \<open>Crc\<close>, \<open>Protocol\<close> (\<^verbatim>\<open>protocol.cpp\<close>), \<open>Readers\<close>, \<open>Codec\<close> (\<^verbatim>\<open>control/codec.hpp\<close>), \<open>Net\<close>, \<open>Sockets\<close>, \<open>Winsock\<close> (\<^verbatim>\<open>control/net.hpp\<close>),
    \<open>Persistence\<close> (\<^verbatim>\<open>core/persistence.cpp\<close>). A reader returns a value and a position, a failure, or the outcome that the source reads
    out of bounds; locales state what a field, a stored item and a stream socket promise.
  \<^item> \<open>Synthetic\<close>, \<open>System_Backend\<close> (\<^verbatim>\<open>backend/\<close>), interpreting the contract of an honest backend.
  \<^item> \<open>Cmdline\<close>, \<open>Coordinator\<close> (\<^verbatim>\<open>multiprocess/coordinator_main.cpp\<close>), \<open>Worker\<close> (\<^verbatim>\<open>multiprocess/worker_main.cpp\<close>), \<open>Cli\<close>
    (\<^verbatim>\<open>cli/cxl_fabric_cli.cpp\<close>). The coordinator is a state machine over events: a connection is accepted, one of its reads returns, a
    signal arrives, the main loop stops. Each event is a sequence of engine calls, which is what the locale
    \<open>engine_client\<close> asks for. The worker is a program over connect, send, receive and print, run against the coordinator over a connection
    that may be refused or break at any of its steps.
  \<^item> \<open>Tenancy\<close> follows one worker through reserve, commit and release; \<open>Dialogue\<close> gives the replies their types and shows, for every worker
    and with other connections going on, that it comes to its end. \<open>Examples\<close>: the nine programs of \<^verbatim>\<open>examples/\<close>.

  \<^bold>\<open>What is shown.\<close> This theory holds the results about runs of the engine; the others stand in their theories.
  \<^item> Capacity: in every state that sound calls reach the books of every pool and region close exactly, so nothing is
    overcommitted; the effects of reserve, commit and release on the free bytes; the audit passes and agrees with
    the cached ledger. The exact condition for a reservation to succeed, and the authority a commit needs and the authority with which
    it succeeds.
  \<^item> Fencing: a state-changing call under a stale epoch changes nothing; a refused call changes nothing, with one exception; a membership change
    fences the commits of earlier reservations on the pool, unless its generation is exhausted; an import fences everything;
    generations never decrease; a device has one governing pool.
  \<^item> Placement: the selection finds a placement that meets the request beyond doubt, returns none that known facts exclude,
    picks one of the best by locality, latency, bandwidth and free bytes, and says why when there is none. Unknown facts count
    as met, as the code has it, and the constraints and criteria that the code does not evaluate are not in the model. A failover plan
    avoids the failed device, and its failure domain where the devices note the domain that their pool entry records.
  \<^item> Bytes: frames, payloads and the persisted state round-trip; the frame decoder accepts exactly the encodings; a
    changed byte is always detected and CRC-32 detects bursts up to 32 bits; the table driven CRC equals the bitwise one; frames survive
    a stream that cuts them anywhere; the transfer loops end; a persisted file is replaced atomically when the process is killed or a file
    operation fails. The persisted state keeps the fields that the format stores; the others are listed at \<open>durable_device\<close> and
    \<open>durable_region\<close>.
  \<^item> Processes: the coordinator refines the engine, whatever frames arrive within the hypotheses below; the end of a connection
    fences the worker's devices unless another connection has taken its identity over; a restart recovers the stored
    structural state; a worker never gets stuck, whatever its options and whatever else goes on within the hypotheses below; the requests
    that publish, reserve, commit and query have one reply of the right type; the first worker of a fresh coordinator holds its
    reservation, or gives every byte back when it commits and releases; the command-line tool
    reports what it should on its topology; the example programs pass.

  \<^bold>\<open>Bounds and hypotheses.\<close> Integers have the widths of the source and wrap. Runs are limited to fewer than \<open>2 ^ 64\<close> calls, where the
  reservation number would repeat. \<open>sound_call\<close> is what the engine takes on trust:
  \<^item> the sizes of the members of a created pool add up within 64 bits, also after a member is added;
  \<^item> created pools and regions carry no reserved, committed or draining bytes;
  \<^item> a member is removed only if what the pool has reserved, committed, draining and unavailable still fits the rest;
  \<^item> an updated region keeps its reserved and committed bytes, and its capacity covers them;
  \<^item> an imported state has well-formed records; its pools have the totals that their members add up to within 64 bits, and its pools and
    regions carry no reserved, committed or draining bytes.

  The coordinator, which decodes records from the wire, satisfies all of it but the first by itself (\<open>fitting_event\<close> excludes the publication of a
  pool whose sizes overflow), provided that it was started without a persisted state (\<open>fresh\<close>). \<open>well_formed_call\<close>, which the structural
  results need, restricts imports only. No definition needs fuel: the loops recurse on data or on a measure. The result about a worker among
  other connections asks that no other peer sends one of the short payloads on which a decoder of the coordinator reads past its
  buffer (\<open>undisturbed\<close>). A send to a peer that has gone is taken to fail, as on a process that ignores SIGPIPE. A
  process that is killed during a write leaves what its file operations have done so far; power loss, against which the code
  does not sync, is not covered.

  \<^bold>\<open>Concurrency.\<close> Methods of the fabric hold its lock throughout, so a run is an interleaving of calls, and the results about
  reachable states hold for every interleaving. An event of the coordinator is taken as one step; between the engine
  calls of one frame those of another connection may run, and \<open>shuffled_sound\<close> shows that every shuffle is sound.

  \<^bold>\<open>Undefined behaviour and platforms.\<close> The readers compare positions with unsigned differences that wrap for short buffers; where the source would
  read past a buffer the model returns an outcome of its own, and the results say exactly when. The coordinator and the
  worker are modelled on the POSIX branches; \<open>Winsock\<close> has the Windows branches of \<^verbatim>\<open>net.hpp\<close> and \<^verbatim>\<open>persistence.cpp\<close> and shows that they
  are the POSIX ones up to the representation of sockets and of errors. The system backend, which exists for Windows only, is modelled over
  the answers of its API.

  \<^bold>\<open>Not modelled.\<close> \<^verbatim>\<open>std::hash\<close> specialisations, \<^verbatim>\<open>require\<close> and \<^verbatim>\<open>Reader::u8\<close>, which nothing uses; console messages of the
  coordinator and the worker's copy of its output; threads, locks and memory allocation; the tests and benchmarks, which are clients of the code above.
\<close>

section \<open>Capacity is never overcommitted\<close>

lemma reachable_mono:
  "reachable P s n f \<Longrightarrow> (\<And>c g. P c g \<Longrightarrow> Q c g) \<Longrightarrow> reachable Q s n f"
  by (induction rule: reachable.induct) (auto intro: reachable.intros)

lemma sound_well_formed: "sound_call c f \<Longrightarrow> well_formed_call c f"
  by (cases c) (auto simp: persisted_clean_def)

lemma ex_reachable_wf: "reachable well_formed_call (Fabric_new (Generation 1) (Generation 1)) 3 ex_ready"
  "reachable well_formed_call (Fabric_new (Generation 1) (Generation 1)) 4 ex_reserved"
  using ex_ready_reachable ex_reserved_reachable
  by (auto simp: ex_f0_def [symmetric] intro: reachable_mono sound_well_formed)

lemma ex_reachable: "reachable sound_call (Fabric_new (Generation 1) (Generation 1)) 3 ex_ready"
  "reachable sound_call (Fabric_new (Generation 1) (Generation 1)) 4 ex_reserved"
  using ex_ready_reachable ex_reserved_reachable by (simp_all add: ex_f0_def)

lemma ex_fully_current: "fully_current ex_ctx ex_reserved ex_reservation"
proof -
  have "policy_generation ex_reserved = Generation 1"
    using ex_ready_policy by (simp add: policy_generation_def ex_reserved_def exec_def ex_reserve snd_book Let_def put_defs)
  then show ?thesis
    by (simp add: fully_current_def current_claim_def ex_reserved_find ex_reserved_maps) (simp add: ex_ctx_def)
qed

text \<open>
  C1. In every state that sound calls reach, the books of every pool and region close exactly: the bytes
  of the reservations outstanding against it, the bytes out of service and the bytes the engine reports
  as free add up to what it governs. So no interleaving of reserve, commit and release overcommits a
  pool or a region.
\<close>

theorem no_overcommit:
  assumes "reachable sound_call (Fabric_new e pol) n f" and "n < 2 ^ 64"
  shows "(\<forall>k p. find_pool f k = Some p \<longrightarrow>
            pool_held k f + unat (pool_unavailable_bytes p) + unat (pool_draining_bytes p) + unat (pool_free p) =
            unat (pool_total_governed_bytes p)) \<and>
         (\<forall>k r. find_region f k = Some r \<longrightarrow>
            region_held k f + unat (region_free r) = unat (reg_region_capacity_bytes r))"
  using accounts_reachable [OF assms] accounts_closed by blast

theorem no_overcommit_witness:
  "reachable sound_call (Fabric_new (Generation 1) (Generation 1)) 4 ex_reserved \<and>
   (\<exists>p. find_pool ex_reserved (Ident ''p-1'') = Some p \<and>
      pool_held (Ident ''p-1'') ex_reserved + unat (pool_unavailable_bytes p) + unat (pool_draining_bytes p) +
        unat (pool_free p) = unat (pool_total_governed_bytes p))"
proof -
  have "find_pool ex_reserved (Ident ''p-1'') \<noteq> None"
    using accounts_linked [OF _ ex_reserved_find(1)] accounts_reachable [OF ex_reachable(2)]
    by simp
  with no_overcommit [OF ex_reachable(2)] ex_reachable(2) show ?thesis by auto
qed

text \<open>
  C6. In every state that sound calls reach, a release of an outstanding reservation by a caller whose authority is current in every
  respect (epoch, worker, policy, consumer, and the generations and device incarnation that the reservation was made
  under) succeeds, and gives exactly its bytes back: the free bytes of its pool and of its region grow by the size of the
  reservation, which becomes RELEASED and cannot be released a second time.
\<close>

theorem release_returns_bytes:
  assumes "reachable sound_call (Fabric_new e pol) n f" and "n < 2 ^ 64"
    and "find_reservation f k = Some v" and "live v" and "fully_current ctx f v"
  shows "\<exists>p p' r r'. ro_ok (fst (release k ctx f)) \<and>
     find_pool f (res_pool v) = Some p \<and> find_pool (snd (release k ctx f)) (res_pool v) = Some p' \<and>
     unat (pool_free p') = unat (pool_free p) + unat (res_bytes v) \<and>
     find_region f (res_region v) = Some r \<and> find_region (snd (release k ctx f)) (res_region v) = Some r' \<and>
     unat (region_free r') = unat (region_free r) + unat (res_bytes v) \<and>
     find_reservation (snd (release k ctx f)) k = Some (v\<lparr>res_state := ResumeState.RELEASED\<rparr>) \<and>
     \<not> ro_ok (fst (release k ctx' (snd (release k ctx f))))"
proof -
  have ok: "accounts_ok f" using accounts_reachable [OF assms(1,2)] by simp
  note wf = accounts_wf [OF ok]
  from accounts_linked [OF ok assms(3)] obtain p r where p: "find_pool f (res_pool v) = Some p"
    and r: "find_region f (res_region v) = Some r" by blast
  have "ctx_coordinator_epoch ctx = epoch f" using assms(5) by (simp add: fully_current_def current_claim_def)
  note rel = release_sound [OF ok assms(3,4) this p r]
  have again: "\<not> ro_ok (fst (release k ctx' g))"
    if "find_reservation g k = Some (v\<lparr>res_state := ResumeState.RELEASED\<rparr>)" for g
    using that by (simp add: release_def)
  have "unat (pool_free (snd (pool_release (res_bytes v) p))) = unat (pool_free p) + unat (res_bytes v)"
    "unat (region_free (snd (region_release (res_bytes v) r))) = unat (region_free r) + unat (res_bytes v)"
    using live_covered [OF ok assms(3,4)] p r accounts_pool [OF ok p] accounts_region [OF ok r]
    by (simp_all add: pool_release_law region_release_law pl.covers_def rg.covers_def)
  with p r wf again show ?thesis by (simp add: rel)
qed

theorem release_returns_bytes_witness:
  "ro_ok (fst (release (reservation_id 1) ex_ctx ex_reserved)) \<and>
   find_reservation (snd (release (reservation_id 1) ex_ctx ex_reserved)) (reservation_id 1) =
     Some (ex_reservation\<lparr>res_state := ResumeState.RELEASED\<rparr>)"
  using release_returns_bytes [OF ex_reachable(2) _ ex_reserved_find(1) _ ex_fully_current, of ex_ctx]
  by (auto simp: live_def)

section \<open>Admission decisions\<close>



text \<open>
  C3. In every state that sound calls reach, a granted reservation gets an identity no earlier reservation has, is stored under it and is
  what the caller is told. Its pool and its region have exactly its bytes more reserved, and so exactly its bytes less free.
  Every other reservation, pool and region, all devices, and the epoch, policy and evidence generations are untouched.
\<close>

theorem reserve_effect:
  assumes "reachable sound_call (Fabric_new e pol) n f" and "n + 1 < 2 ^ 64" and "ro_ok (fst (reserve req ctx f))"
  defines "g \<equiv> snd (reserve req ctx f)"
  shows "\<exists>v p p' r r'. v = ro_reservation (fst (reserve req ctx f)) \<and>
     find_reservation f (res_id v) = None \<and> find_reservation g = (find_reservation f)(res_id v := Some v) \<and>
     res_bytes v = req_bytes req \<and> res_state v = ResumeState.RESERVED \<and> res_created_epoch v = epoch f \<and>
     find_pool f (res_pool v) = Some p \<and> find_pool g = (find_pool f)(res_pool v := Some p') \<and>
     p' = p\<lparr>pool_reserved_bytes := pool_reserved_bytes p + req_bytes req\<rparr> \<and>
     unat (pool_free p') + unat (req_bytes req) = unat (pool_free p) \<and>
     find_region f (res_region v) = Some r \<and> find_region g = (find_region f)(res_region v := Some r') \<and>
     r' = r\<lparr>reg_reserved_bytes := reg_reserved_bytes r + req_bytes req\<rparr> \<and>
     unat (region_free r') + unat (req_bytes req) = unat (region_free r) \<and>
     find_device g = find_device f \<and> epoch g = epoch f \<and> policy_generation g = policy_generation f \<and>
     st_evidence_generation (fab_state g) = st_evidence_generation (fab_state f) \<and> fab_sequence g = fab_sequence f + 1"
proof -
  from accounts_reachable [OF assms(1)] assms(2) have ok: "accounts_ok f" and seq: "unat (fab_sequence f) + 1 < 2 ^ 64"
    by auto
  note wf = accounts_wf [OF ok]
  from reserve_shape [of req ctx f] assms(3) obtain c p r dev where
    res: "reserve req ctx f = book req ctx c p r dev f"
    and p: "find_pool f (cand_pool c) = Some p" and r: "find_region f (cand_region c) = Some r"
    and le: "req_bytes req \<le> pool_free p" "req_bytes req \<le> region_free r" by blast
  from ok have "reservations_ok f" by (simp add: accounts_ok_def)
  note fresh = next_id_fresh(1) [OF this seq]
  let ?v = "new_reservation (fab_sequence f + 1) req ctx c dev (epoch f)"
  have v: "ro_reservation (fst (reserve req ctx f)) = ?v"
    by (simp add: res book_def Let_def new_reservation_def)
  have "unat (pool_free (pool_reserve (req_bytes req) p)) + unat (req_bytes req) = unat (pool_free p)"
    "unat (region_free (region_reserve (req_bytes req) r)) + unat (req_bytes req) = unat (region_free r)"
    using accounts_pool [OF ok p] accounts_region [OF ok r] le
    by (simp_all add: pool_reserve_law region_reserve_law pl.covers_def rg.covers_def word_le_nat)
  moreover have "find_reservation g = (find_reservation f)(res_id ?v := Some ?v)"
    "find_pool g = (find_pool f)(res_pool ?v := Some (pool_reserve (req_bytes req) p))"
    "find_region g = (find_region f)(res_region ?v := Some (region_reserve (req_bytes req) r))" "find_device g = find_device f"
    using wf fresh by (simp_all add: g_def res snd_book Let_def fun_eq_iff)
  moreover have "res_created_epoch ?v = epoch f" by (simp add: new_reservation_def)
  moreover have "epoch g = epoch f" "policy_generation g = policy_generation f"
    "st_evidence_generation (fab_state g) = st_evidence_generation (fab_state f)" "fab_sequence g = fab_sequence f + 1"
    by (simp_all add: g_def res snd_book Let_def epoch_def policy_generation_def put_defs)
  ultimately show ?thesis
    using p r fresh unfolding v by (simp add: pool_reserve_def region_reserve_def)
qed

theorem reserve_effect_witness:
  "ro_ok (fst (reserve ex_req ex_ctx ex_ready)) \<and>
   (\<exists>v. v = ro_reservation (fst (reserve ex_req ex_ctx ex_ready)) \<and>
      find_reservation (snd (reserve ex_req ex_ctx ex_ready)) (res_id v) = Some v)"
proof -
  have "ro_ok (fst (reserve ex_req ex_ctx ex_ready))" by (simp add: ex_reserve)
  with reserve_effect [OF ex_reachable(1) _ this] show ?thesis by auto
qed

text \<open>
  C4. In every state that sound calls reach, a caller that names a worker incarnation commits only what is its own and current: if its commit
  succeeds, the reservation is still RESERVED, it was made by that worker under the current epoch, which is the caller's, and the pool,
  the region and the device have the generations that were pinned. Conversely, when moreover the policy generation, the consumer
  generation and the incarnation of the device are current, the commit of such a reservation succeeds.
\<close>

theorem commit_needs_current_authority:
  assumes "reachable sound_call (Fabric_new e pol) n f" and "n < 2 ^ 64" and "\<not> id_empty (ctx_worker_boot_id ctx)"
  shows "(ro_ok (fst (commit k ctx f)) \<longrightarrow>
       (\<exists>v. find_reservation f k = Some v \<and> res_state v = ResumeState.RESERVED \<and> current_claim ctx f v)) \<and>
     (\<forall>v. find_reservation f k = Some v \<and> res_state v = ResumeState.RESERVED \<and> fully_current ctx f v \<longrightarrow> ro_ok (fst (commit k ctx f)))"
proof -
  have ok: "accounts_ok f" using accounts_reachable [OF assms(1,2)] by simp
  have "ro_ok (fst (commit k ctx f))"
    if v: "find_reservation f k = Some v" "res_state v = ResumeState.RESERVED" and cur: "fully_current ctx f v" for v
  proof -
    have "res_bytes v \<le> pool_reserved_bytes p" if "find_pool f (res_pool v) = Some p" for p
      using pending_ge(1) [OF accounts_wf [OF ok] v] accounts_pool [OF ok that] by (simp add: pl.covers_def word_le_nat)
    with claim_commits [OF v] cur show ?thesis by (simp add: fully_current_def)
  qed
  with commit_claim [OF _ assms(3)] show ?thesis by blast
qed

theorem commit_needs_current_authority_witness:
  "ro_ok (fst (commit (reservation_id 1) ex_ctx ex_reserved)) \<and> current_claim ex_ctx ex_reserved ex_reservation"
proof -
  have "\<not> id_empty (ctx_worker_boot_id ex_ctx)" by (simp add: ex_ctx_def)
  from commit_needs_current_authority [OF ex_reachable(2) _ this, of "reservation_id 1"] show ?thesis
    using ex_reserved_find(1) ex_fully_current by auto
qed

text \<open>
  C5. In every state that sound calls reach, a commit that is not fenced cannot fail for lack of reserved
  bytes, and it moves the bytes from reserved to committed in the pool and in the region without
  changing what is free.
\<close>

theorem commit_moves_bytes:
  assumes "reachable sound_call (Fabric_new e pol) n f" and "n < 2 ^ 64"
  shows "ro_reason (fst (commit k ctx f)) \<noteq> DecisionReason.CAPACITY_OVERCOMMIT \<and>
     (ro_ok (fst (commit k ctx f)) \<longrightarrow>
        (\<exists>v p p' r r'. find_reservation f k = Some v \<and>
           find_reservation (snd (commit k ctx f)) k =
             Some (v\<lparr>res_state := ResumeState.COMMITTED, res_commit_epoch := epoch f\<rparr>) \<and>
           find_pool f (res_pool v) = Some p \<and> find_pool (snd (commit k ctx f)) (res_pool v) = Some p' \<and>
           pool_free p' = pool_free p \<and>
           unat (pool_committed_bytes p') = unat (pool_committed_bytes p) + unat (res_bytes v) \<and>
           find_region f (res_region v) = Some r \<and> find_region (snd (commit k ctx f)) (res_region v) = Some r' \<and>
           region_free r' = region_free r \<and>
           unat (reg_committed_bytes r') = unat (reg_committed_bytes r) + unat (res_bytes v)))"
proof -
  have ok: "accounts_ok f" using accounts_reachable [OF assms] by simp
  note wf = accounts_wf [OF ok]
  have in_pool: "res_bytes v \<le> pool_reserved_bytes p"
    if "find_reservation f k = Some v" "res_state v = ResumeState.RESERVED" "find_pool f (res_pool v) = Some p" for v p
    using pending_ge(1) [OF wf that(1,2)] accounts_pool [OF ok that(3)] by (simp add: pl.covers_def word_le_nat)
  have in_region: "res_bytes v \<le> reg_reserved_bytes r"
    if "find_reservation f k = Some v" "res_state v = ResumeState.RESERVED" "find_region f (res_region v) = Some r" for v r
    using pending_ge(2) [OF wf that(1,2)] accounts_region [OF ok that(3)] by (simp add: rg.covers_def word_le_nat)
  have "ro_reason (fst (commit k ctx f)) \<noteq> DecisionReason.CAPACITY_OVERCOMMIT"
    unfolding commit_def Let_def by (auto split: option.splits dest: in_pool)
  moreover have "\<exists>v p p' r r'. find_reservation f k = Some v \<and>
      find_reservation (snd (commit k ctx f)) k = Some (v\<lparr>res_state := ResumeState.COMMITTED, res_commit_epoch := epoch f\<rparr>) \<and>
      find_pool f (res_pool v) = Some p \<and> find_pool (snd (commit k ctx f)) (res_pool v) = Some p' \<and>
      pool_free p' = pool_free p \<and> unat (pool_committed_bytes p') = unat (pool_committed_bytes p) + unat (res_bytes v) \<and>
      find_region f (res_region v) = Some r \<and> find_region (snd (commit k ctx f)) (res_region v) = Some r' \<and>
      region_free r' = region_free r \<and> unat (reg_committed_bytes r') = unat (reg_committed_bytes r) + unat (res_bytes v)"
    if success: "ro_ok (fst (commit k ctx f))"
  proof -
    from commit_shape [of k ctx f] success obtain v p r dev where
      c: "snd (commit k ctx f) = recompute_global (put_reservation k (v\<lparr>res_state := ResumeState.COMMITTED, res_commit_epoch := epoch f\<rparr>)
           (put_region (res_region v) (region_commit (res_bytes v) r)
           (put_pool (res_pool v) (pool_commit (res_bytes v) p) f)))"
      and v: "find_reservation f k = Some v" "res_state v = ResumeState.RESERVED"
      and p: "find_pool f (res_pool v) = Some p" and r: "find_region f (res_region v) = Some r" by auto
    note pc = pool_commit_law [of p "res_bytes v"] and rc = region_commit_law [of r "res_bytes v"]
    have "pool_ok p" "region_ok r"
      using accounts_pool [OF ok p] accounts_region [OF ok r] by (simp_all add: pl.covers_def rg.covers_def)
    with pc rc in_pool [OF v p] in_region [OF v r] p r v wf show ?thesis
      unfolding c by (simp add: word_unat_eq_iff word_le_nat)
  qed
  ultimately show ?thesis by blast
qed

theorem commit_moves_bytes_witness:
  "ro_ok (fst (commit (reservation_id 1) ex_ctx ex_reserved)) \<and>
   (\<exists>v. find_reservation (snd (commit (reservation_id 1) ex_ctx ex_reserved)) (reservation_id 1) = Some v \<and>
      res_state v = ResumeState.COMMITTED)"
  using commit_moves_bytes [OF ex_reachable(2), of "reservation_id 1" ex_ctx] ex_commit by auto

section \<open>Authority\<close>

text \<open>
  C7. Every call that changes the state and carries an authority context is fenced by the coordinator epoch: made under any
  epoch but the current one it changes nothing and answers RESERVATION\_STALE. Planning a failover, which changes nothing in any
  case, is not such a call; setting the epoch, the policy or the evidence generation and importing a state carry no context.
\<close>

theorem stale_epoch_has_no_effect:
  assumes "call_ctx c = Some ctx" and "ctx_coordinator_epoch ctx \<noteq> epoch f"
  shows "exec c f = f \<and> reply c f = DecisionReason.RESERVATION_STALE"
  using stale_epoch_fenced [OF assms] by (simp add: exec_def reply_def)

theorem stale_epoch_has_no_effect_witness:
  "exec (Reserve ex_req ex_ctx) (set_epoch (Generation 2) ex_ready) = set_epoch (Generation 2) ex_ready"
  using stale_epoch_has_no_effect [of "Reserve ex_req ex_ctx" ex_ctx "set_epoch (Generation 2) ex_ready"]
  by (simp add: epoch_def set_epoch_def)

text \<open>
  C8. A call that is refused leaves the whole state as it was. The one exception in the code is the answer
  RESERVATION\_CONFLICT of a release, which is given after the pool has been changed.
\<close>

theorem refused_call_changes_nothing:
  assumes "reply c f \<noteq> DecisionReason.OK" and "reply c f \<noteq> DecisionReason.RESERVATION_CONFLICT"
  shows "exec c f = f"
  using assms
  by (cases c) (auto simp: exec_def reply_def operation_defs Let_def ReconfigureOutcome_default_def
      split: option.splits if_splits prod.splits)

theorem refused_call_changes_nothing_witness:
  "exec (Create_pool ex_pool ex_ctx) ex_ready = ex_ready"
  using refused_call_changes_nothing [of "Create_pool ex_pool ex_ctx" ex_ready]
  by (simp add: reply_def create_pool_def om_count_def)

section \<open>Structure\<close>

text \<open>
  C10. In every reachable state a device is governed by at most one pool and listed there once, so its bytes
  are never counted twice, and every member of a pool is a registered device.
\<close>

theorem device_governed_once:
  assumes "reachable well_formed_call (Fabric_new e pol) n f" and "find_pool f k = Some p" and "has_member p d"
  shows "find_device f d \<noteq> None \<and> (\<forall>j q. find_pool f j = Some q \<and> has_member q d \<longrightarrow> j = k) \<and>
     length (filter (\<lambda>m. pm_device m = d) (pool_members p)) = 1"
proof -
  note mem = structure_members [OF structure_reachable [OF assms(1)], unfolded members_ok_def, rule_format, OF assms(2)]
  from assms(3) obtain m where m: "m \<in> set (pool_members p)" "pm_device m = d" by (auto simp: has_member_def)
  have once: "length (filter (\<lambda>m. pm_device m = d) ms) = 1"
    if "distinct (map pm_device ms)" "m \<in> set ms" for ms
    using that m(2) by (induction ms) (auto simp: filter_empty_conv image_iff)
  from mem once m(1) assms(3) show ?thesis by blast
qed

theorem device_governed_once_witness:
  "has_member ex_pool' (Ident ''d1'') \<and> find_device ex_ready (Ident ''d1'') \<noteq> None \<and>
   length (filter (\<lambda>m. pm_device m = Ident ''d1'') (pool_members ex_pool')) = 1"
  using device_governed_once [OF ex_reachable_wf(1) ex_ready_find(3), of "Ident ''d1''"] by (simp add: has_member_def)

text \<open>
  C11. No call but an import lets a generation go back: a record of a device, region or pool that exists is
  still there after the call, with the same or a later generation.
\<close>

theorem generations_never_decrease:
  assumes "reachable well_formed_call (Fabric_new e pol) n f" and "\<forall>ps. c \<noteq> Import_persisted ps"
  shows "(\<forall>k d. find_device f k = Some d \<longrightarrow>
            (\<exists>d'. find_device (exec c f) k = Some d' \<and> dev_generation d \<le> dev_generation d')) \<and>
         (\<forall>k r. find_region f k = Some r \<longrightarrow>
            (\<exists>r'. find_region (exec c f) k = Some r' \<and> reg_generation r \<le> reg_generation r')) \<and>
         (\<forall>k p. find_pool f k = Some p \<longrightarrow>
            (\<exists>p'. find_pool (exec c f) k = Some p' \<and> pool_generation p \<le> pool_generation p'))"
  using grows_exec [OF structure_wf [OF structure_reachable [OF assms(1)]] assms(2)] unfolding grows_def .

theorem generations_never_decrease_witness:
  "\<exists>d'. find_device (exec (Mark_device_revalidation (Ident ''d1'') ex_ctx) ex_ready) (Ident ''d1'') = Some d' \<and>
     dev_generation ex_device \<le> dev_generation d'"
proof -
  have "\<forall>ps. Mark_device_revalidation (Ident ''d1'') ex_ctx \<noteq> Import_persisted ps" by simp
  from generations_never_decrease [OF ex_reachable_wf(1) this] ex_ready_find(1) show ?thesis by blast
qed

section \<open>Audit\<close>

text \<open>
  C12. In every state that sound calls reach, as long as the governed bytes of all pools together fit into 64
  bits, the audit passes with no error, the ledger it recomputes is the one the engine maintains, and
  every field of that ledger is the exact sum over the pools.
\<close>

theorem audit_always_passes:
  assumes "reachable sound_call (Fabric_new e pol) n f" and "n < 2 ^ 64"
    and "live_sum pool_total_governed_bytes (st_pools (fab_state f)) < 2 ^ 64"
  shows "audit_ok (audit f) \<and> audit_errors (audit f) = [] \<and>
     audit_global_ledger (audit f) = st_global_ledger (fab_state f) \<and>
     totals (st_pools (fab_state f)) CapacityLine_default (st_global_ledger (fab_state f))"
  using audit_sound [OF assms] by blast

theorem audit_always_passes_witness: "audit_ok (audit ex_ready)"
  using audit_always_passes [OF ex_reachable(1)]
  by (simp add: ex_pool'_def)

section \<open>Fencing\<close>

text \<open>
  C13. A restart fences everything: after a structural state has been imported, its devices, regions and pools are there, all waiting
  for revalidation without current evidence, the devices with unknown health, and otherwise as they were imported. No
  reservation is left, every commit and release is refused, and no request can be placed until evidence has been observed again.
\<close>

theorem import_fences:
  "find_device (import_persisted ps f) kd = map_option (\<lambda>d. d\<lparr>dev_evidence_current := False, dev_state := DeviceState.REVALIDATION_REQUIRED,
      dev_health := HealthState.UNKNOWN\<rparr>) (om_find (ps_devices ps) kd) \<and>
   find_region (import_persisted ps f) kr = map_option (\<lambda>r. r\<lparr>reg_evidence_current := False,
      reg_state := RegionState.REVALIDATION_REQUIRED\<rparr>) (om_find (ps_regions ps) kr) \<and>
   find_pool (import_persisted ps f) kp = map_option (\<lambda>p. p\<lparr>pool_evidence_current := False,
      pool_state := PoolState.REVALIDATION_REQUIRED\<rparr>) (om_find (ps_pools ps) kp) \<and>
   find_reservation (import_persisted ps f) = (\<lambda>k. None) \<and>
   \<not> ro_ok (fst (commit k ctx (import_persisted ps f))) \<and> \<not> ro_ok (fst (release k ctx (import_persisted ps f))) \<and>
   \<not> so_ok (select req (import_persisted ps f)) \<and> \<not> ro_ok (fst (reserve req ctx (import_persisted ps f)))"
proof -
  let ?g = "import_persisted ps f"
  have none: "find_reservation ?g = (\<lambda>k. None)"
    by (auto simp: import_persisted_def find_reservation_def recompute_global_def)
  have "\<not> fit_placement req (fab_state ?g) pool region dev" for pool region dev
  proof
    assume "fit_placement req (fab_state ?g) pool region dev"
    then have "pool \<in> snd ` set (st_pools (fab_state ?g))" "in_service dev region pool (pool_evidence_current pool)"
      by (auto simp: fit_placement_def placement_def)
    then show False
      by (auto simp: import_persisted_def recompute_global_def om_map_def fence_pool_def in_service_def)
  qed
  then have sel: "\<not> so_ok (select req ?g)"
    by (simp add: select_ok_iff)
  have "find_device ?g kd = map_option fence_device (om_find (ps_devices ps) kd)"
    "find_region ?g kr = map_option fence_region (om_find (ps_regions ps) kr)"
    "find_pool ?g kp = map_option fence_pool (om_find (ps_pools ps) kp)"
    by (simp_all add: import_persisted_def find_defs recompute_global_def om_find_map)
  with none sel show ?thesis
    using reserve_shape [of req ctx ?g]
    by (auto simp: commit_def release_def fence_device_def [abs_def] fence_region_def [abs_def] fence_pool_def [abs_def])
qed

text \<open>
  C9. A change of pool membership fences the reservations on that pool for good: when a member has been added to a pool or removed from it,
  and the pool's generation counter was not exhausted, no reservation that existed against the pool before can be
  committed any more, right afterwards or after any further calls other than an import, whoever asks.
\<close>

theorem membership_change_fences:
  assumes "reachable well_formed_call (Fabric_new e pol) n f"
    and "c = Add_pool_member kp m ctx \<or> c = Remove_pool_member kp d ctx" and "reply c f = DecisionReason.OK"
    and "find_pool f kp = Some p" and "gen_value (pool_generation p) < gen_max"
    and "find_reservation f k = Some v" and "res_pool v = kp" and "\<forall>ps. Import_persisted ps \<notin> set cs"
  shows "\<not> ro_ok (fst (commit k ctx' (run cs (exec c f))))"
proof -
  note str = structure_reachable [OF assms(1)] and wf = structure_wf [OF structure_reachable [OF assms(1)]]
  have up: "\<not> gen_empty (gen_next (pool_generation p))"
    using assms(5) by (simp add: gen_next_empty_iff not_le)
  obtain q where q: "find_pool (exec c f) kp = Some q" "pool_generation q = gen_next (pool_generation p)"
    "find_reservation (exec c f) = find_reservation f"
    using assms(2-4) add_pool_member_shape [of kp m ctx f] remove_pool_member_shape [of kp d ctx f] wf up
    by (auto simp: exec_def reply_def)
  have "res_pool_generation v \<le> pool_generation p"
    using pinned_reachable [OF assms(1), unfolded pinned_def, rule_format, OF assms(6)] assms(4,7) by auto
  also have "pool_generation p < pool_generation q" using gen_next_greater [OF up] q(2) by simp
  finally have "outdated k (exec c f)" using q assms(6,7) by (auto simp: outdated_def)
  moreover have "structure_ok (exec c f)" using structure_exec [OF str, of c] assms(2) by auto
  ultimately show ?thesis using outdated_run [OF _ _ assms(8)] outdated_commit by blast
qed

theorem membership_change_fences_witness:
  "\<not> ro_ok (fst (commit (reservation_id 1) ex_ctx
     (run [Reconcile_pool (Ident ''p-1'') ex_ctx] (exec (Remove_pool_member (Ident ''p-1'') (Ident ''d1'') ex_ctx) ex_reserved))))"
proof (rule membership_change_fences [OF ex_reachable_wf(2), where p = "pool_reserve (req_bytes ex_req) ex_pool'"
      and v = ex_reservation and kp = "Ident ''p-1''" and d = "Ident ''d1''" and ctx = ex_ctx])
  show "reply (Remove_pool_member (Ident ''p-1'') (Ident ''d1'') ex_ctx) ex_reserved = DecisionReason.OK"
    by (simp add: reply_def remove_pool_member_def ex_reserved_find ex_reserved_maps has_member_def)
  show "gen_value (pool_generation (pool_reserve (req_bytes ex_req) ex_pool')) < gen_max"
    by (simp add: word_less_nat unat_gen_max)
qed (simp_all add: ex_reserved_find ex_reserved_maps)

section \<open>Witnesses for the placement theorems\<close>

lemma ex_fit_placement: "fit_placement ex_req (fab_state ex_ready) ex_pool' ex_region ex_device"
  using ex_fits ex_room
  by (auto simp: fit_placement_def placement_def word_le_nat intro!: exI [of _ "Ident ''d1''"])


lemma ex_sure_placement: "sure_placement ex_req (fab_state ex_ready) ex_pool' ex_region ex_device"
proof -
  have "dev_health ex_device = HealthState.HEALTHY" "reg_health ex_region = HealthState.HEALTHY" "pool_health_summary ex_pool' = HealthState.HEALTHY"
    by (simp_all add: ex_device_def ex_region_def ex_pool'_def ex_pool_def make_device_def make_region_def make_pool_def Let_def)
  moreover have "surely_fits ex_req ex_device ex_region ex_pool'"
    by (simp add: surely_fits_def ex_req_def AdmissionRequest_default_def)
  moreover have "placement (fab_state ex_ready) ex_pool' ex_region (Ident ''d1'') ex_device"
    by (simp add: placement_def)
  ultimately show ?thesis using ex_admitted(2) by (auto simp: sure_placement_def)
qed

theorem select_complete_witness: "so_ok (select ex_req ex_ready)"
  using select_complete [of ex_req ex_ready] ex_sure_placement by blast

end
